(* ===== verification/Prelude.thy ===== *)
theory Prelude
  imports Main "HOL-Library.Word" "HOL-Library.Sublist"
begin

text \<open>
  Shared vocabulary of the development.

  \<^item> Bytes are \<open>8 word\<close>s; a Rust \<open>String\<close> (UTF-8) is a HOL \<open>string\<close>, one \<open>char\<close> per byte.
  \<^item> \<open>res\<close> is the outcome of a Rust function that returns \<open>Result<T, E>\<close>: \<open>Ok\<close>, \<open>Err\<close>, or a
    panic (\<open>unwrap\<close>, \<open>expect\<close>, \<open>panic!\<close>), which unwinds through every caller.
  \<^item> \<open>prog\<close> is effectful code.  The outside world (processes, files, sockets, RPC peers, the
    clock) is not modelled by equations: it is a strategy \<open>'env\<close> that may answer every call in any
    way it likes, depending on everything that has happened so far, and every call is appended
    to an event log together with its answer.  A theorem about all environments is a theorem
    about all behaviours of the outside world.
  \<^item> \<open>spec\<close> is the program logic: \<open>spec m Q\<close> says that in every environment and after every
    history \<open>m\<close> only appends events, and its outcome and the events it appended satisfy \<open>Q\<close>.
    The rules collected in \<open>spec_rules\<close> follow the structure of a program.
\<close>

named_theorems prog_defs \<open>definitions of the effect combinators\<close>
named_theorems no_panic_rules \<open>programs that cannot panic, by their structure\<close>
named_theorems only_rules \<open>programs that only log events of a kind, by their structure\<close>
named_theorems yields_rules \<open>what a successful run leaves in the history\<close>
named_theorems spec_rules \<open>backward rules of the event-log program logic\<close>

type_synonym byte = "8 word"
type_synonym bytes = "byte list"

section \<open>Outcomes and effectful programs\<close>

datatype ('e, 'a) res = Ok 'a | Err 'e | Panic string

type_synonym ('env, 'ev, 'e, 'a) prog = "'env \<Rightarrow> 'ev list \<Rightarrow> ('e, 'a) res \<times> 'ev list"

definition ret :: "'a \<Rightarrow> ('env, 'ev, 'e, 'a) prog" where
  [prog_defs]: "ret a = (\<lambda>env tr. (Ok a, tr))"

definition fail :: "'e \<Rightarrow> ('env, 'ev, 'e, 'a) prog" where
  [prog_defs]: "fail e = (\<lambda>env tr. (Err e, tr))"

definition panic :: "string \<Rightarrow> ('env, 'ev, 'e, 'a) prog" where
  [prog_defs]: "panic s = (\<lambda>env tr. (Panic s, tr))"

text \<open>Sequencing with the \<open>?\<close> operator: errors and panics skip the rest.\<close>

definition bindE ::
  "('env, 'ev, 'e, 'a) prog \<Rightarrow> ('a \<Rightarrow> ('env, 'ev, 'e, 'b) prog) \<Rightarrow> ('env, 'ev, 'e, 'b) prog" where
  [prog_defs]: "bindE m f = (\<lambda>env tr. case m env tr of
      (Ok a, tr') \<Rightarrow> f a env tr'
    | (Err e, tr') \<Rightarrow> (Err e, tr')
    | (Panic s, tr') \<Rightarrow> (Panic s, tr'))"

definition seqE ::
  "('env, 'ev, 'e, 'a) prog \<Rightarrow> ('env, 'ev, 'e, 'b) prog \<Rightarrow> ('env, 'ev, 'e, 'b) prog" where
  [prog_defs]: "seqE m k = bindE m (\<lambda>_. k)"

text \<open>\<open>attempt\<close> hands a \<open>Result\<close> to the program as a value (\<open>match\<close>, \<open>let _ =\<close>, \<open>is_err\<close>).\<close>

definition attempt :: "('env, 'ev, 'e, 'a) prog \<Rightarrow> ('env, 'ev, 'e2, 'e + 'a) prog" where
  [prog_defs]: "attempt m = (\<lambda>env tr. case m env tr of
      (Ok a, tr') \<Rightarrow> (Ok (Inr a), tr')
    | (Err e, tr') \<Rightarrow> (Ok (Inl e), tr')
    | (Panic s, tr') \<Rightarrow> (Panic s, tr'))"

definition map_err :: "('e \<Rightarrow> 'e2) \<Rightarrow> ('env, 'ev, 'e, 'a) prog \<Rightarrow> ('env, 'ev, 'e2, 'a) prog" where
  [prog_defs]: "map_err g m = (\<lambda>env tr. case m env tr of
      (Ok a, tr') \<Rightarrow> (Ok a, tr')
    | (Err e, tr') \<Rightarrow> (Err (g e), tr')
    | (Panic s, tr') \<Rightarrow> (Panic s, tr'))"

text \<open>\<open>Result::expect\<close> and \<open>Result::unwrap\<close>.\<close>

definition expect :: "string \<Rightarrow> ('env, 'ev, 'e, 'a) prog \<Rightarrow> ('env, 'ev, 'e2, 'a) prog" where
  [prog_defs]: "expect msg m = (\<lambda>env tr. case m env tr of
      (Ok a, tr') \<Rightarrow> (Ok a, tr')
    | (Err e, tr') \<Rightarrow> (Panic msg, tr')
    | (Panic s, tr') \<Rightarrow> (Panic s, tr'))"

text \<open>A call to the outside world: the environment answers, the call is logged.\<close>

definition perform ::
  "('env \<Rightarrow> 'ev list \<Rightarrow> 'a) \<Rightarrow> ('a \<Rightarrow> 'ev) \<Rightarrow> ('env, 'ev, 'e, 'a) prog" where
  [prog_defs]: "perform q ev = (\<lambda>env tr. (Ok (q env tr), tr @ [ev (q env tr)]))"

text \<open>A call that returns a \<open>Result\<close>, which the program propagates.\<close>

definition performE ::
  "('env \<Rightarrow> 'ev list \<Rightarrow> 'e + 'a) \<Rightarrow> ('e + 'a \<Rightarrow> 'ev) \<Rightarrow> ('env, 'ev, 'e, 'a) prog" where
  [prog_defs]: "performE q ev = (\<lambda>env tr.
     ((case q env tr of Inl e \<Rightarrow> Err e | Inr a \<Rightarrow> Ok a), tr @ [ev (q env tr)]))"

definition emit :: "'ev \<Rightarrow> ('env, 'ev, 'e, unit) prog" where
  [prog_defs]: "emit ev = (\<lambda>env tr. (Ok (), tr @ [ev]))"

definition of_result :: "'e + 'a \<Rightarrow> ('env, 'ev, 'e, 'a) prog" where
  "of_result r = (case r of Inl e \<Rightarrow> fail e | Inr a \<Rightarrow> ret a)"

definition assertP :: "string \<Rightarrow> bool \<Rightarrow> ('env, 'ev, 'e, unit) prog" where
  "assertP msg b = (if b then ret () else panic msg)"

text \<open>A \<open>for\<close> loop over an already evaluated iterator; the first error leaves it.\<close>

fun for_each :: "('x \<Rightarrow> ('env, 'ev, 'e, unit) prog) \<Rightarrow> 'x list \<Rightarrow> ('env, 'ev, 'e, unit) prog" where
  "for_each f [] = ret ()"
| "for_each f (x # xs) = seqE (f x) (for_each f xs)"

section \<open>The event-log program logic\<close>

definition spec ::
  "('env, 'ev, 'e, 'a) prog \<Rightarrow> (('e, 'a) res \<Rightarrow> 'ev list \<Rightarrow> bool) \<Rightarrow> bool" where
  "spec m Q \<longleftrightarrow> (\<forall>env tr. \<exists>es. snd (m env tr) = tr @ es \<and> Q (fst (m env tr)) es)"

lemma specD:
  assumes "spec m Q"
  obtains es where "snd (m env tr) = tr @ es" "Q (fst (m env tr)) es"
  using assms by (auto simp: spec_def)

lemma spec_run: "spec m Q \<Longrightarrow> m env tr = (r, tr') \<Longrightarrow> \<exists>es. tr' = tr @ es \<and> Q r es"
  by (metis specD fst_conv snd_conv)

lemma spec_weaken: "spec m P \<Longrightarrow> (\<And>r es. P r es \<Longrightarrow> Q r es) \<Longrightarrow> spec m Q"
  unfolding spec_def by blast

lemma spec_conj: "spec m P \<Longrightarrow> spec m Q \<Longrightarrow> spec m (\<lambda>r es. P r es \<and> Q r es)"
  unfolding spec_def by (metis same_append_eq)

lemma spec_ret [spec_rules]: "Q (Ok a) [] \<Longrightarrow> spec (ret a) Q"
  by (simp add: spec_def ret_def)

lemma spec_fail [spec_rules]: "Q (Err e) [] \<Longrightarrow> spec (fail e) Q"
  by (simp add: spec_def fail_def)

lemma spec_panic [spec_rules]: "Q (Panic s) [] \<Longrightarrow> spec (panic s) Q"
  by (simp add: spec_def panic_def)

lemma spec_bindE:
  assumes m: "spec m P"
    and ok: "\<And>a es. P (Ok a) es \<Longrightarrow> spec (f a) (\<lambda>r es'. Q r (es @ es'))"
    and err: "\<And>e es. P (Err e) es \<Longrightarrow> Q (Err e) es"
    and pan: "\<And>s es. P (Panic s) es \<Longrightarrow> Q (Panic s) es"
  shows "spec (bindE m f) Q"
  unfolding spec_def
proof (intro allI)
  fix env tr
  obtain r tr' where mr: "m env tr = (r, tr')" by fastforce
  with m obtain es where es: "tr' = tr @ es" "P r es"
    by (meson spec_run)
  show "\<exists>es. snd (bindE m f env tr) = tr @ es \<and> Q (fst (bindE m f env tr)) es"
  proof (cases r)
    case (Ok a)
    with es ok have "spec (f a) (\<lambda>r es'. Q r (es @ es'))" by simp
    then obtain es' where "snd (f a env tr') = tr' @ es'" "Q (fst (f a env tr')) (es @ es')"
      by (erule_tac specD)
    with es mr Ok show ?thesis by (auto simp: bindE_def)
  next
    case (Err e)
    with es mr err show ?thesis by (auto simp: bindE_def)
  next
    case (Panic s)
    with es mr pan show ?thesis by (auto simp: bindE_def)
  qed
qed

lemma spec_seqE:
  assumes "spec m P"
    and "\<And>a es. P (Ok a) es \<Longrightarrow> spec k (\<lambda>r es'. Q r (es @ es'))"
    and "\<And>e es. P (Err e) es \<Longrightarrow> Q (Err e) es"
    and "\<And>s es. P (Panic s) es \<Longrightarrow> Q (Panic s) es"
  shows "spec (seqE m k) Q"
  unfolding seqE_def using assms by (rule spec_bindE)

lemma spec_map_err:
  assumes "spec m P"
    and "\<And>a es. P (Ok a) es \<Longrightarrow> Q (Ok a) es"
    and "\<And>e es. P (Err e) es \<Longrightarrow> Q (Err (g e)) es"
    and "\<And>s es. P (Panic s) es \<Longrightarrow> Q (Panic s) es"
  shows "spec (map_err g m) Q"
  using assms unfolding spec_def map_err_def
  by (auto split: prod.splits res.splits) (metis fst_conv snd_conv)+

lemma spec_perform [spec_rules]: "(\<And>a. Q (Ok a) [ev a]) \<Longrightarrow> spec (perform q ev) Q"
  by (simp add: spec_def perform_def)

lemma spec_performE [spec_rules]:
  "(\<And>a. Q (Ok a) [ev (Inr a)]) \<Longrightarrow> (\<And>e. Q (Err e) [ev (Inl e)]) \<Longrightarrow> spec (performE q ev) Q"
  by (auto simp: spec_def performE_def split: sum.splits)

lemma spec_emit [spec_rules]: "Q (Ok ()) [ev] \<Longrightarrow> spec (emit ev) Q"
  by (simp add: spec_def emit_def)

text \<open>Continuation-passing forms: a call followed by the rest of the program.\<close>

lemma spec_bind_perform [spec_rules]:
  assumes "\<And>a. spec (f a) (\<lambda>r es. Q r (ev a # es))"
  shows "spec (bindE (perform q ev) f) Q"
  by (rule spec_bindE [where P = "\<lambda>r es. \<exists>a. r = Ok a \<and> es = [ev a]"])
     (auto intro: spec_perform assms)

lemma spec_bind_performE [spec_rules]:
  assumes "\<And>a. spec (f a) (\<lambda>r es. Q r (ev (Inr a) # es))"
    and "\<And>e. Q (Err e) [ev (Inl e)]"
  shows "spec (bindE (performE q ev) f) Q"
  by (rule spec_bindE [where P = "\<lambda>r es. (\<exists>a. r = Ok a \<and> es = [ev (Inr a)]) \<or>
                                          (\<exists>e. r = Err e \<and> es = [ev (Inl e)])"])
     (auto intro!: spec_performE assms)

lemma spec_seq_emit [spec_rules]:
  assumes "spec k (\<lambda>r es. Q r (ev # es))"
  shows "spec (seqE (emit ev) k) Q"
  by (rule spec_seqE [where P = "\<lambda>r es. r = Ok () \<and> es = [ev]"]) (auto intro: spec_emit assms)

lemma spec_bind_emit [spec_rules]:
  assumes "spec (f ()) (\<lambda>r es. Q r (ev # es))"
  shows "spec (bindE (emit ev) f) Q"
  by (rule spec_bindE [where P = "\<lambda>r es. r = Ok () \<and> es = [ev]"]) (auto intro: spec_emit assms)

text \<open>A call whose error is wrapped by \<open>map_err\<close> before it is propagated.\<close>

definition callE ::
  "('x \<Rightarrow> 'e) \<Rightarrow> ('env \<Rightarrow> 'ev list \<Rightarrow> 'x + 'a) \<Rightarrow> ('x + 'a \<Rightarrow> 'ev) \<Rightarrow> ('env, 'ev, 'e, 'a) prog" where
  [prog_defs]: "callE wrap q ev = map_err wrap (performE q ev)"

lemma spec_callE [spec_rules]:
  "(\<And>a. Q (Ok a) [ev (Inr a)]) \<Longrightarrow> (\<And>e. Q (Err (wrap e)) [ev (Inl e)]) \<Longrightarrow> spec (callE wrap q ev) Q"
  by (auto simp: spec_def callE_def performE_def map_err_def split: sum.splits)

lemma spec_bind_callE [spec_rules]:
  assumes "\<And>a. spec (f a) (\<lambda>r es. Q r (ev (Inr a) # es))"
    and "\<And>e. Q (Err (wrap e)) [ev (Inl e)]"
  shows "spec (bindE (callE wrap q ev) f) Q"
  by (rule spec_bindE [where P = "\<lambda>r es. (\<exists>a. r = Ok a \<and> es = [ev (Inr a)]) \<or>
                                          (\<exists>e. r = Err (wrap e) \<and> es = [ev (Inl e)])"])
     (auto intro!: spec_callE assms)

lemma spec_seq_callE [spec_rules]:
  assumes "\<And>a. spec k (\<lambda>r es. Q r (ev (Inr a) # es))"
    and "\<And>e. Q (Err (wrap e)) [ev (Inl e)]"
  shows "spec (seqE (callE wrap q ev) k) Q"
  unfolding seqE_def by (rule spec_bind_callE [OF assms])

lemma spec_seq_perform [spec_rules]:
  assumes "\<And>a. spec k (\<lambda>r es. Q r (ev a # es))"
  shows "spec (seqE (perform q ev) k) Q"
  unfolding seqE_def by (rule spec_bind_perform [OF assms])

lemma bindE_ret [simp]: "bindE (ret a) f = f a"
  by (simp add: prog_defs)

lemma seqE_ret [simp]: "seqE (ret a) k = k"
  by (simp add: seqE_def)

lemma bindE_assoc: "bindE (bindE m f) g = bindE m (\<lambda>x. bindE (f x) g)"
  by (simp add: bindE_def fun_eq_iff split: prod.splits res.splits)

lemma bindE_fail [simp]: "bindE (fail e) f = fail e"
  by (simp add: prog_defs)

lemma bindE_panic [simp]: "bindE (panic s) f = panic s"
  by (simp add: prog_defs)

lemma spec_attempt:
  assumes "spec m P"
    and "\<And>a es. P (Ok a) es \<Longrightarrow> Q (Ok (Inr a)) es"
    and "\<And>e es. P (Err e) es \<Longrightarrow> Q (Ok (Inl e)) es"
    and "\<And>s es. P (Panic s) es \<Longrightarrow> Q (Panic s) es"
  shows "spec (attempt m) Q"
  using assms unfolding spec_def attempt_def
  by (auto split: prod.splits res.splits) (metis fst_conv snd_conv)+

lemma spec_bind_attempt_callE [spec_rules]:
  assumes "\<And>a. spec (f (Inr a)) (\<lambda>r es. Q r (ev (Inr a) # es))"
    and "\<And>e. spec (f (Inl (wrap e))) (\<lambda>r es. Q r (ev (Inl e) # es))"
  shows "spec (bindE (attempt (callE wrap q ev)) f) Q"
  by (rule spec_bindE [where P = "\<lambda>r es. (\<exists>a. r = Ok (Inr a) \<and> es = [ev (Inr a)]) \<or>
                                          (\<exists>e. r = Ok (Inl (wrap e)) \<and> es = [ev (Inl e)])"])
     (auto intro!: assms spec_attempt [where P = "\<lambda>r es. (\<exists>a. r = Ok a \<and> es = [ev (Inr a)]) \<or>
                                          (\<exists>e. r = Err (wrap e) \<and> es = [ev (Inl e)])"] spec_callE)

lemma spec_expect:
  assumes "spec m P"
    and "\<And>a es. P (Ok a) es \<Longrightarrow> Q (Ok a) es"
    and "\<And>e es. P (Err e) es \<Longrightarrow> Q (Panic msg) es"
    and "\<And>s es. P (Panic s) es \<Longrightarrow> Q (Panic s) es"
  shows "spec (expect msg m) Q"
  using assms unfolding spec_def expect_def
  by (auto split: prod.splits res.splits) (metis fst_conv snd_conv)+

lemma spec_bind_expect_performE [spec_rules]:
  assumes "\<And>a. spec (f a) (\<lambda>r es. Q r (ev (Inr a) # es))"
    and "\<And>e. Q (Panic msg) [ev (Inl e)]"
  shows "spec (bindE (expect msg (performE q ev)) f) Q"
  by (rule spec_bindE [where P = "\<lambda>r es. (\<exists>a. r = Ok a \<and> es = [ev (Inr a)]) \<or>
                                          (\<exists>e. r = Panic msg \<and> es = [ev (Inl e)])"])
     (auto intro!: assms spec_expect [OF spec_performE [where Q = "\<lambda>r es.
        (\<exists>a. r = Ok a \<and> es = [ev (Inr a)]) \<or> (\<exists>e. r = Err e \<and> es = [ev (Inl e)])"]])

lemma spec_bind_callE_expect [spec_rules]:
  assumes "\<And>a. spec (f a) (\<lambda>r es. Q r (ev (Inr a) # es))"
    and "\<And>e. Q (Panic msg) [ev (Inl e)]"
  shows "spec (bindE (expect msg (callE wrap q ev)) f) Q" (is "spec (bindE ?m f) Q")
proof -
  have "?m = expect msg (performE q ev)"
    by (auto simp: prog_defs fun_eq_iff split: sum.splits)
  then show ?thesis using spec_bind_expect_performE [OF assms] by simp
qed

text \<open>Reading state that the code keeps in a global: a function of what has happened so far.\<close>

definition peek :: "('ev list \<Rightarrow> 'a) \<Rightarrow> ('env, 'ev, 'e, 'a) prog" where
  [prog_defs]: "peek f = (\<lambda>env tr. (Ok (f tr), tr))"

lemma spec_bind_peek [spec_rules]: "(\<And>a. spec (f a) Q) \<Longrightarrow> spec (bindE (peek g) f) Q"
  by (simp add: spec_def bindE_def peek_def)

lemma bindE_OkE:
  assumes "bindE m f env tr = (Ok b, tr')"
  obtains a tr1 where "m env tr = (Ok a, tr1)" "f a env tr1 = (Ok b, tr')"
  using assms by (auto simp: bindE_def split: prod.splits res.splits)

lemma seqE_OkE:
  assumes "seqE m k env tr = (Ok b, tr')"
  obtains a tr1 where "m env tr = (Ok a, tr1)" "k env tr1 = (Ok b, tr')"
  using assms unfolding seqE_def by (rule bindE_OkE)

lemma run_simps:
  "seqE (emit ev) k env tr = k env (tr @ [ev])"
  "bindE (peek g) f env tr = f (g tr) env tr"
  "bindE (perform q w) h env tr = h (q env tr) env (tr @ [w (q env tr)])"
  by (simp_all add: prog_defs)

text \<open>
  Running a program of one world inside a larger one: \<open>up\<close> embeds its events, \<open>down\<close> recovers
  them from the history, \<open>sub\<close> is its environment, which may depend on the whole history.
\<close>

definition embed ::
  "('env \<Rightarrow> 'ev list \<Rightarrow> 'env2) \<Rightarrow> ('ev2 \<Rightarrow> 'ev) \<Rightarrow> ('ev \<Rightarrow> 'ev2 option) \<Rightarrow>
     ('env2, 'ev2, 'e, 'a) prog \<Rightarrow> ('env, 'ev, 'e, 'a) prog" where
  "embed sub up down m = (\<lambda>env tr. case m (sub env tr) (List.map_filter down tr) of
     (r, tr') \<Rightarrow> (r, tr @ map up (drop (length (List.map_filter down tr)) tr')))"

lemma spec_embed:
  assumes "spec m P" "\<And>r es. P r es \<Longrightarrow> Q r (map up es)"
  shows "spec (embed sub up down m) Q"
  unfolding spec_def
proof (intro allI)
  fix env tr
  obtain r tr' where m: "m (sub env tr) (List.map_filter down tr) = (r, tr')" by fastforce
  with assms(1) obtain es where "tr' = List.map_filter down tr @ es" "P r es"
    by (meson spec_run)
  with m assms(2) show "\<exists>es. snd (embed sub up down m env tr) = tr @ es \<and>
      Q (fst (embed sub up down m env tr)) es"
    by (auto simp: embed_def)
qed

section \<open>Programs that only log events of a kind\<close>

definition only :: "('ev \<Rightarrow> bool) \<Rightarrow> ('env, 'ev, 'e, 'a) prog \<Rightarrow> bool" where
  "only P m \<longleftrightarrow> spec m (\<lambda>_ es. list_all P es)"

lemma only_basic [only_rules]:
  "only P (ret a)" "only P (fail e)" "only P (panic s)" "only P (of_result r)" "only P (peek g)"
  "P ev \<Longrightarrow> only P (emit ev)"
  "(\<And>a. P (w a)) \<Longrightarrow> only P (perform q w)"
  "(\<And>a. P (we a)) \<Longrightarrow> only P (performE qe we)"
  "(\<And>a. P (wc a)) \<Longrightarrow> only P (callE wrap qc wc)"
  by (auto simp: only_def spec_def prog_defs of_result_def split: sum.splits)

lemma only_bindE [only_rules]:
  assumes "only P m" "\<And>a. only P (f a)"
  shows "only P (bindE m f)"
  using assms unfolding only_def by (intro spec_bindE [where P = "\<lambda>_ es. list_all P es"]) auto

lemma only_seqE [only_rules]: "only P m \<Longrightarrow> only P k \<Longrightarrow> only P (seqE m k)"
  by (simp add: seqE_def only_bindE)

lemma only_attempt [only_rules]: "only P m \<Longrightarrow> only P (attempt m)"
  unfolding only_def by (erule spec_attempt)

lemma only_map_err [only_rules]: "only P m \<Longrightarrow> only P (map_err g m)"
  unfolding only_def by (erule spec_map_err)

lemma only_expect [only_rules]: "only P m \<Longrightarrow> only P (expect msg m)"
  unfolding only_def by (erule spec_expect)

lemma only_for_each [only_rules]: "(\<And>x. only P (f x)) \<Longrightarrow> only P (for_each f xs)"
  by (induction xs) (auto intro: only_rules)

lemma only_embed [only_rules]:
  assumes "only (\<lambda>_. True) m" "\<And>ev. P (up ev)"
  shows "only P (embed sub up down m)"
  unfolding only_def
  by (rule spec_embed [OF assms(1) [unfolded only_def]]) (simp add: list_all_iff assms(2))

lemma only_cond [only_rules]: "only P m \<Longrightarrow> only P k \<Longrightarrow> only P (if b then m else k)"
  by simp

lemma only_sum [only_rules]:
  "(\<And>a. only P (f a)) \<Longrightarrow> (\<And>b. only P (g b)) \<Longrightarrow> only P (case x of Inl a \<Rightarrow> f a | Inr b \<Rightarrow> g b)"
  by (cases x) auto

lemma only_option [only_rules]:
  "only P m \<Longrightarrow> (\<And>a. only P (f a)) \<Longrightarrow> only P (case x of None \<Rightarrow> m | Some a \<Rightarrow> f a)"
  by (cases x) auto

lemma only_list [only_rules]:
  "only P m \<Longrightarrow> (\<And>a as. only P (f a as)) \<Longrightarrow> only P (case x of [] \<Rightarrow> m | a # as \<Rightarrow> f a as)"
  by (cases x) auto

lemma only_run:
  assumes "only P m" "m env tr = (r, tr')"
  obtains es where "tr' = tr @ es" "list_all P es"
  using spec_run [OF assms(1) [unfolded only_def] assms(2)] by blast

lemma only_weaken: "only P m \<Longrightarrow> (\<And>ev. P ev \<Longrightarrow> P' ev) \<Longrightarrow> only P' m"
  unfolding only_def by (erule spec_weaken) (auto simp: list_all_iff)

section \<open>What a successful run shows\<close>

text \<open>
  \<open>yields m P\<close>: whenever \<open>m\<close> returns \<open>Ok a\<close>, it has only added events, and \<open>P a\<close> holds of the
  environment, the history before and the events it added.  Such a predicate is a \<open>stage\<close>.
  \<open>and_then quiet P R\<close> is a stage \<open>P\<close>, after quiet events only, followed by \<open>R\<close>; \<open>stages quiet Ps\<close> are
  the stages of a list, one after the other, with nothing but quiet events between them.
\<close>

type_synonym ('env, 'ev) stage = "'env \<Rightarrow> 'ev list \<Rightarrow> 'ev list \<Rightarrow> bool"

definition yields ::
  "('env, 'ev, 'e, 'a) prog \<Rightarrow> ('a \<Rightarrow> ('env, 'ev) stage) \<Rightarrow> bool" where
  "yields m P \<longleftrightarrow> (\<forall>env tr a tr'. m env tr = (Ok a, tr') \<longrightarrow> (\<exists>es. tr' = tr @ es \<and> P a env tr es))"

definition and_then :: "('ev \<Rightarrow> bool) \<Rightarrow> ('env, 'ev) stage \<Rightarrow> ('env, 'ev) stage \<Rightarrow> ('env, 'ev) stage" where
  "and_then quiet P R env tr es \<longleftrightarrow>
     (\<exists>pre e1 e2. es = pre @ e1 @ e2 \<and> list_all quiet pre \<and> P env (tr @ pre) e1 \<and> R env (tr @ pre @ e1) e2)"

primrec stages :: "('ev \<Rightarrow> bool) \<Rightarrow> ('env, 'ev) stage list \<Rightarrow> ('env, 'ev) stage" where
  stages_Nil: "stages quiet [] = (\<lambda>env tr es. list_all quiet es)"
| stages_Cons: "stages quiet (P # Ps) = and_then quiet P (stages quiet Ps)"

declare stages.simps [simp del]

text \<open>Stages that may be preceded by quiet events.\<close>

definition absorbs :: "('ev \<Rightarrow> bool) \<Rightarrow> ('env, 'ev) stage \<Rightarrow> bool" where
  "absorbs quiet R \<longleftrightarrow> (\<forall>env tr pre es. list_all quiet pre \<longrightarrow> R env (tr @ pre) es \<longrightarrow> R env tr (pre @ es))"

lemma and_thenI: "P env tr e1 \<Longrightarrow> R env (tr @ e1) e2 \<Longrightarrow> and_then quiet P R env tr (e1 @ e2)"
  unfolding and_then_def by (intro exI [of _ "[]"] exI [of _ e1] exI [of _ e2]) simp

lemma absorbs_and_then: "absorbs quiet (and_then quiet P R)"
  unfolding absorbs_def and_then_def
proof (intro allI impI, elim exE conjE)
  fix env tr pre es p e1 e2
  assume "list_all quiet pre" "es = p @ e1 @ e2" "list_all quiet p" "P env ((tr @ pre) @ p) e1"
    "R env ((tr @ pre) @ p @ e1) e2"
  then show "\<exists>pre' e1 e2. pre @ es = pre' @ e1 @ e2 \<and> list_all quiet pre' \<and> P env (tr @ pre') e1 \<and>
      R env (tr @ pre' @ e1) e2"
    by (intro exI [of _ "pre @ p"] exI [of _ e1] exI [of _ e2]) simp
qed

lemma absorbs_ex: "(\<And>a. absorbs quiet (R a)) \<Longrightarrow> absorbs quiet (\<lambda>env tr es. \<exists>a. R a env tr es)"
  unfolding absorbs_def by blast

lemma absorbs_stages: "absorbs quiet (stages quiet Ps)"
  by (cases Ps) (simp_all add: stages.simps absorbs_and_then, simp add: absorbs_def)

lemma and_then_ex:
  "(\<exists>a. and_then quiet P (R a) env tr es) = and_then quiet P (\<lambda>env tr es. \<exists>a. R a env tr es) env tr es"
  by (auto simp: and_then_def)

lemma stages_append:
  "stages quiet Ps env tr es \<Longrightarrow> stages quiet Qs env (tr @ es) fs \<Longrightarrow> stages quiet (Ps @ Qs) env tr (es @ fs)"
proof (induction Ps arbitrary: tr es)
  case Nil
  then show ?case using absorbs_stages [of quiet Qs] by (simp add: stages_Nil absorbs_def)
next
  case (Cons P Ps)
  then obtain pre e1 e2 where es: "es = pre @ e1 @ e2" "list_all quiet pre" "P env (tr @ pre) e1"
      "stages quiet Ps env (tr @ pre @ e1) e2" by (auto simp: stages_Cons and_then_def)
  with Cons have "stages quiet (Ps @ Qs) env (tr @ pre @ e1) (e2 @ fs)" by simp
  with es show ?case unfolding append_Cons stages_Cons and_then_def
    by (intro exI [of _ pre] exI [of _ e1] exI [of _ "e2 @ fs"]) simp
qed

lemma yields_run: "yields m P \<Longrightarrow> m env tr = (Ok a, tr') \<Longrightarrow> \<exists>es. tr' = tr @ es \<and> P a env tr es"
  unfolding yields_def by blast

lemma yields_weaken: "yields m P \<Longrightarrow> (\<And>a env tr es. P a env tr es \<Longrightarrow> Q a env tr es) \<Longrightarrow> yields m Q"
  unfolding yields_def by blast

lemma yields_spec: "spec m Q \<Longrightarrow> (\<And>a env tr es. Q (Ok a) es \<Longrightarrow> P a env tr es) \<Longrightarrow> yields m P"
  unfolding yields_def by (meson spec_run)

lemma yields_only: "only q m \<Longrightarrow> yields m (\<lambda>_ _ _. list_all q)"
  unfolding only_def by (erule yields_spec)

lemma yields_basic [yields_rules]:
  "yields (fail e) P" "yields (panic s) P" "(\<And>env tr. R a env tr []) \<Longrightarrow> yields (ret a) R"
  by (auto simp: yields_def prog_defs)

lemma yields_bind:
  assumes "yields m P" "\<And>a. (\<exists>env tr es. P a env tr es) \<Longrightarrow> yields (f a) (Q a)"
    and "\<And>env tr a es b es'. P a env tr es \<Longrightarrow> Q a b env (tr @ es) es' \<Longrightarrow> R b env tr (es @ es')"
  shows "yields (bindE m f) R"
  unfolding yields_def
proof (intro allI impI)
  fix env tr b tr'
  assume "bindE m f env tr = (Ok b, tr')"
  then obtain a tr1 where a: "m env tr = (Ok a, tr1)" "f a env tr1 = (Ok b, tr')" by (rule bindE_OkE)
  with assms(1) obtain es where es: "tr1 = tr @ es" "P a env tr es" unfolding yields_def by meson
  with assms(2) [of a] a obtain es' where "tr' = tr1 @ es'" "Q a b env tr1 es'" unfolding yields_def by meson
  with es assms(3) show "\<exists>es. tr' = tr @ es \<and> R b env tr es" by (intro exI [of _ "es @ es'"]) simp
qed

lemma yields_expect: "yields m P \<Longrightarrow> yields (expect msg m) P"
  unfolding yields_def expect_def by (auto split: prod.splits res.splits)

lemma yields_map_err: "yields m P \<Longrightarrow> yields (map_err g m) P"
  unfolding yields_def map_err_def by (auto split: prod.splits res.splits)

text \<open>A result that is inspected: what the success shows, and the events of the failure.\<close>

lemma yields_attempt:
  assumes "yields m P" "spec m S"
  shows "yields (attempt m) (\<lambda>r env tr es. case r of Inr a \<Rightarrow> P a env tr es | Inl e \<Rightarrow> S (Err e) es)"
  unfolding yields_def
proof (intro allI impI)
  fix env tr r tr'
  assume "(attempt m env tr :: ('e2, _) res \<times> _) = (Ok r, tr')"
  then consider a where "m env tr = (Ok a, tr')" "r = Inr a" | e where "m env tr = (Err e, tr')" "r = Inl e"
    by (auto simp: attempt_def split: prod.splits res.splits)
  then show "\<exists>es. tr' = tr @ es \<and> (case r of Inr a \<Rightarrow> P a env tr es | Inl e \<Rightarrow> S (Err e) es)"
  proof cases
    case 1
    with yields_run [OF assms(1)] show ?thesis by auto
  next
    case 2
    with spec_run [OF assms(2)] show ?thesis by auto
  qed
qed

text \<open>An assertion adds its condition to what follows it.\<close>

lemma yields_assertP:
  assumes "b \<Longrightarrow> yields k R"
  shows "yields (seqE (assertP msg b) k) (\<lambda>x env tr es. b \<and> R x env tr es)"
  using assms by (cases b) (auto simp: assertP_def seqE_def bindE_def ret_def panic_def yields_def)

text \<open>Programs made of stages: a quiet part, a part that is a stage, a part whose result is used or checked.\<close>

lemma yields_quiet:
  assumes "yields m (\<lambda>_ _ _. list_all quiet)" "absorbs quiet R" "yields k (\<lambda>_. R)"
  shows "yields (seqE m k) (\<lambda>_. R)"
  unfolding seqE_def by (rule yields_bind [OF assms(1,3)]) (use assms(2) in \<open>simp add: absorbs_def\<close>)

lemma yields_stage:
  assumes "yields m (\<lambda>_. P)" "yields k (\<lambda>_. R)"
  shows "yields (seqE m k) (\<lambda>_. and_then quiet P R)"
  unfolding seqE_def by (rule yields_bind [OF assms]) (rule and_thenI)

lemma yields_use:
  assumes "yields m P" "\<And>a. (\<exists>env tr es. P a env tr es) \<Longrightarrow> yields (f a) (\<lambda>_. R a)"
  shows "yields (bindE m f) (\<lambda>_ env tr es. \<exists>a. and_then quiet (P a) (R a) env tr es)"
  by (rule yields_bind [OF assms]) (auto intro: and_thenI)

lemma yields_check:
  assumes "yields m P" "yields k (\<lambda>_. R)"
    and "\<And>env tr a es. P a env tr es \<Longrightarrow> c a \<Longrightarrow> S env tr es"
  shows "yields (bindE m (\<lambda>a. seqE (assertP msg (c a)) k)) (\<lambda>_. and_then quiet S R)"
  by (rule yields_bind [OF assms(1), OF yields_assertP [OF assms(2)]]) (auto intro: and_thenI assms(3))

text \<open>A loop that ends has shown something of every element.\<close>

lemma for_each_mem:
  assumes "for_each f xs env tr = (Ok (), tr')" "x \<in> set xs" "\<And>x. yields (f x) (\<lambda>_. P x)"
  shows "\<exists>before es after. tr' = tr @ before @ es @ after \<and> P x env (tr @ before) es"
  using assms(1,2)
proof (induction xs arbitrary: tr)
  case (Cons y ys)
  obtain tr1 where y: "f y env tr = (Ok (), tr1)" and ys: "for_each f ys env tr1 = (Ok (), tr')"
    using Cons.prems(1) by (auto simp: seqE_def elim: bindE_OkE)
  obtain es where es: "tr1 = tr @ es" "P y env tr es" using yields_run [OF assms(3) y] by blast
  have "yields (for_each f zs) (\<lambda>_ _ _ _. True)" for zs
  proof (induction zs)
    case (Cons z zs)
    show ?case unfolding for_each.simps seqE_def by (rule yields_bind [OF assms(3) Cons.IH]) simp
  qed (simp add: yields_basic)
  from yields_run [OF this ys] obtain rest where rest: "tr' = tr1 @ rest" by blast
  show ?case
  proof (cases "x = y")
    case True
    with es rest show ?thesis by (intro exI [of _ "[]"] exI [of _ es] exI [of _ rest]) simp
  next
    case False
    with Cons.IH [OF ys] Cons.prems(2) obtain b e a where "tr' = tr1 @ b @ e @ a" "P x env (tr1 @ b) e" by auto
    with es show ?thesis by (intro exI [of _ "es @ b"] exI [of _ e] exI [of _ a]) simp
  qed
qed simp

section \<open>Programs that do not panic\<close>

definition no_panic :: "('env, 'ev, 'e, 'a) prog \<Rightarrow> bool" where
  "no_panic m \<longleftrightarrow> (\<forall>env tr s. fst (m env tr) \<noteq> Panic s)"

lemma no_panic_basic [no_panic_rules]:
  "no_panic (ret a)" "no_panic (fail e)" "no_panic (perform q ev)" "no_panic (emit v)"
  "no_panic (performE qe w)" "no_panic (callE wrap qc wc)" "no_panic (of_result r)"
  by (auto simp: no_panic_def prog_defs of_result_def split: sum.splits)

lemma no_panic_bindE [no_panic_rules]:
  "no_panic m \<Longrightarrow> (\<And>a. no_panic (f a)) \<Longrightarrow> no_panic (bindE m f)"
  by (auto simp: no_panic_def bindE_def split: prod.splits res.splits) (metis fst_conv)

lemma no_panic_seqE [no_panic_rules]: "no_panic m \<Longrightarrow> no_panic k \<Longrightarrow> no_panic (seqE m k)"
  by (simp add: seqE_def no_panic_bindE)

lemma no_panic_attempt [no_panic_rules]: "no_panic m \<Longrightarrow> no_panic (attempt m)"
  by (auto simp: no_panic_def attempt_def split: prod.splits res.splits) (metis fst_conv)

lemma no_panic_map_err [no_panic_rules]: "no_panic m \<Longrightarrow> no_panic (map_err g m)"
  by (auto simp: no_panic_def map_err_def split: prod.splits res.splits) (metis fst_conv)

lemma no_panic_for_each [no_panic_rules]:
  "(\<And>x. no_panic (f x)) \<Longrightarrow> no_panic (for_each f xs)"
  by (induction xs) (auto intro: no_panic_rules)

lemma no_panic_embed [no_panic_rules]: "no_panic m \<Longrightarrow> no_panic (embed sub up down m)"
  by (auto simp: no_panic_def embed_def split: prod.splits) (metis fst_conv)

lemma no_panicD: "no_panic m \<Longrightarrow> m env tr = (Panic s, tr') \<Longrightarrow> P"
  by (metis fst_conv no_panic_def)

lemma map_sum_eq_Inr [simp]: "map_sum f g x = Inr y \<longleftrightarrow> (\<exists>z. x = Inr z \<and> y = g z)"
  by (cases x) auto

lemma map_sum_eq_Inl [simp]: "map_sum f g x = Inl y \<longleftrightarrow> (\<exists>z. x = Inl z \<and> y = f z)"
  by (cases x) auto

section \<open>Sequences of bytes and characters\<close>

text \<open>\<open>slice::windows\<close>: all contiguous sub-slices of length \<open>n\<close>, in order.\<close>

definition windows :: "nat \<Rightarrow> 'a list \<Rightarrow> 'a list list" where
  "windows n xs = map (\<lambda>i. take n (drop i xs)) [0..<length xs + 1 - n]"

text \<open>\<open>str::contains\<close>: substring search.\<close>

fun contains :: "'a list \<Rightarrow> 'a list \<Rightarrow> bool" where
  "contains [] pat = (pat = [])"
| "contains (x # xs) pat = (prefix pat (x # xs) \<or> contains xs pat)"

lemma contains_iff_sublist: "contains xs pat \<longleftrightarrow> sublist pat xs"
  by (induction xs) (auto simp: sublist_Cons_right)

lemma take_drop_sublist: "sublist (take n (drop i xs)) xs"
proof -
  have "xs = take i xs @ take n (drop i xs) @ drop n (drop i xs)"
    by (simp only: append_take_drop_id)
  then show ?thesis by (metis sublist_appendI)
qed

lemma windows_Ex_iff_sublist:
  assumes "0 < length pat"
  shows "(\<exists>w \<in> set (windows (length pat) xs). w = pat) \<longleftrightarrow> sublist pat xs"
proof
  assume "\<exists>w \<in> set (windows (length pat) xs). w = pat"
  then have "pat \<in> (\<lambda>i. take (length pat) (drop i xs)) ` {0..<length xs + 1 - length pat}"
    by (simp add: windows_def)
  then show "sublist pat xs"
  proof
    fix i
    assume "pat = take (length pat) (drop i xs)"
    with take_drop_sublist [of "length pat" i xs] show "sublist pat xs" by simp
  qed
next
  assume "sublist pat xs"
  then obtain a b where xs: "xs = a @ pat @ b"
    by (auto simp: sublist_def)
  then have "length a < length xs + 1 - length pat" by simp
  moreover have "take (length pat) (drop (length a) xs) = pat"
    using xs by simp
  ultimately show "\<exists>w \<in> set (windows (length pat) xs). w = pat"
    unfolding windows_def by force
qed

text \<open>ASCII case folding (\<open>make_ascii_lowercase\<close>, \<open>eq_ignore_ascii_case\<close>).\<close>

definition ascii_lower :: "char \<Rightarrow> char" where
  "ascii_lower c = (if 65 \<le> (of_char c :: nat) \<and> (of_char c :: nat) \<le> 90
     then char_of ((of_char c :: nat) + 32) else c)"

definition to_ascii_lowercase :: "string \<Rightarrow> string" where
  "to_ascii_lowercase s = map ascii_lower s"

text \<open>Decimal rendering of an unsigned integer (\<open>Display\<close> for \<open>usize\<close>, \<open>u16\<close>, ...).\<close>

fun show_nat :: "nat \<Rightarrow> string" where
  "show_nat n = (if n < 10 then [char_of (48 + n)]
     else show_nat (n div 10) @ [char_of (48 + n mod 10)])"

declare show_nat.simps [simp del]

lemma show_nat_nonempty: "show_nat n \<noteq> []"
  by (subst show_nat.simps) simp

text \<open>Joining a directory and a relative file name (\<open>Path::join\<close> on Unix-style paths).\<close>

definition path_join :: "string \<Rightarrow> string \<Rightarrow> string" where
  "path_join dir name = (if name \<noteq> [] \<and> hd name = CHR ''/'' then name
     else if dir = [] \<or> last dir = CHR ''/'' then dir @ name
     else dir @ ''/'' @ name)"

section \<open>UTF-8\<close>

text \<open>
  \<open>utf8_chunk\<close> looks at the start of a non-empty byte sequence: how many bytes form the first
  character, or, with \<open>False\<close>, how many bytes the standard library replaces by one U+FFFD.
\<close>

definition utf8_cont :: "byte \<Rightarrow> bool" where
  "utf8_cont b \<longleftrightarrow> 0x80 \<le> b \<and> b \<le> 0xBF"

definition utf8_second :: "byte \<Rightarrow> byte \<Rightarrow> bool" where
  "utf8_second a b \<longleftrightarrow>
    (if a = 0xE0 then 0xA0 \<le> b \<and> b \<le> 0xBF
     else if a = 0xED then 0x80 \<le> b \<and> b \<le> 0x9F
     else if a = 0xF0 then 0x90 \<le> b \<and> b \<le> 0xBF
     else if a = 0xF4 then 0x80 \<le> b \<and> b \<le> 0x8F
     else utf8_cont b)"

definition utf8_chunk :: "bytes \<Rightarrow> nat \<times> bool" where
  "utf8_chunk s =
    (let a = s ! 0;
         second = 1 < length s \<and> utf8_second a (s ! 1);
         third = 2 < length s \<and> utf8_cont (s ! 2);
         fourth = 3 < length s \<and> utf8_cont (s ! 3)
     in if a < 0x80 then (1, True)
        else if 0xC2 \<le> a \<and> a \<le> 0xDF then (if second then (2, True) else (1, False))
        else if 0xE0 \<le> a \<and> a \<le> 0xEF then
          (if \<not> second then (1, False) else if third then (3, True) else (2, False))
        else if 0xF0 \<le> a \<and> a \<le> 0xF4 then
          (if \<not> second then (1, False) else if \<not> third then (2, False)
           else if fourth then (4, True) else (3, False))
        else (1, False))"

lemma utf8_chunk_pos: "0 < fst (utf8_chunk s)"
  by (simp add: utf8_chunk_def Let_def)

definition byte_char :: "byte \<Rightarrow> char" where
  "byte_char b = char_of (unat b)"

definition bytes_of :: "string \<Rightarrow> bytes" where
  "bytes_of s = map (\<lambda>c. of_nat (of_char c)) s"

text \<open>\<open>String::from_utf8_lossy\<close> and \<open>std::str::from_utf8\<close>.\<close>

function from_utf8_lossy :: "bytes \<Rightarrow> string" where
  "from_utf8_lossy s = (if s = [] then [] else case utf8_chunk s of
     (n, valid) \<Rightarrow> (if valid then map byte_char (take n s) else map byte_char [0xEF, 0xBF, 0xBD])
        @ from_utf8_lossy (drop n s))"
  by auto

termination
  by (relation "measure length") (auto, metis diff_less fst_conv length_greater_0_conv utf8_chunk_pos)

declare from_utf8_lossy.simps [simp del]

function from_utf8 :: "bytes \<Rightarrow> unit + string" where
  "from_utf8 s = (if s = [] then Inr [] else case utf8_chunk s of
     (n, valid) \<Rightarrow> (if valid then map_sum id (\<lambda>t. map byte_char (take n s) @ t) (from_utf8 (drop n s))
        else Inl ()))"
  by auto

termination
  by (relation "measure length") (auto, metis diff_less fst_conv length_greater_0_conv utf8_chunk_pos)

declare from_utf8.simps [simp del]

lemma byte_char_bytes_of [simp]: "map byte_char (bytes_of s) = s"
  by (induction s) (simp_all add: bytes_of_def byte_char_def unat_of_nat)

lemma from_utf8_ok_lossy: "from_utf8 s = Inr t \<Longrightarrow> from_utf8_lossy s = t \<and> t = map byte_char s"
proof (induction s arbitrary: t rule: from_utf8.induct)
  case (1 s)
  show ?case
  proof (cases "s = []")
    case True
    with 1 show ?thesis by (simp add: from_utf8.simps [of "[]"] from_utf8_lossy.simps [of "[]"])
  next
    case False
    obtain n v where nv: "utf8_chunk s = (n, v)" by fastforce
    with False 1(2) obtain t' where t': "v" "from_utf8 (drop n s) = Inr t'"
        "t = map byte_char (take n s) @ t'"
      by (subst (asm) from_utf8.simps) (auto split: if_splits)
    from 1(1) [OF False nv [symmetric] t'(1) t'(2)]
    have "from_utf8_lossy (drop n s) = t'" "t' = map byte_char (drop n s)" by auto
    with t' nv False show ?thesis
      by (subst from_utf8_lossy.simps) (simp flip: map_append)
  qed
qed

lemma from_utf8_lossy_ascii: "list_all (\<lambda>b. b < 0x80) s \<Longrightarrow> from_utf8_lossy s = map byte_char s"
proof (induction s)
  case (Cons b s)
  then have "utf8_chunk (b # s) = (1, True)" by (simp add: utf8_chunk_def)
  with Cons show ?case by (subst from_utf8_lossy.simps) simp
qed (simp add: from_utf8_lossy.simps)

definition is_ascii :: "string \<Rightarrow> bool" where
  "is_ascii s = list_all (\<lambda>b. b < 0x80) (bytes_of s)"

lemma from_utf8_lossy_bytes_of: "is_ascii s \<Longrightarrow> from_utf8_lossy (bytes_of s) = s"
  by (simp add: is_ascii_def from_utf8_lossy_ascii)

section \<open>I/O errors\<close>

datatype io_kind = NotFound | InvalidInput | OtherKind

datatype io_error = IoError io_kind string

primrec io_error_kind :: "io_error \<Rightarrow> io_kind" where
  "io_error_kind (IoError k m) = k"

primrec io_error_string :: "io_error \<Rightarrow> string" where
  "io_error_string (IoError k m) = m"

end
