(* ===== verification/Codec.thy ===== *)
theory Codec
  imports Prelude
begin

text \<open>
  The multiplexing frame codec of \<open>test-rpc/src/transport.rs\<close> (\<open>Frame\<close>, \<open>FrameType\<close>,
  \<open>MultiplexCodec\<close>): every frame on the serial line is a type byte and a payload inside a
  length-delimited frame.  The decoder also skips \<open>^@\<close> control sequences and, until the
  connection is established, everything in front of the first handshake frame.

  The length-delimited framing itself is \<open>tokio_util::codec::LengthDelimitedCodec\<close>, a library.
  It is a parameter of the definitions; the locale \<open>length_delimited\<close> states the documented
  behaviour of its default configuration (big-endian 4-byte length, frames of at most 8 MiB) and
  \<open>ref_enc\<close>/\<open>ref_dec\<close> is an implementation of exactly that format, which interprets the locale.

  The client's view, a serial line that delivers the encoded frames in arbitrary pieces with decode
  calls at arbitrary moments, is the theory \<open>Link\<close>.
\<close>

section \<open>Frames (transport.rs)\<close>

definition FRAME_TYPE_SIZE :: nat where
  "FRAME_TYPE_SIZE = 1"

text \<open>\<open>b"MULLV4D;"\<close>\<close>

definition MULLVAD_SIGNATURE :: bytes where
  "MULLVAD_SIGNATURE = [0x4D, 0x55, 0x4C, 0x4C, 0x56, 0x34, 0x44, 0x3B]"

definition MULTIPLEX_LEN_DELIMITED_HEADER_SIZE :: nat where
  "MULTIPLEX_LEN_DELIMITED_HEADER_SIZE = 4"

datatype frame = Handshake | TestRunner bytes | DaemonRpc bytes

datatype frame_type = FtHandshake | FtTestRunner | FtDaemonRpc

primrec frame_type_as_u8 :: "frame_type \<Rightarrow> byte" where
  "frame_type_as_u8 FtHandshake = 0"
| "frame_type_as_u8 FtTestRunner = 1"
| "frame_type_as_u8 FtDaemonRpc = 2"

definition frame_type_try_from :: "byte \<Rightarrow> unit + frame_type" where
  "frame_type_try_from value =
    (if value = frame_type_as_u8 FtHandshake then Inr FtHandshake
     else if value = frame_type_as_u8 FtTestRunner then Inr FtTestRunner
     else if value = frame_type_as_u8 FtDaemonRpc then Inr FtDaemonRpc
     else Inl ())"

section \<open>MultiplexCodec\<close>

type_synonym ld_encoder = "bytes \<Rightarrow> bytes \<Rightarrow> io_error + bytes"
type_synonym 'c ld_decoder = "'c \<Rightarrow> bytes \<Rightarrow> (io_error + bytes option) \<times> 'c \<times> bytes"

record 'c multiplex_codec =
  len_delim_codec :: 'c
  has_connected :: bool

definition decode_frame :: "bytes \<Rightarrow> io_error + frame" where
  "decode_frame frame =
    (if length frame < FRAME_TYPE_SIZE
     then Inl (IoError InvalidInput ''frame does not contain frame type'')
     else
       let type_bytes = take FRAME_TYPE_SIZE frame;
           frame = drop FRAME_TYPE_SIZE frame
       in case frame_type_try_from (hd type_bytes) of
            Inl _ \<Rightarrow> Inl (IoError InvalidInput ''invalid frame type'')
          | Inr FtHandshake \<Rightarrow> Inr Handshake
          | Inr FtTestRunner \<Rightarrow> Inr (TestRunner frame)
          | Inr FtDaemonRpc \<Rightarrow> Inr (DaemonRpc frame))"

definition encode_frame ::
  "ld_encoder \<Rightarrow> frame_type \<Rightarrow> bytes option \<Rightarrow> bytes \<Rightarrow> io_error + bytes" where
  "encode_frame enc ty bytes dst =
    (let buffer = (case bytes of
        Some bytes \<Rightarrow> frame_type_as_u8 ty # bytes
      | None \<Rightarrow> [frame_type_as_u8 ty])
     in enc buffer dst)"

definition encode :: "ld_encoder \<Rightarrow> frame \<Rightarrow> bytes \<Rightarrow> io_error + bytes" where
  "encode enc frame dst = (case frame of
      Handshake \<Rightarrow> encode_frame enc FtHandshake (Some MULLVAD_SIGNATURE) dst
    | TestRunner bytes \<Rightarrow> encode_frame enc FtTestRunner (Some bytes) dst
    | DaemonRpc bytes \<Rightarrow> encode_frame enc FtDaemonRpc (Some bytes) dst)"

text \<open>
  \<open>skip_noise\<close>: the \<open>while src.len() >= 2\<close> loop.  \<open>0x5E\<close> is \<open>b'^'\<close>; an iteration that does not
  start with it ends the loop, after looking for the signature when not connected.
\<close>

definition find_signature :: "bytes \<Rightarrow> nat option" where
  "find_signature src =
     List.find (\<lambda>i. take (length MULLVAD_SIGNATURE) (drop i src) = MULLVAD_SIGNATURE)
       [0..<length src + 1 - length MULLVAD_SIGNATURE]"

fun skip_noise :: "bool \<Rightarrow> bytes \<Rightarrow> bool \<times> bytes" where
  "skip_noise connected (a # b # rest) =
    (if a = 0x5E then skip_noise connected rest
     else if \<not> connected then
       (case find_signature (a # b # rest) of
          Some window_i \<Rightarrow>
            (True, drop (window_i - FRAME_TYPE_SIZE - MULTIPLEX_LEN_DELIMITED_HEADER_SIZE)
                     (a # b # rest))
        | None \<Rightarrow> (connected, a # b # rest))
     else (connected, a # b # rest))"
| "skip_noise connected src = (connected, src)"

definition decode_inner ::
  "'c ld_decoder \<Rightarrow> 'c multiplex_codec \<Rightarrow> bytes \<Rightarrow>
     (io_error + frame option) \<times> 'c multiplex_codec \<times> bytes" where
  "decode_inner dec self src =
    (let (connected, src) = skip_noise (has_connected self) src;
         self = self\<lparr>has_connected := connected\<rparr>
     in if \<not> has_connected self then (Inr None, self, src)
        else case dec (len_delim_codec self) src of
          (Inl e, c, src) \<Rightarrow> (Inl e, self\<lparr>len_delim_codec := c\<rparr>, src)
        | (Inr None, c, src) \<Rightarrow> (Inr None, self\<lparr>len_delim_codec := c\<rparr>, src)
        | (Inr (Some frame), c, src) \<Rightarrow>
            (map_sum id Some (decode_frame frame), self\<lparr>len_delim_codec := c\<rparr>, src))"

definition decode ::
  "'c ld_decoder \<Rightarrow> 'c multiplex_codec \<Rightarrow> bytes \<Rightarrow>
     (io_error + frame option) \<times> 'c multiplex_codec \<times> bytes" where
  "decode dec self src = decode_inner dec self src"

definition multiplex_codec_new :: "'c \<Rightarrow> bool \<Rightarrow> 'c multiplex_codec" where
  "multiplex_codec_new len_delim connected =
     \<lparr>len_delim_codec = len_delim, has_connected = connected\<rparr>"

section \<open>The length-delimited framing the codec relies on\<close>

definition be32 :: "nat \<Rightarrow> bytes" where
  "be32 n = [of_nat (n div 2 ^ 24), of_nat (n div 2 ^ 16), of_nat (n div 2 ^ 8), of_nat n]"

definition be32_value :: "bytes \<Rightarrow> nat" where
  "be32_value b = foldl (\<lambda>n x. n * 256 + unat x) 0 b"

definition LD_MAX_FRAME :: nat where
  "LD_MAX_FRAME = 8 * 1024 * 1024"

lemma length_be32 [simp]: "length (be32 n) = 4"
  by (simp add: be32_def)

lemma byte_digits:
  assumes "n < (2::nat) ^ 32"
  shows "((n div 2 ^ 24 mod 256 * 256 + n div 2 ^ 16 mod 256) * 256 + n div 2 ^ 8 mod 256) * 256
           + n mod 256 = n"
proof -
  have "n div 2 ^ 24 < 256" using assms by (simp add: less_mult_imp_div_less)
  then have a: "n div 2 ^ 24 mod 256 = n div 2 ^ 24" by simp
  have b: "n div 2 ^ 24 * 256 + n div 2 ^ 16 mod 256 = n div 2 ^ 16"
    using div_mult_mod_eq [of "n div 2 ^ 16" 256] by (simp add: div_mult2_eq [symmetric])
  have c: "n div 2 ^ 16 * 256 + n div 2 ^ 8 mod 256 = n div 2 ^ 8"
    using div_mult_mod_eq [of "n div 2 ^ 8" 256] by (simp add: div_mult2_eq [symmetric])
  have d: "n div 2 ^ 8 * 256 + n mod 256 = n"
    using div_mult_mod_eq [of n 256] by simp
  show ?thesis by (simp only: a b c d)
qed

lemma be32_roundtrip: "n < 2 ^ 32 \<Longrightarrow> be32_value (be32 n) = n"
  using byte_digits [of n] by (simp add: be32_def be32_value_def unat_of_nat)
lemma hd_be32_not_caret: "n \<le> LD_MAX_FRAME \<Longrightarrow> hd (be32 n) = 0"
  by (simp add: be32_def LD_MAX_FRAME_def div_eq_0_iff)

text \<open>
  \<open>pending c\<close> is what the decoder remembers between calls: \<open>None\<close> before a length field,
  \<open>Some n\<close> when the field has been consumed and \<open>n\<close> bytes of payload are due.
\<close>

locale length_delimited =
  fixes enc :: ld_encoder
    and dec :: "'c ld_decoder"
    and pending :: "'c \<Rightarrow> nat option"
    and fresh :: 'c
  assumes fresh: "pending fresh = None"
    and enc_ok: "length b \<le> LD_MAX_FRAME \<Longrightarrow> enc b dst = Inr (dst @ be32 (length b) @ b)"
    and enc_too_long: "LD_MAX_FRAME < length b \<Longrightarrow> \<exists>e. enc b dst = Inl e"
    and dec_short: "pending c = None \<Longrightarrow> length src < 4 \<Longrightarrow>
          \<exists>c'. pending c' = None \<and> dec c src = (Inr None, c', src)"
    and dec_too_long: "pending c = None \<Longrightarrow> 4 \<le> length src \<Longrightarrow>
          LD_MAX_FRAME < be32_value (take 4 src) \<Longrightarrow> \<exists>e c' src'. dec c src = (Inl e, c', src')"
    and dec_head: "pending c = None \<Longrightarrow> 4 \<le> length src \<Longrightarrow>
          be32_value (take 4 src) \<le> LD_MAX_FRAME \<Longrightarrow>
          length src < 4 + be32_value (take 4 src) \<Longrightarrow>
          \<exists>c'. pending c' = Some (be32_value (take 4 src)) \<and> dec c src = (Inr None, c', drop 4 src)"
    and dec_whole: "pending c = None \<Longrightarrow> 4 \<le> length src \<Longrightarrow>
          be32_value (take 4 src) \<le> LD_MAX_FRAME \<Longrightarrow>
          4 + be32_value (take 4 src) \<le> length src \<Longrightarrow>
          \<exists>c'. pending c' = None \<and>
               dec c src = (Inr (Some (take (be32_value (take 4 src)) (drop 4 src))), c',
                            drop (4 + be32_value (take 4 src)) src)"
    and dec_data_short: "pending c = Some n \<Longrightarrow> length src < n \<Longrightarrow>
          \<exists>c'. pending c' = Some n \<and> dec c src = (Inr None, c', src)"
    and dec_data: "pending c = Some n \<Longrightarrow> n \<le> length src \<Longrightarrow>
          \<exists>c'. pending c' = None \<and> dec c src = (Inr (Some (take n src)), c', drop n src)"

text \<open>An implementation of the documented format.\<close>

definition ref_enc :: ld_encoder where
  "ref_enc b dst = (if length b \<le> LD_MAX_FRAME then Inr (dst @ be32 (length b) @ b)
     else Inl (IoError InvalidInput ''frame size too big''))"

fun ref_dec :: "nat option ld_decoder" where
  "ref_dec (Some n) src =
     (if length src < n then (Inr None, Some n, src)
      else (Inr (Some (take n src)), None, drop n src))"
| "ref_dec None src =
     (if length src < 4 then (Inr None, None, src)
      else let n = be32_value (take 4 src) in
        if LD_MAX_FRAME < n then (Inl (IoError InvalidInput ''frame size too big''), None, src)
        else if length src < 4 + n then (Inr None, Some n, drop 4 src)
        else (Inr (Some (take n (drop 4 src))), None, drop (4 + n) src))"

interpretation ref: length_delimited ref_enc ref_dec id None
  by unfold_locales (auto simp: ref_enc_def Let_def)

end
