(* ===== verification/Link.thy ===== *)
theory Link
  imports Codec
begin

text \<open>
  The serial line seen by \<open>MultiplexCodec\<close>: what the peer encodes arrives in pieces of any size, the
  decoder is called at any moment, control sequences appear between frames, and before the first
  handshake frame there may be firmware output.  \<open>link_step\<close> is the transition relation of that
  system; the theorems say that no schedule loses, duplicates, reorders or corrupts a frame.
\<close>

section \<open>What travels on the line\<close>

datatype item = Noise byte | Fr frame

primrec frame_body :: "frame \<Rightarrow> bytes" where
  "frame_body Handshake = frame_type_as_u8 FtHandshake # MULLVAD_SIGNATURE"
| "frame_body (TestRunner b) = frame_type_as_u8 FtTestRunner # b"
| "frame_body (DaemonRpc b) = frame_type_as_u8 FtDaemonRpc # b"

primrec item_bytes :: "item \<Rightarrow> bytes" where
  "item_bytes (Noise b) = [0x5E, b]"
| "item_bytes (Fr f) = be32 (length (frame_body f)) @ frame_body f"

primrec item_ok :: "item \<Rightarrow> bool" where
  "item_ok (Noise b) = True"
| "item_ok (Fr f) = (length (frame_body f) \<le> LD_MAX_FRAME)"

definition wire_of :: "item list \<Rightarrow> bytes" where
  "wire_of items = concat (map item_bytes items)"

primrec frames_of :: "item list \<Rightarrow> frame list" where
  "frames_of [] = []"
| "frames_of (i # is) = (case i of Noise _ \<Rightarrow> frames_of is | Fr f \<Rightarrow> f # frames_of is)"

fun encode_items :: "ld_encoder \<Rightarrow> item list \<Rightarrow> bytes \<Rightarrow> io_error + bytes" where
  "encode_items enc [] dst = Inr dst"
| "encode_items enc (Noise b # is) dst = encode_items enc is (dst @ [0x5E, b])"
| "encode_items enc (Fr f # is) dst =
     (case encode enc f dst of Inl e \<Rightarrow> Inl e | Inr dst \<Rightarrow> encode_items enc is dst)"

lemma wire_of_simps [simp]:
  "wire_of [] = []"
  "wire_of (i # its) = item_bytes i @ wire_of its"
  by (simp_all add: wire_of_def)

lemma decode_frame_body [simp]: "decode_frame (frame_body f) = Inr f"
  by (cases f) (simp_all add: decode_frame_def FRAME_TYPE_SIZE_def frame_type_try_from_def)

lemma frame_body_not_caret:
  obtains t p where "frame_body f = t # p" "t \<noteq> 0x5E"
  by (cases f) auto

lemma frame_body_nonempty [simp]: "frame_body f \<noteq> []" "0 < length (frame_body f)"
  by (cases f; simp)+

lemma item_bytes_frame_not_caret:
  assumes "item_ok (Fr f)"
  obtains p where "item_bytes (Fr f) = 0 # p"
  using hd_be32_not_caret [of "length (frame_body f)"] assms by (auto simp: be32_def)

section \<open>The transition system\<close>

record 'c serial_link =
  wire :: bytes
  rbuf :: bytes
  codec :: "'c multiplex_codec"
  delivered :: "frame list"
  failed :: bool

inductive link_step :: "'c ld_decoder \<Rightarrow> 'c serial_link \<Rightarrow> 'c serial_link \<Rightarrow> bool" for dec where
  read: "n \<le> length (wire s) \<Longrightarrow>
     link_step dec s (s\<lparr>wire := drop n (wire s), rbuf := rbuf s @ take n (wire s)\<rparr>)"
| deliver: "\<not> failed s \<Longrightarrow> decode dec (codec s) (rbuf s) = (Inr (Some f), c', b') \<Longrightarrow>
     link_step dec s (s\<lparr>codec := c', rbuf := b', delivered := delivered s @ [f]\<rparr>)"
| wait: "\<not> failed s \<Longrightarrow> decode dec (codec s) (rbuf s) = (Inr None, c', b') \<Longrightarrow>
     link_step dec s (s\<lparr>codec := c', rbuf := b'\<rparr>)"
| error: "\<not> failed s \<Longrightarrow> decode dec (codec s) (rbuf s) = (Inl e, c', b') \<Longrightarrow>
     link_step dec s (s\<lparr>codec := c', rbuf := b', failed := True\<rparr>)"

inductive link_reach :: "'c ld_decoder \<Rightarrow> 'c serial_link \<Rightarrow> 'c serial_link \<Rightarrow> bool" for dec s0 where
  start: "link_reach dec s0 s0"
| step: "link_reach dec s0 s \<Longrightarrow> link_step dec s t \<Longrightarrow> link_reach dec s0 t"

definition link_start :: "'c multiplex_codec \<Rightarrow> bytes \<Rightarrow> 'c serial_link" where
  "link_start c w = \<lparr>wire = w, rbuf = [], codec = c, delivered = [], failed = False\<rparr>"

text \<open>Everything has been read and the decoder asks for more.\<close>

definition drained :: "'c ld_decoder \<Rightarrow> 'c serial_link \<Rightarrow> bool" where
  "drained dec s \<longleftrightarrow> wire s = [] \<and> fst (decode dec (codec s) (rbuf s)) = Inr None"

section \<open>Connected: the noise filter never touches a frame\<close>

lemma skip_noise_items:
  assumes "b @ w = wire_of items" "list_all item_ok items"
  shows "\<exists>rest b'. skip_noise True b = (True, b') \<and> b' @ w = wire_of rest \<and>
           list_all item_ok rest \<and> frames_of rest = frames_of items \<and>
           (length b' < 2 \<or> (\<exists>f r. rest = Fr f # r))"
  using assms
proof (induction True b arbitrary: items
    rule: skip_noise.induct [case_names two none one])
  case (two x y r)
  then obtain i its where items: "items = i # its" by (cases items) auto
  show ?case
  proof (cases i)
    case (Noise n)
    with two items have "x = 0x5E" "r @ w = wire_of its" "list_all item_ok its" by auto
    moreover from this obtain rest b' where
      "skip_noise True r = (True, b')" "b' @ w = wire_of rest" "list_all item_ok rest"
      "frames_of rest = frames_of its" "length b' < 2 \<or> (\<exists>f r. rest = Fr f # r)"
      using two.hyps by blast
    ultimately show ?thesis using items Noise by auto
  next
    case (Fr f)
    with two.prems items obtain p where "item_bytes (Fr f) = 0 # p"
      using item_bytes_frame_not_caret [of f] by auto
    with two.prems items Fr have "x = 0" by (simp del: item_bytes.simps)
    with two.prems items Fr show ?thesis by (intro exI [of _ items]) auto
  qed
next
  case none
  then show ?case by force
next
  case (one v)
  then show ?case by force
qed

section \<open>Not connected: synchronising on the signature\<close>

text \<open>
  Firmware output in front of the first handshake is harmless when it does not itself complete a
  signature and when removing control sequences from its front does not leave a lone caret, which
  would pair up with the first byte of the handshake frame.
\<close>

fun strip_carets :: "bytes \<Rightarrow> bytes" where
  "strip_carets (a # b # rest) = (if a = 0x5E then strip_carets rest else a # b # rest)"
| "strip_carets src = src"

definition handshake_line :: bytes where
  "handshake_line = item_bytes (Fr Handshake)"

definition clean_prefix :: "bytes \<Rightarrow> bool" where
  "clean_prefix g \<longleftrightarrow> strip_carets g \<noteq> [0x5E] \<and>
     list_all (\<lambda>i. take 8 (drop i (g @ handshake_line)) \<noteq> MULLVAD_SIGNATURE)
       [0..<length g + 5]"

lemma handshake_bytes:
  "handshake_line = [0, 0, 0, 9, 0] @ MULLVAD_SIGNATURE"
  by (simp add: handshake_line_def be32_def MULLVAD_SIGNATURE_def)

lemma length_handshake_line: "length handshake_line = 13"
  by (simp add: handshake_bytes MULLVAD_SIGNATURE_def)

lemma take_drop_append: "i + n \<le> length xs \<Longrightarrow> take n (drop i (xs @ ys)) = take n (drop i xs)"
  by simp

lemma length_signature [simp]: "length MULLVAD_SIGNATURE = 8"
  by (simp add: MULLVAD_SIGNATURE_def)

lemma clean_prefixD:
  "clean_prefix g \<Longrightarrow> i < length g + 5 \<Longrightarrow>
     take 8 (drop i (g @ handshake_line)) \<noteq> MULLVAD_SIGNATURE"
  by (simp add: clean_prefix_def list_all_iff)

lemma clean_prefix_Cons2:
  assumes "clean_prefix (0x5E # y # g)"
  shows "clean_prefix g"
proof -
  have "take 8 (drop i (g @ handshake_line)) \<noteq> MULLVAD_SIGNATURE" if "i < length g + 5" for i
    using clean_prefixD [OF assms, of "i + 2"] that by simp
  with assms show ?thesis by (simp add: clean_prefix_def list_all_iff)
qed

lemma find_signature_Some:
  assumes "find_signature src = Some i"
  shows "i + 8 \<le> length src" "take 8 (drop i src) = MULLVAD_SIGNATURE"
    "\<And>j. j < i \<Longrightarrow> take 8 (drop j src) \<noteq> MULLVAD_SIGNATURE"
  using assms by (auto simp: find_signature_def find_Some_iff)

lemma find_signature_None:
  "find_signature src = None \<Longrightarrow> i + 8 \<le> length src \<Longrightarrow> take 8 (drop i src) \<noteq> MULLVAD_SIGNATURE"
  by (auto simp: find_signature_def find_None_iff)

lemma find_signature_in_line:
  assumes line: "src @ w = g @ handshake_line @ ws" and g: "clean_prefix g"
  shows "find_signature src = (if length g + 13 \<le> length src then Some (length g + 5) else None)"
proof -
  let ?H = "handshake_line"
  have inside: "take 8 (drop i src) = take 8 (drop i (g @ ?H @ ws))" if "i + 8 \<le> length src" for i
    using that by (simp add: line [symmetric])
  have early: "take 8 (drop i src) \<noteq> MULLVAD_SIGNATURE" if "i + 8 \<le> length src" "i < length g + 5" for i
  proof -
    have "take 8 (drop i (g @ ?H @ ws)) = take 8 (drop i (g @ ?H))"
      using take_drop_append [of i 8 "g @ ?H" ws] that(2) by (simp add: length_handshake_line)
    with clean_prefixD [OF g that(2)] inside [OF that(1)] show ?thesis by metis
  qed
  have here: "take 8 (drop (length g + 5) (g @ ?H @ ws)) = MULLVAD_SIGNATURE"
    by (simp add: handshake_bytes)
  show ?thesis
  proof (cases "find_signature src")
    case None
    with find_signature_None [OF None, of "length g + 5"] inside [of "length g + 5"] here
    show ?thesis by auto
  next
    case (Some i)
    from find_signature_Some [OF this] early have i: "length g + 5 \<le> i" "i + 8 \<le> length src"
      by (auto simp: linorder_not_less [symmetric])
    then have "length g + 13 \<le> length src" by simp
    moreover have "i = length g + 5"
      using find_signature_Some(3) [OF Some, of "length g + 5"] i inside [of "length g + 5"] here
      by fastforce
    ultimately show ?thesis using Some by simp
  qed
qed

lemma skip_noise_before_handshake:
  assumes "b @ w = g @ handshake_line @ ws" "clean_prefix g"
  shows "(\<exists>g' b'. skip_noise False b = (False, b') \<and> clean_prefix g' \<and> w \<noteq> [] \<and>
             b' @ w = g' @ handshake_line @ ws) \<or>
         (\<exists>b'. skip_noise False b = (True, b') \<and> b' @ w = handshake_line @ ws)"
  using assms
proof (induction False b arbitrary: g
    rule: skip_noise.induct [case_names two none one])
  case (two x y r)
  show ?case
  proof (cases "x = 0x5E")
    case True
    with two.prems obtain g' where "g = 0x5E # y # g'" "r @ w = g' @ handshake_line @ ws"
      by (cases g rule: strip_carets.cases) (auto simp: handshake_bytes clean_prefix_def)
    moreover from this two.prems(2) have "clean_prefix g'" by (auto intro: clean_prefix_Cons2)
    ultimately show ?thesis using two.hyps True by simp
  next
    case False
    show ?thesis
    proof (cases "length g + 13 \<le> length (x # y # r)")
      case True
      with False find_signature_in_line [OF two.prems]
      have "skip_noise False (x # y # r) = (True, drop (length g) (x # y # r))"
        by (simp add: FRAME_TYPE_SIZE_def MULTIPLEX_LEN_DELIMITED_HEADER_SIZE_def)
      moreover have "drop (length g) (x # y # r) @ w = handshake_line @ ws"
        using two.prems(1) True
        by (metis append_eq_conv_conj drop_append le_add1 le_trans diff_is_0_eq' drop_0)
      ultimately show ?thesis by blast
    next
      case short: False
      with False find_signature_in_line [OF two.prems]
      have "skip_noise False (x # y # r) = (False, x # y # r)" by simp
      moreover have "w \<noteq> []"
        using short arg_cong [OF two.prems(1), of length] by (auto simp: handshake_bytes)
      ultimately show ?thesis using two.prems by blast
    qed
  qed
next
  case none
  then show ?case by (auto simp: handshake_bytes)
next
  case (one v)
  moreover from this have "w \<noteq> []"
    using arg_cong [OF one(1), of length] by (auto simp: handshake_bytes)
  ultimately show ?case by (metis skip_noise.simps(3))
qed

context length_delimited
begin

lemma encode_ok: "item_ok (Fr f) \<Longrightarrow> encode enc f dst = Inr (dst @ item_bytes (Fr f))"
  by (cases f) (simp_all add: encode_def encode_frame_def enc_ok)

lemma encode_items_ok:
  "list_all item_ok items \<Longrightarrow> encode_items enc items dst = Inr (dst @ wire_of items)"
proof (induction items arbitrary: dst)
  case (Cons i its)
  then show ?case by (cases i) (simp_all add: encode_ok del: item_bytes.simps(2))
qed simp

text \<open>The decoder is in the middle of a stream: \<open>rem\<close> is still to be decoded, into \<open>fs\<close>.\<close>

definition stream_at :: "'c multiplex_codec \<Rightarrow> bytes \<Rightarrow> frame list \<Rightarrow> bool" where
  "stream_at self rem fs \<longleftrightarrow> has_connected self \<and> (\<exists>rest. list_all item_ok rest \<and>
     (pending (len_delim_codec self) = None \<and> rem = wire_of rest \<and> fs = frames_of rest \<or>
      (\<exists>f. item_ok (Fr f) \<and> pending (len_delim_codec self) = Some (length (frame_body f)) \<and>
           rem = frame_body f @ wire_of rest \<and> fs = f # frames_of rest)))"

lemma decode_head_cases:
  assumes nc: "skip_noise (has_connected self) b = (True, b')" and rem: "b' @ w = wire_of rest"
    and ok: "list_all item_ok rest" and stop: "length b' < 2 \<or> (\<exists>f r. rest = Fr f # r)"
    and self: "pending (len_delim_codec self) = None"
    and d: "decode dec self b = (r, self', b'')"
  shows "(r = Inr None \<and> stream_at self' (b'' @ w) (frames_of rest) \<and> (w = [] \<longrightarrow> frames_of rest = [])) \<or>
         (\<exists>f fs. r = Inr (Some f) \<and> frames_of rest = f # fs \<and> stream_at self' (b'' @ w) fs)"
proof (cases "length b' < 4")
  case True
  obtain c' where c': "pending c' = None" "dec (len_delim_codec self) b' = (Inr None, c', b')"
    using dec_short [OF self True] by blast
  have "frames_of rest = []" if "w = []"
  proof (cases rest)
    case (Cons i its)
    with rem ok True that stop show ?thesis by (cases i) auto
  qed simp
  with c' nc rem ok self d show ?thesis
    by (auto simp: decode_def decode_inner_def stream_at_def)
next
  case False
  with stop obtain f rs where rest: "rest = Fr f # rs" by auto
  let ?n = "length (frame_body f)"
  from rest ok have n: "?n \<le> LD_MAX_FRAME" "list_all item_ok rs" by simp_all
  from rest rem have b'w: "b' @ w = be32 ?n @ frame_body f @ wire_of rs" by simp
  with False have tk: "take 4 b' = be32 ?n"
    by (metis append_eq_conv_conj length_be32 not_less take_append take_all_iff diff_is_0_eq' take_0 append_Nil2)
  have v: "be32_value (take 4 b') = ?n"
    using n(1) by (simp add: tk be32_roundtrip LD_MAX_FRAME_def)
  have dr: "drop 4 b' @ w = frame_body f @ wire_of rs"
    using b'w False by (metis append_eq_append_conv_if append_take_drop_id length_be32 same_append_eq tk append_assoc)
  show ?thesis
  proof (cases "length b' < 4 + ?n")
    case True
    obtain c' where "pending c' = Some ?n" "dec (len_delim_codec self) b' = (Inr None, c', drop 4 b')"
      using dec_head [OF self, of b'] False v n(1) True by auto
    moreover have "w \<noteq> []"
    proof
      assume "w = []"
      with dr True have "length (frame_body f @ wire_of rs) < ?n" using False
        by (metis append_Nil2 length_drop less_diff_conv2 linorder_not_less add.commute)
      then show False by simp
    qed
    ultimately show ?thesis using nc self d n dr rest
      by (auto simp: decode_def decode_inner_def stream_at_def)
  next
    case whole: False
    obtain c' where c': "pending c' = None"
      "dec (len_delim_codec self) b' = (Inr (Some (take ?n (drop 4 b'))), c', drop (4 + ?n) b')"
      using dec_whole [OF self, of b'] False v n(1) whole by auto
    have "take ?n (drop 4 b') = frame_body f" "drop (4 + ?n) b' @ w = wire_of rs"
      using dr whole by (auto simp: append_eq_append_conv_if add.commute split: if_splits
          simp flip: drop_drop)
    with c' nc self d n rest show ?thesis
      by (auto simp: decode_def decode_inner_def stream_at_def)
  qed
qed

lemma decode_connected:
  assumes at: "stream_at self (b @ w) fs" and d: "decode dec self b = (r, self', b')"
  shows "(r = Inr None \<and> stream_at self' (b' @ w) fs \<and> (w = [] \<longrightarrow> fs = [])) \<or>
         (\<exists>f fs'. r = Inr (Some f) \<and> fs = f # fs' \<and> stream_at self' (b' @ w) fs')"
proof -
  from at obtain rest where conn: "has_connected self" and ok: "list_all item_ok rest"
    and alt: "pending (len_delim_codec self) = None \<and> b @ w = wire_of rest \<and> fs = frames_of rest \<or>
      (\<exists>f. item_ok (Fr f) \<and> pending (len_delim_codec self) = Some (length (frame_body f)) \<and>
           b @ w = frame_body f @ wire_of rest \<and> fs = f # frames_of rest)"
    by (auto simp: stream_at_def)
  from alt show ?thesis
  proof
    assume A: "pending (len_delim_codec self) = None \<and> b @ w = wire_of rest \<and> fs = frames_of rest"
    then obtain rest' b1 where "skip_noise True b = (True, b1)" "b1 @ w = wire_of rest'"
      "list_all item_ok rest'" "frames_of rest' = frames_of rest"
      "length b1 < 2 \<or> (\<exists>f r. rest' = Fr f # r)"
      using skip_noise_items ok by meson
    with decode_head_cases [of self b b1 w rest' r self' b'] conn A d show ?thesis by simp
  next
    assume "\<exists>f. item_ok (Fr f) \<and> pending (len_delim_codec self) = Some (length (frame_body f)) \<and>
           b @ w = frame_body f @ wire_of rest \<and> fs = f # frames_of rest"
    then obtain f where f: "item_ok (Fr f)"
      "pending (len_delim_codec self) = Some (length (frame_body f))"
      "b @ w = frame_body f @ wire_of rest" "fs = f # frames_of rest" by blast
    obtain t p where tp: "frame_body f = t # p" "t \<noteq> 0x5E" by (rule frame_body_not_caret)
    have skip: "skip_noise True b = (True, b)"
      using f(3) tp by (cases b rule: remdups_adj.cases) auto
    show ?thesis
    proof (cases "length b < length (frame_body f)")
      case True
      from dec_data_short [OF f(2) True] obtain c' where
        "pending c' = Some (length (frame_body f))" "dec (len_delim_codec self) b = (Inr None, c', b)"
        by blast
      moreover from True f(3) have "w \<noteq> []"
        by (metis append_Nil2 length_append linorder_not_less le_add1)
      ultimately show ?thesis using skip conn d f ok
        by (auto simp: decode_def decode_inner_def stream_at_def)
    next
      case False
      then have "length (frame_body f) \<le> length b" by simp
      from dec_data [OF f(2) this] obtain c' where "pending c' = None"
        "dec (len_delim_codec self) b =
           (Inr (Some (take (length (frame_body f)) b)), c', drop (length (frame_body f)) b)" by blast
      moreover have "take (length (frame_body f)) b = frame_body f"
        "drop (length (frame_body f)) b @ w = wire_of rest"
        using f(3) False by (auto simp: append_eq_append_conv_if split: if_splits)
      ultimately show ?thesis using skip conn d f ok
        by (auto simp: decode_def decode_inner_def stream_at_def)
    qed
  qed
qed

definition before_handshake :: "'c multiplex_codec \<Rightarrow> bytes \<Rightarrow> frame list \<Rightarrow> bool" where
  "before_handshake self rem fs \<longleftrightarrow> \<not> has_connected self \<and> pending (len_delim_codec self) = None \<and>
     (\<exists>g items. clean_prefix g \<and> list_all item_ok items \<and>
        rem = g @ handshake_line @ wire_of items \<and> fs = Handshake # frames_of items)"

lemma item_ok_Handshake [simp]: "item_ok (Fr Handshake)"
  by (simp add: LD_MAX_FRAME_def)

lemma decode_before_handshake:
  assumes at: "before_handshake self (b @ w) fs" and d: "decode dec self b = (r, self', b')"
  shows "(r = Inr None \<and> (before_handshake self' (b' @ w) fs \<or> stream_at self' (b' @ w) fs) \<and> w \<noteq> []) \<or>
         (\<exists>f fs'. r = Inr (Some f) \<and> fs = f # fs' \<and> stream_at self' (b' @ w) fs')"
proof -
  from at obtain g items where conn: "\<not> has_connected self" "pending (len_delim_codec self) = None"
    and g: "clean_prefix g" "list_all item_ok items" "b @ w = g @ handshake_line @ wire_of items"
      "fs = Handshake # frames_of items"
    by (auto simp: before_handshake_def)
  from skip_noise_before_handshake [OF g(3,1)] show ?thesis
  proof
    assume "\<exists>g' b'. skip_noise False b = (False, b') \<and> clean_prefix g' \<and> w \<noteq> [] \<and>
             b' @ w = g' @ handshake_line @ wire_of items"
    then obtain g' b1 where g': "skip_noise False b = (False, b1)" "clean_prefix g'" "w \<noteq> []"
      "b1 @ w = g' @ handshake_line @ wire_of items" by blast
    with conn d have "r = Inr None" "b' = b1" "self' = self\<lparr>has_connected := False\<rparr>"
      by (auto simp: decode_def decode_inner_def)
    moreover have "before_handshake (self\<lparr>has_connected := False\<rparr>) (b1 @ w) fs"
      unfolding before_handshake_def using conn g g' by (simp, blast)
    ultimately show ?thesis using g'(3) by blast
  next
    assume "\<exists>b'. skip_noise False b = (True, b') \<and> b' @ w = handshake_line @ wire_of items"
    then obtain b1 where b1: "skip_noise False b = (True, b1)"
      "b1 @ w = wire_of (Fr Handshake # items)"
      by (auto simp: handshake_line_def)
    with decode_head_cases [of self b b1 w "Fr Handshake # items" r self' b'] conn g d
    show ?thesis by (auto simp del: item_ok.simps)
  qed
qed

definition link_inv :: "frame list \<Rightarrow> 'c serial_link \<Rightarrow> bool" where
  "link_inv all s \<longleftrightarrow> \<not> failed s \<and> (\<exists>fs. all = delivered s @ fs \<and>
     (before_handshake (codec s) (rbuf s @ wire s) fs \<or> stream_at (codec s) (rbuf s @ wire s) fs))"

lemma link_inv_decode:
  assumes "link_inv all s" and d: "decode dec (codec s) (rbuf s) = (r, c', b')"
  shows "(r = Inr None \<and> link_inv all (s\<lparr>codec := c', rbuf := b'\<rparr>) \<and>
            (wire s = [] \<longrightarrow> delivered s = all)) \<or>
         (\<exists>f. r = Inr (Some f) \<and>
            link_inv all (s\<lparr>codec := c', rbuf := b', delivered := delivered s @ [f]\<rparr>))"
proof -
  from assms(1) obtain fs where fs: "\<not> failed s" "all = delivered s @ fs"
    and alt: "before_handshake (codec s) (rbuf s @ wire s) fs \<or>
              stream_at (codec s) (rbuf s @ wire s) fs"
    by (auto simp: link_inv_def)
  from alt show ?thesis
  proof
    assume "before_handshake (codec s) (rbuf s @ wire s) fs"
    from decode_before_handshake [OF this d] fs show ?thesis by (auto simp: link_inv_def)
  next
    assume "stream_at (codec s) (rbuf s @ wire s) fs"
    from decode_connected [OF this d] fs show ?thesis by (auto simp: link_inv_def)
  qed
qed

lemma link_step_inv: "link_step dec s t \<Longrightarrow> link_inv all s \<Longrightarrow> link_inv all t"
proof (induction rule: link_step.induct)
  case (read n s)
  then show ?case by (auto simp: link_inv_def)
qed (auto dest: link_inv_decode)

lemma link_reach_inv: "link_reach dec s t \<Longrightarrow> link_inv all s \<Longrightarrow> link_inv all t"
  by (induction rule: link_reach.induct) (auto intro: link_step_inv)

lemma link_inv_drained: "link_inv all s \<Longrightarrow> drained dec s \<Longrightarrow> delivered s = all"
  using link_inv_decode [of all s] by (cases "decode dec (codec s) (rbuf s)") (auto simp: drained_def)

lemma link_inv_prefix: "link_inv all s \<Longrightarrow> prefix (delivered s) all \<and> \<not> failed s"
  by (auto simp: link_inv_def)

lemma link_inv_connected:
  assumes "list_all item_ok items" "has_connected c" "pending (len_delim_codec c) = None"
  shows "link_inv (frames_of items) (link_start c (wire_of items))"
  using assms by (auto simp: link_inv_def link_start_def stream_at_def)

lemma link_inv_unconnected:
  assumes "list_all item_ok items" "clean_prefix g"
    "\<not> has_connected c" "pending (len_delim_codec c) = None"
  shows "link_inv (Handshake # frames_of items) (link_start c (g @ handshake_line @ wire_of items))"
  using assms by (auto simp: link_inv_def link_start_def before_handshake_def)

end

section \<open>Properties of the serial line\<close>

lemma connected_line:
  assumes ld: "length_delimited enc dec pending fresh"
    and ok: "list_all item_ok items"
    and enc: "encode_items enc items [] = Inr line"
    and reach: "link_reach dec (link_start (multiplex_codec_new fresh True) line) s"
  shows "\<not> failed s \<and> prefix (delivered s) (frames_of items) \<and>
         (drained dec s \<longrightarrow> delivered s = frames_of items)"
proof -
  have line: "line = wire_of items"
    using length_delimited.encode_items_ok [OF ld ok, of "[]"] enc by simp
  have "length_delimited.link_inv pending (frames_of items) s"
    by (rule length_delimited.link_reach_inv [OF ld reach], unfold line)
       (simp add: length_delimited.link_inv_connected [OF ld ok] multiplex_codec_new_def
          length_delimited.fresh [OF ld])
  with length_delimited.link_inv_prefix [OF ld] length_delimited.link_inv_drained [OF ld]
  show ?thesis by blast
qed

lemma unconnected_line:
  assumes ld: "length_delimited enc dec pending fresh"
    and ok: "list_all item_ok items"
    and enc: "encode_items enc (Fr Handshake # items) g = Inr line"
    and g: "clean_prefix g"
    and reach: "link_reach dec (link_start (multiplex_codec_new fresh False) line) s"
  shows "\<not> failed s \<and> prefix (delivered s) (Handshake # frames_of items) \<and>
         (drained dec s \<longrightarrow> delivered s = Handshake # frames_of items)"
proof -
  have "list_all item_ok (Fr Handshake # items)" using ok by (simp add: LD_MAX_FRAME_def)
  from length_delimited.encode_items_ok [OF ld this, of g] enc
  have line: "line = g @ handshake_line @ wire_of items" by (simp add: handshake_line_def)
  have "length_delimited.link_inv pending (Handshake # frames_of items) s"
    by (rule length_delimited.link_reach_inv [OF ld reach], unfold line)
       (simp add: length_delimited.link_inv_unconnected [OF ld ok g] multiplex_codec_new_def
          length_delimited.fresh [OF ld])
  with length_delimited.link_inv_prefix [OF ld] length_delimited.link_inv_drained [OF ld]
  show ?thesis by blast
qed

text \<open>
  C1.  Once connected, the decoder delivers exactly the frames the peer encoded: whatever the frames
  and the control sequences between them, however the bytes are split into reads and whenever decode
  is called, no decode error occurs, what has been delivered is a prefix of what was sent, and when
  everything has been read and the decoder asks for more, everything has been delivered.
\<close>

theorem frames_survive_any_schedule:
  assumes ld: "length_delimited enc dec pending fresh"
    and ok: "list_all item_ok items"
    and enc: "encode_items enc items [] = Inr line"
    and reach: "link_reach dec (link_start (multiplex_codec_new fresh True) line) s"
  shows "\<not> failed s \<and> prefix (delivered s) (frames_of items) \<and>
         (drained dec s \<longrightarrow> delivered s = frames_of items)"
  using assms by (rule connected_line)

text \<open>
  C14.  A client that is not connected yet synchronises on the first handshake frame: for every
  prefix of firmware output that contains no signature of its own and leaves no unpaired caret in
  front of the handshake, all schedules deliver the handshake and then every frame after it.
\<close>

theorem handshake_synchronises:
  assumes ld: "length_delimited enc dec pending fresh"
    and ok: "list_all item_ok items"
    and enc: "encode_items enc (Fr Handshake # items) g = Inr line"
    and g: "clean_prefix g"
    and reach: "link_reach dec (link_start (multiplex_codec_new fresh False) line) s"
  shows "\<not> failed s \<and> prefix (delivered s) (Handshake # frames_of items) \<and>
         (drained dec s \<longrightarrow> delivered s = Handshake # frames_of items)"
  using assms by (rule unconnected_line)

text \<open>Two items on the line, read in two pieces, with a decode call in between.\<close>

definition demo_items :: "item list" where
  "demo_items = [Noise 0x40, Fr (TestRunner [7])]"

definition demo_line :: bytes where
  "demo_line = [0x5E, 0x40, 0, 0, 0, 2, 1, 7]"

definition demo_start :: "bool \<Rightarrow> bytes \<Rightarrow> nat option serial_link" where
  "demo_start conn line = link_start (multiplex_codec_new None conn) line"

lemmas codec_eval = decode_def decode_inner_def find_signature_def MULLVAD_SIGNATURE_def
  decode_frame_def FRAME_TYPE_SIZE_def MULTIPLEX_LEN_DELIMITED_HEADER_SIZE_def
  frame_type_try_from_def be32_value_def LD_MAX_FRAME_def multiplex_codec_new_def link_start_def

lemma demo_reach:
  "link_reach ref_dec (demo_start True demo_line)
     \<lparr>wire = [], rbuf = [], codec = multiplex_codec_new None True,
      delivered = [TestRunner [7]], failed = False\<rparr>"
proof -
  let ?c = "multiplex_codec_new None True :: nat option multiplex_codec"
  let ?c2 = "multiplex_codec_new (Some 2) True :: nat option multiplex_codec"
  let ?s1 = "\<lparr>wire = [7], rbuf = [0x5E, 0x40, 0, 0, 0, 2, 1], codec = ?c,
              delivered = [], failed = False\<rparr>"
  let ?s2 = "\<lparr>wire = [7], rbuf = [1], codec = ?c2, delivered = [], failed = False\<rparr>"
  let ?s3 = "\<lparr>wire = [], rbuf = [1, 7], codec = ?c2, delivered = [], failed = False\<rparr>"
  have "link_reach ref_dec (demo_start True demo_line) (demo_start True demo_line)"
    by (rule link_reach.start)
  moreover have "link_step ref_dec (demo_start True demo_line) ?s1"
    using link_step.read [of 7 "demo_start True demo_line" ref_dec]
    by (simp add: demo_start_def link_start_def demo_line_def)
  ultimately have "link_reach ref_dec (demo_start True demo_line) ?s1" by (rule link_reach.step)
  moreover have "link_step ref_dec ?s1 ?s2"
    using link_step.wait [of ?s1 ref_dec ?c2 "[1]"] by (simp add: codec_eval)
  ultimately have "link_reach ref_dec (demo_start True demo_line) ?s2" by (rule link_reach.step)
  moreover have "link_step ref_dec ?s2 ?s3"
    using link_step.read [of 1 ?s2 ref_dec] by simp
  ultimately have "link_reach ref_dec (demo_start True demo_line) ?s3" by (rule link_reach.step)
  moreover have "link_step ref_dec ?s3 \<lparr>wire = [], rbuf = [], codec = ?c,
      delivered = [TestRunner [7]], failed = False\<rparr>"
    using link_step.deliver [of ?s3 ref_dec "TestRunner [7]" ?c "[]"] by (simp add: codec_eval)
  ultimately show ?thesis by (rule link_reach.step)
qed

lemma demo_encode: "encode_items ref_enc demo_items [] = Inr demo_line"
  by (simp add: demo_items_def demo_line_def encode_def encode_frame_def ref_enc_def
      LD_MAX_FRAME_def be32_def)

theorem frames_survive_any_schedule_witness:
  "\<exists>s. link_reach ref_dec (link_start (multiplex_codec_new None True) demo_line) s \<and>
       drained ref_dec s \<and> delivered s = frames_of demo_items \<and> frames_of demo_items = [TestRunner [7]]"
proof -
  let ?s = "\<lparr>wire = [], rbuf = [], codec = multiplex_codec_new None True,
      delivered = [TestRunner [7]], failed = False\<rparr> :: nat option serial_link"
  have reach: "link_reach ref_dec (link_start (multiplex_codec_new None True) demo_line) ?s"
    using demo_reach by (simp add: demo_start_def)
  have ok: "list_all item_ok demo_items" by (simp add: demo_items_def LD_MAX_FRAME_def)
  have "drained ref_dec ?s" by (simp add: drained_def codec_eval)
  with reach frames_survive_any_schedule [OF ref.length_delimited_axioms ok demo_encode reach]
  show ?thesis by (auto simp: demo_items_def)
qed

text \<open>A prefix of firmware output with a control sequence and a stray byte before the handshake.\<close>

lemma demo_hs_reach:
  "link_reach ref_dec (demo_start False ([0x5E, 0x40, 0x1B] @ handshake_line))
     \<lparr>wire = [], rbuf = [], codec = multiplex_codec_new None True,
      delivered = [Handshake], failed = False\<rparr>"
proof -
  let ?c = "multiplex_codec_new None True :: nat option multiplex_codec"
  let ?w = "[0x5E, 0x40, 0x1B] @ handshake_line"
  let ?s1 = "\<lparr>wire = [], rbuf = ?w, codec = multiplex_codec_new None False,
              delivered = [], failed = False\<rparr>"
  have "link_step ref_dec (demo_start False ?w) ?s1"
    using link_step.read [of "length ?w" "demo_start False ?w" ref_dec]
    by (simp add: demo_start_def link_start_def)
  with link_reach.start have "link_reach ref_dec (demo_start False ?w) ?s1"
    by (rule link_reach.step)
  moreover have "link_step ref_dec ?s1 \<lparr>wire = [], rbuf = [], codec = ?c,
      delivered = [Handshake], failed = False\<rparr>"
    using link_step.deliver [of ?s1 ref_dec Handshake ?c "[]"]
    by (simp add: codec_eval handshake_bytes upt_rec)
  ultimately show ?thesis by (rule link_reach.step)
qed

theorem handshake_synchronises_witness:
  "\<exists>s. link_reach ref_dec (link_start (multiplex_codec_new None False)
          ([0x5E, 0x40, 0x1B] @ handshake_line)) s \<and>
       drained ref_dec s \<and> clean_prefix [0x5E, 0x40, 0x1B] \<and> delivered s = [Handshake]"
proof -
  let ?s = "\<lparr>wire = [], rbuf = [], codec = multiplex_codec_new None True,
      delivered = [Handshake], failed = False\<rparr> :: nat option serial_link"
  have reach: "link_reach ref_dec (link_start (multiplex_codec_new None False)
      ([0x5E, 0x40, 0x1B] @ handshake_line)) ?s"
    using demo_hs_reach by (simp add: demo_start_def)
  have clean: "clean_prefix [0x5E, 0x40, 0x1B]"
    by (simp add: clean_prefix_def handshake_bytes MULLVAD_SIGNATURE_def upt_rec)
  have enc: "encode_items ref_enc [Fr Handshake] [0x5E, 0x40, 0x1B] =
      Inr ([0x5E, 0x40, 0x1B] @ handshake_line)"
    by (simp add: encode_def encode_frame_def ref_enc_def LD_MAX_FRAME_def handshake_line_def)
  have "drained ref_dec ?s" by (simp add: drained_def codec_eval)
  with reach clean handshake_synchronises [OF ref.length_delimited_axioms _ enc clean reach]
  show ?thesis by auto
qed

text \<open>
   Without the condition on carets the synchronisation fails: one unpaired caret in front of the
  handshake swallows the first byte of its length field.  The whole handshake has arrived, the
  decoder believes it is connected and waits for a frame of 2304 bytes.
\<close>

lemma lone_caret_loses_handshake:
  "decode ref_dec (multiplex_codec_new None False) ([0x5E] @ handshake_line) =
     (Inr None, multiplex_codec_new (Some 2304) True, 0x4D # drop 1 MULLVAD_SIGNATURE)"
  by (simp add: codec_eval handshake_bytes upt_rec)

end
