(* ===== verification/Forward.thy ===== *)
theory Forward
  imports Codec
begin

text \<open>
  \<open>forward_messages\<close> of \<open>test-rpc/src/transport.rs\<close>, the task that runs on both ends of the serial
  line, and the two ways it is set up (\<open>create_server_transports\<close>, \<open>create_client_transports\<close>).

  One iteration of its loop is \<open>forward_step\<close>: the nested \<open>select\<close> yields a \<open>fwd_event\<close>, the
  iteration answers it.  The order in which \<open>select\<close> yields events is arbitrary, so the loop
  \<open>forward_messages\<close> runs over any list of events.  \<open>serde_json\<close> and the channels are the
  environment.  The second half of the theory connects two forwarders by two wires
  (\<open>net_step\<close>); the codec theories justify that a wire is a queue of frames.
\<close>

section \<open>The forwarding loop\<close>

datatype 't fwd_event =
    SerialFrame "io_error + frame" | SerialEof
  | ShakeQueued | ShakeClosed
  | RunnerMessage "string + 't" | RunnerClosed
  | DaemonData "io_error + bytes" | DaemonClosed

datatype forward_error =
    DeserializeFailed string | SerializeFailed string | SerialConnection io_error
  | TestRunnerChannel string | DaemonChannel io_error | HandshakeError io_error

text \<open>What the loop does to its channels, with the answer where it can fail.\<close>

datatype 's fwd_out =
    ToRunner 's "string + unit" | ToDaemon bytes "io_error + unit" | ToSerial frame "io_error + unit"
  | ForwardShake | QueueShake

record ('t, 's) fwd_env =
  from_slice :: "bytes \<Rightarrow> string + 's"
  to_vec :: "'t \<Rightarrow> string + bytes"
  send_runner :: "'s fwd_out list \<Rightarrow> 's \<Rightarrow> string + unit"
  send_daemon :: "'s fwd_out list \<Rightarrow> bytes \<Rightarrow> io_error + unit"
  send_serial :: "'s fwd_out list \<Rightarrow> frame \<Rightarrow> io_error + unit"

type_synonym ('t, 's, 'a) forwarder = "(('t, 's) fwd_env, 's fwd_out, forward_error, 'a) prog"

definition serial_send :: "(io_error \<Rightarrow> forward_error) \<Rightarrow> frame \<Rightarrow> ('t, 's, unit) forwarder" where
  "serial_send wrap f =
     map_err wrap (performE (\<lambda>env tr. send_serial env tr f) (\<lambda>r. ToSerial f r))"

text \<open>The value is whether the loop goes on; \<open>handshake_fwd\<close> is whether a forwarder was given.\<close>

fun forward_step :: "bool \<Rightarrow> 't fwd_event \<Rightarrow> ('t, 's, bool) forwarder" where
  "forward_step handshake_fwd (SerialFrame (Inl e)) = fail (SerialConnection e)"
| "forward_step handshake_fwd (SerialFrame (Inr (TestRunner data))) =
     bindE (\<lambda>env. of_result (map_sum DeserializeFailed id (from_slice env data)) env) (\<lambda>message.
     seqE (map_err TestRunnerChannel
             (performE (\<lambda>env tr. send_runner env tr message) (\<lambda>r. ToRunner message r)))
     (ret True))"
| "forward_step handshake_fwd (SerialFrame (Inr (DaemonRpc data))) =
     seqE (map_err DaemonChannel
             (performE (\<lambda>env tr. send_daemon env tr data) (\<lambda>r. ToDaemon data r)))
     (ret True)"
| "forward_step handshake_fwd (SerialFrame (Inr Handshake)) =
     seqE (if handshake_fwd then emit ForwardShake else emit QueueShake) (ret True)"
| "forward_step handshake_fwd ShakeQueued =
     seqE (serial_send HandshakeError Handshake) (ret True)"
| "forward_step handshake_fwd (RunnerMessage (Inl e)) = fail (TestRunnerChannel e)"
| "forward_step handshake_fwd (RunnerMessage (Inr message)) =
     bindE (\<lambda>env. of_result (map_sum SerializeFailed id (to_vec env message)) env) (\<lambda>serialized.
     seqE (serial_send SerialConnection (TestRunner serialized)) (ret True))"
| "forward_step handshake_fwd (DaemonData (Inl e)) = fail (DaemonChannel e)"
| "forward_step handshake_fwd (DaemonData (Inr data)) =
     seqE (serial_send SerialConnection (DaemonRpc data)) (ret True)"
| "forward_step handshake_fwd DaemonClosed =
     seqE (attempt (serial_send SerialConnection (DaemonRpc []))) (ret False)"
| "forward_step handshake_fwd SerialEof = ret False"
| "forward_step handshake_fwd ShakeClosed = ret False"
| "forward_step handshake_fwd RunnerClosed = ret False"

text \<open>\<open>Ok True\<close>: all events handled and the loop is waiting; \<open>Ok False\<close>: the task has ended.\<close>

fun forward_messages :: "bool \<Rightarrow> 't fwd_event list \<Rightarrow> ('t, 's, bool) forwarder" where
  "forward_messages handshake_fwd [] = ret True"
| "forward_messages handshake_fwd (ev # evs) =
     bindE (forward_step handshake_fwd ev) (\<lambda>goes_on.
       if goes_on then forward_messages handshake_fwd evs else ret False)"

text \<open>
  \<open>display_chain\<close>: the rendering of an error and of its chain of sources, which the task logs when
  it ends with an error.  An error is given by its own text and the texts of its sources.
\<close>

definition display_chain :: "string \<Rightarrow> string list \<Rightarrow> string" where
  "display_chain error sources =
     foldl (\<lambda>s source. s @ [CHR 0x0A] @ ''Caused by: '' @ source) error sources"

section \<open>What is forwarded\<close>

text \<open>The effect a handled event must have, and nothing else.\<close>

fun handled :: "bool \<Rightarrow> ('t, 's) fwd_env \<Rightarrow> 't fwd_event \<Rightarrow> 's fwd_out \<Rightarrow> bool" where
  "handled h env (SerialFrame (Inr (TestRunner data))) out =
     (\<exists>m. from_slice env data = Inr m \<and> out = ToRunner m (Inr ()))"
| "handled h env (SerialFrame (Inr (DaemonRpc data))) out = (out = ToDaemon data (Inr ()))"
| "handled h env (SerialFrame (Inr Handshake)) out = (out = (if h then ForwardShake else QueueShake))"
| "handled h env ShakeQueued out = (out = ToSerial Handshake (Inr ()))"
| "handled h env (RunnerMessage (Inr m)) out =
     (\<exists>data. to_vec env m = Inr data \<and> out = ToSerial (TestRunner data) (Inr ()))"
| "handled h env (DaemonData (Inr data)) out = (out = ToSerial (DaemonRpc data) (Inr ()))"
| "handled h env _ out = False"

lemma forward_step_goes_on:
  "forward_step h ev env tr = (Ok True, tr') \<Longrightarrow> \<exists>out. tr' = tr @ [out] \<and> handled h env ev out"
  by (induction h ev rule: forward_step.induct)
     (auto simp: prog_defs serial_send_def of_result_def split: if_splits sum.splits prod.splits)

text \<open>How an event can end the loop: which event, with which outcome, after which last effect.\<close>

fun stops :: "('t, 's) fwd_env \<Rightarrow> 't fwd_event \<Rightarrow> (forward_error, bool) res \<Rightarrow> 's fwd_out list \<Rightarrow> bool" where
  "stops env SerialEof r outs = (r = Ok False \<and> outs = [])"
| "stops env ShakeClosed r outs = (r = Ok False \<and> outs = [])"
| "stops env RunnerClosed r outs = (r = Ok False \<and> outs = [])"
| "stops env DaemonClosed r outs = (r = Ok False \<and> (\<exists>a. outs = [ToSerial (DaemonRpc []) a]))"
| "stops env (SerialFrame (Inl e)) r outs = (r = Err (SerialConnection e) \<and> outs = [])"
| "stops env (RunnerMessage (Inl e)) r outs = (r = Err (TestRunnerChannel e) \<and> outs = [])"
| "stops env (DaemonData (Inl e)) r outs = (r = Err (DaemonChannel e) \<and> outs = [])"
| "stops env (SerialFrame (Inr Handshake)) r outs = False"
| "stops env (SerialFrame (Inr (DaemonRpc data))) r outs =
     (\<exists>e. r = Err (DaemonChannel e) \<and> outs = [ToDaemon data (Inl e)])"
| "stops env (SerialFrame (Inr (TestRunner data))) r outs =
     (case from_slice env data of
        Inl e \<Rightarrow> r = Err (DeserializeFailed e) \<and> outs = []
      | Inr m \<Rightarrow> \<exists>e. r = Err (TestRunnerChannel e) \<and> outs = [ToRunner m (Inl e)])"
| "stops env ShakeQueued r outs =
     (\<exists>e. r = Err (HandshakeError e) \<and> outs = [ToSerial Handshake (Inl e)])"
| "stops env (RunnerMessage (Inr m)) r outs =
     (case to_vec env m of
        Inl e \<Rightarrow> r = Err (SerializeFailed e) \<and> outs = []
      | Inr data \<Rightarrow> \<exists>e. r = Err (SerialConnection e) \<and> outs = [ToSerial (TestRunner data) (Inl e)])"
| "stops env (DaemonData (Inr data)) r outs =
     (\<exists>e. r = Err (SerialConnection e) \<and> outs = [ToSerial (DaemonRpc data) (Inl e)])"

lemma forward_step_stops:
  "forward_step h ev env tr = (r, tr') \<Longrightarrow> r \<noteq> Ok True \<Longrightarrow> \<exists>outs. tr' = tr @ outs \<and> stops env ev r outs"
  by (induction h ev rule: forward_step.induct)
     (auto simp: prog_defs serial_send_def of_result_def split: if_splits sum.splits prod.splits)

lemma forward_messages_split:
  "forward_messages h evs env tr = (r, tr') \<Longrightarrow>
   (r = Ok True \<and> (\<exists>outs. tr' = tr @ outs \<and> list_all2 (handled h env) evs outs)) \<or>
   (\<exists>k outs last. k < length evs \<and> tr' = tr @ outs @ last \<and>
      list_all2 (handled h env) (take k evs) outs \<and> stops env (evs ! k) r last)"
proof (induction evs arbitrary: tr)
  case Nil
  then show ?case by (simp add: ret_def)
next
  case (Cons ev evs)
  obtain r1 tr1 where step: "forward_step h ev env tr = (r1, tr1)" by fastforce
  show ?case
  proof (cases "r1 = Ok True")
    case True
    with step Cons.prems have rest: "forward_messages h evs env tr1 = (r, tr')"
      by (simp add: bindE_def)
    obtain out where out: "tr1 = tr @ [out]" "handled h env ev out"
      using forward_step_goes_on step True by blast
    from Cons.IH [OF rest] show ?thesis
    proof (elim disjE conjE exE)
      fix outs
      assume "r = Ok True" "tr' = tr1 @ outs" "list_all2 (handled h env) evs outs"
      with out show ?thesis by (intro disjI1 conjI exI [of _ "out # outs"]) auto
    next
      fix k outs last
      assume "k < length evs" "tr' = tr1 @ outs @ last"
        "list_all2 (handled h env) (take k evs) outs" "stops env (evs ! k) r last"
      with out show ?thesis
        by (intro disjI2 exI [of _ "Suc k"] exI [of _ "out # outs"] exI [of _ last]) auto
    qed
  next
    case False
    with step Cons.prems have "r = r1" "tr' = tr1"
      by (auto simp: bindE_def ret_def split: res.splits if_splits)
    moreover obtain outs where "tr1 = tr @ outs" "stops env ev r1 outs"
      using forward_step_stops [OF step False] by blast
    ultimately show ?thesis
      by (intro disjI2 exI [of _ 0] exI [of _ "[]"] exI [of _ outs]) auto
  qed
qed

lemma forward_step_no_panic: "fst (forward_step h ev env tr) \<noteq> Panic s"
  by (induction h ev rule: forward_step.induct)
     (auto simp: prog_defs serial_send_def of_result_def split: if_splits sum.splits prod.splits)

lemma forward_messages_no_panic: "fst (forward_messages h evs env tr) \<noteq> Panic s"
proof (induction evs arbitrary: tr)
  case Nil
  show ?case by (simp add: ret_def)
next
  case (Cons ev evs)
  then show ?case
    using forward_step_no_panic [of h ev env tr s]
    by (auto simp: bindE_def ret_def split: prod.splits res.splits)
qed

section \<open>Setting up the two ends\<close>

text \<open>
  The state a forwarding task and its channels start with: whether received handshakes go to a
  connection handle (\<open>handshake_fwd\<close>), the handshakes waiting to be sent (one is queued before the
  task starts), and the initial connected state of the codec.
\<close>

record transport_setup =
  ts_handshake_fwd :: bool
  ts_queued_shakes :: nat
  ts_connected :: bool

definition create_server_transports :: transport_setup where
  "create_server_transports = \<lparr>ts_handshake_fwd = False, ts_queued_shakes = 1, ts_connected = True\<rparr>"

definition create_client_transports :: transport_setup where
  "create_client_transports = \<lparr>ts_handshake_fwd = True, ts_queued_shakes = 1, ts_connected = False\<rparr>"

section \<open>Two forwarders and two wires\<close>

text \<open>
  An end of the line: the handshakes queued to be sent, those handed to the connection handle, what
  was delivered to and taken from the runner and daemon channels, and whether its task still runs.
\<close>

record ('t, 's) endpoint =
  ep_shakes :: nat
  ep_forwarded :: nat
  ep_runner_rx :: "'s list"
  ep_runner_tx :: "'t list"
  ep_daemon_rx :: "bytes list"
  ep_daemon_tx :: "bytes list"
  ep_running :: bool

definition endpoint_start :: "transport_setup \<Rightarrow> ('t, 's) endpoint" where
  "endpoint_start cfg = \<lparr>ep_shakes = ts_queued_shakes cfg, ep_forwarded = 0, ep_runner_rx = [],
     ep_runner_tx = [], ep_daemon_rx = [], ep_daemon_tx = [], ep_running = True\<rparr>"

text \<open>Taking an event from its channel; \<open>wire\<close> holds the frames that arrive.\<close>

fun consume ::
  "'t fwd_event \<Rightarrow> ('t, 's) endpoint \<Rightarrow> frame list \<Rightarrow> (('t, 's) endpoint \<times> frame list) option" where
  "consume (SerialFrame (Inr f)) ep (g # wire) = (if f = g then Some (ep, wire) else None)"
| "consume ShakeQueued ep wire =
     (if 0 < ep_shakes ep then Some (ep\<lparr>ep_shakes := ep_shakes ep - 1\<rparr>, wire) else None)"
| "consume (RunnerMessage (Inr m)) ep wire = Some (ep\<lparr>ep_runner_tx := ep_runner_tx ep @ [m]\<rparr>, wire)"
| "consume (DaemonData (Inr data)) ep wire =
     Some (ep\<lparr>ep_daemon_tx := ep_daemon_tx ep @ [data]\<rparr>, wire)"
| "consume DaemonClosed ep wire = Some (ep\<lparr>ep_daemon_tx := ep_daemon_tx ep @ [[]]\<rparr>, wire)"
| "consume _ ep wire = None"

text \<open>The effect of an output on the end's own channels, and on the outgoing wire.\<close>

fun deliver :: "'s fwd_out \<Rightarrow> ('t, 's) endpoint \<times> frame list \<Rightarrow> ('t, 's) endpoint \<times> frame list" where
  "deliver (ToRunner m (Inr ())) (ep, w) = (ep\<lparr>ep_runner_rx := ep_runner_rx ep @ [m]\<rparr>, w)"
| "deliver (ToDaemon data (Inr ())) (ep, w) = (ep\<lparr>ep_daemon_rx := ep_daemon_rx ep @ [data]\<rparr>, w)"
| "deliver (ToSerial f (Inr ())) (ep, w) = (ep, w @ [f])"
| "deliver ForwardShake (ep, w) = (ep\<lparr>ep_forwarded := ep_forwarded ep + 1\<rparr>, w)"
| "deliver QueueShake (ep, w) = (ep\<lparr>ep_shakes := ep_shakes ep + 1\<rparr>, w)"
| "deliver _ (ep, w) = (ep, w)"

definition endpoint_step ::
  "bool \<Rightarrow> ('t, 's) fwd_env \<Rightarrow> 't fwd_event \<Rightarrow> ('t, 's) endpoint \<Rightarrow> frame list \<Rightarrow>
     ('t, 's) endpoint \<times> frame list" where
  "endpoint_step h env ev ep out_wire =
     (case forward_step h ev env [] of
        (r, outs) \<Rightarrow> (case fold deliver outs (ep, out_wire) of
           (ep, w) \<Rightarrow> (ep\<lparr>ep_running := (r = Ok True)\<rparr>, w)))"

text \<open>Channels that accept everything, around given serialisation functions.\<close>

definition open_env :: "('t \<Rightarrow> bytes) \<Rightarrow> (bytes \<Rightarrow> string + 's) \<Rightarrow> ('t, 's) fwd_env" where
  "open_env enc dec = \<lparr>from_slice = dec, to_vec = (\<lambda>m. Inr (enc m)),
     send_runner = (\<lambda>_ _. Inr ()), send_daemon = (\<lambda>_ _. Inr ()), send_serial = (\<lambda>_ _. Inr ())\<rparr>"

record ('q, 'p) net =
  client :: "('q, 'p) endpoint"
  server :: "('p, 'q) endpoint"
  c2s :: "frame list"
  s2c :: "frame list"

record ('q, 'p) json =
  enc_q :: "'q \<Rightarrow> bytes"
  dec_q :: "bytes \<Rightarrow> string + 'q"
  enc_p :: "'p \<Rightarrow> bytes"
  dec_p :: "bytes \<Rightarrow> string + 'p"

inductive net_step :: "('q, 'p) json \<Rightarrow> ('q, 'p) net \<Rightarrow> ('q, 'p) net \<Rightarrow> bool" for j where
  client_event:
    "ep_running (client n) \<Longrightarrow> consume ev (client n) (s2c n) = Some (ep, wire) \<Longrightarrow>
     endpoint_step (ts_handshake_fwd create_client_transports) (open_env (enc_q j) (dec_p j)) ev
       ep (c2s n) = (ep', out) \<Longrightarrow>
     net_step j n (n\<lparr>client := ep', c2s := out, s2c := wire\<rparr>)"
| server_event:
    "ep_running (server n) \<Longrightarrow> consume ev (server n) (c2s n) = Some (ep, wire) \<Longrightarrow>
     endpoint_step (ts_handshake_fwd create_server_transports) (open_env (enc_p j) (dec_q j)) ev
       ep (s2c n) = (ep', out) \<Longrightarrow>
     net_step j n (n\<lparr>server := ep', s2c := out, c2s := wire\<rparr>)"

definition net_start :: "('q, 'p) net" where
  "net_start = \<lparr>client = endpoint_start create_client_transports,
     server = endpoint_start create_server_transports, c2s = [], s2c = []\<rparr>"

definition net_reach :: "('q, 'p) json \<Rightarrow> ('q, 'p) net \<Rightarrow> bool" where
  "net_reach j n \<longleftrightarrow> (net_step j)\<^sup>*\<^sup>* net_start n"

subsection \<open>Views of a wire\<close>

definition shakes :: "frame list \<Rightarrow> nat" where
  "shakes w = length (filter (\<lambda>f. f = Handshake) w)"

fun daemon_payloads :: "frame list \<Rightarrow> bytes list" where
  "daemon_payloads [] = []"
| "daemon_payloads (DaemonRpc data # w) = data # daemon_payloads w"
| "daemon_payloads (_ # w) = daemon_payloads w"

fun runner_payloads :: "frame list \<Rightarrow> bytes list" where
  "runner_payloads [] = []"
| "runner_payloads (TestRunner data # w) = data # runner_payloads w"
| "runner_payloads (_ # w) = runner_payloads w"

lemma shakes_simps [simp]:
  "shakes [] = 0" "shakes (v @ w) = shakes v + shakes w"
  "shakes (f # w) = (if f = Handshake then 1 else 0) + shakes w"
  by (simp_all add: shakes_def)

lemma daemon_payloads_append [simp]: "daemon_payloads (v @ w) = daemon_payloads v @ daemon_payloads w"
  by (induction v rule: daemon_payloads.induct) auto

lemma runner_payloads_append [simp]: "runner_payloads (v @ w) = runner_payloads v @ runner_payloads w"
  by (induction v rule: runner_payloads.induct) auto

text \<open>Handshakes still to be handled, weighted by the hops they have left.\<close>

definition handshake_work :: "('q, 'p) net \<Rightarrow> nat" where
  "handshake_work n = 4 * ep_shakes (client n) + 3 * shakes (c2s n)
     + 2 * ep_shakes (server n) + shakes (s2c n)"

definition conserved :: "('q, 'p) net \<Rightarrow> bool" where
  "conserved n \<longleftrightarrow> ep_shakes (client n) + shakes (c2s n) + ep_shakes (server n) + shakes (s2c n)
     + ep_forwarded (client n) = 2"

text \<open>
  What one direction has carried: everything sent has been delivered or is in flight, in order, and
  the two kinds of traffic are not mixed.
\<close>

definition carried :: "('t \<Rightarrow> bytes) \<Rightarrow> ('t, 'x) endpoint \<Rightarrow> frame list \<Rightarrow> ('y, 't) endpoint \<Rightarrow> bool" where
  "carried enc sender wire receiver \<longleftrightarrow>
     (\<exists>rest. ep_runner_tx sender = ep_runner_rx receiver @ rest \<and> runner_payloads wire = map enc rest) \<and>
     ep_daemon_tx sender = ep_daemon_rx receiver @ daemon_payloads wire"

subsection \<open>The moves of an end\<close>

lemma endpoint_moves:
  assumes "consume ev ep0 win = Some (ep, wire)"
    and "endpoint_step h (open_env enc dec) ev ep out = (ep', out')"
  obtains
    (shake_in) "win = Handshake # wire" "out' = out" "ep' = (if h
        then ep0\<lparr>ep_forwarded := ep_forwarded ep0 + 1, ep_running := True\<rparr>
        else ep0\<lparr>ep_shakes := ep_shakes ep0 + 1, ep_running := True\<rparr>)"
  | (runner_in) d m where "win = TestRunner d # wire" "dec d = Inr m" "out' = out"
      "ep' = ep0\<lparr>ep_runner_rx := ep_runner_rx ep0 @ [m], ep_running := True\<rparr>"
  | (runner_bad) d e where "win = TestRunner d # wire" "dec d = Inl e" "out' = out"
      "ep' = ep0\<lparr>ep_running := False\<rparr>"
  | (daemon_in) d where "win = DaemonRpc d # wire" "out' = out"
      "ep' = ep0\<lparr>ep_daemon_rx := ep_daemon_rx ep0 @ [d], ep_running := True\<rparr>"
  | (shake_out) "win = wire" "0 < ep_shakes ep0" "out' = out @ [Handshake]"
      "ep' = ep0\<lparr>ep_shakes := ep_shakes ep0 - 1, ep_running := True\<rparr>"
  | (runner_out) m where "win = wire" "out' = out @ [TestRunner (enc m)]"
      "ep' = ep0\<lparr>ep_runner_tx := ep_runner_tx ep0 @ [m], ep_running := True\<rparr>"
  | (daemon_out) d b where "win = wire" "out' = out @ [DaemonRpc d]"
      "ep' = ep0\<lparr>ep_daemon_tx := ep_daemon_tx ep0 @ [d], ep_running := b\<rparr>"
proof -
  note defs = endpoint_step_def open_env_def prog_defs of_result_def serial_send_def
  show thesis
  proof (rule consume.elims [OF assms(1)])
    fix f epa g w
    assume eqs: "ev = SerialFrame (Inr f)" "ep0 = epa" "win = g # w"
      "Some (ep, wire) = (if f = g then Some (epa, w) else None)"
    then have "f = g" "ep = ep0" "w = wire" by (auto split: if_splits)
    with assms(2) eqs show thesis
      by (cases f) (auto simp: defs split: if_splits sum.splits
          intro: shake_in runner_in runner_bad daemon_in)
  qed (use assms(2) in \<open>auto simp: defs split: if_splits intro: shake_out runner_out daemon_out\<close>)
qed

subsection \<open>Invariants of the pair\<close>

lemmas setup_defs = create_client_transports_def create_server_transports_def

lemma net_step_conserved: "net_step j n n' \<Longrightarrow> conserved n \<Longrightarrow> conserved n'"
proof (induction rule: net_step.induct)
  case (client_event n ev ep wire ep' out)
  from client_event.hyps(2,3) show ?case
    by (rule endpoint_moves) (use client_event.prems in \<open>auto simp: conserved_def setup_defs\<close>)
next
  case (server_event n ev ep wire ep' out)
  from server_event.hyps(2,3) show ?case
    by (rule endpoint_moves) (use server_event.prems in \<open>auto simp: conserved_def setup_defs\<close>)
qed

lemma net_step_work: "net_step j n n' \<Longrightarrow> handshake_work n' \<le> handshake_work n"
proof (induction rule: net_step.induct)
  case (client_event n ev ep wire ep' out)
  from client_event.hyps(2,3) show ?case
    by (rule endpoint_moves) (auto simp: handshake_work_def setup_defs)
next
  case (server_event n ev ep wire ep' out)
  from server_event.hyps(2,3) show ?case
    by (rule endpoint_moves) (auto simp: handshake_work_def setup_defs)
qed

definition json_roundtrip :: "('q, 'p) json \<Rightarrow> bool" where
  "json_roundtrip j \<longleftrightarrow> (\<forall>m. dec_q j (enc_q j m) = Inr m) \<and> (\<forall>m. dec_p j (enc_p j m) = Inr m)"

definition net_carried :: "('q, 'p) json \<Rightarrow> ('q, 'p) net \<Rightarrow> bool" where
  "net_carried j n \<longleftrightarrow> carried (enc_q j) (client n) (c2s n) (server n) \<and>
     carried (enc_p j) (server n) (s2c n) (client n)"

lemma net_step_carried:
  "net_step j n n' \<Longrightarrow> json_roundtrip j \<Longrightarrow> net_carried j n \<Longrightarrow> net_carried j n'"
proof (induction rule: net_step.induct)
  case (client_event n ev ep wire ep' out)
  from client_event.hyps(2,3) show ?case
    by (rule endpoint_moves)
       (use client_event.prems in
         \<open>auto simp: net_carried_def carried_def json_roundtrip_def Cons_eq_map_conv setup_defs\<close>)
next
  case (server_event n ev ep wire ep' out)
  from server_event.hyps(2,3) show ?case
    by (rule endpoint_moves)
       (use server_event.prems in
         \<open>auto simp: net_carried_def carried_def json_roundtrip_def Cons_eq_map_conv setup_defs\<close>)
qed

lemma net_reach_conserved: "net_reach j n \<Longrightarrow> conserved n"
  unfolding net_reach_def
  by (induction rule: rtranclp_induct)
     (auto simp: net_start_def endpoint_start_def setup_defs conserved_def intro: net_step_conserved
        [unfolded conserved_def])

lemma net_reach_work: "net_reach j n \<Longrightarrow> handshake_work n \<le> 6"
  unfolding net_reach_def
proof (induction rule: rtranclp_induct)
  case base
  show ?case by (simp add: handshake_work_def net_start_def endpoint_start_def setup_defs)
next
  case (step y z)
  then show ?case using net_step_work [of j y z] by linarith
qed

lemma net_reach_carried: "net_reach j n \<Longrightarrow> json_roundtrip j \<Longrightarrow> net_carried j n"
  unfolding net_reach_def
proof (induction rule: rtranclp_induct)
  case base
  show ?case by (simp add: net_carried_def carried_def net_start_def endpoint_start_def setup_defs)
next
  case (step y z)
  then show ?case by (blast intro: net_step_carried)
qed

text \<open>The handshakes as a step sees them.\<close>

definition handshake_view :: "('q, 'p) net \<Rightarrow> nat list" where
  "handshake_view n = [ep_shakes (client n), shakes (c2s n), ep_shakes (server n), shakes (s2c n),
     ep_forwarded (client n)]"

lemma net_step_view:
  "net_step j n n' \<Longrightarrow> handshake_view n' = handshake_view n \<or> handshake_work n' < handshake_work n"
proof (induction rule: net_step.induct)
  case (client_event n ev ep wire ep' out)
  from client_event.hyps(2,3) show ?case
    by (rule endpoint_moves) (auto simp: handshake_work_def handshake_view_def setup_defs)
next
  case (server_event n ev ep wire ep' out)
  from server_event.hyps(2,3) show ?case
    by (rule endpoint_moves) (auto simp: handshake_work_def handshake_view_def setup_defs)
qed

section \<open>Properties\<close>

text \<open>
  C10.  The forwarding loop handles the events it sees one by one and in order, each with exactly
  its own effect: a frame goes to the channel its type names, a message or a chunk of daemon data
  becomes one frame, a handshake is forwarded or answered.  It stops at the first event that closes
  a channel or fails; after that nothing is touched.  It never panics.
\<close>

theorem forwarding_is_exact:
  "(fst (forward_messages h evs env tr) = Ok True \<and>
      (\<exists>outs. snd (forward_messages h evs env tr) = tr @ outs \<and> list_all2 (handled h env) evs outs)) \<or>
   (\<exists>k outs last. k < length evs \<and> snd (forward_messages h evs env tr) = tr @ outs @ last \<and>
      list_all2 (handled h env) (take k evs) outs \<and>
      stops env (evs ! k) (fst (forward_messages h evs env tr)) last)"
  using forward_messages_split [of h evs env tr] by (metis prod.collapse)

text \<open>
  C2.  Whatever order the two ends work in, the requests, responses and daemon data taken from the
  channels of one end are delivered to the same channels of the other end: what has arrived is a
  prefix of what was sent and the rest is in flight on the wire, for both directions and both kinds
  of traffic, provided that serialisation can be undone.
\<close>

theorem traffic_is_carried:
  assumes "net_reach j n" "json_roundtrip j"
  shows "carried (enc_q j) (client n) (c2s n) (server n) \<and>
     carried (enc_p j) (server n) (s2c n) (client n)"
  using net_reach_carried [OF assms] by (simp_all add: net_carried_def)

text \<open>A run: the manager sends a request, its handshake and daemon data; the runner answers.\<close>

definition demo_json :: "(bytes, bytes) json" where
  "demo_json = \<lparr>enc_q = id, dec_q = Inr, enc_p = id, dec_p = Inr\<rparr>"

definition demo_net :: "(bytes, bytes) net" where
  "demo_net = \<lparr>
     client = \<lparr>ep_shakes = 0, ep_forwarded = 0, ep_runner_rx = [], ep_runner_tx = [[7]],
       ep_daemon_rx = [], ep_daemon_tx = [[8, 9]], ep_running = True\<rparr>,
     server = \<lparr>ep_shakes = 2, ep_forwarded = 0, ep_runner_rx = [[7]], ep_runner_tx = [],
       ep_daemon_rx = [], ep_daemon_tx = [], ep_running = True\<rparr>,
     c2s = [DaemonRpc [8, 9]], s2c = []\<rparr>"

fun run_net ::
  "('q, 'p) json \<Rightarrow> ('q fwd_event + 'p fwd_event) list \<Rightarrow> ('q, 'p) net \<Rightarrow> ('q, 'p) net option" where
  "run_net j [] n = Some n"
| "run_net j (Inl ev # evs) n = (if \<not> ep_running (client n) then None else
     case consume ev (client n) (s2c n) of None \<Rightarrow> None
     | Some (ep, wire) \<Rightarrow> (case endpoint_step (ts_handshake_fwd create_client_transports)
           (open_env (enc_q j) (dec_p j)) ev ep (c2s n) of
         (ep', out) \<Rightarrow> run_net j evs (n\<lparr>client := ep', c2s := out, s2c := wire\<rparr>)))"
| "run_net j (Inr ev # evs) n = (if \<not> ep_running (server n) then None else
     case consume ev (server n) (c2s n) of None \<Rightarrow> None
     | Some (ep, wire) \<Rightarrow> (case endpoint_step (ts_handshake_fwd create_server_transports)
           (open_env (enc_p j) (dec_q j)) ev ep (s2c n) of
         (ep', out) \<Rightarrow> run_net j evs (n\<lparr>server := ep', s2c := out, c2s := wire\<rparr>)))"

lemma net_reach_step: "net_reach j n \<Longrightarrow> net_step j n n' \<Longrightarrow> net_reach j n'"
  unfolding net_reach_def by (rule rtranclp.rtrancl_into_rtrancl)

lemma run_net_reach: "run_net j evs n = Some n' \<Longrightarrow> net_reach j n \<Longrightarrow> net_reach j n'"
proof (induction evs arbitrary: n)
  case (Cons e evs)
  then show ?case
    by (cases e) (auto split: if_splits option.splits prod.splits
        intro: Cons.IH net_reach_step [OF Cons.prems(2)] client_event server_event)
qed simp

lemmas net_eval = demo_json_def net_start_def endpoint_start_def setup_defs endpoint_step_def
  open_env_def prog_defs of_result_def serial_send_def

lemma demo_net_reach: "net_reach demo_json demo_net"
proof -
  have "run_net demo_json [Inl ShakeQueued, Inl (RunnerMessage (Inr [7])),
      Inl (DaemonData (Inr [8, 9])), Inr (SerialFrame (Inr Handshake)),
      Inr (SerialFrame (Inr (TestRunner [7])))] net_start = Some demo_net"
    by (simp add: net_eval demo_net_def)
  then show ?thesis by (rule run_net_reach) (simp add: net_reach_def)
qed

theorem traffic_is_carried_witness:
  "net_reach demo_json demo_net \<and> json_roundtrip demo_json \<and>
   carried id (client demo_net) [DaemonRpc [8, 9]] (server demo_net)"
proof -
  have j: "json_roundtrip demo_json" by (simp add: json_roundtrip_def demo_json_def)
  from traffic_is_carried [OF demo_net_reach j] j demo_net_reach show ?thesis
    by (simp add: demo_json_def) (simp add: demo_net_def)
qed

text \<open>
  C15.  The two ends do not answer each other's handshakes forever.  At most two handshakes ever
  reach the manager's connection handle, the work left is at most six hops, every step leaves all
  handshakes alone or takes one hop closer, and when no hops are left both have arrived.
\<close>

theorem handshakes_settle:
  assumes "net_reach j n"
  shows "ep_forwarded (client n) \<le> 2 \<and> handshake_work n \<le> 6 \<and>
     (\<forall>n'. net_step j n n' \<longrightarrow>
        handshake_view n' = handshake_view n \<or> handshake_work n' < handshake_work n) \<and>
     (handshake_work n = 0 \<longleftrightarrow> ep_forwarded (client n) = 2)"
  using net_reach_conserved [OF assms] net_reach_work [OF assms] net_step_view [of j n]
  by (auto simp: conserved_def handshake_work_def)

theorem handshakes_settle_witness: "net_reach demo_json demo_net \<and> handshake_work demo_net = 4"
  using handshakes_settle [OF demo_net_reach] demo_net_reach
  by (simp add: handshake_work_def demo_net_def)

end
