(* ===== verification/Rpc_Types.thy ===== *)
theory Rpc_Types
  imports Prelude
begin

text \<open>
  The data types that test manager and test runner share (crate \<open>test-rpc\<close>): errors, interfaces,
  process results, log records, service states, and network addresses of the standard library.
\<close>

section \<open>Network addresses (std::net)\<close>

datatype ip_addr = V4 byte byte byte byte | V6 "16 word list"

record socket_addr =
  sock_ip :: ip_addr
  sock_port :: "16 word"

text \<open>
  \<open>Display\<close> of an address: dotted decimal; for IPv6, lower-case hexadecimal groups with the first
  longest run of at least two zero groups written as \<open>::\<close>, and IPv4-mapped addresses as such.
\<close>

definition hex_digit :: "nat \<Rightarrow> char" where
  "hex_digit n = (if n < 10 then char_of (48 + n) else char_of (87 + n))"

fun show_hex :: "nat \<Rightarrow> string" where
  "show_hex n = (if n < 16 then [hex_digit n] else show_hex (n div 16) @ [hex_digit (n mod 16)])"

declare show_hex.simps [simp del]

fun join :: "'a list \<Rightarrow> 'a list list \<Rightarrow> 'a list" where
  "join sep [] = []"
| "join sep [x] = x"
| "join sep (x # xs) = x @ sep @ join sep xs"

definition show_v4 :: "byte \<Rightarrow> byte \<Rightarrow> byte \<Rightarrow> byte \<Rightarrow> string" where
  "show_v4 a b c d = join ''.'' (map (\<lambda>x. show_nat (unat x)) [a, b, c, d])"

definition zero_run :: "16 word list \<Rightarrow> nat \<Rightarrow> nat" where
  "zero_run segs i = length (takeWhile (\<lambda>x. x = 0) (drop i segs))"

definition longest_zero_run :: "16 word list \<Rightarrow> nat \<times> nat" where
  "longest_zero_run segs = fold (\<lambda>i (start, len).
     if zero_run segs i > len then (i, zero_run segs i) else (start, len)) [0..<length segs] (0, 0)"

definition show_segments :: "16 word list \<Rightarrow> string" where
  "show_segments segs = join '':'' (map (\<lambda>x. show_hex (unat x)) segs)"

definition show_v6 :: "16 word list \<Rightarrow> string" where
  "show_v6 segs =
    (if length segs = 8 \<and> take 6 segs = [0, 0, 0, 0, 0, 0xFFFF]
     then ''::ffff:'' @ show_v4 (ucast (drop_bit 8 (segs ! 6))) (ucast (segs ! 6))
            (ucast (drop_bit 8 (segs ! 7))) (ucast (segs ! 7))
     else let (start, len) = longest_zero_run segs
       in if len > 1 then show_segments (take start segs) @ ''::'' @ show_segments (drop (start + len) segs)
          else show_segments segs)"

primrec ip_display :: "ip_addr \<Rightarrow> string" where
  "ip_display (V4 a b c d) = show_v4 a b c d"
| "ip_display (V6 segs) = show_v6 segs"

primrec is_ipv4 :: "ip_addr \<Rightarrow> bool" where
  "is_ipv4 (V4 a b c d) = True"
| "is_ipv4 (V6 segs) = False"

section \<open>Log levels (crate log)\<close>

datatype level = LError | LWarn | LInfo | LDebug | LTrace

text \<open>The \<open>log\<close> facade: whether a logger is installed, and the most verbose level that is passed on.\<close>

record log_facade =
  lf_logger_set :: bool
  lf_max_level :: "level option"

text \<open>\<open>log::Level\<close> is ordered from \<open>Error\<close> (least) to \<open>Trace\<close>.\<close>

primrec level_rank :: "level \<Rightarrow> nat" where
  "level_rank LError = 1"
| "level_rank LWarn = 2"
| "level_rank LInfo = 3"
| "level_rank LDebug = 4"
| "level_rank LTrace = 5"

instantiation level :: linorder
begin

definition less_eq_level :: "level \<Rightarrow> level \<Rightarrow> bool" where
  "less_eq_level a b \<longleftrightarrow> level_rank a \<le> level_rank b"

definition less_level :: "level \<Rightarrow> level \<Rightarrow> bool" where
  "less_level a b \<longleftrightarrow> level_rank a < level_rank b"

instance
proof
  fix a b :: level
  show "a \<le> b \<Longrightarrow> b \<le> a \<Longrightarrow> a = b"
    unfolding less_eq_level_def by (cases a; cases b) simp_all
qed (auto simp: less_eq_level_def less_level_def)

end

section \<open>test-rpc/src/package.rs\<close>

datatype package_error =
    OpenFile | WriteFile | ToBytes | RequestFailed | InvalidVersion | RunApp
  | CreateTempUninstaller | InstallerFailed int | InstallerFailedSignal | UnknownOs string

record package =
  pkg_path :: string

section \<open>test-rpc/src/logging.rs\<close>

datatype logging_error = StandardOutput | Logs string

datatype log_line = OutError string | OutWarning string | OutInfo string | OutOther string

record log_file =
  lf_name :: string
  lf_content :: string

record log_output =
  settings_json :: "logging_error + string"
  log_files :: "logging_error + (logging_error + log_file) list"

section \<open>test-rpc/src/mullvad_daemon.rs and meta.rs\<close>

datatype service_status = NotRunning | Running

datatype verbosity = Info | Debug | Trace

datatype mullvad_client_version = VersionNone | VersionNew | VersionPrevious

datatype os = Linux | Macos | Windows

primrec os_display :: "os \<Rightarrow> string" where
  "os_display Linux = ''Linux''"
| "os_display Macos = ''macOS''"
| "os_display Windows = ''Windows''"

section \<open>test-rpc/src/lib.rs\<close>

text \<open>The payload of \<open>Error::Tarpc\<close> is an error value of the \<open>tarpc\<close> library, kept as text.\<close>

datatype error =
    Tarpc string | Syscall | InterfaceNotFound | HttpRequest string | DeserializeBody
  | DnsResolution | TestRunnerTimeout | Package package_error | Logger logging_error
  | SendUdp | SendTcp | Ping | Registry string | Service string | FileSystem string
  | FileSerialization string | UserNotLoggedIn string | InvalidUrl | Timeout

datatype interface = Tunnel | NonTunnel

record am_i_mullvad =
  am_ip :: ip_addr
  mullvad_exit_ip :: bool
  mullvad_exit_ip_hostname :: string

record exec_result =
  code :: "int option"
  exec_stdout :: bytes
  exec_stderr :: bytes

definition exec_success :: "exec_result \<Rightarrow> bool" where
  "exec_success r = (code r = Some 0)"

datatype app_trace = TracePath string

text \<open>The requests of \<open>trait Service\<close>, one constructor per method.\<close>

datatype rpc_request =
    InstallApp package
  | UninstallApp "(string \<times> string) list"
  | Exec string "string list" "(string \<times> string) list"
  | PollOutput
  | TryPollOutput
  | GetMullvadAppLogs
  | GetOs
  | MullvadDaemonGetStatus
  | FindMullvadAppTraces
  | SendTcpReq "interface option" socket_addr socket_addr
  | SendUdpReq "interface option" socket_addr socket_addr
  | SendPingReq "interface option" ip_addr
  | GeoipLookup string
  | GetInterfaceName interface
  | GetInterfaceIp interface
  | ResolveHostname string
  | SetDaemonLogLevel verbosity
  | SetDaemonEnvironment "(string \<times> string) list"
  | CopyFile string string
  | Reboot
  | SetMullvadDaemonServiceState bool
  | MakeDeviceJsonOld

end
