(* ===== verification/Connection.thy ===== *)
theory Connection
  imports Rpc_Types "HOL-Library.While_Combinator"
begin

text \<open>
  \<open>ConnectionHandle\<close> of \<open>test-rpc/src/transport.rs\<close>: the manager's view of whether the runner has
  greeted it.  Handshakes that the forwarder receives are queued in a channel of the \<open>futures\<close>
  crate; the channel is a parameter \<open>'q\<close> with its receive operations, and the locale
  \<open>handshake_channel\<close> states what the crate documents about them.
\<close>

section \<open>The handle\<close>

text \<open>Answers of \<open>UnboundedReceiver::try_next\<close>: \<open>Ok(Some(()))\<close>, \<open>Ok(None)\<close>, \<open>Err(_)\<close>.\<close>

datatype try_next_result = TnItem | TnClosed | TnEmpty

text \<open>Answers of \<open>timeout(CONNECT_TIMEOUT, rx.next())\<close>: \<open>Err(Elapsed)\<close> or \<open>Ok(item)\<close>.\<close>

datatype next_result = Elapsed | Next "unit option"

record 'q connection_handle =
  handshake_fwd_rx :: 'q
  is_connected :: bool
  reset_notify :: nat

text \<open>\<open>ConnectionHandle::new\<close>; \<open>reset_notify\<close> counts the calls to \<open>notify_waiters\<close>.\<close>

definition connection_handle_new :: "'q \<Rightarrow> 'q connection_handle" where
  "connection_handle_new rx = \<lparr>handshake_fwd_rx = rx, is_connected = False, reset_notify = 0\<rparr>"

definition wait_for_server ::
  "('q \<Rightarrow> next_result \<times> 'q) \<Rightarrow> 'q connection_handle \<Rightarrow> (error + unit) \<times> 'q connection_handle" where
  "wait_for_server next_within self =
    (case next_within (handshake_fwd_rx self) of
       (Next _, rx) \<Rightarrow> (Inr (), self\<lparr>handshake_fwd_rx := rx\<rparr>)
     | (Elapsed, rx) \<Rightarrow> (Inl TestRunnerTimeout, self\<lparr>handshake_fwd_rx := rx\<rparr>))"

text \<open>
  \<open>reset_connected_state\<close>: the \<open>while let Ok(Some(_)) = handshake_fwd.try_next() {}\<close> loop, then
  the flag is cleared and waiters are notified.  \<open>None\<close> would be a loop that never ends.
\<close>

definition reset_connected_state ::
  "('q \<Rightarrow> try_next_result \<times> 'q) \<Rightarrow> 'q connection_handle \<Rightarrow> 'q connection_handle option" where
  "reset_connected_state try_next self =
    (case while_option (\<lambda>(r, rx). r = TnItem) (\<lambda>(r, rx). try_next rx)
            (try_next (handshake_fwd_rx self)) of
       None \<Rightarrow> None
     | Some (r, rx) \<Rightarrow> Some (self\<lparr>handshake_fwd_rx := rx, is_connected := False,
                                  reset_notify := reset_notify self + 1\<rparr>))"

section \<open>The channel contract\<close>

locale handshake_channel =
  fixes try_next :: "'q \<Rightarrow> try_next_result \<times> 'q"
    and next_within :: "'q \<Rightarrow> next_result \<times> 'q"
    and queued :: "'q \<Rightarrow> nat"
    and closed :: "'q \<Rightarrow> bool"
    and arrives :: "'q \<Rightarrow> bool"
  assumes try_item: "0 < queued q \<Longrightarrow> fst (try_next q) = TnItem \<and>
            queued (snd (try_next q)) = queued q - 1 \<and> closed (snd (try_next q)) = closed q"
    and try_none: "queued q = 0 \<Longrightarrow> fst (try_next q) = (if closed q then TnClosed else TnEmpty) \<and>
            queued (snd (try_next q)) = 0 \<and> closed (snd (try_next q)) = closed q \<and>
            arrives (snd (try_next q)) = arrives q"
    and try_item_arrives: "0 < queued q \<Longrightarrow> arrives (snd (try_next q)) = arrives q"
    and next_item: "0 < queued q \<Longrightarrow> fst (next_within q) = Next (Some ())"
    and next_closed: "queued q = 0 \<Longrightarrow> closed q \<Longrightarrow> fst (next_within q) = Next None"
    and next_open: "queued q = 0 \<Longrightarrow> \<not> closed q \<Longrightarrow>
            fst (next_within q) = (if arrives q then Next (Some ()) else Elapsed)"
begin

lemma drain_stops:
  "\<exists>r rx. while_option (\<lambda>(r, rx). r = TnItem) (\<lambda>(r, rx). try_next rx) (try_next q) = Some (r, rx) \<and>
     queued rx = 0 \<and> closed rx = closed q \<and> arrives rx = arrives q"
proof (induction "queued q" arbitrary: q rule: less_induct)
  case less
  show ?case
  proof (cases "0 < queued q")
    case True
    obtain r q' where q': "try_next q = (r, q')" by fastforce
    with try_item [OF True] try_item_arrives [OF True] True
    have "r = TnItem" "queued q' < queued q" "closed q' = closed q" "arrives q' = arrives q" by auto
    with less [of q'] q' show ?thesis by (subst while_option_unfold) auto
  next
    case False
    obtain r q' where q': "try_next q = (r, q')" by fastforce
    with try_none [of q] False
    have "r \<noteq> TnItem" "queued q' = 0" "closed q' = closed q" "arrives q' = arrives q"
      by (auto split: if_splits)
    with q' show ?thesis by (subst while_option_unfold) auto
  qed
qed

lemma reset_then_wait:
  "\<exists>self'. reset_connected_state try_next self = Some self' \<and> \<not> is_connected self' \<and>
     reset_notify self' = reset_notify self + 1 \<and>
     (fst (wait_for_server next_within self') = Inr () \<longleftrightarrow>
        closed (handshake_fwd_rx self) \<or> arrives (handshake_fwd_rx self))"
proof -
  obtain r rx where rx: "while_option (\<lambda>(r, rx). r = TnItem) (\<lambda>(r, rx). try_next rx)
      (try_next (handshake_fwd_rx self)) = Some (r, rx)" "queued rx = 0"
      "closed rx = closed (handshake_fwd_rx self)" "arrives rx = arrives (handshake_fwd_rx self)"
    using drain_stops [of "handshake_fwd_rx self"] by blast
  let ?self' = "self\<lparr>handshake_fwd_rx := rx, is_connected := False,
                     reset_notify := reset_notify self + 1\<rparr>"
  have "reset_connected_state try_next self = Some ?self'"
    using rx(1) by (simp add: reset_connected_state_def)
  moreover have "fst (wait_for_server next_within ?self') = Inr () \<longleftrightarrow> closed rx \<or> arrives rx"
    using next_closed [OF rx(2)] next_open [OF rx(2)]
    by (cases "closed rx"; cases "next_within rx")
       (auto simp: wait_for_server_def split: next_result.splits if_splits)
  ultimately show ?thesis using rx by auto
qed

end

text \<open>An unbounded channel: a number of queued handshakes and whether its senders are gone;
  \<open>ch_arrives\<close> says whether a handshake will come before the timeout.\<close>

record handshake_queue =
  ch_queued :: nat
  ch_closed :: bool
  ch_arrives :: bool

definition queue_try_next :: "handshake_queue \<Rightarrow> try_next_result \<times> handshake_queue" where
  "queue_try_next q = (if 0 < ch_queued q then (TnItem, q\<lparr>ch_queued := ch_queued q - 1\<rparr>)
     else (if ch_closed q then TnClosed else TnEmpty, q))"

definition queue_next_within :: "handshake_queue \<Rightarrow> next_result \<times> handshake_queue" where
  "queue_next_within q = (if 0 < ch_queued q then (Next (Some ()), q\<lparr>ch_queued := ch_queued q - 1\<rparr>)
     else if ch_closed q then (Next None, q)
     else (if ch_arrives q then Next (Some ()) else Elapsed, q))"

interpretation hq: handshake_channel queue_try_next queue_next_within ch_queued ch_closed ch_arrives
  by unfold_locales (auto simp: queue_try_next_def queue_next_within_def)

section \<open>Properties\<close>

text \<open>
   Resetting the connection before a reboot always returns, clears the connected flag, notifies
  the daemon proxy once and discards the handshakes of the previous session: a following
  \<open>wait_for_server\<close> succeeds exactly when a new handshake arrives in time, or when the forwarder
  has stopped and the channel is closed.
\<close>

lemma reset_discards_stale_handshakes:
  assumes "handshake_channel try_next next_within queued closed arrives"
  shows "\<exists>self'. reset_connected_state try_next self = Some self' \<and> \<not> is_connected self' \<and>
     reset_notify self' = reset_notify self + 1 \<and>
     (fst (wait_for_server next_within self') = Inr () \<longleftrightarrow>
        closed (handshake_fwd_rx self) \<or> arrives (handshake_fwd_rx self))"
  using assms by (rule handshake_channel.reset_then_wait)

lemma reset_discards_stale_handshakes_witness:
  "\<exists>self'. reset_connected_state queue_try_next
       (connection_handle_new \<lparr>ch_queued = 2, ch_closed = False, ch_arrives = False\<rparr>) = Some self' \<and>
     fst (wait_for_server queue_next_within self') = Inl TestRunnerTimeout"
proof -
  let ?self = "connection_handle_new \<lparr>ch_queued = 2, ch_closed = False, ch_arrives = False\<rparr>"
  obtain self' where s: "reset_connected_state queue_try_next ?self = Some self'"
    "fst (wait_for_server queue_next_within self') \<noteq> Inr ()"
    using reset_discards_stale_handshakes [OF hq.handshake_channel_axioms, of ?self]
    by (auto simp: connection_handle_new_def)
  then have "fst (wait_for_server queue_next_within self') = Inl TestRunnerTimeout"
    by (auto simp: wait_for_server_def split: prod.splits next_result.splits)
  with s show ?thesis by blast
qed

text \<open>
  \<open>wait_for_server\<close> reports success although no runner ever answered: when the forwarder task
  has ended its sender is dropped, the channel is closed, and the closed channel counts as a
  response.
\<close>

lemma wait_for_server_accepts_closed_channel:
  "fst (wait_for_server queue_next_within
     (connection_handle_new \<lparr>ch_queued = 0, ch_closed = True, ch_arrives = False\<rparr>)) = Inr ()"
  by (simp add: wait_for_server_def queue_next_within_def connection_handle_new_def)

end
