(* ===== verification/BTree.thy ===== *)
theory BTree
  imports Prelude "HOL-Library.List_Lexorder" "HOL-Library.Char_ord"
begin

text \<open>
  \<open>std::collections::BTreeMap\<close> with \<open>String\<close> keys, as the sources use it: \<open>insert\<close>, \<open>get\<close>,
  \<open>remove_entry\<close>, \<open>keys\<close>, \<open>values\<close> and \<open>collect\<close>.  A map is its list of entries in key order; the
  order of strings is the byte-wise lexicographic order of Rust's \<open>Ord for str\<close>.  The locale
  \<open>ordered_map\<close> is the contract its users (\<open>Config\<close>, \<open>Summary\<close>, the RPC client) rely on.
\<close>

type_synonym 'v btree = "(string \<times> 'v) list"

fun btree_insert :: "string \<Rightarrow> 'v \<Rightarrow> 'v btree \<Rightarrow> 'v btree" where
  "btree_insert k v [] = [(k, v)]"
| "btree_insert k v ((k', v') # m) =
     (if k < k' then (k, v) # (k', v') # m
      else if k = k' then (k, v) # m
      else (k', v') # btree_insert k v m)"

definition btree_get :: "'v btree \<Rightarrow> string \<Rightarrow> 'v option" where
  "btree_get m k = map_of m k"

definition btree_remove :: "string \<Rightarrow> 'v btree \<Rightarrow> 'v btree" where
  "btree_remove k m = filter (\<lambda>(k', _). k' \<noteq> k) m"

definition btree_keys :: "'v btree \<Rightarrow> string list" where
  "btree_keys m = map fst m"

definition btree_values :: "'v btree \<Rightarrow> 'v list" where
  "btree_values m = map snd m"

definition btree_collect :: "(string \<times> 'v) list \<Rightarrow> 'v btree" where
  "btree_collect xs = foldl (\<lambda>m (k, v). btree_insert k v m) [] xs"

definition btree_inv :: "'v btree \<Rightarrow> bool" where
  "btree_inv m = sorted_wrt (<) (map fst m)"

text \<open>The map contract: what a lookup returns after each operation.\<close>

locale ordered_map =
  fixes empty :: 'm
    and insert :: "'k::linorder \<Rightarrow> 'v \<Rightarrow> 'm \<Rightarrow> 'm"
    and remove :: "'k \<Rightarrow> 'm \<Rightarrow> 'm"
    and get :: "'m \<Rightarrow> 'k \<Rightarrow> 'v option"
    and keys :: "'m \<Rightarrow> 'k list"
    and inv :: "'m \<Rightarrow> bool"
  assumes get_empty: "get empty k = None"
    and get_insert: "inv m \<Longrightarrow> get (insert k v m) = (get m)(k \<mapsto> v)"
    and get_remove: "inv m \<Longrightarrow> get (remove k m) = (get m)(k := None)"
    and keys_get: "inv m \<Longrightarrow> set (keys m) = dom (get m)"
    and keys_sorted: "inv m \<Longrightarrow> sorted_wrt (<) (keys m)"
    and inv_empty: "inv empty"
    and inv_insert: "inv m \<Longrightarrow> inv (insert k v m)"
    and inv_remove: "inv m \<Longrightarrow> inv (remove k m)"
begin

lemma keys_insert: "inv m \<Longrightarrow> set (keys (insert k v m)) = Set.insert k (set (keys m))"
  by (simp add: keys_get inv_insert get_insert)

lemma keys_remove: "inv m \<Longrightarrow> set (keys (remove k m)) = set (keys m) - {k}"
  by (auto simp: keys_get inv_remove get_remove)

lemma keys_unique: "inv m \<Longrightarrow> inv m' \<Longrightarrow> get m = get m' \<Longrightarrow> keys m = keys m'"
  by (metis keys_get keys_sorted strict_sorted_equal)

lemma insert_overwrites: "inv m \<Longrightarrow> get (insert k v (insert k u m)) = get (insert k v m)"
  by (simp add: get_insert inv_insert)

lemma inv_fold: "inv m \<Longrightarrow> inv (foldl (\<lambda>m (k, v). insert k v m) m xs)"
  by (induction xs arbitrary: m) (auto simp: inv_insert)

lemma get_fold: "inv m \<Longrightarrow> get (foldl (\<lambda>m (k, v). insert k v m) m xs) = get m ++ map_of (rev xs)"
proof (induction xs arbitrary: m)
  case (Cons x xs)
  obtain k v where x: "x = (k, v)" by fastforce
  have "get (insert k v m) ++ map_of (rev xs) = get m ++ map_of (rev xs @ [(k, v)])"
    by (simp only: get_insert [OF Cons.prems] map_of_append) (simp add: fun_eq_iff map_add_def split: option.split)
  with Cons x show ?case by (simp add: inv_insert)
qed simp

end

lemma fst_btree_insert: "set (map fst (btree_insert k v m)) = insert k (set (map fst m))"
proof (induction m)
  case (Cons p m)
  obtain k' v' where "p = (k', v')" by fastforce
  with Cons show ?case by (simp add: insert_commute)
qed simp

lemma btree_insert_inv: "btree_inv m \<Longrightarrow> btree_inv (btree_insert k v m)"
proof (induction m)
  case (Cons p m)
  obtain k' v' where p: "p = (k', v')" by fastforce
  from Cons have IH: "btree_inv (btree_insert k v m)" by (simp add: btree_inv_def)
  have "\<forall>x \<in> set (map fst (btree_insert k v m)). k' < x" if "k' < k"
    using Cons.prems that by (subst fst_btree_insert) (auto simp: btree_inv_def p)
  with Cons.prems IH show ?case
    by (auto simp: btree_inv_def p)
qed (simp add: btree_inv_def)

lemma map_of_btree_insert: "btree_inv m \<Longrightarrow> map_of (btree_insert k v m) = (map_of m)(k \<mapsto> v)"
proof (induction m)
  case (Cons p m)
  then show ?case by (cases p) (auto simp: btree_inv_def)
qed simp

lemma map_of_btree_remove: "map_of (btree_remove k m) = (map_of m)(k := None)"
  by (induction m) (auto simp: btree_remove_def)

interpretation bt: ordered_map "[]" btree_insert btree_remove btree_get btree_keys btree_inv
proof unfold_locales
  fix m :: "'v btree" and k :: string and v :: 'v
  show "btree_get [] k = (None :: 'v option)" by (simp add: btree_get_def)
  show "btree_inv ([] :: 'v btree)" by (simp add: btree_inv_def)
  assume m: "btree_inv m"
  show "btree_get (btree_insert k v m) = (btree_get m)(k \<mapsto> v)"
    using map_of_btree_insert [OF m] by (simp add: btree_get_def [abs_def])
  show "btree_get (btree_remove k m) = (btree_get m)(k := None)"
    by (simp add: btree_get_def [abs_def] map_of_btree_remove)
  show "set (btree_keys m) = dom (btree_get m)"
    by (simp add: btree_keys_def btree_get_def [abs_def] dom_map_of_conv_image_fst)
  show "sorted_wrt (<) (btree_keys m)" using m by (simp add: btree_keys_def btree_inv_def)
  show "btree_inv (btree_insert k v m)" using m by (rule btree_insert_inv)
  show "btree_inv (btree_remove k m)"
    using m by (induction m) (auto simp: btree_inv_def btree_remove_def)
qed

lemma btree_collect_get: "btree_get (btree_collect xs) = map_of (rev xs)"
  using bt.get_fold [of "[]" xs] by (simp add: btree_collect_def btree_inv_def btree_get_def [abs_def])

lemma btree_collect_inv: "btree_inv (btree_collect xs)"
  using bt.inv_fold [of "[]" xs] by (simp add: btree_collect_def btree_inv_def)

end
