(* ===== verification/Config.thy ===== *)
theory Config
  imports Rpc_Types BTree
begin

text \<open>
  \<open>test-manager/src/config.rs\<close>: the persistent configuration of the manager, with the operations of
  \<open>vm/mod.rs\<close> and \<open>main.rs\<close> that change it (\<open>set\<close>, \<open>remove\<close>, \<open>list\<close>).

  The file holds data of a type \<open>'d\<close>; converting a configuration to and from it (\<open>serde_json\<close>) is
  a parameter, and the locale \<open>config_format\<close> states that conversion is lossless except for the
  fields marked \<open>serde(skip)\<close>.
\<close>

section \<open>Data\<close>

datatype vm_type = Qemu | Tart
datatype os_type = OsWindows | OsLinux | OsMacos
datatype package_type = Deb | Rpm
datatype architecture = X64 | Aarch64
datatype provisioner = Noop | Ssh
datatype display = DisplayNone | DisplayLocal | DisplayVnc

primrec get_identifiers :: "architecture \<Rightarrow> string list" where
  "get_identifiers X64 = [''x86_64'', ''amd64'']"
| "get_identifiers Aarch64 = [''arm64'', ''aarch64'']"

record vm_config =
  vm_type :: vm_type
  image_path :: string
  os_type :: os_type
  package_type :: "package_type option"
  architecture :: "architecture option"
  provisioner :: provisioner
  ssh_user :: "string option"
  ssh_password :: "string option"
  disks :: "string list"
  artifacts_dir :: "string option"
  tpm :: bool

definition get_ssh_options :: "vm_config \<Rightarrow> (string \<times> string) option" where
  "get_ssh_options self = (case ssh_user self of None \<Rightarrow> None | Some user \<Rightarrow>
     (case ssh_password self of None \<Rightarrow> None | Some password \<Rightarrow> Some (user, password)))"

definition get_x64_runner_dir :: "vm_config \<Rightarrow> string" where
  "get_x64_runner_dir self = (case os_type self of
      OsLinux \<Rightarrow> ''target/x86_64-unknown-linux-gnu/release''
    | OsWindows \<Rightarrow> ''target/x86_64-pc-windows-gnu/release''
    | OsMacos \<Rightarrow> ''target/x86_64-apple-darwin/release'')"

text \<open>\<open>None\<close> is the \<open>unimplemented!()\<close> panic.\<close>

definition get_aarch64_runner_dir :: "vm_config \<Rightarrow> string option" where
  "get_aarch64_runner_dir self = (case os_type self of
      OsLinux \<Rightarrow> Some ''target/aarch64-unknown-linux-gnu/release''
    | OsMacos \<Rightarrow> Some ''target/aarch64-apple-darwin/release''
    | OsWindows \<Rightarrow> None)"

definition get_runner_dir :: "vm_config \<Rightarrow> string option" where
  "get_runner_dir self = (case architecture self of
      None \<Rightarrow> Some (get_x64_runner_dir self)
    | Some X64 \<Rightarrow> Some (get_x64_runner_dir self)
    | Some Aarch64 \<Rightarrow> get_aarch64_runner_dir self)"

record runtime_options =
  ro_display :: display
  keep_changes :: bool

definition runtime_default :: runtime_options where
  "runtime_default = \<lparr>ro_display = DisplayNone, keep_changes = False\<rparr>"

record config =
  runtime_opts :: runtime_options
  vms :: "vm_config btree"
  mullvad_host :: "string option"

definition config_default :: config where
  "config_default = \<lparr>runtime_opts = runtime_default, vms = [], mullvad_host = None\<rparr>"

definition get_vm :: "config \<Rightarrow> string \<Rightarrow> vm_config option" where
  "get_vm self name = btree_get (vms self) name"

definition get_vm_config :: "config \<Rightarrow> string \<Rightarrow> string + vm_config" where
  "get_vm_config cfg name = (case get_vm cfg name of
      Some c \<Rightarrow> Inr c
    | None \<Rightarrow> Inl (''Could not find config: '' @ name))"

section \<open>Loading and saving\<close>

datatype config_error = ConfigRead io_error | InvalidConfig string | ConfigWrite io_error

datatype 'd config_ev = CfgRead string "io_error + 'd" | CfgWrite string 'd "io_error + unit"

record 'd config_env =
  cf_read :: "'d config_ev list \<Rightarrow> string \<Rightarrow> io_error + 'd"
  cf_write :: "'d config_ev list \<Rightarrow> string \<Rightarrow> 'd \<Rightarrow> io_error + unit"

type_synonym ('d, 'a) config_prog = "('d config_env, 'd config_ev, config_error, 'a) prog"

definition config_load :: "('d \<Rightarrow> string + config) \<Rightarrow> string \<Rightarrow> ('d, config) config_prog" where
  "config_load from_slice path =
     bindE (callE ConfigRead (\<lambda>env tr. cf_read env tr path) (CfgRead path)) (\<lambda>data.
       of_result (map_sum InvalidConfig id (from_slice data)))"

definition config_load_or_default :: "('d \<Rightarrow> string + config) \<Rightarrow> string \<Rightarrow> ('d, config) config_prog" where
  "config_load_or_default from_slice path =
     bindE (attempt (config_load from_slice path)) (\<lambda>r. case r of
         Inr c \<Rightarrow> ret c
       | Inl (ConfigRead io_err) \<Rightarrow>
           (if io_error_kind io_err = NotFound then ret config_default else fail (ConfigRead io_err))
       | Inl e \<Rightarrow> fail e)"

definition config_save :: "(config \<Rightarrow> 'd) \<Rightarrow> config \<Rightarrow> string \<Rightarrow> ('d, unit) config_prog" where
  "config_save to_vec_pretty self path =
     callE ConfigWrite (\<lambda>env tr. cf_write env tr path (to_vec_pretty self)) (CfgWrite path (to_vec_pretty self))"

record config_file =
  cfile_path :: string
  cfile_config :: config

definition config_file_load_or_default :: "('d \<Rightarrow> string + config) \<Rightarrow> string \<Rightarrow> ('d, config_file) config_prog" where
  "config_file_load_or_default from_slice path =
     bindE (config_load_or_default from_slice path) (\<lambda>c. ret \<lparr>cfile_path = path, cfile_config = c\<rparr>)"

text \<open>\<open>ConfigFile::edit\<close>: the value in memory is changed whether or not saving succeeds.\<close>

definition config_edit ::
  "(config \<Rightarrow> 'd) \<Rightarrow> (config \<Rightarrow> config) \<Rightarrow> config_file \<Rightarrow>
     ('d, (config_error + unit) \<times> config_file) config_prog" where
  "config_edit to_vec_pretty edit self =
    (let self = self\<lparr>cfile_config := edit (cfile_config self)\<rparr>
     in bindE (attempt (config_save to_vec_pretty (cfile_config self) (cfile_path self))) (\<lambda>r. ret (r, self)))"

section \<open>Commands\<close>

definition insert_vm :: "string \<Rightarrow> vm_config \<Rightarrow> config \<Rightarrow> config" where
  "insert_vm name c cfg = cfg\<lparr>vms := btree_insert name c (vms cfg)\<rparr>"

definition remove_vm :: "string \<Rightarrow> config \<Rightarrow> config" where
  "remove_vm name cfg = cfg\<lparr>vms := btree_remove name (vms cfg)\<rparr>"

definition set_config ::
  "(config \<Rightarrow> 'd) \<Rightarrow> string \<Rightarrow> vm_config \<Rightarrow> config_file \<Rightarrow>
     ('d, (config_error + unit) \<times> config_file) config_prog" where
  "set_config to_vec_pretty vm_name c cf = config_edit to_vec_pretty (insert_vm vm_name c) cf"

text \<open>The \<open>remove\<close> and \<open>list\<close> commands of \<open>main.rs\<close>, with the lines they print.\<close>

definition remove_command ::
  "(config \<Rightarrow> 'd) \<Rightarrow> string \<Rightarrow> config_file \<Rightarrow> ('d, string list \<times> config_file) config_prog" where
  "remove_command to_vec_pretty name cf =
    (if get_vm (cfile_config cf) name = None then ret ([''No such configuration''], cf)
     else bindE (config_edit to_vec_pretty (remove_vm name) cf) (\<lambda>(r, cf).
       case r of Inl e \<Rightarrow> fail e
       | Inr _ \<Rightarrow> ret ([''Removed configuration '' @ [CHR 0x22] @ name @ [CHR 0x22]], cf)))"

definition list_command :: "config \<Rightarrow> string list" where
  "list_command cfg = ''Available configurations:'' # btree_keys (vms cfg)"

section \<open>The file format\<close>

definition skip_runtime :: "config \<Rightarrow> config" where
  "skip_runtime c = c\<lparr>runtime_opts := runtime_default\<rparr>"

locale config_format =
  fixes to_vec_pretty :: "config \<Rightarrow> 'd"
    and from_slice :: "'d \<Rightarrow> string + config"
  assumes from_to: "from_slice (to_vec_pretty c) = Inr (skip_runtime c)"
begin

text \<open>Reading the file that was just written gives the configuration back.\<close>

lemma save_load:
  assumes "config_save to_vec_pretty c path env tr = (Ok (), tr')"
    and "cf_read env tr' path = Inr (to_vec_pretty c)"
  shows "fst (config_load_or_default from_slice path env tr') = Ok (skip_runtime c)"
  using assms
  by (simp add: config_save_def config_load_or_default_def config_load_def prog_defs of_result_def from_to)

end

definition plain_to_vec :: "config \<Rightarrow> config" where "plain_to_vec c = skip_runtime c"
definition plain_from_slice :: "config \<Rightarrow> string + config" where "plain_from_slice c = Inr c"

interpretation plain: config_format plain_to_vec plain_from_slice
  by unfold_locales (simp add: plain_to_vec_def plain_from_slice_def)

section \<open>Properties\<close>

text \<open>The file system keeps what was written: a read of the file returns the data of the last write.\<close>

definition keeps_last_write :: "'d config_env \<Rightarrow> bool" where
  "keeps_last_write env \<longleftrightarrow> (\<forall>tr path data. cf_read env (tr @ [CfgWrite path data (Inr ())]) path = Inr data)"

lemma config_edit_saved:
  assumes "config_edit to_vec edit cf env tr = (Ok (Inr (), cf'), tr')"
  shows "cf' = cf\<lparr>cfile_config := edit (cfile_config cf)\<rparr> \<and>
     tr' = tr @ [CfgWrite (cfile_path cf) (to_vec (cfile_config cf')) (Inr ())]"
  using assms by (auto simp: config_edit_def config_save_def prog_defs Let_def split: sum.splits)

lemma reload_after_edit:
  assumes "config_format to_vec from_slice" "keeps_last_write env"
    and "config_edit to_vec edit cf env tr = (Ok (Inr (), cf'), tr')"
  shows "fst (config_load_or_default from_slice (cfile_path cf) env tr') =
           Ok (skip_runtime (edit (cfile_config cf)))"
  using config_edit_saved [OF assms(3)] assms(2) config_format.from_to [OF assms(1)]
  by (simp add: keeps_last_write_def config_load_or_default_def config_load_def prog_defs of_result_def)

text \<open>
  C25.  Setting a VM configuration survives a restart: after the command succeeded, loading the file
  gives a configuration with the new entry under its name, all other entries and the host unchanged,
  and the entries still in order.  Removing an entry likewise removes exactly that one.
\<close>

theorem vm_config_survives_restart:
  assumes "config_format to_vec from_slice" "keeps_last_write env" "btree_inv (vms (cfile_config cf))"
    and "set_config to_vec name c cf env tr = (Ok (Inr (), cf'), tr')"
    and "remove_command to_vec name cf' env tr' = (Ok (out, cf''), tr'')"
  shows "\<exists>cfg cfg'. fst (config_load_or_default from_slice (cfile_path cf) env tr') = Ok cfg \<and>
     get_vm cfg = (get_vm (cfile_config cf))(name \<mapsto> c) \<and> btree_inv (vms cfg) \<and>
     mullvad_host cfg = mullvad_host (cfile_config cf) \<and>
     fst (config_load_or_default from_slice (cfile_path cf) env tr'') = Ok cfg' \<and>
     get_vm cfg' = (get_vm (cfile_config cf))(name := None) \<and> btree_inv (vms cfg')"
proof -
  let ?c1 = "insert_vm name c (cfile_config cf)"
  have e1: "config_edit to_vec (insert_vm name c) cf env tr = (Ok (Inr (), cf'), tr')"
    using assms(4) by (simp add: set_config_def)
  note r1 = reload_after_edit [OF assms(1,2) e1]
  have inv1: "btree_inv (vms ?c1)" and get1: "get_vm ?c1 = (get_vm (cfile_config cf))(name \<mapsto> c)"
    using assms(3) by (simp_all add: insert_vm_def bt.inv_insert bt.get_insert get_vm_def [abs_def])
  have cf': "cfile_config cf' = ?c1" "cfile_path cf' = cfile_path cf"
    using config_edit_saved [OF e1] by auto
  have e2: "config_edit to_vec (remove_vm name) cf' env tr' = (Ok (Inr (), cf''), tr'')"
    using assms(5) cf' get1
    by (auto simp: remove_command_def bindE_def ret_def fail_def split: prod.splits res.splits sum.splits)
  note r2 = reload_after_edit [OF assms(1,2) e2, unfolded cf']
  have "btree_inv (vms (remove_vm name ?c1))"
    "get_vm (remove_vm name ?c1) = (get_vm (cfile_config cf))(name := None)"
    using inv1 get1 by (simp_all add: remove_vm_def bt.inv_remove bt.get_remove get_vm_def [abs_def])
  moreover have "get_vm (skip_runtime x) = get_vm x" "vms (skip_runtime x) = vms x" for x
    by (simp_all add: skip_runtime_def get_vm_def [abs_def])
  moreover have "mullvad_host (skip_runtime ?c1) = mullvad_host (cfile_config cf)"
    by (simp add: skip_runtime_def insert_vm_def)
  ultimately show ?thesis using r1 r2 inv1 get1 by auto
qed

definition demo_config_env :: "config config_env" where
  "demo_config_env = \<lparr>
     cf_read = \<lambda>tr path. (case rev tr of CfgWrite p d (Inr _) # _ \<Rightarrow>
        if p = path then Inr d else Inl (IoError NotFound []) | _ \<Rightarrow> Inl (IoError NotFound [])),
     cf_write = \<lambda>_ _ _. Inr ()\<rparr>"

definition demo_vm :: vm_config where
  "demo_vm = \<lparr>vm_type = Qemu, image_path = ''debian.qcow2'', os_type = OsLinux, package_type = Some Deb,
     architecture = Some X64, provisioner = Noop, ssh_user = None, ssh_password = None, disks = [],
     artifacts_dir = None, tpm = False\<rparr>"

theorem vm_config_survives_restart_witness:
  "\<exists>cfg. get_vm cfg = [''debian'' \<mapsto> demo_vm] \<and>
     fst (config_load_or_default plain_from_slice ''config.json'' demo_config_env
       (snd (set_config plain_to_vec ''debian'' demo_vm
          \<lparr>cfile_path = ''config.json'', cfile_config = config_default\<rparr> demo_config_env []))) = Ok cfg"
proof -
  let ?cf = "\<lparr>cfile_path = ''config.json'', cfile_config = config_default\<rparr>"
  have keep: "keeps_last_write demo_config_env"
    by (simp add: keeps_last_write_def demo_config_env_def)
  obtain cf' tr' where set: "set_config plain_to_vec ''debian'' demo_vm ?cf demo_config_env [] =
      (Ok (Inr (), cf'), tr')" and cf': "get_vm (cfile_config cf') ''debian'' = Some demo_vm"
    by (simp add: set_config_def config_edit_def config_save_def prog_defs Let_def demo_config_env_def
        get_vm_def insert_vm_def config_default_def btree_get_def)
  obtain out cf'' tr'' where rem: "remove_command plain_to_vec ''debian'' cf' demo_config_env tr' =
      (Ok (out, cf''), tr'')"
    using cf' by (simp add: remove_command_def config_edit_def config_save_def prog_defs Let_def
        demo_config_env_def)
  have empty: "get_vm config_default = Map.empty" "btree_inv (vms config_default)"
    by (simp_all add: get_vm_def [abs_def] config_default_def btree_get_def [abs_def] btree_inv_def)
  from vm_config_survives_restart [OF plain.config_format_axioms keep _ set rem] empty set show ?thesis
    by auto
qed

end
