(* ===== verification/Host.thy ===== *)
theory Host
  imports Rpc_Types
begin

text \<open>
  The operating system as the runner and the manager see it: processes (\<open>Command\<close> of
  \<open>std::process\<close> and \<open>tokio::process\<close>), files, sleeps.  Every call is an event with its answer;
  the environment \<open>host_env\<close> decides the answers from the whole history.

  \<open>file_after\<close> reads the history back as a file system: what a file contains after the opens and
  writes that succeeded, so that a claim about a file is a claim about what the code wrote.
\<close>

section \<open>Processes\<close>

record command =
  cmd_program :: string
  cmd_args :: "string list"
  cmd_envs :: "(string \<times> string) list"

definition command_new :: "string \<Rightarrow> string list \<Rightarrow> command" where
  "command_new prog args = \<lparr>cmd_program = prog, cmd_args = args, cmd_envs = []\<rparr>"

definition command_envs :: "command \<Rightarrow> (string \<times> string) list \<Rightarrow> command" where
  "command_envs cmd env = cmd\<lparr>cmd_envs := cmd_envs cmd @ env\<rparr>"

text \<open>\<open>ExitStatus\<close>: an exit code, or termination by a signal, for which \<open>code()\<close> is \<open>None\<close>.\<close>

datatype exit_status = Exited int | Signaled

primrec status_code :: "exit_status \<Rightarrow> int option" where
  "status_code (Exited c) = Some c"
| "status_code Signaled = None"

definition status_success :: "exit_status \<Rightarrow> bool" where
  "status_success st \<longleftrightarrow> st = Exited 0"

record process_output =
  out_status :: exit_status
  out_stdout :: bytes
  out_stderr :: bytes

section \<open>Files\<close>

text \<open>The way a file is opened: \<open>OpenOptions\<close> or \<open>File::create\<close> (create and truncate).\<close>

record open_options =
  oo_create :: bool
  oo_truncate :: bool
  oo_append :: bool

datatype fs_op =
    CreateDirAll string
  | OpenWrite string open_options
  | WriteAll string open_options string
  | OpenRead string
  | CopyTo string string
  | RemoveFile string
  | RemoveDirAll string
  | WriteWhole string string

text \<open>\<open>Path::parent\<close> and a Windows path from its components.\<close>

definition path_parent :: "string \<Rightarrow> string option" where
  "path_parent p = (if p = [] \<or> p = ''/'' then None
     else let d = rev (dropWhile (\<lambda>c. c \<noteq> CHR ''/'') (rev p))
          in Some (if d = [] \<or> d = ''/'' then d else butlast d))"

fun windows_path :: "string list \<Rightarrow> string" where
  "windows_path [] = []"
| "windows_path [c] = c"
| "windows_path (c # cs) = c @ [CHR 0x5C] @ windows_path cs"

section \<open>Windows services (crate windows-service)\<close>

record service_config =
  sc_display_name :: string
  sc_service_type :: string
  sc_start_type :: string
  sc_error_control :: string
  sc_dependencies :: "string list"
  sc_account_name :: "string option"

record service_info = service_config +
  si_name :: string
  si_executable_path :: string
  si_launch_arguments :: "string list"
  si_account_password :: "string option"

section \<open>Sockets\<close>

datatype domain = Ipv4Domain | Ipv6Domain
datatype socket_type = StreamSocket | DgramSocket

datatype net_op =
    SocketNew domain socket_type
  | SetNonblocking
  | BindDevice string
  | BindDeviceByIndex nat
  | BindAddr socket_addr
  | ConnectTo socket_addr
  | IntoTokio
  | StreamWrite bytes
  | SendTo bytes socket_addr

section \<open>Calls and events\<close>

datatype host_ev =
    Status command "io_error + exit_status"
  | Output command "io_error + process_output"
  | Spawn command "io_error + unit"
  | WaitOutput command "io_error + process_output"
  | Wait command "io_error + exit_status"
  | TryWait command "io_error + exit_status option"
  | Fs fs_op "io_error + unit"
  | ReadToString string "io_error + string"
  | ReadLines string "(io_error + string) list"
  | Exists string "io_error + bool"
  | IsFile string bool
  | ReadDir string "io_error + string list"
  | Query string "string list" "io_error + string"
  | Sys string "string list" "io_error + unit"
  | OsRelease "io_error + (string \<times> string) list"
  | Net net_op "io_error + unit"
  | IfIndex string nat
  | IfAddrs "io_error + (string \<times> ip_addr option) list"
  | AdapterIp string bool "io_error + ip_addr option"
  | WindowsBuild "io_error + nat"
  | HttpGet string "io_error + (io_error + bytes)"
  | LookupHost string "io_error + socket_addr list"
  | QueryConfig "io_error + service_config"
  | ChangeConfig service_info "io_error + unit"
  | SleepMs nat
  | SpawnThread string

text \<open>The environment, in groups.\<close>

record net_env =
  ne_op :: "host_ev list \<Rightarrow> net_op \<Rightarrow> io_error + unit"
  ne_ifindex :: "host_ev list \<Rightarrow> string \<Rightarrow> nat"
  ne_ifaddrs :: "host_ev list \<Rightarrow> io_error + (string \<times> ip_addr option) list"
  ne_adapter_ip :: "host_ev list \<Rightarrow> string \<Rightarrow> bool \<Rightarrow> io_error + ip_addr option"
  ne_http :: "host_ev list \<Rightarrow> string \<Rightarrow> io_error + (io_error + bytes)"
  ne_lookup :: "host_ev list \<Rightarrow> string \<Rightarrow> io_error + socket_addr list"

record platform_env =
  pe_os_release :: "host_ev list \<Rightarrow> io_error + (string \<times> string) list"
  pe_windows_build :: "host_ev list \<Rightarrow> io_error + nat"
  pe_query_config :: "host_ev list \<Rightarrow> io_error + service_config"
  pe_change_config :: "host_ev list \<Rightarrow> service_info \<Rightarrow> io_error + unit"
  pe_query :: "host_ev list \<Rightarrow> string \<Rightarrow> string list \<Rightarrow> io_error + string"
  pe_sys :: "host_ev list \<Rightarrow> string \<Rightarrow> string list \<Rightarrow> io_error + unit"

record file_env =
  fe_op :: "host_ev list \<Rightarrow> fs_op \<Rightarrow> io_error + unit"
  fe_read :: "host_ev list \<Rightarrow> string \<Rightarrow> io_error + string"
  fe_lines :: "host_ev list \<Rightarrow> string \<Rightarrow> (io_error + string) list"
  fe_exists :: "host_ev list \<Rightarrow> string \<Rightarrow> io_error + bool"
  fe_is_file :: "host_ev list \<Rightarrow> string \<Rightarrow> bool"
  fe_dir :: "host_ev list \<Rightarrow> string \<Rightarrow> io_error + string list"

record host_env =
  he_status :: "host_ev list \<Rightarrow> command \<Rightarrow> io_error + exit_status"
  he_output :: "host_ev list \<Rightarrow> command \<Rightarrow> io_error + process_output"
  he_spawn :: "host_ev list \<Rightarrow> command \<Rightarrow> io_error + unit"
  he_try_wait :: "host_ev list \<Rightarrow> command \<Rightarrow> io_error + exit_status option"
  he_files :: file_env
  he_netio :: net_env
  he_platform :: platform_env

abbreviation "he_fs env \<equiv> fe_op (he_files env)"
abbreviation "he_read env \<equiv> fe_read (he_files env)"
abbreviation "he_exists env \<equiv> fe_exists (he_files env)"
abbreviation "he_dir env \<equiv> fe_dir (he_files env)"
abbreviation "he_net env \<equiv> ne_op (he_netio env)"
abbreviation "he_ifindex env \<equiv> ne_ifindex (he_netio env)"
abbreviation "he_ifaddrs env \<equiv> ne_ifaddrs (he_netio env)"
abbreviation "he_adapter_ip env \<equiv> ne_adapter_ip (he_netio env)"
abbreviation "he_http env \<equiv> ne_http (he_netio env)"
abbreviation "he_lookup env \<equiv> ne_lookup (he_netio env)"
abbreviation "he_os_release env \<equiv> pe_os_release (he_platform env)"
abbreviation "he_windows_build env \<equiv> pe_windows_build (he_platform env)"
abbreviation "he_query_config env \<equiv> pe_query_config (he_platform env)"
abbreviation "he_change_config env \<equiv> pe_change_config (he_platform env)"
abbreviation "he_query env \<equiv> pe_query (he_platform env)"
abbreviation "he_sys env \<equiv> pe_sys (he_platform env)"

type_synonym ('e, 'a) host = "(host_env, host_ev, 'e, 'a) prog"

definition cmd_status :: "(io_error \<Rightarrow> 'e) \<Rightarrow> command \<Rightarrow> ('e, exit_status) host" where
  "cmd_status wrap cmd = callE wrap (\<lambda>env tr. he_status env tr cmd) (\<lambda>r. Status cmd r)"

definition cmd_output :: "(io_error \<Rightarrow> 'e) \<Rightarrow> command \<Rightarrow> ('e, process_output) host" where
  "cmd_output wrap cmd = callE wrap (\<lambda>env tr. he_output env tr cmd) (\<lambda>r. Output cmd r)"

definition cmd_spawn :: "(io_error \<Rightarrow> 'e) \<Rightarrow> command \<Rightarrow> ('e, unit) host" where
  "cmd_spawn wrap cmd = callE wrap (\<lambda>env tr. he_spawn env tr cmd) (\<lambda>r. Spawn cmd r)"

definition cmd_wait_output :: "(io_error \<Rightarrow> 'e) \<Rightarrow> command \<Rightarrow> ('e, process_output) host" where
  "cmd_wait_output wrap cmd = callE wrap (\<lambda>env tr. he_output env tr cmd) (\<lambda>r. WaitOutput cmd r)"

definition cmd_wait :: "(io_error \<Rightarrow> 'e) \<Rightarrow> command \<Rightarrow> ('e, exit_status) host" where
  "cmd_wait wrap cmd = callE wrap (\<lambda>env tr. he_status env tr cmd) (\<lambda>r. Wait cmd r)"

text \<open>\<open>Child::try_wait\<close>: \<open>None\<close> while the process is running.\<close>

definition cmd_try_wait :: "(io_error \<Rightarrow> 'e) \<Rightarrow> command \<Rightarrow> ('e, exit_status option) host" where
  "cmd_try_wait wrap cmd = callE wrap (\<lambda>env tr. he_try_wait env tr cmd) (\<lambda>r. TryWait cmd r)"

definition fs_call :: "(io_error \<Rightarrow> 'e) \<Rightarrow> fs_op \<Rightarrow> ('e, unit) host" where
  "fs_call wrap op = callE wrap (\<lambda>env tr. he_fs env tr op) (\<lambda>r. Fs op r)"

definition read_to_string :: "(io_error \<Rightarrow> 'e) \<Rightarrow> string \<Rightarrow> ('e, string) host" where
  "read_to_string wrap path = callE wrap (\<lambda>env tr. he_read env tr path) (\<lambda>r. ReadToString path r)"

definition try_exists :: "(io_error \<Rightarrow> 'e) \<Rightarrow> string \<Rightarrow> ('e, bool) host" where
  "try_exists wrap path = callE wrap (\<lambda>env tr. he_exists env tr path) (\<lambda>r. Exists path r)"

definition is_file :: "string \<Rightarrow> ('e, bool) host" where
  "is_file path = perform (\<lambda>env tr. fe_is_file (he_files env) tr path) (IsFile path)"

definition read_dir :: "(io_error \<Rightarrow> 'e) \<Rightarrow> string \<Rightarrow> ('e, string list) host" where
  "read_dir wrap path = callE wrap (\<lambda>env tr. he_dir env tr path) (\<lambda>r. ReadDir path r)"

text \<open>Calls of platform libraries, by name: \<open>sys_call\<close> for an action, \<open>query_call\<close> for a value.\<close>

definition sys_call :: "(io_error \<Rightarrow> 'e) \<Rightarrow> string \<Rightarrow> string list \<Rightarrow> ('e, unit) host" where
  "sys_call wrap name args = callE wrap (\<lambda>env tr. he_sys env tr name args) (\<lambda>r. Sys name args r)"

definition query_call :: "(io_error \<Rightarrow> 'e) \<Rightarrow> string \<Rightarrow> string list \<Rightarrow> ('e, string) host" where
  "query_call wrap name args = callE wrap (\<lambda>env tr. he_query env tr name args) (\<lambda>r. Query name args r)"

definition net_call :: "(io_error \<Rightarrow> 'e) \<Rightarrow> net_op \<Rightarrow> ('e, unit) host" where
  "net_call wrap op = callE wrap (\<lambda>env tr. he_net env tr op) (\<lambda>r. Net op r)"

definition sleep_ms :: "nat \<Rightarrow> ('e, unit) host" where
  "sleep_ms n = emit (SleepMs n)"

lemmas host_calls = cmd_status_def cmd_output_def cmd_spawn_def cmd_wait_output_def fs_call_def
  read_to_string_def try_exists_def read_dir_def sys_call_def query_call_def net_call_def
  sleep_ms_def

section \<open>The history as a file system\<close>

definition write_at :: "nat \<Rightarrow> string \<Rightarrow> string \<Rightarrow> string" where
  "write_at pos old data = take pos old @ data @ drop (pos + length data) old"

text \<open>
  A file and the position of the handle it was last opened with: opening moves to the start, a write
  goes to the position, or, with \<open>append\<close>, to the end.
\<close>

primrec fs_op_step :: "string \<Rightarrow> fs_op \<Rightarrow> string \<times> nat \<Rightarrow> string \<times> nat" where
  "fs_op_step p (OpenWrite q opts) f = (if p \<noteq> q then f
     else if oo_truncate opts then ([], 0) else (fst f, 0))"
| "fs_op_step p (WriteAll q opts data) f = (if p \<noteq> q then f
     else if oo_append opts then (fst f @ data, snd f)
     else (write_at (snd f) (fst f) data, snd f + length data))"
| "fs_op_step p (WriteWhole q data) f = (if p = q then (data, snd f) else f)"
| "fs_op_step p (RemoveFile q) f = (if p = q then ([], 0) else f)"
| "fs_op_step p (CreateDirAll q) f = f"
| "fs_op_step p (OpenRead q) f = f"
| "fs_op_step p (CopyTo q q') f = f"
| "fs_op_step p (RemoveDirAll q) f = f"

definition file_step :: "string \<Rightarrow> host_ev \<Rightarrow> string \<times> nat \<Rightarrow> string \<times> nat" where
  "file_step p e f = (case e of Fs op r \<Rightarrow> (if r = Inr () then fs_op_step p op f else f) | _ \<Rightarrow> f)"

definition file_run :: "string \<Rightarrow> host_ev list \<Rightarrow> string \<times> nat \<Rightarrow> string \<times> nat" where
  "file_run p es f = fold (file_step p) es f"

definition file_after :: "string \<Rightarrow> host_ev list \<Rightarrow> string \<Rightarrow> string" where
  "file_after p tr initial = fst (file_run p tr (initial, 0))"

lemma file_run_simps [simp]:
  "file_run p [] f = f"
  "file_run p (Fs op r # es) f = file_run p es (if r = Inr () then fs_op_step p op f else f)"
  "file_run p (Status c st # es) f = file_run p es f"
  "file_run p (Output c out # es) f = file_run p es f"
  "file_run p (SleepMs n # es) f = file_run p es f"
  by (simp_all add: file_run_def file_step_def)

lemma file_run_append [simp]: "file_run p (xs @ ys) f = file_run p ys (file_run p xs f)"
  by (simp add: file_run_def)

lemma write_at_0: "write_at 0 old data = data @ drop (length data) old"
  by (simp add: write_at_def)

lemma write_at_end: "write_at (length old) old data = old @ data"
  by (simp add: write_at_def)

text \<open>A host on which every call succeeds and every process prints \<open>out\<close>.\<close>

definition calm_files :: file_env where
  "calm_files = \<lparr>fe_op = \<lambda>_ _. Inr (), fe_read = \<lambda>_ _. Inr [], fe_lines = \<lambda>_ _. [],
     fe_exists = \<lambda>_ _. Inr True, fe_is_file = \<lambda>_ _. True, fe_dir = \<lambda>_ _. Inr []\<rparr>"

definition calm_net :: net_env where
  "calm_net = \<lparr>ne_op = \<lambda>_ _. Inr (), ne_ifindex = \<lambda>_ _. 1, ne_ifaddrs = \<lambda>_. Inr [],
     ne_adapter_ip = \<lambda>_ _ _. Inr None, ne_http = \<lambda>_ _. Inr (Inr []), ne_lookup = \<lambda>_ _. Inr []\<rparr>"

definition calm_platform :: platform_env where
  "calm_platform = \<lparr>pe_os_release = \<lambda>_. Inr [(''ID'', ''fedora'')], pe_windows_build = \<lambda>_. Inr 22000,
     pe_query_config = \<lambda>_. Inl (IoError OtherKind []), pe_change_config = \<lambda>_ _. Inr (),
     pe_query = \<lambda>_ _ _. Inr [], pe_sys = \<lambda>_ _ _. Inr ()\<rparr>"

definition calm_host :: "string \<Rightarrow> host_env" where
  "calm_host out = \<lparr>he_status = \<lambda>_ _. Inr (Exited 0),
     he_output = \<lambda>_ _. Inr \<lparr>out_status = Exited 0, out_stdout = bytes_of out, out_stderr = []\<rparr>,
     he_spawn = \<lambda>_ _. Inr (), he_try_wait = \<lambda>_ _. Inr None, he_files = calm_files, he_netio = calm_net, he_platform = calm_platform\<rparr>"

lemma calm_host_simps [simp]:
  "he_status (calm_host out) = (\<lambda>_ _. Inr (Exited 0))"
  "he_output (calm_host out) = (\<lambda>_ _. Inr \<lparr>out_status = Exited 0, out_stdout = bytes_of out, out_stderr = []\<rparr>)"
  "he_spawn (calm_host out) = (\<lambda>_ _. Inr ())"
  "he_fs (calm_host out) = (\<lambda>_ _. Inr ())"
  by (simp_all add: calm_host_def calm_files_def)

end
