(* ===== verification/App_Packages.thy ===== *)
theory App_Packages
  imports Config Host "HOL-Library.Multiset"
begin

text \<open>
  \<open>test-manager/src/package.rs\<close>: which package file an app name or version stands for.  The regular
  expression for versions is a parameter, and so is \<open>sort_unstable_by_key\<close>, whose order of equal
  keys is unspecified.
\<close>

section \<open>Definitions\<close>

record manifest =
  current_app_path :: string
  previous_app_path :: string
  ui_e2e_tests_path :: string

type_synonym package_kind = "os_type \<times> package_type option \<times> architecture option"

text \<open>\<open>None\<close> is the panic of \<open>expect("must specify package type")\<close>.\<close>

fun get_ext :: "package_kind \<Rightarrow> string option" where
  "get_ext (OsWindows, pt, arch) = Some ''exe''"
| "get_ext (OsMacos, pt, arch) = Some ''pkg''"
| "get_ext (OsLinux, None, arch) = None"
| "get_ext (OsLinux, Some Deb, arch) = Some ''deb''"
| "get_ext (OsLinux, Some Rpm, arch) = Some ''rpm''"

fun get_os_name :: "package_kind \<Rightarrow> string" where
  "get_os_name (OsWindows, pt, arch) = ''windows''"
| "get_os_name (OsMacos, pt, arch) = ''apple''"
| "get_os_name (OsLinux, pt, arch) = ''linux''"

definition path_extension :: "string \<Rightarrow> string option" where
  "path_extension p =
    (let name = rev (takeWhile (\<lambda>c. c \<noteq> CHR ''/'') (rev p));
         ext = rev (takeWhile (\<lambda>c. c \<noteq> CHR ''.'') (rev name))
     in if name = ''..'' \<or> length name \<le> length ext + 1 then None else Some ext)"

definition eq_ignore_ascii_case :: "string \<Rightarrow> string \<Rightarrow> bool" where
  "eq_ignore_ascii_case a b \<longleftrightarrow> to_ascii_lowercase a = to_ascii_lowercase b"

text \<open>The checks of one iteration after the entry was found to be a file and its extension is known.\<close>

definition name_matches :: "string \<Rightarrow> bool \<Rightarrow> package_kind \<Rightarrow> string \<Rightarrow> bool" where
  "name_matches app e2e_bin pt path =
    (let u8_path = to_ascii_lowercase path
     in \<not> (e2e_bin \<noteq> contains u8_path ''app-e2e-tests'') \<and>
        \<not> (e2e_bin \<and> \<not> contains u8_path (get_os_name pt)) \<and>
        (case snd (snd pt) of
           Some arch \<Rightarrow> \<not> ((e2e_bin \<or> fst pt = OsLinux) \<and>
             \<not> list_ex (\<lambda>id. contains u8_path id) (get_identifiers arch))
         | None \<Rightarrow> True) \<and>
        contains u8_path app)"

fun collect_matches ::
  "string \<Rightarrow> bool \<Rightarrow> package_kind \<Rightarrow> string list \<Rightarrow> string list \<Rightarrow> (string, string list) host" where
  "collect_matches app e2e_bin pt [] matches = ret matches"
| "collect_matches app e2e_bin pt (path # entries) matches =
     bindE (is_file path) (\<lambda>f.
       if \<not> f then collect_matches app e2e_bin pt entries matches
       else if \<not> e2e_bin then
         (case get_ext pt of
            None \<Rightarrow> panic ''must specify package type''
          | Some ext \<Rightarrow>
              if \<not> (case path_extension path of Some m_ext \<Rightarrow> eq_ignore_ascii_case m_ext ext | None \<Rightarrow> False)
              then collect_matches app e2e_bin pt entries matches
              else collect_matches app e2e_bin pt entries
                (if name_matches app e2e_bin pt path then matches @ [path] else matches))
       else collect_matches app e2e_bin pt entries
         (if name_matches app e2e_bin pt path then matches @ [path] else matches))"

definition find_app ::
  "(string list \<Rightarrow> string list) \<Rightarrow> string \<Rightarrow> bool \<Rightarrow> package_kind \<Rightarrow> (string, string) host" where
  "find_app sort_by_len app e2e_bin pt =
     bindE (is_file app) (\<lambda>f.
     if f then ret app
     else let app = to_ascii_lowercase app in
       bindE (read_dir (\<lambda>_. ''Failed to list packages'') ''./packages/'') (\<lambda>entries.
       bindE (collect_matches app e2e_bin pt entries []) (\<lambda>matches.
         case sort_by_len matches of
           m # _ \<Rightarrow> ret m
         | [] \<Rightarrow> fail (if e2e_bin then ''Could not find UI/e2e test for package: '' @ app
                    else ''Could not find package for app: '' @ app))))"

definition get_app_manifest ::
  "(string list \<Rightarrow> string list) \<Rightarrow> (string \<Rightarrow> string option) \<Rightarrow> vm_config \<Rightarrow> string \<Rightarrow> string \<Rightarrow>
     (string, manifest) host" where
  "get_app_manifest sort_by_len version_regex cfg current_app previous_app =
    (let pt = (os_type cfg, package_type cfg, architecture cfg) in
     bindE (find_app sort_by_len current_app False pt) (\<lambda>current_path.
     bindE (find_app sort_by_len previous_app False pt) (\<lambda>previous_path.
     bindE (case version_regex current_path of Some v \<Rightarrow> ret v
            | None \<Rightarrow> fail (''Cannot parse version: '' @ current_path)) (\<lambda>capture.
     bindE (find_app sort_by_len capture True pt) (\<lambda>e2e_path.
     ret \<lparr>current_app_path = current_path, previous_app_path = previous_path,
          ui_e2e_tests_path = e2e_path\<rparr>)))))"

section \<open>Lemmas\<close>

text \<open>What it means for a file to be a candidate.\<close>

definition candidate :: "string \<Rightarrow> bool \<Rightarrow> package_kind \<Rightarrow> string \<Rightarrow> bool" where
  "candidate app e2e_bin pt path \<longleftrightarrow>
     (e2e_bin \<or> (case (get_ext pt, path_extension path) of
         (Some ext, Some m_ext) \<Rightarrow> eq_ignore_ascii_case m_ext ext | _ \<Rightarrow> False)) \<and>
     name_matches app e2e_bin pt path"

text \<open>A host whose files do not change while it is looked at.\<close>

definition static_files :: "host_env \<Rightarrow> (string \<Rightarrow> bool) \<Rightarrow> string list \<Rightarrow> bool" where
  "static_files env file entries \<longleftrightarrow> (\<forall>tr p. fe_is_file (he_files env) tr p = file p) \<and>
     (\<forall>tr. he_dir env tr ''./packages/'' = Inr entries)"

lemma collect_matches_static:
  assumes "static_files env file all" "e2e_bin \<or> get_ext pt \<noteq> None"
  shows "fst (collect_matches app e2e_bin pt entries matches env tr) =
     Ok (matches @ filter (\<lambda>p. file p \<and> candidate app e2e_bin pt p) entries)"
proof (induction entries arbitrary: matches tr)
  case (Cons p entries)
  have f: "fe_is_file (he_files env) tr p = file p"
    using assms(1) by (simp add: static_files_def)
  from Cons assms(2) show ?case
    by (auto simp: bindE_def is_file_def perform_def f candidate_def split: option.splits)
qed (simp add: ret_def)

definition sorts_by_length :: "(string list \<Rightarrow> string list) \<Rightarrow> bool" where
  "sorts_by_length srt \<longleftrightarrow> (\<forall>xs. mset (srt xs) = mset xs \<and> sorted (map length (srt xs)))"

lemma shortest_first:
  assumes "sorts_by_length srt" "srt xs = m # ms"
  shows "m \<in> set xs \<and> (\<forall>x \<in> set xs. length m \<le> length x)"
proof -
  have "mset xs = mset (m # ms)" "sorted (map length (m # ms))"
    using assms by (metis sorts_by_length_def)+
  then have "set xs = set (m # ms)" "\<forall>x \<in> set ms. length m \<le> length x"
    by (metis set_mset_mset, auto)
  then show ?thesis by auto
qed

section \<open>Properties\<close>

text \<open>
  C32.  An app name that is not itself a file is resolved to one of the files in the package directory
  that match the name, the platform and the architecture, and to a shortest one; if there is no such
  file, and only then, the search fails.
\<close>

theorem find_app_shortest_candidate:
  assumes "static_files env file entries" "sorts_by_length srt" "\<not> file app"
    and "e2e_bin \<or> get_ext pt \<noteq> None"
  shows "(case fst (find_app srt app e2e_bin pt env tr) of
      Ok m \<Rightarrow> m \<in> set entries \<and> file m \<and> candidate (to_ascii_lowercase app) e2e_bin pt m \<and>
        (\<forall>p \<in> set entries. file p \<and> candidate (to_ascii_lowercase app) e2e_bin pt p \<longrightarrow> length m \<le> length p)
    | Err _ \<Rightarrow> \<not> (\<exists>p \<in> set entries. file p \<and> candidate (to_ascii_lowercase app) e2e_bin pt p)
    | Panic _ \<Rightarrow> False)"
proof -
  let ?ms = "filter (\<lambda>p. file p \<and> candidate (to_ascii_lowercase app) e2e_bin pt p) entries"
  let ?tr = "tr @ [IsFile app False, ReadDir ''./packages/'' (Inr entries)]"
  obtain tr' where ms: "collect_matches (to_ascii_lowercase app) e2e_bin pt entries [] env ?tr = (Ok ?ms, tr')"
    using collect_matches_static [OF assms(1,4), of "to_ascii_lowercase app" entries "[]" ?tr]
    by (cases "collect_matches (to_ascii_lowercase app) e2e_bin pt entries [] env ?tr") simp
  have isf: "fe_is_file (he_files env) tr app = False"
    and dir: "he_dir env (tr @ [IsFile app False]) ''./packages/'' = Inr entries"
    using assms(1,3) by (simp_all add: static_files_def)
  have run: "fst (find_app srt app e2e_bin pt env tr) = fst ((case srt ?ms of m # _ \<Rightarrow> ret m
      | [] \<Rightarrow> fail (if e2e_bin then ''Could not find UI/e2e test for package: '' @ to_ascii_lowercase app
                   else ''Could not find package for app: '' @ to_ascii_lowercase app)) env tr')"
    by (simp only: find_app_def is_file_def read_dir_def bindE_def perform_def callE_def map_err_def
        performE_def isf dir ms Let_def prod.case res.case sum.case if_False append.assoc append_Cons append_Nil)
  show ?thesis
  proof (cases "srt ?ms")
    case Nil
    then have "?ms = []" using assms(2) by (metis sorts_by_length_def mset_zero_iff)
    with run Nil show ?thesis by (auto simp: filter_empty_conv fail_def)
  next
    case (Cons m ms')
    with run shortest_first [OF assms(2) Cons] show ?thesis by (auto simp: ret_def)
  qed
qed

definition demo_files :: "string list" where
  "demo_files = [''./packages/MullvadVPN-2023.4-beta1_amd64.deb'', ''./packages/MullvadVPN-2023.4_arm64.deb'',
     ''./packages/MullvadVPN-2023.4_amd64.deb'', ''./packages/MullvadVPN-2023.4_x86_64.rpm'']"

definition demo_packages :: host_env where
  "demo_packages = (calm_host [])\<lparr>he_files := calm_files\<lparr>fe_is_file := \<lambda>_ p. p \<in> set demo_files,
     fe_dir := \<lambda>_ _. Inr demo_files\<rparr>\<rparr>"

theorem find_app_shortest_candidate_witness:
  "fst (find_app (sort_key length) ''2023.4'' False (OsLinux, Some Deb, Some X64) demo_packages []) =
     Ok ''./packages/MullvadVPN-2023.4_amd64.deb''"
proof -
  let ?pt = "(OsLinux, Some Deb, Some X64) :: package_kind"
  let ?c = "candidate (to_ascii_lowercase ''2023.4'') False ?pt"
  have static: "static_files demo_packages (\<lambda>p. p \<in> set demo_files) demo_files"
    by (simp add: static_files_def demo_packages_def)
  have srt: "sorts_by_length (sort_key length)"
    by (simp add: sorts_by_length_def)
  have no: "''2023.4'' \<notin> set demo_files" by (simp add: demo_files_def)
  have cand: "filter ?c demo_files =
      [''./packages/MullvadVPN-2023.4-beta1_amd64.deb'', ''./packages/MullvadVPN-2023.4_amd64.deb'']"
    by code_simp
  note app = find_app_shortest_candidate [OF static srt no, of False ?pt "[]"]
  have members: "?c m \<and> m \<in> set demo_files \<longleftrightarrow> m \<in> set (filter ?c demo_files)" for m by auto
  show ?thesis
  proof (cases "fst (find_app (sort_key length) ''2023.4'' False ?pt demo_packages [])")
    case (Ok m)
    with app have "m \<in> set (filter ?c demo_files)" "\<forall>p \<in> set (filter ?c demo_files). length m \<le> length p"
      by auto
    with Ok show ?thesis unfolding cand by auto
  next
    case (Err e)
    with app have "set (filter ?c demo_files) = {}" by auto
    then show ?thesis unfolding cand by simp
  next
    case (Panic x)
    with app show ?thesis by simp
  qed
qed

end
