(* ===== verification/Runner_Sys.thy ===== *)
theory Runner_Sys
  imports Host
begin

text \<open>
  \<open>test-runner/src/sys.rs\<close>: rebooting the guest, the log level and environment of the daemon
  service, and starting and stopping it, on the three platforms (suffixes \<open>_linux\<close>, \<open>_macos\<close>,
  \<open>_windows\<close>).  A \<open>HashMap\<close> of variables is an association list in iteration order.
\<close>

definition service_err :: "io_error \<Rightarrow> error" where
  "service_err e = Service (io_error_string e)"

definition registry_err :: "io_error \<Rightarrow> error" where
  "registry_err e = Registry (io_error_string e)"

definition syscall_err :: "io_error \<Rightarrow> error" where
  "syscall_err e = Syscall"

section \<open>Waiting for systemd\<close>

datatype service_state = StateRunning | StateInactive

definition RETRY_ATTEMPTS :: nat where "RETRY_ATTEMPTS = 10"

definition service_status_cmd :: command where
  "service_status_cmd = command_new ''systemctl'' [''status'', ''mullvad-daemon'']"

fun state_reached :: "service_state \<Rightarrow> string \<Rightarrow> bool" where
  "state_reached StateRunning s = contains s ''active (running)''"
| "state_reached StateInactive s = contains s ''inactive (dead)''"

fun wait_for_state_loop :: "nat \<Rightarrow> service_state \<Rightarrow> (error, unit) host" where
  "wait_for_state_loop 0 awaited_state = fail (Service ''Awaiting new service state timed out'')"
| "wait_for_state_loop (Suc attempts) awaited_state =
     bindE (cmd_output service_err service_status_cmd) (\<lambda>out.
       if state_reached awaited_state (from_utf8_lossy (out_stdout out)) then ret ()
       else seqE (sleep_ms 1000) (wait_for_state_loop attempts awaited_state))"

definition wait_for_service_state :: "service_state \<Rightarrow> (error, unit) host" where
  "wait_for_service_state awaited_state = wait_for_state_loop RETRY_ATTEMPTS awaited_state"

section \<open>Rebooting\<close>

text \<open>The thread that \<open>reboot\<close> starts, and \<open>reboot\<close> itself.\<close>

definition reboot_thread_unix :: "string \<Rightarrow> (error, unit) host" where
  "reboot_thread_unix shutdown =
     seqE (sleep_ms 5000)
    (seqE (attempt (cmd_spawn id (command_new shutdown [''-r'', ''now''])))
     (ret ()))"

definition reboot_thread_linux :: "(error, unit) host" where
  "reboot_thread_linux = reboot_thread_unix ''/usr/sbin/shutdown''"

definition reboot_thread_macos :: "(error, unit) host" where
  "reboot_thread_macos = reboot_thread_unix ''/sbin/shutdown''"

definition reboot_unix :: "(error, unit) host" where
  "reboot_unix = seqE (emit (SpawnThread ''reboot'')) (ret ())"

definition grant_shutdown_privilege :: "(error, unit) host" where
  "grant_shutdown_privilege =
     seqE (sys_call syscall_err ''LookupPrivilegeValueW'' [''SeShutdownPrivilege''])
    (seqE (sys_call syscall_err ''OpenProcessToken'' [''TOKEN_ADJUST_PRIVILEGES''])
    (bindE (attempt (sys_call syscall_err ''AdjustTokenPrivileges'' [''SE_PRIVILEGE_ENABLED''])) (\<lambda>result.
     seqE (attempt (sys_call id ''CloseHandle'' []))
    (case result of Inl _ \<Rightarrow> fail Syscall | Inr _ \<Rightarrow> ret ()))))"

definition reboot_thread_windows :: "(error, unit) host" where
  "reboot_thread_windows =
     seqE (sleep_ms 5000)
    (bindE (attempt (sys_call id ''ExitWindowsEx''
        [''EWX_FORCEIFHUNG | EWX_REBOOT'',
         ''SHTDN_REASON_MAJOR_APPLICATION | SHTDN_REASON_MINOR_OTHER | SHTDN_REASON_FLAG_PLANNED'']))
    (\<lambda>shutdown_result. case shutdown_result of
        Inl _ \<Rightarrow> seqE (attempt (sys_call id ''exit'' [''1''])) (ret ())
      | Inr _ \<Rightarrow> seqE (attempt (sys_call id ''exit'' [''0''])) (ret ())))"

definition reboot_windows :: "(error, unit) host" where
  "reboot_windows =
     seqE grant_shutdown_privilege
    (seqE (emit (SpawnThread ''reboot'')) (ret ()))"

section \<open>The log level of the daemon\<close>

primrec verbosity_flag :: "verbosity \<Rightarrow> string" where
  "verbosity_flag Info = []"
| "verbosity_flag Debug = ''-v''"
| "verbosity_flag Trace = ''-vv''"

definition OVERRIDE_FILE :: string where
  "OVERRIDE_FILE = ''/etc/systemd/system/mullvad-daemon.service.d/override.conf''"

definition override_content :: "verbosity \<Rightarrow> string" where
  "override_content v = ''[Service]'' @ [CHR 0x0A] @ ''ExecStart='' @ [CHR 0x0A] @
     ''ExecStart=/usr/bin/mullvad-daemon --disable-stdout-timestamps '' @ verbosity_flag v"

text \<open>\<open>OpenOptions::new().create(true).write(true)\<close>\<close>

definition create_write :: open_options where
  "create_write = \<lparr>oo_create = True, oo_truncate = False, oo_append = False\<rparr>"

text \<open>The part that the log level and the environment share: write the file, restart, wait.\<close>

definition install_override :: "string \<Rightarrow> string \<Rightarrow> (error, unit) host" where
  "install_override file content =
     seqE (case path_parent file of Some parent \<Rightarrow> fs_call service_err (CreateDirAll parent)
           | None \<Rightarrow> ret ())
    (seqE (fs_call service_err (OpenWrite file create_write))
    (seqE (fs_call service_err (WriteAll file create_write content))
    (seqE (cmd_status service_err (command_new ''systemctl'' [''daemon-reload'']))
    (seqE (cmd_status service_err (command_new ''systemctl'' [''restart'', ''mullvad-daemon'']))
    (seqE (wait_for_service_state StateRunning)
     (ret ()))))))"

definition set_daemon_log_level_linux :: "verbosity \<Rightarrow> (error, unit) host" where
  "set_daemon_log_level_linux verbosity_level =
     install_override OVERRIDE_FILE (override_content verbosity_level)"

definition updated_config :: "service_config \<Rightarrow> verbosity \<Rightarrow> service_info" where
  "updated_config config v = \<lparr>
     sc_display_name = sc_display_name config,
     sc_service_type = sc_service_type config,
     sc_start_type = sc_start_type config,
     sc_error_control = sc_error_control config,
     sc_dependencies = sc_dependencies config,
     sc_account_name = sc_account_name config,
     si_name = sc_display_name config,
     si_executable_path =
       windows_path [''C:'', ''Program Files'', ''Mullvad VPN'', ''resources'', ''mullvad-daemon.exe''],
     si_launch_arguments = [''--run-as-service'', verbosity_flag v],
     si_account_password = None\<rparr>"

definition set_daemon_log_level_windows :: "verbosity \<Rightarrow> (error, unit) host" where
  "set_daemon_log_level_windows verbosity_level =
     seqE (sys_call service_err ''ServiceManager::local_computer'' [''CONNECT''])
    (seqE (sys_call service_err ''open_service''
             [''mullvadvpn'', ''QUERY_CONFIG | CHANGE_CONFIG | START | STOP''])
    (seqE (sys_call service_err ''stop'' [])
    (seqE (cmd_status service_err (command_new ''net'' [''stop'', ''mullvadvpn'']))
    (bindE (callE service_err (\<lambda>env. he_query_config env) QueryConfig) (\<lambda>config.
     seqE (callE service_err
             (\<lambda>env tr. he_change_config env tr (updated_config config verbosity_level))
             (ChangeConfig (updated_config config verbosity_level)))
    (seqE (sys_call service_err ''start'' [])
     (ret ())))))))"

definition set_daemon_log_level_macos :: "verbosity \<Rightarrow> (error, unit) host" where
  "set_daemon_log_level_macos verbosity_level = ret ()"

section \<open>Starting and stopping the service\<close>

definition set_mullvad_daemon_service_state_linux :: "bool \<Rightarrow> (error, unit) host" where
  "set_mullvad_daemon_service_state_linux on =
     seqE (if on
       then seqE (cmd_status service_err (command_new ''systemctl'' [''start'', ''mullvad-daemon'']))
                 (wait_for_service_state StateRunning)
       else seqE (cmd_status service_err (command_new ''systemctl'' [''stop'', ''mullvad-daemon'']))
                 (wait_for_service_state StateInactive))
     (ret ())"

definition set_mullvad_daemon_service_state_windows :: "bool \<Rightarrow> (error, unit) host" where
  "set_mullvad_daemon_service_state_windows on =
     seqE (if on
       then cmd_status service_err (command_new ''net'' [''start'', ''mullvadvpn''])
       else cmd_status service_err (command_new ''net'' [''stop'', ''mullvadvpn'']))
     (ret ())"

definition PLIST_PATH :: string where
  "PLIST_PATH = ''/Library/LaunchDaemons/net.mullvad.daemon.plist''"

definition set_launch_daemon_state :: "bool \<Rightarrow> (error, unit) host" where
  "set_launch_daemon_state on =
     seqE (cmd_status service_err (command_new ''launchctl''
             [if on then ''load'' else ''unload'', ''-w'', PLIST_PATH]))
     (ret ())"

definition set_mullvad_daemon_service_state_macos :: "bool \<Rightarrow> (error, unit) host" where
  "set_mullvad_daemon_service_state_macos on =
     seqE (set_launch_daemon_state on) (seqE (sleep_ms 1000) (ret ()))"

section \<open>The environment of the daemon\<close>

definition ENV_FILE :: string where
  "ENV_FILE = ''/etc/systemd/system/mullvad-daemon.service.d/env.conf''"

definition env_content :: "(string \<times> string) list \<Rightarrow> string" where
  "env_content env = ''[Service]'' @ [CHR 0x0A] @
     concat (map (\<lambda>(k, v). ''Environment='' @ [CHR 0x22] @ k @ ''='' @ v @ [CHR 0x22, CHR 0x0A]) env)"

definition set_daemon_environment_linux :: "(string \<times> string) list \<Rightarrow> (error, unit) host" where
  "set_daemon_environment_linux env = install_override ENV_FILE (env_content env)"

definition set_daemon_environment_windows :: "(string \<times> string) list \<Rightarrow> (error, unit) host" where
  "set_daemon_environment_windows env =
     seqE (for_each (\<lambda>(k, v). seqE (cmd_status registry_err (command_new ''setx'' [''/m'', k, v])) (ret ()))
             env)
    (seqE (cmd_status service_err (command_new ''net'' [''stop'', ''mullvadvpn'']))
    (seqE (cmd_status service_err (command_new ''net'' [''start'', ''mullvadvpn'']))
     (ret ())))"

text \<open>
  Property lists (crate \<open>plist\<close>): a dictionary, a string, or another kind of value.  Parsing and
  rendering are parameters.
\<close>

datatype plist_value = PlDictionary "(string \<times> plist_value) list" | PlString string | PlOther

fun dict_insert :: "string \<Rightarrow> 'v \<Rightarrow> (string \<times> 'v) list \<Rightarrow> (string \<times> 'v) list" where
  "dict_insert k v [] = [(k, v)]"
| "dict_insert k v ((k', v') # d) = (if k = k' then (k, v) # d else (k', v') # dict_insert k v d)"

definition write_truncate :: open_options where
  "write_truncate = \<lparr>oo_create = False, oo_truncate = True, oo_append = False\<rparr>"

fun launchctl_vars ::
  "(string \<times> string) list \<Rightarrow> (string \<times> plist_value) list \<Rightarrow> (error, (string \<times> plist_value) list) host" where
  "launchctl_vars [] vars = ret vars"
| "launchctl_vars ((k, v) # env) vars =
     seqE (cmd_status service_err (command_new ''launchctl'' [''setenv'', k, v]))
     (launchctl_vars env (dict_insert k (PlString v) vars))"

definition set_daemon_environment_macos ::
  "(string \<Rightarrow> string + plist_value) \<Rightarrow> (plist_value \<Rightarrow> string) \<Rightarrow> (string \<times> string) list \<Rightarrow>
     (error, unit) host" where
  "set_daemon_environment_macos parse to_xml env =
     bindE (read_to_string (\<lambda>e. Service (''failed to parse plist: '' @ io_error_string e)) PLIST_PATH)
       (\<lambda>text.
     bindE (of_result (map_sum (\<lambda>e. Service (''failed to parse plist: '' @ e)) id (parse text)))
       (\<lambda>parsed_plist.
     bindE (launchctl_vars env []) (\<lambda>vars.
     bindE (case parsed_plist of
              PlDictionary d \<Rightarrow> ret (PlDictionary (dict_insert ''EnvironmentVariables'' (PlDictionary vars) d))
            | _ \<Rightarrow> fail (Service ''plist missing dict'')) (\<lambda>parsed_plist.
     seqE (fs_call (\<lambda>e. Service (''failed to open plist: '' @ io_error_string e))
             (OpenWrite PLIST_PATH write_truncate))
    (seqE (fs_call (\<lambda>e. Service (''failed to replace plist: '' @ io_error_string e))
             (WriteAll PLIST_PATH write_truncate (to_xml parsed_plist)))
    (seqE (set_launch_daemon_state False)
    (seqE (sleep_ms 1000)
    (seqE (set_launch_daemon_state True)
    (seqE (sleep_ms 1000)
     (ret ()))))))))))"

definition get_system_path_var :: "(error, string) host" where
  "get_system_path_var =
     seqE (sys_call (\<lambda>e. Registry (''Failed to open environment subkey: '' @ io_error_string e))
             ''open_subkey''
             [windows_path [''SYSTEM'', ''CurrentControlSet'', ''Control'', ''Session Manager'', ''Environment'']])
     (query_call (\<lambda>e. Registry (''Failed to get PATH: '' @ io_error_string e)) ''get_value'' [''Path''])"

section \<open>Lemmas\<close>

lemma seqE_assoc: "seqE (seqE m k) l = seqE m (seqE k l)"
  by (simp add: seqE_def bindE_assoc)

text \<open>
  The history of a wait for systemd, written down without the loop: reports of the daemon's unit, each
  followed by a pause of a second.  \<open>status_polled text n r es\<close> says that \<open>es\<close> has at most \<open>n\<close> reports, that only
  the last one can have \<open>text\<close>, and how the outcome \<open>r\<close> depends on them.
\<close>

definition systemctl :: "string \<Rightarrow> command" where
  "systemctl verb = command_new ''systemctl'' [verb, ''mullvad-daemon'']"

definition status_says :: "string \<Rightarrow> process_output \<Rightarrow> bool" where
  "status_says text out \<longleftrightarrow> contains (from_utf8_lossy (out_stdout out)) text"

definition fruitless :: "process_output list \<Rightarrow> host_ev list" where
  "fruitless outs = concat (map (\<lambda>out. [Output (systemctl ''status'') (Inr out), SleepMs 1000]) outs)"

definition status_polled :: "string \<Rightarrow> nat \<Rightarrow> (error, unit) res \<Rightarrow> host_ev list \<Rightarrow> bool" where
  "status_polled text n r es \<longleftrightarrow> (\<exists>outs. list_all (\<lambda>out. \<not> status_says text out) outs \<and> (case r of
      Ok _ \<Rightarrow> length outs < n \<and> (\<exists>out. status_says text out \<and> es = fruitless outs @ [Output (systemctl ''status'') (Inr out)])
    | Err e \<Rightarrow>
        length outs = n \<and> es = fruitless outs \<and> e = Service ''Awaiting new service state timed out'' \<or>
        length outs < n \<and> (\<exists>io. es = fruitless outs @ [Output (systemctl ''status'') (Inl io)] \<and>
          e = Service (io_error_string io))
    | Panic _ \<Rightarrow> False))"

lemma fruitless_simps [simp]:
  "fruitless [] = []"
  "fruitless (out # outs) = Output (systemctl ''status'') (Inr out) # SleepMs 1000 # fruitless outs"
  by (simp_all add: fruitless_def)

lemma status_polled_again:
  assumes "status_polled text n r es" "\<not> status_says text out"
  shows "status_polled text (Suc n) r (Output (systemctl ''status'') (Inr out) # SleepMs 1000 # es)"
proof -
  obtain outs where "list_all (\<lambda>out. \<not> status_says text out) outs \<and> (case r of
      Ok _ \<Rightarrow> length outs < n \<and> (\<exists>out. status_says text out \<and> es = fruitless outs @ [Output (systemctl ''status'') (Inr out)])
    | Err e \<Rightarrow>
        length outs = n \<and> es = fruitless outs \<and> e = Service ''Awaiting new service state timed out'' \<or>
        length outs < n \<and> (\<exists>io. es = fruitless outs @ [Output (systemctl ''status'') (Inl io)] \<and>
          e = Service (io_error_string io))
    | Panic _ \<Rightarrow> False)"
    using assms(1) unfolding status_polled_def by blast
  with assms(2) show ?thesis
    unfolding status_polled_def by (intro exI [of _ "out # outs"]) (cases r, auto)
qed

primrec state_text :: "service_state \<Rightarrow> string" where
  "state_text StateRunning = ''active (running)''"
| "state_text StateInactive = ''inactive (dead)''"

lemma state_reached_says: "state_reached st (from_utf8_lossy (out_stdout out)) \<longleftrightarrow> status_says (state_text st) out"
  by (cases st) (simp_all add: status_says_def)

lemma service_status_systemctl: "service_status_cmd = systemctl ''status''"
  by (simp add: service_status_cmd_def systemctl_def)

lemma spec_wait_loop: "spec (wait_for_state_loop n st) (status_polled (state_text st) n)"
proof (induction n)
  case 0
  show ?case by (simp add: status_polled_def spec_fail)
next
  case (Suc n)
  show ?case
    unfolding wait_for_state_loop.simps cmd_output_def sleep_ms_def state_reached_says service_status_systemctl
  proof (rule spec_bind_callE)
    fix out
    show "spec (if status_says (state_text st) out then ret () else seqE (emit (SleepMs 1000)) (wait_for_state_loop n st))
        (\<lambda>r es. status_polled (state_text st) (Suc n) r (Output (systemctl ''status'') (Inr out) # es))"
    proof (cases "status_says (state_text st) out")
      case True
      then show ?thesis by (auto intro!: spec_ret exI [of _ "[]"] simp: status_polled_def)
    next
      case False
      then show ?thesis
        by (auto intro!: spec_seq_emit spec_weaken [OF Suc.IH] intro: status_polled_again)
    qed
  next
    fix io
    show "status_polled (state_text st) (Suc n) (Err (service_err io)) [Output (systemctl ''status'') (Inl io)]"
      unfolding status_polled_def by (rule exI [of _ "[]"]) (simp add: service_err_def)
  qed
qed

lemma spec_wait_keeps_files:
  "spec (wait_for_state_loop n st) (\<lambda>r es. \<forall>f. file_run p es f = f)"
proof (induction n)
  case (Suc n)
  then show ?case
    by (auto intro!: spec_rules simp: host_calls intro: spec_weaken)
qed (auto intro!: spec_rules)

lemma spec_install_override:
  "spec (install_override file content)
     (\<lambda>r es. r = Ok () \<longrightarrow> (\<forall>f. fst (file_run file es f) = write_at 0 (fst f) content))"
proof -
  have wait: "spec (seqE (wait_for_service_state StateRunning) (ret ())) (\<lambda>r es. \<forall>f. file_run file es f = f)"
    unfolding wait_for_service_state_def
    by (rule spec_seqE [OF spec_wait_keeps_files [where p = "file"]]) (auto intro!: spec_rules)
  show ?thesis unfolding install_override_def host_calls
    by (cases "path_parent file")
       (auto intro!: spec_rules intro: spec_weaken [OF wait] simp: create_write_def)
qed

section \<open>Properties\<close>

text \<open>
  C37.  Starting or stopping the daemon on Linux: the first thing that happens is \<open>systemctl start\<close> or
  \<open>systemctl stop\<close> for its unit.  If that cannot be run, nothing else is done and its error is returned.
  Otherwise the call succeeds exactly with the first report of \<open>systemctl status\<close> that says
  \<open>active (running)\<close> or \<open>inactive (dead)\<close>, whichever was asked for, after fewer than ten reports that do
  not say so, each followed by a pause of a second; ten such reports are a time-out, and a report that
  cannot be obtained is its own error.  There is no panic.
\<close>

theorem daemon_service_state_reached:
  "\<exists>started rest. snd (set_mullvad_daemon_service_state_linux on env tr) =
       tr @ Status (command_new ''systemctl'' [if on then ''start'' else ''stop'', ''mullvad-daemon'']) started # rest \<and>
     (case started of
        Inl io \<Rightarrow> rest = [] \<and> fst (set_mullvad_daemon_service_state_linux on env tr) = Err (Service (io_error_string io))
      | Inr _ \<Rightarrow> status_polled (if on then ''active (running)'' else ''inactive (dead)'') 10
          (fst (set_mullvad_daemon_service_state_linux on env tr)) rest)"
proof -
  have wait: "spec (seqE (wait_for_service_state st) (ret ())) (status_polled (state_text st) 10)" for st
    unfolding wait_for_service_state_def RETRY_ATTEMPTS_def
    by (rule spec_seqE [OF spec_wait_loop]) (auto intro!: spec_ret)
  have "spec (set_mullvad_daemon_service_state_linux on) (\<lambda>r es. \<exists>started rest.
      es = Status (command_new ''systemctl'' [if on then ''start'' else ''stop'', ''mullvad-daemon'']) started # rest \<and>
      (case started of Inl io \<Rightarrow> rest = [] \<and> r = Err (Service (io_error_string io))
       | Inr _ \<Rightarrow> status_polled (if on then ''active (running)'' else ''inactive (dead)'') 10 r rest))"
    unfolding set_mullvad_daemon_service_state_linux_def host_calls
    using wait [of StateRunning] wait [of StateInactive]
    by (cases on) (auto simp: seqE_assoc service_err_def intro!: spec_rules elim!: spec_weaken)
  then show ?thesis
    by (rule specD [where env = env and tr = tr]) (elim exE conjE, intro exI conjI, simp, assumption)
qed

text \<open>
   The override file is opened without truncation, so a successful call leaves the new content
  followed by whatever the previous, longer content had behind it.  Once the level was \<open>Trace\<close>,
  setting any other level leaves the file, and with it the level of the restarted daemon, unchanged.
\<close>

lemma log_level_cannot_be_lowered:
  assumes "fst (set_daemon_log_level_linux v env tr) = Ok ()"
    and "file_after OVERRIDE_FILE tr s = override_content Trace"
  shows "file_after OVERRIDE_FILE (snd (set_daemon_log_level_linux v env tr)) s = override_content Trace"
proof -
  have "write_at 0 (override_content Trace) (override_content v) = override_content Trace"
    by (cases v) (simp_all add: write_at_0 override_content_def)
  with assms show ?thesis
    using specD [OF spec_install_override, of OVERRIDE_FILE "override_content v" env tr]
    unfolding set_daemon_log_level_linux_def file_after_def
    by (metis file_run_append)
qed

abbreviation "demo_host \<equiv> calm_host ''active (running)''"

lemma log_level_cannot_be_lowered_witness:
  "fst (set_daemon_log_level_linux Info demo_host (snd (set_daemon_log_level_linux Trace demo_host []))) = Ok () \<and>
   file_after OVERRIDE_FILE (snd (set_daemon_log_level_linux Info demo_host
     (snd (set_daemon_log_level_linux Trace demo_host [])))) [] = override_content Trace"
proof -
  have active: "contains (from_utf8_lossy (bytes_of ''active (running)'')) ''active (running)''"
    by (subst from_utf8_lossy_bytes_of) (simp_all add: is_ascii_def bytes_of_def)
  have ok: "fst (set_daemon_log_level_linux v demo_host tr) = Ok ()" for v tr
    by (simp add: set_daemon_log_level_linux_def install_override_def wait_for_service_state_def
        RETRY_ATTEMPTS_def eval_nat_numeral prog_defs host_calls active OVERRIDE_FILE_def
        path_parent_def)
  have "file_after OVERRIDE_FILE (snd (set_daemon_log_level_linux Trace demo_host [])) [] =
      override_content Trace"
    using specD [OF spec_install_override, of OVERRIDE_FILE "override_content Trace" demo_host "[]"]
      ok [of Trace "[]"]
    unfolding set_daemon_log_level_linux_def file_after_def
    by (metis append_Nil fst_conv write_at_0 drop_Nil append_Nil2)
  from log_level_cannot_be_lowered [OF ok this] ok show ?thesis by blast
qed

end
