(* ===== verification/Runner_Package.thy ===== *)
theory Runner_Package
  imports Host
begin

text \<open>
  \<open>test-runner/src/package.rs\<close>: installing and removing the app with the package manager of the
  guest.  \<open>kill_on_drop\<close> and the piped output streams do not change what the functions return.
\<close>

section \<open>Outcomes of package managers\<close>

definition strip_error :: "package_error \<Rightarrow> io_error \<Rightarrow> package_error" where
  "strip_error error source = error"

definition result_from_output :: "process_output \<Rightarrow> package_error + unit" where
  "result_from_output out =
    (if status_success (out_status out) then Inr ()
     else case status_code (out_status out) of
       Some c \<Rightarrow> Inl (InstallerFailed c)
     | None \<Rightarrow> Inl InstallerFailedSignal)"

definition run_package_manager :: "command \<Rightarrow> (package_error, unit) host" where
  "run_package_manager cmd =
     seqE (cmd_spawn (strip_error RunApp) cmd)
    (bindE (cmd_wait_output (strip_error RunApp) cmd) (\<lambda>out. of_result (result_from_output out)))"

section \<open>Linux\<close>

datatype distribution = Debian | Ubuntu | Fedora

definition get_distribution :: "(package_error, distribution) host" where
  "get_distribution =
     bindE (callE (\<lambda>_. UnknownOs ''unknown'') (\<lambda>env. he_os_release env) OsRelease) (\<lambda>os_release.
     bindE (case map_of os_release ''id'' of Some i \<Rightarrow> ret i
            | None \<Rightarrow> (case map_of os_release ''ID'' of Some i \<Rightarrow> ret i
                | None \<Rightarrow> fail (UnknownOs ''unknown''))) (\<lambda>id.
     if id = ''debian'' then ret Debian
     else if id = ''ubuntu'' then ret Ubuntu
     else if id = ''fedora'' then ret Fedora
     else fail (UnknownOs id)))"

definition install_dpkg :: "string \<Rightarrow> (package_error, unit) host" where
  "install_dpkg path = run_package_manager (command_new ''/usr/bin/dpkg'' [''-i'', path])"

definition uninstall_dpkg :: "string \<Rightarrow> (string \<times> string) list \<Rightarrow> bool \<Rightarrow> (package_error, unit) host" where
  "uninstall_dpkg name env purge =
     run_package_manager (command_envs
       (command_new ''/usr/bin/dpkg'' (if purge then [''--purge'', name] else [''-r'', name])) env)"

definition MAX_INSTALL_ATTEMPTS :: nat where "MAX_INSTALL_ATTEMPTS = 5"
definition RETRY_WAIT_INTERVAL :: nat where "RETRY_WAIT_INTERVAL = 3000"
definition RETRY_SUBSTRING :: bytes where "RETRY_SUBSTRING = bytes_of ''Failed to download''"

definition should_retry :: "process_output \<Rightarrow> bool" where
  "should_retry out \<longleftrightarrow> \<not> status_success (out_status out) \<and>
     list_ex (\<lambda>slice. slice = RETRY_SUBSTRING) (windows (length RETRY_SUBSTRING) (out_stderr out))"

function install_rpm_loop :: "command \<Rightarrow> nat \<Rightarrow> (package_error, unit) host" where
  "install_rpm_loop cmd attempts =
     seqE (cmd_spawn (strip_error RunApp) cmd)
    (bindE (cmd_wait_output (strip_error RunApp) cmd) (\<lambda>out.
       if should_retry out \<and> attempts + 1 < MAX_INSTALL_ATTEMPTS
       then seqE (sleep_ms RETRY_WAIT_INTERVAL) (install_rpm_loop cmd (attempts + 1))
       else of_result (result_from_output out)))"
  by auto

termination
  by (relation "measure (\<lambda>(cmd, attempts). MAX_INSTALL_ATTEMPTS - attempts)") auto

declare install_rpm_loop.simps [simp del]

definition install_rpm :: "string \<Rightarrow> (package_error, unit) host" where
  "install_rpm path =
     install_rpm_loop (command_new ''/usr/bin/dnf'' [''install'', ''-y'', path]) 0"

definition uninstall_rpm :: "string \<Rightarrow> (string \<times> string) list \<Rightarrow> (package_error, unit) host" where
  "uninstall_rpm name env =
     run_package_manager (command_envs (command_new ''/usr/bin/dnf'' [''remove'', ''-y'', name]) env)"

definition install_package_linux :: "package \<Rightarrow> (package_error, unit) host" where
  "install_package_linux package = bindE get_distribution (\<lambda>d. case d of
      Debian \<Rightarrow> install_dpkg (pkg_path package)
    | Ubuntu \<Rightarrow> install_dpkg (pkg_path package)
    | Fedora \<Rightarrow> install_rpm (pkg_path package))"

definition uninstall_app_linux :: "(string \<times> string) list \<Rightarrow> (package_error, unit) host" where
  "uninstall_app_linux env = bindE get_distribution (\<lambda>d. case d of
      Debian \<Rightarrow> uninstall_dpkg ''mullvad-vpn'' env True
    | Ubuntu \<Rightarrow> uninstall_dpkg ''mullvad-vpn'' env True
    | Fedora \<Rightarrow> uninstall_rpm ''mullvad-vpn'' env)"

section \<open>macOS\<close>

definition append_only :: open_options where
  "append_only = \<lparr>oo_create = False, oo_truncate = False, oo_append = True\<rparr>"

definition uninstall_app_macos :: "(string \<times> string) list \<Rightarrow> (package_error, unit) host" where
  "uninstall_app_macos env =
     seqE (fs_call (strip_error WriteFile) (OpenWrite ''/etc/sudoers'' append_only))
    (seqE (for_each (\<lambda>k. fs_call (strip_error WriteFile) (WriteAll ''/etc/sudoers'' append_only
             ([CHR 0x0A] @ ''Defaults env_keep += '' @ [CHR 0x22] @ k @ [CHR 0x22]))) (map fst env))
     (run_package_manager (command_envs (command_new ''zsh'' [''-c'',
        [CHR 0x22] @ ''/Applications/Mullvad VPN.app/Contents/Resources/uninstall.sh'' @ [CHR 0x22]
        @ '' << EOF'' @ [CHR 0x0A] @ ''y'' @ [CHR 0x0A] @ ''y'' @ [CHR 0x0A] @ ''y'' @ [CHR 0x0A] @ ''EOF''])
        env)))"

definition install_package_macos :: "package \<Rightarrow> (package_error, unit) host" where
  "install_package_macos package = run_package_manager
     (command_new ''/usr/sbin/installer'' [''-pkg'', pkg_path package, ''-target'', ''/''])"

section \<open>Windows\<close>

text \<open>The directory of \<open>std::env::temp_dir()\<close> is a parameter.\<close>

definition uninstall_app_windows :: "string \<Rightarrow> (string \<times> string) list \<Rightarrow> (package_error, unit) host" where
  "uninstall_app_windows temp_dir env =
    (let program_dir = windows_path [''C:'', ''Program Files'', ''Mullvad VPN''];
         uninstall_path = windows_path [program_dir, ''Uninstall Mullvad VPN.exe''];
         temp_uninstaller = windows_path [temp_dir, ''mullvad_uninstall.exe'']
     in seqE (fs_call (strip_error CreateTempUninstaller) (CopyTo uninstall_path temp_uninstaller))
       (run_package_manager (command_envs
          (command_new temp_uninstaller [''/allusers'', ''/S'', '' _?='' @ program_dir]) env)))"

definition install_nsis_exe :: "string \<Rightarrow> (package_error, unit) host" where
  "install_nsis_exe path = run_package_manager (command_new path [''/S''])"

definition install_package_windows :: "package \<Rightarrow> (package_error, unit) host" where
  "install_package_windows package = install_nsis_exe (pkg_path package)"

section \<open>Retrying the download\<close>

lemma should_retry_iff:
  "should_retry out \<longleftrightarrow>
     \<not> status_success (out_status out) \<and> sublist (bytes_of ''Failed to download'') (out_stderr out)"
proof -
  have "length RETRY_SUBSTRING > 0" by (simp add: RETRY_SUBSTRING_def bytes_of_def)
  from windows_Ex_iff_sublist [OF this, of "out_stderr out"] show ?thesis
    by (simp add: should_retry_def list_ex_iff) (simp add: RETRY_SUBSTRING_def)
qed

definition retries :: "command \<Rightarrow> process_output list \<Rightarrow> host_ev list" where
  "retries cmd outs = concat (map (\<lambda>out.
     [Spawn cmd (Inr ()), WaitOutput cmd (Inr out), SleepMs RETRY_WAIT_INTERVAL]) outs)"

text \<open>
  \<open>final_attempt\<close> says how the last of the attempts, after \<open>n\<close> earlier ones, can end.
\<close>

definition final_attempt ::
  "command \<Rightarrow> nat \<Rightarrow> (package_error, unit) res \<Rightarrow> host_ev list \<Rightarrow> bool" where
  "final_attempt cmd n r es \<longleftrightarrow>
     (\<exists>e. es = [Spawn cmd (Inl e)] \<and> r = Err RunApp) \<or>
     (\<exists>e. es = [Spawn cmd (Inr ()), WaitOutput cmd (Inl e)] \<and> r = Err RunApp) \<or>
     (\<exists>out. es = [Spawn cmd (Inr ()), WaitOutput cmd (Inr out)] \<and>
        (should_retry out \<longrightarrow> n + 1 = MAX_INSTALL_ATTEMPTS) \<and>
        r = (case result_from_output out of Inl e \<Rightarrow> Err e | Inr u \<Rightarrow> Ok u))"

definition rpm_history ::
  "command \<Rightarrow> nat \<Rightarrow> (package_error, unit) res \<Rightarrow> host_ev list \<Rightarrow> bool" where
  "rpm_history cmd n r es \<longleftrightarrow> (\<exists>outs last. es = retries cmd outs @ last \<and>
     list_all should_retry outs \<and> n + length outs < MAX_INSTALL_ATTEMPTS \<and>
     final_attempt cmd (n + length outs) r last)"

lemma rpm_history_retry:
  "should_retry out \<Longrightarrow> rpm_history cmd (Suc n) r es \<Longrightarrow>
   rpm_history cmd n r (Spawn cmd (Inr ()) # WaitOutput cmd (Inr out) # SleepMs RETRY_WAIT_INTERVAL # es)"
  unfolding rpm_history_def
  by (elim exE, rule_tac x = "out # outs" in exI) (auto simp: retries_def)

lemma rpm_history_final:
  "n < MAX_INSTALL_ATTEMPTS \<Longrightarrow> final_attempt cmd n r es \<Longrightarrow> rpm_history cmd n r es"
  unfolding rpm_history_def by (intro exI [of _ "[]"] exI [of _ es]) (simp add: retries_def)

lemma spec_install_rpm_loop:
  "n < MAX_INSTALL_ATTEMPTS \<Longrightarrow> spec (install_rpm_loop cmd n) (rpm_history cmd n)"
proof (induction cmd n rule: install_rpm_loop.induct)
  case (1 cmd n)
  have body: "spec (if should_retry out \<and> n + 1 < MAX_INSTALL_ATTEMPTS
       then seqE (sleep_ms RETRY_WAIT_INTERVAL) (install_rpm_loop cmd (n + 1))
       else of_result (result_from_output out))
     (\<lambda>r es. rpm_history cmd n r (Spawn cmd (Inr ()) # WaitOutput cmd (Inr out) # es))" for out
  proof (cases "should_retry out \<and> n + 1 < MAX_INSTALL_ATTEMPTS")
    case True
    from 1(1) [OF True] True have "spec (install_rpm_loop cmd (n + 1)) (rpm_history cmd (Suc n))" by simp
    with True show ?thesis
      by (auto simp: sleep_ms_def intro!: spec_seq_emit intro: spec_weaken rpm_history_retry)
  next
    case False
    have "final_attempt cmd n (case result_from_output out of Inl e \<Rightarrow> Err e | Inr u \<Rightarrow> Ok u)
        [Spawn cmd (Inr ()), WaitOutput cmd (Inr out)]"
      using False 1(2) by (auto simp: final_attempt_def)
    from rpm_history_final [OF 1(2) this] False show ?thesis
      by (auto simp: of_result_def intro!: spec_rules split: sum.splits)
  qed
  show ?case
    unfolding install_rpm_loop.simps [of cmd n] cmd_spawn_def cmd_wait_output_def
    by (intro spec_seq_callE spec_bind_callE)
       (use body in \<open>auto intro!: rpm_history_final [OF 1(2)] simp: final_attempt_def strip_error_def\<close>)
qed

section \<open>Properties\<close>

text \<open>
  Installing an RPM runs the package manager at most five times.  It tries again, after three
  seconds, exactly when the manager failed and its error output contains \<open>Failed to download\<close>;
  the result is that of the last attempt, and a process that could not be started or waited for
  ends the installation at once.
\<close>

lemma install_rpm_retries:
  "\<exists>es. snd (install_rpm path env tr) = tr @ es \<and>
     rpm_history (command_new ''/usr/bin/dnf'' [''install'', ''-y'', path]) 0
       (fst (install_rpm path env tr)) es"
  using spec_install_rpm_loop [of 0] by (simp add: install_rpm_def spec_def MAX_INSTALL_ATTEMPTS_def)

end
