(* ===== verification/Runner_App.thy ===== *)
theory Runner_App
  imports Host "HOL-Library.Multiset"
begin

text \<open>
  \<open>test-runner/src/app.rs\<close>: which files of the app are left on the guest, and making the stored
  device look a year old.
\<close>

section \<open>Traces of the app\<close>

text \<open>\<open>Vec::swap_remove\<close>: the last element takes the place of the removed one.\<close>

definition swap_remove :: "nat \<Rightarrow> 'a list \<Rightarrow> 'a list" where
  "swap_remove i xs = (if i = length xs - 1 then butlast xs else (butlast xs)[i := last xs])"

text \<open>The loop \<open>for i in (0..paths.len()).rev()\<close>, with \<open>i + 1\<close> iterations left.\<close>

fun filter_loop :: "nat \<Rightarrow> string list \<Rightarrow> (error, string list) host" where
  "filter_loop 0 paths = ret paths"
| "filter_loop (Suc i) paths =
     bindE (try_exists (\<lambda>_. Syscall) (paths ! i)) (\<lambda>path_exists.
       filter_loop i (if \<not> path_exists then swap_remove i paths else paths))"

definition filter_non_existent_paths :: "string list \<Rightarrow> (error, string list) host" where
  "filter_non_existent_paths paths = filter_loop (length paths) paths"

definition traces_of :: "string list \<Rightarrow> (error, app_trace list) host" where
  "traces_of paths = bindE (filter_non_existent_paths paths) (\<lambda>traces. ret (map TracePath traces))"

definition linux_trace_paths :: "string list" where
  "linux_trace_paths = [
     ''/etc/mullvad-vpn/'',
     ''/var/log/mullvad-vpn/'',
     ''/var/cache/mullvad-vpn/'',
     ''/opt/Mullvad VPN/'',
     ''/var/run/mullvad-vpn'',
     ''/usr/lib/systemd/system/mullvad-daemon.service'',
     ''/usr/lib/systemd/system/mullvad-early-boot-blocking.service'',
     ''/usr/bin/mullvad'',
     ''/usr/bin/mullvad-daemon'',
     ''/usr/bin/mullvad-exclude'',
     ''/usr/bin/mullvad-problem-report'',
     ''/usr/share/bash-completion/completions/mullvad'',
     ''/usr/local/share/zsh/site-functions/_mullvad'',
     ''/usr/share/fish/vendor_completions.d/mullvad.fish'']"

definition macos_trace_paths :: "string list" where
  "macos_trace_paths = [
     ''/Applications/Mullvad VPN.app/'',
     ''/var/log/mullvad-vpn/'',
     ''/Library/Caches/mullvad-vpn/'',
     ''/var/run/mullvad-vpn'',
     ''/Library/LaunchDaemons/net.mullvad.daemon.plist'',
     ''/usr/local/bin/mullvad'',
     ''/usr/local/bin/mullvad-problem-report'',
     ''/usr/local/share/zsh/site-functions/_mullvad'',
     ''/opt/homebrew/share/fish/vendor_completions.d/mullvad.fish'',
     ''/usr/local/share/fish/vendor_completions.d/mullvad.fish'']"

definition find_traces_linux :: "(error, app_trace list) host" where
  "find_traces_linux = traces_of linux_trace_paths"

definition find_traces_macos :: "(error, app_trace list) host" where
  "find_traces_macos = traces_of macos_trace_paths"

text \<open>\<open>mullvad_paths::get_default_settings_dir\<close> is a query of the environment.\<close>

definition find_traces_windows :: "(error, app_trace list) host" where
  "find_traces_windows =
     bindE (query_call (\<lambda>_. Syscall) ''get_default_settings_dir'' []) (\<lambda>settings_dir.
       traces_of [windows_path [''C:'', ''Program Files'', ''Mullvad VPN''],
                  windows_path [''C:'', ''ProgramData'', ''Mullvad VPN''],
                  settings_dir])"

section \<open>Ageing the device\<close>

text \<open>
  JSON values as the public type of \<open>serde_json\<close> has them; reading and writing them as text, and
  time stamps (\<open>chrono\<close>), are parameters.
\<close>

datatype json_value =
    JNull | JBool bool | JNumber string | JString string
  | JArray "json_value list" | JObject "(string \<times> json_value) list"

fun json_get :: "string list \<Rightarrow> json_value \<Rightarrow> json_value option" where
  "json_get [] v = Some v"
| "json_get (k # ks) (JObject kvs) = (case map_of kvs k of None \<Rightarrow> None | Some v \<Rightarrow> json_get ks v)"
| "json_get (k # ks) v = None"

fun assoc_put :: "string \<Rightarrow> 'v \<Rightarrow> (string \<times> 'v) list \<Rightarrow> (string \<times> 'v) list" where
  "assoc_put k v [] = []"
| "assoc_put k v ((k', v') # kvs) = (if k = k' then (k, v) # kvs else (k', v') # assoc_put k v kvs)"

text \<open>Assignment through a \<open>get_mut\<close> chain; nothing happens when a key is missing.\<close>

fun json_set :: "string list \<Rightarrow> json_value \<Rightarrow> json_value \<Rightarrow> json_value" where
  "json_set [] w v = w"
| "json_set (k # ks) w (JObject kvs) = (case map_of kvs k of
      None \<Rightarrow> JObject kvs
    | Some v \<Rightarrow> JObject (assoc_put k (json_set ks w v) kvs))"
| "json_set (k # ks) w v = v"

record 't device_lib =
  dl_parse :: "string \<Rightarrow> string + json_value"
  dl_render :: "json_value \<Rightarrow> string + string"
  dl_time_from :: "json_value \<Rightarrow> string + 't"
  dl_sub_days :: "'t \<Rightarrow> nat \<Rightarrow> 't option"
  dl_time_to :: "'t \<Rightarrow> string + json_value"

definition DEVICE_JSON_PATH :: "os \<Rightarrow> string" where
  "DEVICE_JSON_PATH os = (case os of
      Windows \<Rightarrow> windows_path [''C:'', ''Windows'', ''system32'', ''config'', ''systemprofile'', ''AppData'',
        ''Local'', ''Mullvad VPN'', ''device.json'']
    | _ \<Rightarrow> ''/etc/mullvad-vpn/device.json'')"

definition CREATED_PATH :: "string list" where
  "CREATED_PATH = [''logged_in'', ''device'', ''wg_data'', ''created'']"

definition unwrap_or_panic :: "'a option \<Rightarrow> ('e, 'a) host" where
  "unwrap_or_panic x = (case x of Some a \<Rightarrow> ret a | None \<Rightarrow> panic ''unwrap on None'')"

definition unwrap_result :: "string + 'a \<Rightarrow> ('e, 'a) host" where
  "unwrap_result x = (case x of Inr a \<Rightarrow> ret a | Inl e \<Rightarrow> panic e)"

definition make_device_json_old :: "'t device_lib \<Rightarrow> os \<Rightarrow> (error, unit) host" where
  "make_device_json_old lib os =
     bindE (read_to_string (\<lambda>e. FileSystem (io_error_string e)) (DEVICE_JSON_PATH os)) (\<lambda>device_json.
     bindE (of_result (map_sum FileSerialization id (dl_parse lib device_json))) (\<lambda>device_state.
     bindE (unwrap_or_panic (json_get CREATED_PATH device_state)) (\<lambda>created_ref.
     bindE (unwrap_result (dl_time_from lib created_ref)) (\<lambda>created.
     bindE (unwrap_or_panic (dl_sub_days lib created 365)) (\<lambda>created.
     bindE (unwrap_result (dl_time_to lib created)) (\<lambda>created_value.
     bindE (of_result (map_sum FileSerialization id
              (dl_render lib (json_set CREATED_PATH created_value device_state)))) (\<lambda>device_json.
     seqE (fs_call (\<lambda>e. FileSystem (io_error_string e)) (WriteWhole (DEVICE_JSON_PATH os) device_json))
     (ret ()))))))))"

section \<open>Filtering in place\<close>

lemma mset_butlast_last: "xs \<noteq> [] \<Longrightarrow> mset (butlast xs) + {#last xs#} = mset xs"
  by (cases xs rule: rev_cases) simp_all

lemma swap_remove_mset:
  assumes "i < length xs"
  shows "mset (swap_remove i xs) + {#xs ! i#} = mset xs"
proof (cases "i = length xs - 1")
  case True
  from assms have "xs \<noteq> []" by auto
  with True mset_butlast_last [of xs] show ?thesis
    by (auto simp: swap_remove_def last_conv_nth)
next
  case False
  with assms have i: "i < length (butlast xs)" "xs ! i = butlast xs ! i" by (simp_all add: nth_butlast)
  then have "butlast xs ! i \<in># mset (butlast xs)" by simp
  then have "add_mset (butlast xs ! i) (add_mset (last xs) (mset (butlast xs) - {#butlast xs ! i#})) =
      mset (butlast xs) + {#last xs#}"
    by (simp add: add_mset_commute)
  also have "mset (butlast xs) + {#last xs#} = mset xs"
    using assms by (intro mset_butlast_last) auto
  finally show ?thesis using i False by (simp add: swap_remove_def mset_update)
qed

lemma take_swap_remove: "i < length xs \<Longrightarrow> take i (swap_remove i xs) = take i xs"
  by (auto simp: swap_remove_def take_butlast butlast_conv_take take_update_cancel)

lemma drop_swap_remove:
  assumes "i < length xs"
  shows "mset (drop i (swap_remove i xs)) = mset (drop (Suc i) xs)"
proof -
  have "mset (take i xs @ drop i (swap_remove i xs)) = mset (swap_remove i xs)"
    using append_take_drop_id [of i "swap_remove i xs"] take_swap_remove [OF assms] by simp
  moreover have "mset xs = mset (take i xs @ xs ! i # drop (Suc i) xs)"
    using id_take_nth_drop [OF assms] by simp
  ultimately show ?thesis using swap_remove_mset [OF assms] by simp
qed

text \<open>The answers to the existence checks, in the order in which they are made.\<close>

definition checked :: "string list \<Rightarrow> bool list \<Rightarrow> host_ev list" where
  "checked ps bs = map2 (\<lambda>p b. Exists p (Inr b)) ps bs"

definition existing :: "string list \<Rightarrow> bool list \<Rightarrow> string list" where
  "existing ps bs = map fst (filter snd (zip ps bs))"

definition filtered :: "nat \<Rightarrow> string list \<Rightarrow> (error, string list) res \<Rightarrow> host_ev list \<Rightarrow> bool" where
  "filtered i paths r es \<longleftrightarrow> (\<exists>bs. case r of
      Ok ps \<Rightarrow> length bs = i \<and> es = checked (rev (take i paths)) bs \<and>
        mset ps = mset (existing (rev (take i paths)) bs) + mset (drop i paths)
    | Err e \<Rightarrow> e = Syscall \<and> length bs < i \<and>
        (\<exists>x. es = checked (rev (take i paths)) bs @ [Exists (rev (take i paths) ! length bs) (Inl x)])
    | Panic _ \<Rightarrow> False)"

lemma checked_simps [simp]:
  "checked [] bs = []" "checked (p # ps) (b # bs) = Exists p (Inr b) # checked ps bs"
  by (simp_all add: checked_def)

lemma existing_simps [simp]:
  "existing [] bs = []"
  "existing (p # ps) (b # bs) = (if b then p # existing ps bs else existing ps bs)"
  by (simp_all add: existing_def)

lemma filtered_Suc:
  assumes "i < length paths"
    and "filtered i (if \<not> b then swap_remove i paths else paths) r es"
  shows "filtered (Suc i) paths r (Exists (paths ! i) (Inr b) # es)"
proof -
  let ?paths = "if \<not> b then swap_remove i paths else paths"
  have tk: "take i ?paths = take i paths" using take_swap_remove [OF assms(1)] by simp
  have split: "rev (take (Suc i) paths) = paths ! i # rev (take i paths)"
    using assms(1) by (simp add: take_Suc_conv_app_nth)
  have rest: "mset (drop i ?paths) = (if b then {#paths ! i#} else {#}) + mset (drop (Suc i) paths)"
    using drop_swap_remove [OF assms(1)] Cons_nth_drop_Suc [OF assms(1), symmetric] by simp
  from assms(2) obtain bs where bs: "case r of
      Ok ps \<Rightarrow> length bs = i \<and> es = checked (rev (take i paths)) bs \<and>
        mset ps = mset (existing (rev (take i paths)) bs) + mset (drop i ?paths)
    | Err e \<Rightarrow> e = Syscall \<and> length bs < i \<and>
        (\<exists>x. es = checked (rev (take i paths)) bs @ [Exists (rev (take i paths) ! length bs) (Inl x)])
    | Panic _ \<Rightarrow> False"
    unfolding filtered_def tk by blast
  show ?thesis
    unfolding filtered_def split
    by (rule exI [of _ "b # bs"]) (use bs rest in \<open>auto split: res.splits\<close>)
qed

lemma length_swap_remove [simp]: "length (swap_remove i xs) = length xs - 1"
  by (simp add: swap_remove_def)

lemma spec_filter_loop: "i \<le> length paths \<Longrightarrow> spec (filter_loop i paths) (filtered i paths)"
proof (induction i arbitrary: paths)
  case 0
  show ?case by (auto intro!: spec_rules simp: filtered_def)
next
  case (Suc i)
  have rec: "spec (filter_loop i (if \<not> b then swap_remove i paths else paths))
      (filtered i (if \<not> b then swap_remove i paths else paths))" for b
    using Suc.prems by (intro Suc.IH) auto
  have fails: "filtered (Suc i) paths (Err Syscall) [Exists (paths ! i) (Inl e)]" for e
    using Suc.prems
    by (simp add: filtered_def take_Suc_conv_app_nth) (auto simp: checked_def intro!: exI [of _ "[]"])
  show ?case
    unfolding filter_loop.simps try_exists_def
    using Suc.prems
    by (intro spec_bind_callE spec_weaken [OF rec] filtered_Suc fails) auto
qed

lemma json_get_set: "json_get p v \<noteq> None \<Longrightarrow> json_get p (json_set p w v) = Some w"
proof (induction p w v rule: json_set.induct)
  case (2 k ks w kvs)
  then obtain v where v: "map_of kvs k = Some v" "json_get ks v \<noteq> None" by (auto split: option.splits)
  have "map_of (assoc_put k u kvs) k = Some u" for u
    using v(1) by (induction kvs) (auto split: if_splits)
  with 2 v show ?case by auto
qed auto

section \<open>Properties\<close>

text \<open>
  Looking for traces on Linux checks every known path exactly once, from the last to the first,
  although the list is compacted in place while it is walked.  The reported traces are exactly the
  paths whose check said that they exist, as a multiset; the first check that fails makes the whole
  search fail.
\<close>

lemma traces_are_existing_paths:
  "\<exists>es bs. snd (find_traces_linux env tr) = tr @ es \<and>
     (case fst (find_traces_linux env tr) of
        Ok ts \<Rightarrow> length bs = length linux_trace_paths \<and> es = checked (rev linux_trace_paths) bs \<and>
          mset ts = mset (map TracePath (existing (rev linux_trace_paths) bs))
      | Err e \<Rightarrow> e = Syscall \<and> (\<exists>k x. k < length linux_trace_paths \<and>
          es = checked (rev linux_trace_paths) bs @ [Exists (rev linux_trace_paths ! k) (Inl x)] \<and> length bs = k)
      | Panic _ \<Rightarrow> False)"
proof -
  have "spec find_traces_linux (\<lambda>r es. \<exists>bs. case r of
        Ok ts \<Rightarrow> length bs = length linux_trace_paths \<and> es = checked (rev linux_trace_paths) bs \<and>
          mset ts = mset (map TracePath (existing (rev linux_trace_paths) bs))
      | Err e \<Rightarrow> e = Syscall \<and> (\<exists>k x. k < length linux_trace_paths \<and>
          es = checked (rev linux_trace_paths) bs @ [Exists (rev linux_trace_paths ! k) (Inl x)] \<and> length bs = k)
      | Panic _ \<Rightarrow> False)"
    unfolding find_traces_linux_def traces_of_def filter_non_existent_paths_def
    by (rule spec_bindE [OF spec_filter_loop [OF order_refl]])
       (auto simp: filtered_def intro!: spec_ret)
  then show ?thesis by (simp add: spec_def)
qed

end
