(* ===== verification/Runner_Logging.thy ===== *)
theory Runner_Logging
  imports Host
begin

text \<open>
  \<open>test-runner/src/logging.rs\<close> and the two polling methods of \<open>test-runner/src/main.rs\<close>: log records
  are filtered, buffered in a broadcast channel of \<open>tokio\<close> and handed out to the manager; the app's
  own log files are collected from disk.

  The channel is a parameter: the locale \<open>log_channel\<close> states what \<open>tokio::sync::broadcast\<close>
  documents for one receiver (a bounded buffer, the oldest values are dropped when it is full and
  the receiver is told once that it lagged).
\<close>

section \<open>Buffering log records\<close>

record log_record =
  lr_level :: level
  lr_target :: string
  lr_args :: string

definition MAX_OUTPUT_BUFFER :: nat where "MAX_OUTPUT_BUFFER = 10000"

definition log_enabled :: "log_record \<Rightarrow> bool" where
  "log_enabled rec \<longleftrightarrow> lr_level rec \<le> LInfo"

text \<open>The line \<open>StdOutBuffer::log\<close> sends to the channel, if any.\<close>

definition log_sent :: "log_record \<Rightarrow> log_line option" where
  "log_sent rec = (if log_enabled rec then
      (case lr_level rec of
         LError \<Rightarrow> Some (OutError (lr_args rec))
       | LWarn \<Rightarrow> Some (OutWarning (lr_args rec))
       | LInfo \<Rightarrow> if \<not> contains (lr_target rec) ''tarpc'' then Some (OutInfo (lr_args rec)) else None
       | _ \<Rightarrow> None)
    else None)"

text \<open>\<open>StdOutBuffer::log\<close> on the channel and the text printed on standard output.\<close>

definition log_write ::
  "(log_line \<Rightarrow> 'c \<Rightarrow> 'c) \<Rightarrow> log_record \<Rightarrow> 'c \<times> string list \<Rightarrow> 'c \<times> string list" where
  "log_write send rec = (\<lambda>(c, printed).
     ((case log_sent rec of Some l \<Rightarrow> send l c | None \<Rightarrow> c),
      if log_enabled rec then printed @ [lr_args rec] else printed))"

text \<open>\<open>init_logger\<close> installs \<open>LOGGER\<close>; \<open>set_logger\<close> fails when there is a logger already.\<close>

definition init_logger :: "log_facade \<Rightarrow> (unit + unit) \<times> log_facade" where
  "init_logger st = (if lf_logger_set st then (Inl (), st)
     else (Inr (), st\<lparr>lf_logger_set := True, lf_max_level := Some LInfo\<rparr>))"

section \<open>Polling\<close>

datatype recv_result = RecvLine log_line | RecvEmpty | RecvClosed | RecvLagged

partial_function (option) drain ::
  "('c \<Rightarrow> recv_result \<times> 'c) \<Rightarrow> log_line list \<Rightarrow> 'c \<Rightarrow> (log_line list \<times> 'c) option" where
  "drain try_recv buffer c = (case try_recv c of
      (RecvLine l, c) \<Rightarrow> drain try_recv (buffer @ [l]) c
    | (_, c) \<Rightarrow> Some (buffer, c))"

text \<open>
  The outer \<open>option\<close> is whether the call returns: \<open>poll_output\<close> waits in \<open>recv\<close> for a line, which
  is \<open>None\<close> of \<open>recv\<close> here.
\<close>

definition poll_output ::
  "('c \<Rightarrow> (recv_result \<times> 'c) option) \<Rightarrow> ('c \<Rightarrow> recv_result \<times> 'c) \<Rightarrow> 'c \<Rightarrow>
     ((error + log_line list) \<times> 'c) option" where
  "poll_output recv try_recv listener = (case recv listener of
      None \<Rightarrow> None
    | Some (RecvLine l, c) \<Rightarrow> map_option (\<lambda>(buffer, c). (Inr buffer, c)) (drain try_recv [l] c)
    | Some (_, c) \<Rightarrow> Some (Inl (Logger StandardOutput), c))"

definition try_poll_output ::
  "('c \<Rightarrow> recv_result \<times> 'c) \<Rightarrow> 'c \<Rightarrow> ((error + log_line list) \<times> 'c) option" where
  "try_poll_output try_recv listener = (case try_recv listener of
      (RecvLine l, c) \<Rightarrow> map_option (\<lambda>(buffer, c). (Inr buffer, c)) (drain try_recv [l] c)
    | (RecvEmpty, c) \<Rightarrow> Some (Inr [], c)
    | (_, c) \<Rightarrow> Some (Inl (Logger StandardOutput), c))"

section \<open>The channel\<close>

locale log_channel =
  fixes send :: "log_line \<Rightarrow> 'c \<Rightarrow> 'c"
    and try_recv :: "'c \<Rightarrow> recv_result \<times> 'c"
    and recv :: "'c \<Rightarrow> (recv_result \<times> 'c) option"
    and held :: "'c \<Rightarrow> log_line list"
    and lagged :: "'c \<Rightarrow> bool"
    and capacity :: nat
  assumes capacity: "MAX_OUTPUT_BUFFER \<le> capacity"
    and send_room: "length (held c) < capacity \<Longrightarrow> held (send l c) = held c @ [l] \<and> lagged (send l c) = lagged c"
    and send_full: "length (held c) = capacity \<Longrightarrow> held (send l c) = tl (held c) @ [l] \<and> lagged (send l c)"
    and try_lagged: "lagged c \<Longrightarrow> fst (try_recv c) = RecvLagged \<and> held (snd (try_recv c)) = held c \<and>
          \<not> lagged (snd (try_recv c))"
    and try_line: "\<not> lagged c \<Longrightarrow> held c = l # ls \<Longrightarrow> fst (try_recv c) = RecvLine l \<and>
          held (snd (try_recv c)) = ls \<and> \<not> lagged (snd (try_recv c))"
    and try_empty: "\<not> lagged c \<Longrightarrow> held c = [] \<Longrightarrow> fst (try_recv c) = RecvEmpty \<and>
          held (snd (try_recv c)) = [] \<and> \<not> lagged (snd (try_recv c))"
    and recv_waits: "\<not> lagged c \<Longrightarrow> held c = [] \<Longrightarrow> recv c = None"
    and recv_now: "lagged c \<or> held c \<noteq> [] \<Longrightarrow> recv c = Some (try_recv c)"
begin

lemma drain_all:
  "\<not> lagged c \<Longrightarrow> \<exists>c'. drain try_recv buffer c = Some (buffer @ held c, c') \<and> held c' = [] \<and> \<not> lagged c'"
proof (induction "held c" arbitrary: c buffer)
  case Nil
  with try_empty [of c] show ?case
    by (subst drain.simps) (auto split: prod.splits)
next
  case (Cons l ls)
  obtain c' where c': "try_recv c = (RecvLine l, c')" "held c' = ls" "\<not> lagged c'"
    using try_line [of c l ls] Cons by (metis prod.collapse)
  with Cons(1) [of c' "buffer @ [l]"] Cons(2) [symmetric] show ?case
    by (subst drain.simps) auto
qed

lemma try_poll_all:
  "\<not> lagged c \<Longrightarrow> \<exists>c'. try_poll_output try_recv c = Some (Inr (held c), c') \<and> held c' = [] \<and> \<not> lagged c'"
proof (cases "held c")
  case Nil
  moreover assume "\<not> lagged c"
  ultimately show ?thesis using try_empty [of c]
    by (cases "try_recv c") (auto simp: try_poll_output_def)
next
  case (Cons l ls)
  assume lg: "\<not> lagged c"
  obtain c' where c': "try_recv c = (RecvLine l, c')" "held c' = ls" "\<not> lagged c'"
    using try_line [OF lg Cons] by (metis prod.collapse)
  with drain_all [of c' "[l]"] Cons show ?thesis
    by (auto simp: try_poll_output_def)
qed

lemma poll_all:
  assumes "\<not> lagged c" "held c \<noteq> []"
  shows "\<exists>c'. poll_output recv try_recv c = Some (Inr (held c), c') \<and> held c' = [] \<and> \<not> lagged c'"
proof -
  obtain l ls where held: "held c = l # ls" using assms by (cases "held c") auto
  obtain c' where c': "try_recv c = (RecvLine l, c')" "held c' = ls" "\<not> lagged c'"
    using try_line [OF assms(1) held] by (metis prod.collapse)
  with drain_all [of c' "[l]"] held recv_now [of c] show ?thesis
    by (auto simp: poll_output_def)
qed

lemma poll_lagged:
  assumes "lagged c"
  shows "\<exists>c'. poll_output recv try_recv c = Some (Inl (Logger StandardOutput), c') \<and>
           held c' = held c \<and> \<not> lagged c'"
  using try_lagged [OF assms] recv_now [of c] assms
  by (cases "try_recv c") (auto simp: poll_output_def)

lemma fold_log_held:
  assumes "length (held c) + length (List.map_filter log_sent recs) \<le> capacity" "\<not> lagged c"
  shows "held (fst (fold (log_write send) recs (c, out))) = held c @ List.map_filter log_sent recs \<and>
         \<not> lagged (fst (fold (log_write send) recs (c, out)))"
  using assms
proof (induction recs arbitrary: c out)
  case (Cons rec recs)
  show ?case
  proof (cases "log_sent rec")
    case None
    with Cons show ?thesis by (simp add: log_write_def List.map_filter_simps)
  next
    case (Some l)
    with Cons.prems send_room [of c l] have
      "held (send l c) = held c @ [l]" "\<not> lagged (send l c)" by (auto simp: List.map_filter_simps)
    with Cons.IH [of "send l c"] Cons.prems Some show ?thesis
      by (simp add: log_write_def List.map_filter_simps)
  qed
qed (simp add: List.map_filter_simps)

end

text \<open>A bounded buffer: the lines held and whether some were dropped since the last receive.\<close>

record broadcast_buffer =
  bb_held :: "log_line list"
  bb_lagged :: bool

definition BUFFER_CAPACITY :: nat where "BUFFER_CAPACITY = 16384"

definition bb_send :: "log_line \<Rightarrow> broadcast_buffer \<Rightarrow> broadcast_buffer" where
  "bb_send l c = (if length (bb_held c) < BUFFER_CAPACITY then c\<lparr>bb_held := bb_held c @ [l]\<rparr>
     else c\<lparr>bb_held := tl (bb_held c) @ [l], bb_lagged := True\<rparr>)"

definition bb_try_recv :: "broadcast_buffer \<Rightarrow> recv_result \<times> broadcast_buffer" where
  "bb_try_recv c = (if bb_lagged c then (RecvLagged, c\<lparr>bb_lagged := False\<rparr>)
     else case bb_held c of [] \<Rightarrow> (RecvEmpty, c) | l # ls \<Rightarrow> (RecvLine l, c\<lparr>bb_held := ls\<rparr>))"

definition bb_recv :: "broadcast_buffer \<Rightarrow> (recv_result \<times> broadcast_buffer) option" where
  "bb_recv c = (if bb_lagged c \<or> bb_held c \<noteq> [] then Some (bb_try_recv c) else None)"

interpretation bb: log_channel bb_send bb_try_recv bb_recv bb_held bb_lagged BUFFER_CAPACITY
  by unfold_locales
     (auto simp: bb_send_def bb_try_recv_def bb_recv_def BUFFER_CAPACITY_def MAX_OUTPUT_BUFFER_def)

section \<open>Log files of the app\<close>

definition read_settings_file :: "(logging_error, string) host" where
  "read_settings_file =
     bindE (query_call (\<lambda>e. Logs (io_error_string e)) ''get_default_settings_dir'' []) (\<lambda>dir.
       let settings_path = path_join dir ''settings.json''
       in read_to_string (\<lambda>e. Logs (settings_path @ '': '' @ io_error_string e)) settings_path)"

text \<open>\<open>Path::extension\<close> of the final component.\<close>

definition file_name :: "string \<Rightarrow> string" where
  "file_name p = rev (takeWhile (\<lambda>c. c \<noteq> CHR ''/'') (rev p))"

definition extension :: "string \<Rightarrow> string option" where
  "extension p = (let name = file_name p; ext = rev (takeWhile (\<lambda>c. c \<noteq> CHR ''.'') (rev name))
     in if name = ''..'' \<or> length name \<le> length ext + 1 then None else Some ext)"

text \<open>
  \<open>read_dir\<close> answers with the entries its iterator yields before it ends or fails, which both end
  the \<open>while let\<close> loop.
\<close>

definition list_logs :: "string \<Rightarrow> (logging_error, string list) host" where
  "list_logs log_dir =
     bindE (read_dir (\<lambda>e. Logs (log_dir @ '': '' @ io_error_string e)) log_dir) (\<lambda>entries.
       ret (filter (\<lambda>path. extension path = Some ''log'') entries))"

fun read_each :: "string list \<Rightarrow> ('e, (logging_error + log_file) list) host" where
  "read_each [] = ret []"
| "read_each (path # paths) =
     bindE (attempt (read_to_string (\<lambda>e. Logs (path @ '': '' @ io_error_string e)) path)) (\<lambda>r.
     bindE (read_each paths) (\<lambda>rest.
       ret (map_sum id (\<lambda>content. \<lparr>lf_name = path, lf_content = content\<rparr>) r # rest)))"

text \<open>\<open>{}\<close> of a \<open>logging::Error\<close>.\<close>

primrec logging_error_display :: "logging_error \<Rightarrow> string" where
  "logging_error_display StandardOutput = ''Could not get standard output from runner''"
| "logging_error_display (Logs s) = ''Could not get mullvad app logs from runner''"

definition read_log_files :: "(logging_error, (logging_error + log_file) list) host" where
  "read_log_files =
     bindE (query_call (\<lambda>e. Logs (io_error_string e)) ''get_default_log_dir'' []) (\<lambda>log_dir.
     bindE (map_err (\<lambda>e. Logs (logging_error_display e)) (list_logs log_dir)) (\<lambda>paths.
       read_each paths))"

definition get_mullvad_app_logs :: "('e, log_output) host" where
  "get_mullvad_app_logs =
     bindE (attempt read_settings_file) (\<lambda>settings.
     bindE (attempt read_log_files) (\<lambda>logs.
       ret \<lparr>settings_json = settings, log_files = logs\<rparr>))"

section \<open>Properties\<close>

text \<open>
  C22.  Log records reach the manager completely and in order: after any records of which no more
  than the capacity pass the filter, polling an initially empty buffer returns exactly the lines
  that passed, each once, and leaves the buffer empty.  The other kind of poll, which does not
  wait, returns the same.
\<close>

theorem runner_log_is_delivered:
  assumes "log_channel send try_recv recv held lagged capacity"
    and "held c = []" "\<not> lagged c" "List.map_filter log_sent recs \<noteq> []"
    and "length (List.map_filter log_sent recs) \<le> MAX_OUTPUT_BUFFER"
  shows "\<exists>c1 c2. poll_output recv try_recv (fst (fold (log_write send) recs (c, out))) =
             Some (Inr (List.map_filter log_sent recs), c1) \<and> held c1 = [] \<and>
           try_poll_output try_recv (fst (fold (log_write send) recs (c, out))) =
             Some (Inr (List.map_filter log_sent recs), c2) \<and> held c2 = [] \<and>
           try_poll_output try_recv c1 = Some (Inr [], snd (try_recv c1))"
proof -
  from assms(1) have cap: "length (List.map_filter log_sent recs) \<le> capacity"
    using log_channel.capacity assms(5) order_trans by blast
  note held = log_channel.fold_log_held [OF assms(1), of c recs out, unfolded assms(2), simplified,
      OF cap assms(3)]
  obtain c1 where c1: "poll_output recv try_recv (fst (fold (log_write send) recs (c, out))) =
             Some (Inr (List.map_filter log_sent recs), c1)" "held c1 = []" "\<not> lagged c1"
    using log_channel.poll_all [OF assms(1)] held assms(4) by metis
  moreover obtain c2 where "try_poll_output try_recv (fst (fold (log_write send) recs (c, out))) =
             Some (Inr (List.map_filter log_sent recs), c2)" "held c2 = []"
    using log_channel.try_poll_all [OF assms(1)] held by metis
  moreover have "try_poll_output try_recv c1 = Some (Inr [], snd (try_recv c1))"
    using log_channel.try_empty [OF assms(1) c1(3) c1(2)]
    by (cases "try_recv c1") (simp add: try_poll_output_def)
  ultimately show ?thesis by blast
qed

definition demo_records :: "log_record list" where
  "demo_records = [\<lparr>lr_level = LInfo, lr_target = ''tarpc::client'', lr_args = ''a''\<rparr>,
     \<lparr>lr_level = LWarn, lr_target = ''tarpc::client'', lr_args = ''b''\<rparr>,
     \<lparr>lr_level = LDebug, lr_target = ''test_runner'', lr_args = ''c''\<rparr>,
     \<lparr>lr_level = LInfo, lr_target = ''test_runner'', lr_args = ''d''\<rparr>]"

theorem runner_log_is_delivered_witness:
  "\<exists>c1. poll_output bb_recv bb_try_recv (fst (fold (log_write bb_send) demo_records
       (\<lparr>bb_held = [], bb_lagged = False\<rparr>, []))) = Some (Inr [OutWarning ''b'', OutInfo ''d''], c1)"
proof -
  have lines: "List.map_filter log_sent demo_records = [OutWarning ''b'', OutInfo ''d'']"
    by (simp add: demo_records_def log_sent_def log_enabled_def less_eq_level_def List.map_filter_simps)
  show ?thesis
    using runner_log_is_delivered [OF bb.log_channel_axioms, of "\<lparr>bb_held = [], bb_lagged = False\<rparr>"
        demo_records "[]"]
    by (simp add: lines MAX_OUTPUT_BUFFER_def) blast
qed

end
