(* ===== verification/Runner_Net.thy ===== *)
theory Runner_Net
  imports Host
begin

text \<open>
  \<open>test-runner/src/net.rs\<close>: sending single packets from chosen interfaces, and looking up the
  addresses of interfaces; and \<open>geoip_lookup\<close> of \<open>test-rpc/src/net.rs\<close>.  The platform variants of
  the source (\<open>cfg(target_os)\<close>) are selected by an argument of type \<open>os\<close>.
\<close>

section \<open>Interfaces\<close>

primrec TUNNEL_INTERFACE :: "os \<Rightarrow> string" where
  "TUNNEL_INTERFACE Linux = ''wg-mullvad''"
| "TUNNEL_INTERFACE Windows = ''Mullvad''"
| "TUNNEL_INTERFACE Macos = ''utun3''"

definition non_tunnel_interface :: "os \<Rightarrow> ('e, string) host" where
  "non_tunnel_interface os = (case os of
      Linux \<Rightarrow> ret ''ens3''
    | Macos \<Rightarrow> ret ''en0''
    | Windows \<Rightarrow>
        bindE (expect ''failed to obtain Windows version'' (performE (\<lambda>env. he_windows_build env) WindowsBuild)) (\<lambda>build.
          if 22000 \<le> build then ret ''Ethernet'' else ret ''Ethernet Instance 0''))"

definition get_interface_name :: "os \<Rightarrow> interface \<Rightarrow> ('e, string) host" where
  "get_interface_name os iface = (case iface of
      Tunnel \<Rightarrow> ret (TUNNEL_INTERFACE os)
    | NonTunnel \<Rightarrow> non_tunnel_interface os)"

fun first_v4 :: "string \<Rightarrow> (string \<times> ip_addr option) list \<Rightarrow> ip_addr option" where
  "first_v4 alias [] = None"
| "first_v4 alias ((name, addr) # addrs) =
    (if name = alias then
       (case addr of Some (V4 a b c d) \<Rightarrow> Some (V4 a b c d) | _ \<Rightarrow> first_v4 alias addrs)
     else first_v4 alias addrs)"

definition get_interface_ip_for_family :: "interface \<Rightarrow> bool \<Rightarrow> (unit, ip_addr option) host" where
  "get_interface_ip_for_family iface ipv4 =
     bindE (get_interface_name Windows iface) (\<lambda>name.
     seqE (sys_call (\<lambda>_. ()) ''luid_from_alias'' [name])
     (callE (\<lambda>_. ()) (\<lambda>env tr. he_adapter_ip env tr name ipv4) (AdapterIp name ipv4)))"

definition get_interface_ip :: "os \<Rightarrow> interface \<Rightarrow> (error, ip_addr) host" where
  "get_interface_ip os iface = (case os of
      Windows \<Rightarrow>
        bindE (map_err (\<lambda>_. Syscall) (get_interface_ip_for_family iface True)) (\<lambda>ip.
          case ip of Some ip \<Rightarrow> ret ip | None \<Rightarrow> fail InterfaceNotFound)
    | _ \<Rightarrow>
        bindE (get_interface_name os iface) (\<lambda>alias.
        bindE (callE (\<lambda>_. Syscall) (\<lambda>env. he_ifaddrs env) IfAddrs) (\<lambda>addrs.
          case first_v4 alias addrs of Some ip \<Rightarrow> ret ip | None \<Rightarrow> fail InterfaceNotFound)))"

section \<open>Sending packets\<close>

definition hello :: bytes where "hello = bytes_of ''hello''"

definition socket_domain :: "socket_addr \<Rightarrow> domain" where
  "socket_domain a = (if is_ipv4 (sock_ip a) then Ipv4Domain else Ipv6Domain)"

text \<open>Binding a socket to an interface, as far as the platform does it.\<close>

definition bind_to_interface :: "os \<Rightarrow> error \<Rightarrow> interface option \<Rightarrow> (error, unit) host" where
  "bind_to_interface os err bind_interface = (case bind_interface of
      None \<Rightarrow> ret ()
    | Some iface \<Rightarrow>
        bindE (get_interface_name os iface) (\<lambda>name. case os of
            Macos \<Rightarrow>
              bindE (perform (\<lambda>env tr. he_ifindex env tr name) (IfIndex name)) (\<lambda>index.
                if index = 0 then fail err
                else net_call (\<lambda>_. err) (BindDeviceByIndex index))
          | Linux \<Rightarrow> net_call (\<lambda>_. err) (BindDevice name)
          | Windows \<Rightarrow> ret ()))"

definition send_tcp :: "os \<Rightarrow> interface option \<Rightarrow> socket_addr \<Rightarrow> socket_addr \<Rightarrow> (error, unit) host" where
  "send_tcp os bind_interface bind_addr destination =
     seqE (net_call (\<lambda>_. SendTcp) (SocketNew (socket_domain destination) StreamSocket))
    (seqE (net_call (\<lambda>_. SendTcp) SetNonblocking)
    (seqE (bind_to_interface os SendTcp bind_interface)
    (seqE (net_call (\<lambda>_. SendTcp) (BindAddr bind_addr))
    (seqE (net_call (\<lambda>_. SendTcp) (ConnectTo destination))
    (seqE (net_call (\<lambda>_. SendTcp) IntoTokio)
    (seqE (net_call (\<lambda>_. SendTcp) (StreamWrite hello))
     (ret ())))))))"

definition send_udp :: "os \<Rightarrow> interface option \<Rightarrow> socket_addr \<Rightarrow> socket_addr \<Rightarrow> (error, unit) host" where
  "send_udp os bind_interface bind_addr destination =
     seqE (net_call (\<lambda>_. SendUdp) (SocketNew (socket_domain destination) DgramSocket))
    (seqE (net_call (\<lambda>_. SendUdp) SetNonblocking)
    (seqE (bind_to_interface os SendUdp bind_interface)
    (seqE (net_call (\<lambda>_. SendUdp) (BindAddr bind_addr))
    (seqE (net_call (\<lambda>_. SendUdp) IntoTokio)
    (seqE (net_call (\<lambda>_. SendUdp) (SendTo hello destination))
     (ret ()))))))"

definition net_result_from_output :: "process_output \<Rightarrow> 'e \<Rightarrow> 'e + unit" where
  "net_result_from_output out err = (if status_success (out_status out) then Inr () else Inl err)"

text \<open>The source address that Windows looks up before it builds the command.\<close>

definition ping_source_ip :: "os \<Rightarrow> interface option \<Rightarrow> ip_addr \<Rightarrow> (error, ip_addr option) host" where
  "ping_source_ip os iface destination = (case (os, iface) of
      (Windows, Some iface) \<Rightarrow>
        bindE (map_err (\<lambda>_. Syscall) (get_interface_ip_for_family iface (is_ipv4 destination))) (\<lambda>ip.
          case ip of None \<Rightarrow> fail Ping | Some ip \<Rightarrow> ret (Some ip))
    | _ \<Rightarrow> ret None)"

definition source_args :: "os \<Rightarrow> ip_addr option \<Rightarrow> string list" where
  "source_args os source_ip = (case (os, source_ip) of
      (Windows, Some ip) \<Rightarrow> [''-S'', ip_display ip] | _ \<Rightarrow> [])"

definition interface_args :: "os \<Rightarrow> interface option \<Rightarrow> ip_addr option \<Rightarrow> ('e, string list) host" where
  "interface_args os iface source_ip = (case iface of
      Some Tunnel \<Rightarrow> ret (source_args os source_ip @ (case os of
          Windows \<Rightarrow> [''-I'', TUNNEL_INTERFACE Windows]
        | Macos \<Rightarrow> [''-b'', TUNNEL_INTERFACE Macos]
        | Linux \<Rightarrow> []))
    | Some NonTunnel \<Rightarrow> (case os of
          Linux \<Rightarrow> bindE (non_tunnel_interface Linux) (\<lambda>n. ret (source_args os source_ip @ [''-I'', n]))
        | Macos \<Rightarrow> bindE (non_tunnel_interface Macos) (\<lambda>n. ret (source_args os source_ip @ [''-b'', n]))
        | Windows \<Rightarrow> ret (source_args os source_ip))
    | None \<Rightarrow> ret [])"

definition send_ping :: "os \<Rightarrow> interface option \<Rightarrow> ip_addr \<Rightarrow> (error, unit) host" where
  "send_ping os iface destination =
     bindE (ping_source_ip os iface destination) (\<lambda>source_ip.
     bindE (interface_args os iface source_ip) (\<lambda>extra.
     let cmd = command_new ''ping''
       ([ip_display destination] @ (if os = Windows then [''-n'', ''1''] else [''-c'', ''1'']) @ extra)
     in seqE (cmd_spawn (\<lambda>_. Ping) cmd)
       (bindE (cmd_wait_output (\<lambda>_. Ping) cmd) (\<lambda>out. of_result (net_result_from_output out Ping)))))"

section \<open>Locating the guest (test-rpc/src/net.rs)\<close>

text \<open>
  URI validation (\<open>hyper\<close>) and JSON deserialisation are parameters; a request fails, or its body
  fails to arrive, or the body arrives.
\<close>

text \<open>
  The root certificate is a file of the source tree; \<open>pem_certs\<close> (\<open>rustls_pemfile\<close>) and
  \<open>add_parsable\<close> (\<open>rustls\<close>, the numbers of certificates it took and refused) are parameters.  The store
  is built when the TLS configuration is first used.
\<close>

definition read_cert_store ::
  "(bytes \<Rightarrow> string + bytes list) \<Rightarrow> (bytes list \<Rightarrow> nat \<times> nat) \<Rightarrow> bytes \<Rightarrow> (unit, bytes list) res" where
  "read_cert_store pem_certs add_parsable LE_ROOT_CERT = (case pem_certs LE_ROOT_CERT of
      Inl _ \<Rightarrow> Panic ''Failed to parse pem file''
    | Inr certs \<Rightarrow> (case add_parsable certs of (num_certs_added, num_failures) \<Rightarrow>
        if 0 < num_failures \<or> num_certs_added \<noteq> 1 then Panic ''Failed to add root cert'' else Ok certs))"

text \<open>
  With a library that counts every certificate exactly once, the runner only trusts a store that
  was read from a file with exactly one certificate.
\<close>

lemma cert_store_has_one_root:
  assumes "\<And>certs. fst (add_parsable certs) + snd (add_parsable certs) = length certs"
    and "read_cert_store pem_certs add_parsable pem = Ok certs"
  shows "pem_certs pem = Inr certs \<and> length certs = 1"
  using assms(2) assms(1) [of certs]
  by (auto simp: read_cert_store_def split: sum.splits prod.splits if_splits)

definition http_get :: "(bytes \<Rightarrow> string + 'a) \<Rightarrow> string \<Rightarrow> (error, 'a) host" where
  "http_get parse url =
     bindE (callE (\<lambda>e. HttpRequest (io_error_string e)) (\<lambda>env tr. he_http env tr url) (HttpGet url)) (\<lambda>body.
     bindE (of_result (map_sum (\<lambda>_. DeserializeBody) id body)) (\<lambda>bytes.
       of_result (map_sum (\<lambda>_. DeserializeBody) id (parse bytes))))"

definition geoip_lookup ::
  "(string \<Rightarrow> bool) \<Rightarrow> (bytes \<Rightarrow> string + am_i_mullvad) \<Rightarrow> string \<Rightarrow> (error, am_i_mullvad) host" where
  "geoip_lookup valid_uri parse mullvad_host =
    (let uri = ''https://ipv4.am.i.'' @ mullvad_host @ ''/json''
     in if valid_uri uri then http_get parse uri else fail InvalidUrl)"

section \<open>Lemmas\<close>

fun sends_traffic :: "net_op \<Rightarrow> bool" where
  "sends_traffic (ConnectTo a) = True"
| "sends_traffic (StreamWrite b) = True"
| "sends_traffic (SendTo b a) = True"
| "sends_traffic _ = False"

text \<open>The traffic that was sent in a history, in order.\<close>

definition traffic_of :: "host_ev \<Rightarrow> net_op list" where
  "traffic_of e = (case e of Net op (Inr _) \<Rightarrow> if sends_traffic op then [op] else [] | _ \<Rightarrow> [])"

definition traffic :: "host_ev list \<Rightarrow> net_op list" where
  "traffic es = concat (map traffic_of es)"

text \<open>The names of the interfaces on the systems where a socket can be bound to one.\<close>

definition interface_of :: "os \<Rightarrow> interface \<Rightarrow> string" where
  "interface_of os iface = (case (os, iface) of
      (Linux, Tunnel) \<Rightarrow> ''wg-mullvad'' | (Linux, NonTunnel) \<Rightarrow> ''ens3''
    | (Macos, Tunnel) \<Rightarrow> ''utun3'' | (Macos, NonTunnel) \<Rightarrow> ''en0''
    | (Windows, _) \<Rightarrow> [])"

text \<open>
  \<open>bound os name addr es\<close>: in \<open>es\<close> the socket was bound to the interface, by its name or by the valid
  index that was found for the name, and to the address.  \<open>guarded os name addr pre es\<close>: after \<open>pre\<close>,
  no connection is attempted and no data is sent in \<open>es\<close> before the socket was bound to both.
\<close>

definition bound :: "os \<Rightarrow> string \<Rightarrow> socket_addr \<Rightarrow> host_ev list \<Rightarrow> bool" where
  "bound os name addr es \<longleftrightarrow> Net (BindAddr addr) (Inr ()) \<in> set es \<and>
    (case os of
       Linux \<Rightarrow> Net (BindDevice name) (Inr ()) \<in> set es
     | Macos \<Rightarrow> (\<exists>i. i \<noteq> 0 \<and> IfIndex name i \<in> set es \<and> Net (BindDeviceByIndex i) (Inr ()) \<in> set es)
     | Windows \<Rightarrow> False)"

primrec guarded :: "os \<Rightarrow> string \<Rightarrow> socket_addr \<Rightarrow> host_ev list \<Rightarrow> host_ev list \<Rightarrow> bool" where
  "guarded os name addr pre [] = True"
| "guarded os name addr pre (e # es) =
    ((\<forall>op x. e = Net op x \<longrightarrow> sends_traffic op \<longrightarrow> bound os name addr pre) \<and> guarded os name addr (pre @ [e]) es)"

lemma traffic_simps [simp]: "traffic [] = []" "traffic (e # es) = traffic_of e @ traffic es"
  by (simp_all add: traffic_def)

lemma traffic_of_simps [simp]:
  "traffic_of (Net op (Inr u)) = (if sends_traffic op then [op] else [])"
  "traffic_of (Net op (Inl e)) = []" "traffic_of (IfIndex n i) = []"
  by (simp_all add: traffic_of_def)

text \<open>A call that sends the traffic \<open>plan\<close> from an interface and an address, or fails with \<open>err\<close>.\<close>

definition sends_from :: "os \<Rightarrow> string \<Rightarrow> socket_addr \<Rightarrow> net_op list \<Rightarrow> error \<Rightarrow> (error, unit) res \<Rightarrow> host_ev list \<Rightarrow> bool" where
  "sends_from os name addr plan err r es \<longleftrightarrow> guarded os name addr [] es \<and>
    (case r of Ok _ \<Rightarrow> traffic es = plan | Err e \<Rightarrow> e = err \<and> strict_prefix (traffic es) plan | Panic _ \<Rightarrow> False)"

lemma spec_send_tcp:
  assumes "os \<noteq> Windows"
  shows "spec (send_tcp os (Some iface) bind_addr destination)
    (sends_from os (interface_of os iface) bind_addr [ConnectTo destination, StreamWrite (bytes_of ''hello'')] SendTcp)"
  using assms
  by (cases os; cases iface)
     (auto simp: send_tcp_def bind_to_interface_def net_call_def get_interface_name_def non_tunnel_interface_def interface_of_def
       seqE_def bindE_assoc bound_def sends_from_def hello_def strict_prefix_def intro!: spec_rules)

lemma spec_send_udp:
  assumes "os \<noteq> Windows"
  shows "spec (send_udp os (Some iface) bind_addr destination)
    (sends_from os (interface_of os iface) bind_addr [SendTo (bytes_of ''hello'') destination] SendUdp)"
  using assms
  by (cases os; cases iface)
     (auto simp: send_udp_def bind_to_interface_def net_call_def get_interface_name_def non_tunnel_interface_def interface_of_def
       seqE_def bindE_assoc bound_def sends_from_def hello_def strict_prefix_def intro!: spec_rules)

lemma first_v4_sound: "first_v4 n addrs = Some ip \<Longrightarrow> (n, Some ip) \<in> set addrs \<and> is_ipv4 ip"
  by (induction n addrs rule: first_v4.induct)
     (auto split: if_splits option.splits ip_addr.splits)

section \<open>Properties\<close>

text \<open>
  C36.  On Linux and macOS a TCP or UDP test packet that is meant for a given interface leaves through
  it: no connection is attempted and nothing is sent unless the socket was bound before to that
  interface and to the given address, both successfully.  The call succeeds only when it connected to
  the given destination and wrote the message, or sent the datagram there, and sent nothing else; if it
  fails, it is with the error of its protocol and before the last of this.  It does not panic.  (On
  Windows the interface is ignored.)
\<close>

theorem packets_leave_through_interface:
  assumes "os \<noteq> Windows"
  shows "\<exists>es1 es2.
     snd (send_tcp os (Some iface) bind_addr destination env tr) = tr @ es1 \<and>
     sends_from os (interface_of os iface) bind_addr [ConnectTo destination, StreamWrite (bytes_of ''hello'')] SendTcp
       (fst (send_tcp os (Some iface) bind_addr destination env tr)) es1 \<and>
     snd (send_udp os (Some iface) bind_addr destination env tr) = tr @ es2 \<and>
     sends_from os (interface_of os iface) bind_addr [SendTo (bytes_of ''hello'') destination] SendUdp
       (fst (send_udp os (Some iface) bind_addr destination env tr)) es2"
  using spec_send_tcp [OF assms, of iface bind_addr destination] spec_send_udp [OF assms, of iface bind_addr destination]
  unfolding spec_def by blast

definition demo_addr :: "byte \<Rightarrow> socket_addr" where
  "demo_addr d = \<lparr>sock_ip = V4 10 0 0 d, sock_port = 80\<rparr>"

theorem packets_leave_through_interface_witness:
  "\<exists>es. snd (send_tcp Macos (Some NonTunnel) (demo_addr 1) (demo_addr 2) (calm_host []) []) = es \<and>
     guarded Macos ''en0'' (demo_addr 1) [] es \<and> traffic es = [ConnectTo (demo_addr 2), StreamWrite (bytes_of ''hello'')]"
proof -
  have "fst (send_tcp Macos (Some NonTunnel) (demo_addr 1) (demo_addr 2) (calm_host []) []) = Ok ()"
    by (simp add: send_tcp_def bind_to_interface_def get_interface_name_def non_tunnel_interface_def net_call_def
        calm_host_def calm_net_def prog_defs)
  with packets_leave_through_interface [of Macos NonTunnel "demo_addr 1" "demo_addr 2" "calm_host []" "[]"]
  show ?thesis by (auto simp: sends_from_def interface_of_def)
qed

text \<open>
  On Linux a ping through the tunnel is not bound to the tunnel: the command is the one that
  is run when no interface is given.  The option that selects the tunnel interface is only passed on
  Windows.
\<close>

lemma linux_tunnel_ping_is_unbound:
  "send_ping Linux (Some Tunnel) destination = send_ping Linux None destination"
  by (simp add: send_ping_def ping_source_ip_def interface_args_def source_args_def)

end
