(* ===== verification/Runner_Main.thy ===== *)
theory Runner_Main
  imports Runner_Sys Runner_Package Runner_App Runner_Logging Runner_Net Connection
begin

text \<open>
  \<open>test-runner/src/main.rs\<close>: the RPC service of the runner (\<open>impl Service for TestServer\<close>), which
  composes the modules of the runner, and the task that relays the daemon's management interface
  between the serial line and the local socket.
\<close>

section \<open>The service\<close>

definition SOCKET_PATH :: "os \<Rightarrow> string" where
  "SOCKET_PATH os = (case os of Windows \<Rightarrow> ''//./pipe/Mullvad VPN'' | _ \<Rightarrow> ''/var/run/mullvad-vpn'')"

text \<open>The libraries the handlers use, and the platform the runner was built for.\<close>

record 't server =
  sv_os :: os
  sv_device_lib :: "'t device_lib"
  sv_temp_dir :: string
  sv_valid_uri :: "string \<Rightarrow> bool"
  sv_parse_geoip :: "bytes \<Rightarrow> string + am_i_mullvad"
  sv_parse_plist :: "string \<Rightarrow> string + plist_value"
  sv_plist_to_xml :: "plist_value \<Rightarrow> string"

definition serve_install_app :: "'t server \<Rightarrow> package \<Rightarrow> (error, unit) host" where
  "serve_install_app self package = seqE (map_err Package (case sv_os self of
      Linux \<Rightarrow> install_package_linux package
    | Macos \<Rightarrow> install_package_macos package
    | Windows \<Rightarrow> install_package_windows package)) (ret ())"

definition serve_uninstall_app :: "'t server \<Rightarrow> (string \<times> string) list \<Rightarrow> (error, unit) host" where
  "serve_uninstall_app self env = seqE (map_err Package (case sv_os self of
      Linux \<Rightarrow> uninstall_app_linux env
    | Macos \<Rightarrow> uninstall_app_macos env
    | Windows \<Rightarrow> uninstall_app_windows (sv_temp_dir self) env)) (ret ())"

definition serve_exec ::
  "'t server \<Rightarrow> string \<Rightarrow> string list \<Rightarrow> (string \<times> string) list \<Rightarrow> (error, exec_result) host" where
  "serve_exec self path args env =
     bindE (if sv_os self = Windows
            then bindE get_system_path_var (\<lambda>v. ret (command_envs (command_new path args) [(''PATH'', v)]))
            else ret (command_new path args)) (\<lambda>cmd.
     bindE (cmd_output (\<lambda>_. Syscall) (command_envs cmd env)) (\<lambda>out.
       ret \<lparr>code = status_code (out_status out), exec_stdout = out_stdout out, exec_stderr = out_stderr out\<rparr>))"

definition get_pipe_status :: "os \<Rightarrow> ('e, service_status) host" where
  "get_pipe_status os = bindE (attempt (try_exists id (SOCKET_PATH os))) (\<lambda>r.
     ret (if r = Inr True then Running else NotRunning))"

definition serve_find_traces :: "'t server \<Rightarrow> (error, app_trace list) host" where
  "serve_find_traces self = (case sv_os self of
      Linux \<Rightarrow> find_traces_linux | Macos \<Rightarrow> find_traces_macos | Windows \<Rightarrow> find_traces_windows)"

definition serve_resolve_hostname :: "string \<Rightarrow> (error, socket_addr list) host" where
  "serve_resolve_hostname hostname =
     callE (\<lambda>_. DnsResolution) (\<lambda>env tr. he_lookup env tr (hostname @ '':0'')) (LookupHost (hostname @ '':0''))"

definition serve_set_daemon_log_level :: "'t server \<Rightarrow> verbosity \<Rightarrow> (error, unit) host" where
  "serve_set_daemon_log_level self v = (case sv_os self of
      Linux \<Rightarrow> set_daemon_log_level_linux v
    | Macos \<Rightarrow> set_daemon_log_level_macos v
    | Windows \<Rightarrow> set_daemon_log_level_windows v)"

definition serve_set_daemon_environment :: "'t server \<Rightarrow> (string \<times> string) list \<Rightarrow> (error, unit) host" where
  "serve_set_daemon_environment self env = (case sv_os self of
      Linux \<Rightarrow> set_daemon_environment_linux env
    | Macos \<Rightarrow> set_daemon_environment_macos (sv_parse_plist self) (sv_plist_to_xml self) env
    | Windows \<Rightarrow> set_daemon_environment_windows env)"

definition serve_copy_file :: "string \<Rightarrow> string \<Rightarrow> (error, unit) host" where
  "serve_copy_file src dest = seqE (fs_call (\<lambda>_. Syscall) (CopyTo src dest)) (ret ())"

definition serve_reboot :: "'t server \<Rightarrow> (error, unit) host" where
  "serve_reboot self = (case sv_os self of Windows \<Rightarrow> reboot_windows | _ \<Rightarrow> reboot_unix)"

definition serve_set_service_state :: "'t server \<Rightarrow> bool \<Rightarrow> (error, unit) host" where
  "serve_set_service_state self on = (case sv_os self of
      Linux \<Rightarrow> set_mullvad_daemon_service_state_linux on
    | Macos \<Rightarrow> set_mullvad_daemon_service_state_macos on
    | Windows \<Rightarrow> set_mullvad_daemon_service_state_windows on)"

datatype rpc_response =
    RespUnit "error + unit" | RespExec "error + exec_result" | RespOutput "error + log_line list"
  | RespLogs log_output | RespOs os | RespStatus service_status | RespTraces "error + app_trace list"
  | RespGeoip "error + am_i_mullvad" | RespString "error + string" | RespIp "error + ip_addr"
  | RespAddrs "error + socket_addr list"

definition reply :: "('a \<Rightarrow> rpc_response) \<Rightarrow> ('e, 'a) host \<Rightarrow> ('e, rpc_response) host" where
  "reply wrap m = bindE m (\<lambda>a. ret (wrap a))"

text \<open>
  One call of the service.  The log buffer is only touched by the two polling methods; a poll that
  waits for ever is \<open>None\<close>.
\<close>

type_synonym 'c log_ops = "('c \<Rightarrow> (recv_result \<times> 'c) option) \<times> ('c \<Rightarrow> recv_result \<times> 'c)"

definition unpolled ::
  "'c \<Rightarrow> (error, 'a) host \<Rightarrow> host_env \<Rightarrow> host_ev list \<Rightarrow> ((error, 'a) res \<times> 'c \<times> host_ev list) option" where
  "unpolled c m = (\<lambda>env tr. case m env tr of (r, tr') \<Rightarrow> Some (r, c, tr'))"

fun serve ::
  "'t server \<Rightarrow> 'c log_ops \<Rightarrow> rpc_request \<Rightarrow> 'c \<Rightarrow> host_env \<Rightarrow> host_ev list \<Rightarrow>
     ((error, rpc_response) res \<times> 'c \<times> host_ev list) option" where
  "serve self ops (InstallApp package) c = unpolled c
     (reply RespUnit (attempt (serve_install_app self package)))"
| "serve self ops (UninstallApp env) c = unpolled c
     (reply RespUnit (attempt (serve_uninstall_app self env)))"
| "serve self ops (Exec path args env) c = unpolled c
     (reply RespExec (attempt (serve_exec self path args env)))"
| "serve self ops GetMullvadAppLogs c = unpolled c
     (reply RespLogs get_mullvad_app_logs)"
| "serve self ops GetOs c = unpolled c
     (ret (RespOs (sv_os self)))"
| "serve self ops MullvadDaemonGetStatus c = unpolled c
     (reply RespStatus (get_pipe_status (sv_os self)))"
| "serve self ops FindMullvadAppTraces c = unpolled c
     (reply RespTraces (attempt (serve_find_traces self)))"
| "serve self ops (SendTcpReq iface bind_addr destination) c = unpolled c
     (reply RespUnit (attempt (send_tcp (sv_os self) iface bind_addr destination)))"
| "serve self ops (SendUdpReq iface bind_addr destination) c = unpolled c
     (reply RespUnit (attempt (send_udp (sv_os self) iface bind_addr destination)))"
| "serve self ops (SendPingReq iface destination) c = unpolled c
     (reply RespUnit (attempt (send_ping (sv_os self) iface destination)))"
| "serve self ops (GeoipLookup mullvad_host) c = unpolled c
     (reply RespGeoip (attempt (geoip_lookup (sv_valid_uri self) (sv_parse_geoip self) mullvad_host)))"
| "serve self ops (GetInterfaceName iface) c = unpolled c
     (reply (\<lambda>n. RespString (Inr n)) (get_interface_name (sv_os self) iface))"
| "serve self ops (GetInterfaceIp iface) c = unpolled c
     (reply RespIp (attempt (get_interface_ip (sv_os self) iface)))"
| "serve self ops (ResolveHostname hostname) c = unpolled c
     (reply RespAddrs (attempt (serve_resolve_hostname hostname)))"
| "serve self ops (SetDaemonLogLevel v) c = unpolled c
     (reply RespUnit (attempt (serve_set_daemon_log_level self v)))"
| "serve self ops (SetDaemonEnvironment env) c = unpolled c
     (reply RespUnit (attempt (serve_set_daemon_environment self env)))"
| "serve self ops (CopyFile src dest) c = unpolled c
     (reply RespUnit (attempt (serve_copy_file src dest)))"
| "serve self ops Reboot c = unpolled c
     (reply RespUnit (attempt (serve_reboot self)))"
| "serve self ops (SetMullvadDaemonServiceState on) c = unpolled c
     (reply RespUnit (attempt (serve_set_service_state self on)))"
| "serve self ops MakeDeviceJsonOld c = unpolled c
     (reply RespUnit (attempt (Runner_App.make_device_json_old (sv_device_lib self) (sv_os self))))"
| "serve self ops PollOutput c = (\<lambda>env tr.
     map_option (\<lambda>(r, c). (Ok (RespOutput r), c, tr)) (poll_output (fst ops) (snd ops) c))"
| "serve self ops TryPollOutput c = (\<lambda>env tr.
     map_option (\<lambda>(r, c). (Ok (RespOutput r), c, tr)) (try_poll_output (snd ops) c))"

section \<open>Relaying the management interface\<close>

text \<open>
  \<open>forward_to_mullvad_daemon_interface\<close> as a state machine: \<open>AwaitingManager\<close> is the top of the
  outer loop, \<open>Relaying\<close> the inner loop, \<open>Finished\<close> after its \<open>break\<close>.
\<close>

datatype relay_state = AwaitingManager | Relaying | Finished

datatype relay_event = ManagerSends "(io_error + bytes) option" | SocketReads "io_error + bytes"

datatype relay_out =
    ConnectSocket "io_error + unit" | SocketWrite bytes "io_error + unit" | ManagerWrite bytes "io_error + unit"

record relay_env =
  re_connect :: "relay_out list \<Rightarrow> io_error + unit"
  re_write :: "relay_out list \<Rightarrow> bytes \<Rightarrow> io_error + unit"
  re_send :: "relay_out list \<Rightarrow> bytes \<Rightarrow> io_error + unit"

type_synonym 'a relay = "(relay_env, relay_out, io_error, 'a) prog"

definition relay_connect :: "unit relay" where
  "relay_connect = performE re_connect ConnectSocket"

definition relay_write :: "bytes \<Rightarrow> unit relay" where
  "relay_write b = performE (\<lambda>env tr. re_write env tr b) (SocketWrite b)"

definition relay_send :: "bytes \<Rightarrow> unit relay" where
  "relay_send b = performE (\<lambda>env tr. re_send env tr b) (ManagerWrite b)"

fun relay_step :: "relay_state \<Rightarrow> relay_event \<Rightarrow> relay_state relay" where
  "relay_step AwaitingManager (ManagerSends (Some (Inr bytes))) =
    (if bytes = [] then ret AwaitingManager
     else bindE (attempt relay_connect) (\<lambda>r. case r of
         Inl _ \<Rightarrow> seqE (attempt (relay_send [])) (ret AwaitingManager)
       | Inr _ \<Rightarrow> bindE (attempt (relay_write bytes)) (\<lambda>r. case r of
             Inl _ \<Rightarrow> ret AwaitingManager
           | Inr _ \<Rightarrow> ret Relaying)))"
| "relay_step AwaitingManager (ManagerSends (Some (Inl e))) = ret Finished"
| "relay_step AwaitingManager (ManagerSends None) = ret Finished"
| "relay_step AwaitingManager (SocketReads r) = ret AwaitingManager"
| "relay_step Relaying (SocketReads (Inr bytes)) =
    (if bytes = [] then ret AwaitingManager
     else bindE (attempt (relay_send bytes)) (\<lambda>r. case r of
         Inl _ \<Rightarrow> ret AwaitingManager
       | Inr _ \<Rightarrow> ret Relaying))"
| "relay_step Relaying (SocketReads (Inl e)) = seqE (attempt (relay_send [])) (ret AwaitingManager)"
| "relay_step Relaying (ManagerSends (Some (Inr bytes))) =
    (if bytes = [] then ret AwaitingManager
     else bindE (attempt (relay_write bytes)) (\<lambda>r. case r of
         Inl _ \<Rightarrow> ret AwaitingManager
       | Inr _ \<Rightarrow> ret Relaying))"
| "relay_step Relaying (ManagerSends (Some (Inl e))) = ret AwaitingManager"
| "relay_step Relaying (ManagerSends None) = ret AwaitingManager"
| "relay_step Finished ev = ret Finished"

fun forward_to_mullvad_daemon_interface :: "relay_event list \<Rightarrow> relay_state \<Rightarrow> relay_state relay" where
  "forward_to_mullvad_daemon_interface [] st = ret st"
| "forward_to_mullvad_daemon_interface (ev # evs) st =
     bindE (relay_step st ev) (\<lambda>st. forward_to_mullvad_daemon_interface evs st)"

section \<open>Every handler answers\<close>

fun resp_matches :: "rpc_request \<Rightarrow> rpc_response \<Rightarrow> bool" where
  "resp_matches (Exec p a e) resp = (\<exists>r. resp = RespExec r)"
| "resp_matches PollOutput resp = (\<exists>r. resp = RespOutput r)"
| "resp_matches TryPollOutput resp = (\<exists>r. resp = RespOutput r)"
| "resp_matches GetMullvadAppLogs resp = (\<exists>r. resp = RespLogs r)"
| "resp_matches GetOs resp = (\<exists>r. resp = RespOs r)"
| "resp_matches MullvadDaemonGetStatus resp = (\<exists>r. resp = RespStatus r)"
| "resp_matches FindMullvadAppTraces resp = (\<exists>r. resp = RespTraces r)"
| "resp_matches (GeoipLookup h) resp = (\<exists>r. resp = RespGeoip r)"
| "resp_matches (GetInterfaceName i) resp = (\<exists>r. resp = RespString r)"
| "resp_matches (GetInterfaceIp i) resp = (\<exists>r. resp = RespIp r)"
| "resp_matches (ResolveHostname h) resp = (\<exists>r. resp = RespAddrs r)"
| "resp_matches req resp = (\<exists>r. resp = RespUnit r)"

lemmas package_handlers = install_package_linux_def install_package_macos_def install_package_windows_def
  uninstall_app_linux_def uninstall_app_macos_def uninstall_app_windows_def get_distribution_def
  install_dpkg_def uninstall_dpkg_def install_rpm_def uninstall_rpm_def install_nsis_exe_def
  run_package_manager_def

lemmas sys_handlers = set_daemon_log_level_linux_def set_daemon_log_level_macos_def
  set_daemon_log_level_windows_def set_daemon_environment_linux_def set_daemon_environment_macos_def
  set_daemon_environment_windows_def set_mullvad_daemon_service_state_linux_def
  set_mullvad_daemon_service_state_macos_def set_mullvad_daemon_service_state_windows_def
  install_override_def set_launch_daemon_state_def reboot_unix_def reboot_windows_def
  grant_shutdown_privilege_def wait_for_service_state_def get_system_path_var_def

lemma no_panic_host_calls [no_panic_rules]:
  "no_panic (cmd_status w cmd)" "no_panic (cmd_output w cmd)" "no_panic (cmd_spawn w cmd)"
  "no_panic (cmd_wait_output w cmd)" "no_panic (fs_call w op)" "no_panic (read_to_string w p)"
  "no_panic (try_exists w p)" "no_panic (read_dir w p)" "no_panic (sys_call w n a)"
  "no_panic (query_call w n a)" "no_panic (net_call w nop)" "no_panic (sleep_ms k)"
  by (auto simp: host_calls intro: no_panic_rules)

lemma no_panic_wait [no_panic_rules]: "no_panic (wait_for_state_loop n st)"
  by (induction n) (auto intro!: no_panic_rules)

lemma no_panic_rpm [no_panic_rules]: "no_panic (install_rpm_loop cmd n)"
  by (induction cmd n rule: install_rpm_loop.induct)
     (subst install_rpm_loop.simps, auto intro!: no_panic_rules)

lemma no_panic_launchctl [no_panic_rules]: "no_panic (launchctl_vars env vars)"
  by (induction env vars rule: launchctl_vars.induct) (auto intro!: no_panic_rules)

lemma no_panic_filter [no_panic_rules]: "no_panic (filter_loop n ps)"
  by (induction n arbitrary: ps) (auto intro!: no_panic_rules)

lemma no_panic_read_each [no_panic_rules]: "no_panic (read_each ps)"
  by (induction ps) (auto intro!: no_panic_rules)

lemma no_panic_option_case [no_panic_rules]:
  "no_panic m \<Longrightarrow> (\<And>a. no_panic (f a)) \<Longrightarrow> no_panic (case x of None \<Rightarrow> m | Some a \<Rightarrow> f a)"
  by (cases x) auto

lemma no_panic_interface_name [no_panic_rules]:
  "os \<noteq> Windows \<or> iface = Tunnel \<Longrightarrow> no_panic (get_interface_name os iface)"
  by (cases os; cases iface) (auto simp: get_interface_name_def non_tunnel_interface_def intro: no_panic_rules)

lemma no_panic_package:
  "no_panic (serve_install_app self package)" "no_panic (serve_uninstall_app self env)"
  unfolding serve_install_app_def serve_uninstall_app_def package_handlers Let_def
  by (auto intro!: no_panic_rules split: os.splits distribution.splits)

lemma no_panic_sys:
  "no_panic (serve_exec self path args env)" "no_panic (serve_set_daemon_log_level self v)"
  "no_panic (serve_set_daemon_environment self vars)" "no_panic (serve_set_service_state self on)"
  "no_panic (serve_reboot self)" "no_panic (serve_copy_file src dest)"
  unfolding serve_exec_def serve_set_daemon_log_level_def serve_set_daemon_environment_def
    serve_set_service_state_def serve_reboot_def serve_copy_file_def sys_handlers
  by (auto intro!: no_panic_rules split: os.splits plist_value.splits sum.splits)

lemma no_panic_misc:
  "no_panic (serve_find_traces self)" "no_panic (serve_resolve_hostname h)"
  "no_panic (get_pipe_status os)" "no_panic (get_mullvad_app_logs)" "no_panic (geoip_lookup u p h)"
  unfolding serve_find_traces_def serve_resolve_hostname_def get_pipe_status_def get_mullvad_app_logs_def
    geoip_lookup_def http_get_def find_traces_linux_def find_traces_macos_def find_traces_windows_def
    traces_of_def filter_non_existent_paths_def read_settings_file_def read_log_files_def list_logs_def Let_def
  by (auto intro!: no_panic_rules split: os.splits)

lemma no_panic_net:
  assumes "os \<noteq> Windows \<or> i \<noteq> Some NonTunnel"
  shows "no_panic (send_tcp os i a b)" "no_panic (send_udp os i a b)" "no_panic (send_ping os i d)"
  using assms
  unfolding send_tcp_def send_udp_def send_ping_def bind_to_interface_def get_interface_ip_for_family_def
    ping_source_ip_def interface_args_def non_tunnel_interface_def Let_def
  by (cases i; cases "the i"; auto intro!: no_panic_rules split: os.splits option.splits interface.splits)+

lemma no_panic_interface_ip:
  assumes "os \<noteq> Windows \<or> iface \<noteq> NonTunnel"
  shows "no_panic (get_interface_ip os iface)"
  using assms
  unfolding get_interface_ip_def get_interface_ip_for_family_def
  by (cases iface) (auto intro!: no_panic_rules split: os.splits option.splits)

lemma attempt_ok: "no_panic m \<Longrightarrow> \<exists>x tr'. attempt m env tr = (Ok x, tr')"
  by (cases "m env tr"; cases "fst (m env tr)") (auto simp: attempt_def dest: no_panicD)

lemma reply_attempt_answers:
  assumes "no_panic m"
  shows "\<exists>r tr'. unpolled c (reply w (attempt m)) env tr = Some (Ok (w r), c, tr')"
proof -
  obtain x tr' where "(attempt m env tr :: (error, _) res \<times> _) = (Ok x, tr')"
    using attempt_ok [OF assms] by blast
  then show ?thesis by (auto simp: unpolled_def reply_def bindE_def ret_def)
qed

text \<open>Handlers that do not return a \<open>Result\<close> have no error of their own.\<close>

lemma get_pipe_status_answers:
  "\<exists>r tr'. unpolled c (reply w (get_pipe_status os)) env tr = Some (Ok (w r), c, tr')"
  by (auto simp: get_pipe_status_def unpolled_def reply_def prog_defs try_exists_def split: sum.splits)

lemma get_mullvad_app_logs_answers:
  "\<exists>r tr'. unpolled c (reply w get_mullvad_app_logs) env tr = Some (Ok (w r), c, tr')"
proof -
  have np: "no_panic (read_settings_file)" "no_panic read_log_files"
    unfolding read_settings_file_def read_log_files_def list_logs_def Let_def
    by (auto intro!: no_panic_rules)
  obtain a t where a: "(attempt read_settings_file env tr :: (error, _) res \<times> _) = (Ok a, t)"
    using attempt_ok [OF np(1)] by blast
  obtain b t' where "(attempt read_log_files env t :: (error, _) res \<times> _) = (Ok b, t')"
    using attempt_ok [OF np(2)] by blast
  with a show ?thesis by (auto simp: get_mullvad_app_logs_def unpolled_def reply_def bindE_def ret_def)
qed

text \<open>
  Why a handler panics: the file of the device is JSON but has no usable time of creation, or the name
  of the physical interface is asked for on a Windows whose version cannot be obtained.
\<close>

definition bad_device_file :: "'t device_lib \<Rightarrow> string \<Rightarrow> bool" where
  "bad_device_file lib text = (case dl_parse lib text of Inl _ \<Rightarrow> False | Inr v \<Rightarrow>
    (case json_get CREATED_PATH v of None \<Rightarrow> True | Some created \<Rightarrow>
    (case dl_time_from lib created of Inl _ \<Rightarrow> True | Inr t \<Rightarrow>
    (case dl_sub_days lib t 365 of None \<Rightarrow> True | Some t' \<Rightarrow> isl (dl_time_to lib t')))))"

fun names_interface :: "rpc_request \<Rightarrow> bool" where
  "names_interface (GetInterfaceName iface) = (iface = NonTunnel)"
| "names_interface (GetInterfaceIp iface) = (iface = NonTunnel)"
| "names_interface (SendTcpReq iface a b) = (iface = Some NonTunnel)"
| "names_interface (SendUdpReq iface a b) = (iface = Some NonTunnel)"
| "names_interface (SendPingReq iface d) = (iface = Some NonTunnel)"
| "names_interface _ = False"

definition read_bad_file :: "'t device_lib \<Rightarrow> os \<Rightarrow> host_ev list \<Rightarrow> bool" where
  "read_bad_file lib os es \<longleftrightarrow> (\<exists>text. ReadToString (DEVICE_JSON_PATH os) (Inr text) \<in> set es \<and> bad_device_file lib text)"

definition version_unknown :: "host_ev list \<Rightarrow> bool" where
  "version_unknown es \<longleftrightarrow> (\<exists>e. WindowsBuild (Inl e) \<in> set es)"

definition panic_cause :: "'t server \<Rightarrow> rpc_request \<Rightarrow> host_ev list \<Rightarrow> bool" where
  "panic_cause self req es \<longleftrightarrow>
     req = MakeDeviceJsonOld \<and> read_bad_file (sv_device_lib self) (sv_os self) es \<or>
     sv_os self = Windows \<and> names_interface req \<and> version_unknown es"

text \<open>A program that panics exactly after a history with a cause.\<close>

definition panics_iff :: "(host_ev list \<Rightarrow> bool) \<Rightarrow> ('e, 'a) host \<Rightarrow> bool" where
  "panics_iff cause m \<longleftrightarrow> spec m (\<lambda>r es. (case r of Panic _ \<Rightarrow> cause es | _ \<Rightarrow> \<not> cause es))"

lemma panics_make_device_json_old:
  "panics_iff (read_bad_file lib os) (Runner_App.make_device_json_old lib os)"
  unfolding panics_iff_def Runner_App.make_device_json_old_def read_to_string_def fs_call_def unwrap_or_panic_def unwrap_result_def
  by (intro spec_bind_callE)
     (auto simp: of_result_def read_bad_file_def bad_device_file_def map_sum_def split: sum.splits option.splits intro!: spec_rules)

lemma panics_net:
  "panics_iff version_unknown (send_tcp Windows (Some NonTunnel) a b)"
  "panics_iff version_unknown (send_udp Windows (Some NonTunnel) a b)"
  unfolding panics_iff_def send_tcp_def send_udp_def bind_to_interface_def get_interface_name_def non_tunnel_interface_def net_call_def
  by (auto simp: seqE_def bindE_assoc version_unknown_def intro!: spec_rules)

lemma panics_ip_for_family: "panics_iff version_unknown (get_interface_ip_for_family NonTunnel v4)"
  unfolding panics_iff_def get_interface_ip_for_family_def get_interface_name_def non_tunnel_interface_def sys_call_def
  by (auto simp: bindE_assoc version_unknown_def intro!: spec_rules)

lemma panics_then:
  assumes "panics_iff version_unknown m" "\<And>a. spec (f a) (\<lambda>r es. (\<forall>s. r \<noteq> Panic s) \<and> \<not> version_unknown es)"
  shows "panics_iff version_unknown (bindE (map_err w m) f)"
  unfolding panics_iff_def
proof (rule spec_bindE)
  show "spec (map_err w m) (\<lambda>r es. (case r of Panic _ \<Rightarrow> version_unknown es | _ \<Rightarrow> \<not> version_unknown es))"
    by (rule spec_map_err [OF assms(1) [unfolded panics_iff_def]]) simp_all
  show "spec (f a) (\<lambda>r es'. (case r of Panic _ \<Rightarrow> version_unknown (es @ es') | _ \<Rightarrow> \<not> version_unknown (es @ es')))"
    if "case Ok a of Panic _ \<Rightarrow> version_unknown es | _ \<Rightarrow> \<not> version_unknown es" for a es
    by (rule spec_weaken [OF assms(2)]) (use that in \<open>auto simp: version_unknown_def split: res.splits\<close>)
qed simp_all

lemma panics_ping: "panics_iff version_unknown (send_ping Windows (Some NonTunnel) d)"
  unfolding send_ping_def ping_source_ip_def interface_args_def source_args_def Let_def prod.case os.case option.case interface.case
    bindE_assoc host_calls
  by (rule panics_then [OF panics_ip_for_family])
     (auto simp: version_unknown_def of_result_def split: option.splits sum.splits intro!: spec_rules)

lemma panics_interface_ip: "panics_iff version_unknown (get_interface_ip Windows NonTunnel)"
  unfolding get_interface_ip_def os.case
  by (rule panics_then [OF panics_ip_for_family])
     (auto simp: version_unknown_def split: option.splits intro!: spec_rules)

text \<open>
  What a call of the service has to come to: a response of the kind that the method declares, with no
  cause to panic in what the handler saw, or a panic with such a cause; never an error of the call
  itself.  Only a poll for log output may be left waiting, and only a poll touches the log buffer.
\<close>

definition well_answered ::
  "'t server \<Rightarrow> rpc_request \<Rightarrow> 'c \<Rightarrow> host_ev list \<Rightarrow> ((error, rpc_response) res \<times> 'c \<times> host_ev list) option \<Rightarrow> bool" where
  "well_answered self req c tr out = (case out of
      None \<Rightarrow> req = PollOutput \<or> req = TryPollOutput
    | Some (r, c', tr') \<Rightarrow> (req \<noteq> PollOutput \<and> req \<noteq> TryPollOutput \<longrightarrow> c' = c) \<and> (case r of
          Ok resp \<Rightarrow> resp_matches req resp \<and> \<not> panic_cause self req (drop (length tr) tr')
        | Err e \<Rightarrow> False
        | Panic s \<Rightarrow> panic_cause self req (drop (length tr) tr')))"

lemma well_answered_ok:
  assumes "\<exists>r tr'. out = Some (Ok (w r), c, tr')" "\<And>r. resp_matches req (w r)" "\<And>es. \<not> panic_cause self req es"
  shows "well_answered self req c tr out"
  using assms by (auto simp: well_answered_def)

lemma well_answered_calm:
  assumes "no_panic m" "\<And>r. resp_matches req (w r)" "\<And>es. \<not> panic_cause self req es"
  shows "well_answered self req c tr (unpolled c (reply w (attempt m)) env tr)"
  by (rule well_answered_ok [OF reply_attempt_answers [OF assms(1)]]) (fact assms)+

lemma well_answered_iff:
  assumes "panics_iff cause m" "\<And>r. resp_matches req (w r)" "\<And>es. panic_cause self req es \<longleftrightarrow> cause es"
  shows "well_answered self req c tr (unpolled c (reply w (attempt m)) env tr)"
proof -
  obtain r tr' where m: "m env tr = (r, tr')" by fastforce
  from spec_run [OF assms(1) [unfolded panics_iff_def] m]
  obtain es where "tr' = tr @ es" "case r of Panic _ \<Rightarrow> cause es | _ \<Rightarrow> \<not> cause es" by blast
  with m assms(2,3) show ?thesis
    by (cases r) (auto simp: well_answered_def unpolled_def reply_def bindE_def attempt_def ret_def)
qed

lemma well_answered_interface_name:
  "well_answered self (GetInterfaceName iface) c tr
     (unpolled c (reply (\<lambda>n. RespString (Inr n)) (get_interface_name (sv_os self) iface)) env tr)"
  by (cases "sv_os self"; cases iface)
     (auto simp: well_answered_def panic_cause_def version_unknown_def get_interface_name_def non_tunnel_interface_def
       unpolled_def reply_def prog_defs split: sum.splits)

lemma well_answered_poll:
  "req = PollOutput \<or> req = TryPollOutput \<Longrightarrow>
     well_answered self req c tr (map_option (\<lambda>(r, c). (Ok (RespOutput r), c, tr)) x)"
  by (cases x) (auto simp: well_answered_def panic_cause_def)

lemma well_answered_interface:
  assumes "names_interface req = (iface = Some NonTunnel)" "req \<noteq> MakeDeviceJsonOld" "\<And>r. resp_matches req (w r)"
    and "sv_os self \<noteq> Windows \<or> iface \<noteq> Some NonTunnel \<Longrightarrow> no_panic m"
    and "sv_os self = Windows \<Longrightarrow> iface = Some NonTunnel \<Longrightarrow> panics_iff version_unknown m"
  shows "well_answered self req c tr (unpolled c (reply w (attempt m)) env tr)"
proof (cases "sv_os self = Windows \<and> iface = Some NonTunnel")
  case True
  with assms show ?thesis by (intro well_answered_iff [of version_unknown]) (auto simp: panic_cause_def)
next
  case False
  with assms show ?thesis by (intro well_answered_calm) (auto simp: panic_cause_def)
qed

text \<open>What the relay must do with a chunk of data while both sides are connected.\<close>

fun relayed :: "relay_event \<Rightarrow> relay_out list" where
  "relayed (ManagerSends (Some (Inr b))) = [SocketWrite b (Inr ())]"
| "relayed (SocketReads (Inr b)) = [ManagerWrite b (Inr ())]"
| "relayed _ = []"

lemmas relay_calls = relay_connect_def relay_write_def relay_send_def

lemma relay_step_Relaying:
  "relay_step Relaying ev env tr = (Ok Relaying, tr') \<Longrightarrow>
   tr' = tr @ relayed ev \<and> length (relayed ev) = 1"
  by (cases "(Relaying, ev)" rule: relay_step.cases)
     (auto simp: prog_defs relay_calls split: if_splits sum.splits)

lemma relay_step_to_Relaying:
  "relay_step st ev env tr = (Ok Relaying, tr') \<Longrightarrow>
   st = Relaying \<or> (st = AwaitingManager \<and> (\<exists>b. b \<noteq> [] \<and> ev = ManagerSends (Some (Inr b)) \<and>
     tr' = tr @ [ConnectSocket (Inr ()), SocketWrite b (Inr ())]))"
  by (cases "(st, ev)" rule: relay_step.cases)
     (auto simp: prog_defs relay_calls split: if_splits sum.splits)

lemma relay_step_ok: "\<exists>st' tr'. relay_step st ev env tr = (Ok st', tr')"
  by (cases "(st, ev)" rule: relay_step.cases)
     (auto simp: prog_defs relay_calls split: if_splits sum.splits)

text \<open>No empty chunk is ever written to the socket.\<close>

lemma relay_step_no_empty_write:
  "relay_step st ev env tr = (r, tr') \<Longrightarrow> \<exists>es. tr' = tr @ es \<and> (\<forall>a. SocketWrite [] a \<notin> set es)"
  by (cases "(st, ev)" rule: relay_step.cases)
     (auto simp: prog_defs relay_calls split: if_splits sum.splits)

text \<open>
  A session is the part of a run since the last connection: \<open>open_session\<close> describes
  the session that is open after a run.
\<close>

definition open_session :: "relay_event list \<Rightarrow> relay_out list \<Rightarrow> bool" where
  "open_session evs outs \<longleftrightarrow> (\<exists>evs0 b evs1 outs0. evs = evs0 @ ManagerSends (Some (Inr b)) # evs1 \<and> b \<noteq> [] \<and>
     outs = outs0 @ ConnectSocket (Inr ()) # concat (map relayed (ManagerSends (Some (Inr b)) # evs1)))"

lemma open_session_later: "open_session evs outs \<Longrightarrow> open_session (ev # evs) (es @ outs)"
  unfolding open_session_def by (metis append.assoc append_Cons)

lemma relay_session:
  assumes "forward_to_mullvad_daemon_interface evs st env tr = (Ok Relaying, tr')"
  shows "(st = Relaying \<and> tr' = tr @ concat (map relayed evs)) \<or>
         (\<exists>outs. tr' = tr @ outs \<and> open_session evs outs)"
  using assms
proof (induction evs arbitrary: st tr)
  case Nil
  then show ?case by (simp add: ret_def)
next
  case (Cons ev evs)
  obtain st1 tr1 where step: "relay_step st ev env tr = (Ok st1, tr1)" using relay_step_ok by blast
  obtain es where es: "tr1 = tr @ es" using relay_step_no_empty_write [OF step] by blast
  from step Cons.prems have "forward_to_mullvad_daemon_interface evs st1 env tr1 = (Ok Relaying, tr')"
    by (simp add: bindE_def)
  from Cons.IH [OF this] show ?case
  proof (elim disjE conjE exE)
    assume "st1 = Relaying" and tr': "tr' = tr1 @ concat (map relayed evs)"
    with relay_step_to_Relaying [of st ev env tr tr1] step relay_step_Relaying [of ev env tr tr1]
    consider "st = Relaying" "tr1 = tr @ relayed ev"
      | b where "b \<noteq> []" "ev = ManagerSends (Some (Inr b))"
          "tr1 = tr @ [ConnectSocket (Inr ()), SocketWrite b (Inr ())]" by auto
    then show ?thesis
    proof cases
      case 1
      with tr' show ?thesis by simp
    next
      case (2 b)
      then have "open_session (ev # evs) (ConnectSocket (Inr ()) # SocketWrite b (Inr ()) # concat (map relayed evs))"
        unfolding open_session_def
        by (intro exI [of _ "[]"] exI [of _ b] exI [of _ evs]) simp
      with 2 tr' show ?thesis by auto
    qed
  next
    fix outs
    assume "tr' = tr1 @ outs" "open_session evs outs"
    with es have "tr' = tr @ (es @ outs)" "open_session (ev # evs) (es @ outs)"
      by (simp_all add: open_session_later)
    then show ?thesis by blast
  qed
qed

section \<open>Properties\<close>


text \<open>
  C33. While the relay is connected it is transparent: at any moment when a connection to the daemon
  is open, everything since that connection was made is exactly the chunk that opened it and then,
  in order, each chunk from the manager written to the socket and each chunk from the socket sent to
  the manager, and nothing else.
\<close>

theorem daemon_relay_is_transparent:
  assumes "forward_to_mullvad_daemon_interface evs AwaitingManager env [] = (Ok Relaying, outs)"
  shows "open_session evs outs"
  using relay_session [OF assms] by auto

definition demo_relay :: relay_env where
  "demo_relay = \<lparr>re_connect = \<lambda>tr. if tr = [] then Inl (IoError NotFound []) else Inr (),
     re_write = \<lambda>_ _. Inr (), re_send = \<lambda>_ _. Inr ()\<rparr>"

theorem daemon_relay_is_transparent_witness:
  "open_session [ManagerSends (Some (Inr [1])), ManagerSends (Some (Inr [2])), SocketReads (Inr [3, 4])]
     [ConnectSocket (Inl (IoError NotFound [])), ManagerWrite [] (Inr ()),
      ConnectSocket (Inr ()), SocketWrite [2] (Inr ()), ManagerWrite [3, 4] (Inr ())]"
  by (rule daemon_relay_is_transparent [of _ demo_relay])
     (simp add: demo_relay_def prog_defs relay_calls)

text \<open>
  The manager is told that the daemon's end is gone when reading from the socket fails, but not
  when the socket reaches end of file: then the relay waits for the manager without a word.
\<close>

lemma socket_eof_is_not_reported:
  "relay_step Relaying (SocketReads (Inr [])) env tr = (Ok AwaitingManager, tr) \<and>
   relay_step Relaying (SocketReads (Inl e)) env tr =
     (Ok AwaitingManager, tr @ [ManagerWrite [] (re_send env tr [])])"
  by (auto simp: prog_defs relay_calls split: sum.splits)

end
