(* ===== verification/Daemon_Proxy.thy ===== *)
theory Daemon_Proxy
  imports Runner_Main
begin

text \<open>
  \<open>test-manager/src/mullvad_daemon.rs\<close>: the task that connects the gRPC client of the manager with the
  serial connection, one client session after the other, and its composition with the relay in the
  runner (\<open>forward_to_mullvad_daemon_interface\<close>), which together carry the gRPC bytes between a test
  and the daemon.

  Frames come from \<open>LengthDelimitedCodec::framed\<close>.  The locale \<open>frame_stream\<close> states what polling that
  stream does: it hands out what has arrived in order, reports the end of the stream or a pause after
  an error, or is pending; and it cannot be ready for ever without giving up control, since every read
  of the transport uses up some of the task's budget (\<open>tokio\<close>'s cooperative scheduling).
\<close>

section \<open>Dropping what the last session left\<close>

text \<open>\<open>now_or_never\<close> on the next item: \<open>None\<close> is pending, \<open>Some None\<close> the end of the stream.\<close>

partial_function (option) clear_last_session ::
  "('t \<Rightarrow> (io_error + bytes) option option \<times> 't) \<Rightarrow> 't \<Rightarrow> 't option" where
  "clear_last_session poll t = (case poll t of
      (Some item, t') \<Rightarrow> clear_last_session poll t'
    | (None, t') \<Rightarrow> Some t')"

locale frame_stream =
  fixes poll :: "'t \<Rightarrow> (io_error + bytes) option option \<times> 't"
    and arrived :: "'t \<Rightarrow> (io_error + bytes) list"
    and budget :: "'t \<Rightarrow> nat"
  assumes poll_item: "poll t = (Some (Some f), t') \<Longrightarrow> arrived t = f # arrived t' \<and> budget t' \<le> budget t"
    and poll_end: "poll t = (Some None, t') \<Longrightarrow> arrived t' = arrived t \<and> budget t' < budget t"
    and poll_pending: "poll t = (None, t') \<Longrightarrow> arrived t' = arrived t \<and> (arrived t' = [] \<or> budget t' = 0)"
begin

lemma clear_returns:
  "\<exists>t' dropped. clear_last_session poll t = Some t' \<and> arrived t = dropped @ arrived t' \<and>
     (arrived t' = [] \<or> budget t' = 0)"
proof (induction "length (arrived t) + budget t" arbitrary: t rule: less_induct)
  case less
  obtain r t1 where p: "poll t = (r, t1)" by fastforce
  consider "r = None" | "r = Some None" | f where "r = Some (Some f)" by (metis option.exhaust)
  then show ?case
  proof cases
    case 1
    with p poll_pending [of t t1] have "arrived t1 = arrived t" "arrived t1 = [] \<or> budget t1 = 0" by auto
    with p 1 show ?thesis by (subst clear_last_session.simps) auto
  next
    case 2
    with p poll_end [of t t1] have "arrived t1 = arrived t" "budget t1 < budget t" by auto
    with less [of t1] p 2 show ?thesis by (subst clear_last_session.simps) simp
  next
    case (3 f)
    with p poll_item [of t f t1] have a: "arrived t = f # arrived t1" "budget t1 \<le> budget t" by auto
    then obtain t' dropped where "clear_last_session poll t1 = Some t'" "arrived t1 = dropped @ arrived t'"
        "arrived t' = [] \<or> budget t' = 0"
      using less [of t1] by auto
    with p 3 a show ?thesis by (subst clear_last_session.simps) (auto intro!: exI [of _ "f # dropped"])
  qed
qed

end

text \<open>The stream as a queue whose task has a budget; what arrived can be read without it.\<close>

record frame_queue =
  fq_arrived :: "(io_error + bytes) list"
  fq_ended :: bool
  fq_budget :: nat

definition fq_poll :: "frame_queue \<Rightarrow> (io_error + bytes) option option \<times> frame_queue" where
  "fq_poll q = (case fq_arrived q of
      f # fs \<Rightarrow> (Some (Some f), q\<lparr>fq_arrived := fs\<rparr>)
    | [] \<Rightarrow> if fq_ended q \<and> 0 < fq_budget q then (Some None, q\<lparr>fq_budget := fq_budget q - 1\<rparr>) else (None, q))"

interpretation fq: frame_stream fq_poll fq_arrived fq_budget
  by unfold_locales (auto simp: fq_poll_def split: list.splits if_splits)

section \<open>A client session\<close>

datatype proxy_state = AwaitingClient | InSession | ProxyExited

datatype proxy_event =
    ClientArrives | ProviderGone
  | ResetNotified
  | FromTransport "(io_error + bytes) option"
  | ClientReads "io_error + bytes"

datatype proxy_out =
    ClientWrite bytes "io_error + unit" | ClientShutdown "io_error + unit" | TransportSend bytes "io_error + unit"

record proxy_env =
  px_write :: "proxy_out list \<Rightarrow> bytes \<Rightarrow> io_error + unit"
  px_shutdown :: "proxy_out list \<Rightarrow> io_error + unit"
  px_send :: "proxy_out list \<Rightarrow> bytes \<Rightarrow> io_error + unit"

type_synonym 'a proxy = "(proxy_env, proxy_out, io_error, 'a) prog"

definition proxy_write :: "bytes \<Rightarrow> unit proxy" where
  "proxy_write b = performE (\<lambda>env tr. px_write env tr b) (ClientWrite b)"

definition proxy_send :: "bytes \<Rightarrow> unit proxy" where
  "proxy_send b = performE (\<lambda>env tr. px_send env tr b) (TransportSend b)"

definition proxy_shutdown :: "unit proxy" where
  "proxy_shutdown = performE px_shutdown ClientShutdown"

text \<open>
  \<open>ClientArrives\<close> is the arrival of a client's channel after which \<open>clear_last_session\<close> has returned;
  the other events of a session are the outcomes of its \<open>select\<close>.
\<close>

fun proxy_step :: "proxy_state \<Rightarrow> proxy_event \<Rightarrow> proxy_state proxy" where
  "proxy_step AwaitingClient ClientArrives = ret InSession"
| "proxy_step AwaitingClient ProviderGone = ret ProxyExited"
| "proxy_step AwaitingClient ev = ret AwaitingClient"
| "proxy_step InSession ResetNotified = ret AwaitingClient"
| "proxy_step InSession (FromTransport (Some (Inr bytes))) =
    (if bytes = [] then seqE (attempt proxy_shutdown) (ret AwaitingClient)
     else bindE (attempt (proxy_write bytes)) (\<lambda>r. case r of
         Inl _ \<Rightarrow> ret AwaitingClient
       | Inr _ \<Rightarrow> ret InSession))"
| "proxy_step InSession (FromTransport (Some (Inl e))) = ret AwaitingClient"
| "proxy_step InSession (FromTransport None) = ret AwaitingClient"
| "proxy_step InSession (ClientReads (Inr bytes)) =
     bindE (attempt (proxy_send bytes)) (\<lambda>r. case r of
         Inl _ \<Rightarrow> ret AwaitingClient
       | Inr _ \<Rightarrow> if bytes = [] then ret AwaitingClient else ret InSession)"
| "proxy_step InSession (ClientReads (Inl e)) = seqE (attempt (proxy_send [])) (ret AwaitingClient)"
| "proxy_step InSession ev = ret InSession"
| "proxy_step ProxyExited ev = ret ProxyExited"

fun new_rpc_client :: "proxy_event list \<Rightarrow> proxy_state \<Rightarrow> proxy_state proxy" where
  "new_rpc_client [] st = ret st"
| "new_rpc_client (ev # evs) st = bindE (proxy_step st ev) (\<lambda>st. new_rpc_client evs st)"

lemmas proxy_calls = proxy_write_def proxy_send_def proxy_shutdown_def

lemma proxy_step_ok: "\<exists>st' es. proxy_step st ev env tr = (Ok st', tr @ es)"
  by (cases "(st, ev)" rule: proxy_step.cases) (auto simp: prog_defs proxy_calls split: if_splits sum.splits)

text \<open>
  Between two clients: dropping what the last session left always ends, also when the connection has
  ended and every poll reports that.  It drops a beginning of what has arrived, and everything unless
  the task ran out of its budget.
\<close>

lemma stale_frames_are_dropped:
  assumes "frame_stream poll arrived budget"
  shows "\<exists>t' dropped. clear_last_session poll t = Some t' \<and> arrived t = dropped @ arrived t' \<and>
     (arrived t' = [] \<or> budget t' = 0)"
  using assms by (rule frame_stream.clear_returns)

lemma stale_frames_are_dropped_witness:
  "\<exists>t'. clear_last_session fq_poll \<lparr>fq_arrived = [Inr [1], Inl (IoError OtherKind []), Inr []], fq_ended = True, fq_budget = 128\<rparr> =
     Some t'"
  using stale_frames_are_dropped [OF fq.frame_stream_axioms] by blast

section \<open>Clients\<close>

text \<open>
  \<open>DummyService\<close>: connecting creates a pair of channels, hands one end to the task through an unbounded
  queue and returns the other.  It fails only when the task is gone.  A channel is named by \<open>'c\<close>.
\<close>

record 'c dummy_service =
  provided :: "'c list"
  receiver_down :: bool

definition dummy_service_call :: "'c \<Rightarrow> 'c dummy_service \<Rightarrow> (io_error + 'c) \<times> 'c dummy_service" where
  "dummy_service_call channel self =
    (if receiver_down self then (Inl (IoError OtherKind ''stream receiver is down''), self)
     else (Inr channel, self\<lparr>provided := provided self @ [channel]\<rparr>))"

text \<open>Clients that connect while another one is served are queued in the order in which they came.\<close>

lemma clients_queue_in_order:
  "\<not> receiver_down self \<Longrightarrow>
     provided (fold (\<lambda>c self. snd (dummy_service_call c self)) cs self) = provided self @ cs"
  by (induction cs arbitrary: self) (simp_all add: dummy_service_call_def)

section \<open>From the test to the daemon\<close>

text \<open>
  The proxy of the manager and the relay of the runner, connected by the frames that the serial
  connection carries in order (see the theories \<open>Link\<close> and \<open>Forward\<close>), while nothing fails and
  nobody hangs up.  The bytes each end has read and written are recorded.
\<close>

record path =
  pa_proxy :: proxy_state
  pa_relay :: relay_state
  pa_client_sent :: bytes
  pa_up :: "bytes list"
  pa_socket_got :: bytes
  pa_socket_sent :: bytes
  pa_down :: "bytes list"
  pa_client_got :: bytes

definition path_start :: path where
  "path_start = \<lparr>pa_proxy = InSession, pa_relay = AwaitingManager, pa_client_sent = [], pa_up = [],
     pa_socket_got = [], pa_socket_sent = [], pa_down = [], pa_client_got = []\<rparr>"

definition sound_proxy :: proxy_env where
  "sound_proxy = \<lparr>px_write = \<lambda>_ _. Inr (), px_shutdown = \<lambda>_. Inr (), px_send = \<lambda>_ _. Inr ()\<rparr>"

definition sound_relay :: relay_env where
  "sound_relay = \<lparr>re_connect = \<lambda>_. Inr (), re_write = \<lambda>_ _. Inr (), re_send = \<lambda>_ _. Inr ()\<rparr>"

fun sends_of :: "proxy_out list \<Rightarrow> bytes list" where
  "sends_of [] = []"
| "sends_of (TransportSend b r # outs) = b # sends_of outs"
| "sends_of (_ # outs) = sends_of outs"

fun client_writes :: "proxy_out list \<Rightarrow> bytes" where
  "client_writes [] = []"
| "client_writes (ClientWrite b r # outs) = b @ client_writes outs"
| "client_writes (_ # outs) = client_writes outs"

fun manager_writes :: "relay_out list \<Rightarrow> bytes list" where
  "manager_writes [] = []"
| "manager_writes (ManagerWrite b r # outs) = b # manager_writes outs"
| "manager_writes (_ # outs) = manager_writes outs"

fun socket_writes :: "relay_out list \<Rightarrow> bytes" where
  "socket_writes [] = []"
| "socket_writes (SocketWrite b r # outs) = b @ socket_writes outs"
| "socket_writes (_ # outs) = socket_writes outs"

inductive path_step :: "path \<Rightarrow> path \<Rightarrow> bool" where
  client_reads: "b \<noteq> [] \<Longrightarrow> proxy_step (pa_proxy s) (ClientReads (Inr b)) sound_proxy [] = (Ok st, outs) \<Longrightarrow>
    path_step s (s\<lparr>pa_proxy := st, pa_client_sent := pa_client_sent s @ b, pa_up := pa_up s @ sends_of outs,
      pa_client_got := pa_client_got s @ client_writes outs\<rparr>)"
| frame_up: "pa_up s = b # rest \<Longrightarrow> relay_step (pa_relay s) (ManagerSends (Some (Inr b))) sound_relay [] = (Ok st, outs) \<Longrightarrow>
    path_step s (s\<lparr>pa_relay := st, pa_up := rest, pa_socket_got := pa_socket_got s @ socket_writes outs,
      pa_down := pa_down s @ manager_writes outs\<rparr>)"
| socket_reads: "b \<noteq> [] \<Longrightarrow> pa_relay s = Relaying \<Longrightarrow>
    relay_step (pa_relay s) (SocketReads (Inr b)) sound_relay [] = (Ok st, outs) \<Longrightarrow>
    path_step s (s\<lparr>pa_relay := st, pa_socket_sent := pa_socket_sent s @ b,
      pa_socket_got := pa_socket_got s @ socket_writes outs, pa_down := pa_down s @ manager_writes outs\<rparr>)"
| frame_down: "pa_down s = b # rest \<Longrightarrow> proxy_step (pa_proxy s) (FromTransport (Some (Inr b))) sound_proxy [] = (Ok st, outs) \<Longrightarrow>
    path_step s (s\<lparr>pa_proxy := st, pa_down := rest, pa_up := pa_up s @ sends_of outs,
      pa_client_got := pa_client_got s @ client_writes outs\<rparr>)"

inductive path_reach :: "path \<Rightarrow> bool" where
  path_init: "path_reach path_start"
| path_next: "path_reach s \<Longrightarrow> path_step s s' \<Longrightarrow> path_reach s'"

definition path_inv :: "path \<Rightarrow> bool" where
  "path_inv s \<longleftrightarrow> pa_proxy s = InSession \<and> pa_relay s \<noteq> Finished \<and>
     pa_client_sent s = pa_socket_got s @ concat (pa_up s) \<and>
     pa_socket_sent s = pa_client_got s @ concat (pa_down s) \<and>
     [] \<notin> set (pa_up s) \<and> [] \<notin> set (pa_down s)"

lemma sound_steps:
  "b \<noteq> [] \<Longrightarrow> proxy_step InSession (ClientReads (Inr b)) sound_proxy [] = (Ok InSession, [TransportSend b (Inr ())])"
  "b \<noteq> [] \<Longrightarrow> proxy_step InSession (FromTransport (Some (Inr b))) sound_proxy [] = (Ok InSession, [ClientWrite b (Inr ())])"
  "b \<noteq> [] \<Longrightarrow> relay_step AwaitingManager (ManagerSends (Some (Inr b))) sound_relay [] =
     (Ok Relaying, [ConnectSocket (Inr ()), SocketWrite b (Inr ())])"
  "b \<noteq> [] \<Longrightarrow> relay_step Relaying (ManagerSends (Some (Inr b))) sound_relay [] = (Ok Relaying, [SocketWrite b (Inr ())])"
  "b \<noteq> [] \<Longrightarrow> relay_step Relaying (SocketReads (Inr b)) sound_relay [] = (Ok Relaying, [ManagerWrite b (Inr ())])"
  by (simp_all add: prog_defs proxy_calls relay_calls sound_proxy_def sound_relay_def)

declare proxy_step.simps [simp del] relay_step.simps [simp del]

lemma path_step_inv: "path_step s s' \<Longrightarrow> path_inv s \<Longrightarrow> path_inv s'"
proof (induction rule: path_step.induct)
  case (frame_up s b rest st outs)
  then show ?case by (cases "pa_relay s") (auto simp: path_inv_def sound_steps)
qed (auto simp: path_inv_def sound_steps)

lemma path_reach_inv: "path_reach s \<Longrightarrow> path_inv s"
  by (induction rule: path_reach.induct) (auto simp: path_inv_def path_start_def dest: path_step_inv)

text \<open>
  C11. End to end: in every reachable state of a session the bytes that the daemon's socket received
  followed by the bytes still in frames on the way are exactly the bytes the gRPC client sent, and
  the same holds in the other direction: nothing is lost, duplicated, reordered or split differently
  than a byte stream allows; when no frame is on the way both ends have everything.
\<close>

theorem grpc_bytes_arrive:
  assumes "path_reach s"
  shows "pa_client_sent s = pa_socket_got s @ concat (pa_up s) \<and>
     pa_socket_sent s = pa_client_got s @ concat (pa_down s)"
  using path_reach_inv [OF assms] by (simp add: path_inv_def)

theorem grpc_bytes_arrive_witness:
  "\<exists>s. path_reach s \<and> pa_client_sent s = [1, 2] \<and> pa_socket_got s = [1, 2] \<and> pa_socket_sent s = [3] \<and>
     pa_client_got s = [] \<and> pa_socket_sent s = pa_client_got s @ concat (pa_down s)"
proof -
  let ?s1 = "path_start\<lparr>pa_client_sent := [1, 2], pa_up := [[1, 2]]\<rparr>"
  let ?s2 = "?s1\<lparr>pa_relay := Relaying, pa_up := [], pa_socket_got := [1, 2]\<rparr>"
  let ?s3 = "?s2\<lparr>pa_socket_sent := [3], pa_down := [[3]]\<rparr>"
  have "path_step path_start ?s1"
    using path_step.client_reads [of "[1, 2]" path_start] by (simp add: sound_steps path_start_def)
  moreover have "path_step ?s1 ?s2"
    using path_step.frame_up [of ?s1 "[1, 2]" "[]"] by (simp add: sound_steps path_start_def)
  moreover have "path_step ?s2 ?s3"
    using path_step.socket_reads [of "[3]" ?s2] by (simp add: sound_steps path_start_def)
  ultimately have "path_reach ?s3" by (meson path_init path_next)
  with grpc_bytes_arrive [OF this] show ?thesis
    by (intro exI [of _ ?s3]) (simp add: path_start_def)
qed

end
