(* ===== verification/Network_Monitor.thy ===== *)
theory Network_Monitor
  imports Rpc_Types
begin

unbundle bit_operations_syntax

text \<open>
  \<open>test-manager/src/network_monitor.rs\<close>: decoding captured packets, and the task that collects the
  packets a test is interested in until it is stopped, times out, or has seen enough.

  The header parsers of the crate \<open>pnet_packet\<close> are a parameter (\<open>parsers\<close>); the locale
  \<open>packet_formats\<close> states what they do on well-formed packets, whose lengths fit the fields of their
  headers, and is interpreted on a concrete rendering of the header layouts.  The capture itself (\<open>pcap\<close>) is the sequence of events that the
  monitor's \<open>select\<close> yields.
\<close>

section \<open>Decoding\<close>

type_synonym port = "16 word"

record ip_view =
  iv_source :: ip_addr
  iv_destination :: ip_addr
  iv_protocol :: byte
  iv_payload :: bytes

record parsers =
  pf_ethernet :: "bytes \<Rightarrow> (16 word \<times> bytes) option"
  pf_ipv4 :: "bytes \<Rightarrow> ip_view option"
  pf_ipv6 :: "bytes \<Rightarrow> ip_view option"
  pf_tcp :: "bytes \<Rightarrow> (port \<times> port) option"
  pf_udp :: "bytes \<Rightarrow> (port \<times> port) option"

record parsed_packet =
  source :: socket_addr
  destination :: socket_addr
  protocol :: byte

definition Tcp :: byte where "Tcp = 6"
definition Udp :: byte where "Udp = 17"
definition Icmp :: byte where "Icmp = 1"
definition Icmpv6 :: byte where "Icmpv6 = 58"

definition Ipv4_ethertype :: "16 word" where "Ipv4_ethertype = 0x0800"
definition Ipv6_ethertype :: "16 word" where "Ipv6_ethertype = 0x86DD"

definition with_ports :: "ip_view \<Rightarrow> port \<times> port \<Rightarrow> parsed_packet" where
  "with_ports packet ports =
    \<lparr>source = \<lparr>sock_ip = iv_source packet, sock_port = fst ports\<rparr>,
     destination = \<lparr>sock_ip = iv_destination packet, sock_port = snd ports\<rparr>,
     protocol = iv_protocol packet\<rparr>"

definition parse_ipv4 :: "parsers \<Rightarrow> bytes \<Rightarrow> parsed_packet option" where
  "parse_ipv4 pf payload = (case pf_ipv4 pf payload of
      None \<Rightarrow> None
    | Some packet \<Rightarrow>
        if iv_protocol packet = Tcp then map_option (with_ports packet) (pf_tcp pf (iv_payload packet))
        else if iv_protocol packet = Udp then map_option (with_ports packet) (pf_udp pf (iv_payload packet))
        else Some (with_ports packet (0, 0)))"

definition parse_ipv6 :: "parsers \<Rightarrow> bytes \<Rightarrow> parsed_packet option" where
  "parse_ipv6 pf payload = (case pf_ipv6 pf payload of
      None \<Rightarrow> None
    | Some packet \<Rightarrow>
        if iv_protocol packet = Tcp then map_option (with_ports packet) (pf_tcp pf (iv_payload packet))
        else if iv_protocol packet = Udp then map_option (with_ports packet) (pf_udp pf (iv_payload packet))
        else Some (with_ports packet (0, 0)))"

text \<open>
  On a tunnel there is no Ethernet frame; on macOS the address family precedes the packet.  Slicing
  and indexing outside the data panic.
\<close>

datatype monitor_error = MonitorUnexpectedlyStopped

definition decode_ip :: "parsers \<Rightarrow> bytes \<Rightarrow> (monitor_error, parsed_packet option) res" where
  "decode_ip pf data = (case data of
      [] \<Rightarrow> Panic ''index out of bounds''
    | b # _ \<Rightarrow>
        (let ip_version = drop_bit 4 (b AND 0xF0)
         in Ok (if ip_version = 4 then parse_ipv4 pf data
                else if ip_version = 6 then parse_ipv6 pf data
                else None)))"

definition decode_packet :: "parsers \<Rightarrow> bool \<Rightarrow> bool \<Rightarrow> bytes \<Rightarrow> (monitor_error, parsed_packet option) res" where
  "decode_packet pf macos no_frame data =
    (if no_frame then
       (if macos then (if length data < 4 then Panic ''range out of bounds'' else decode_ip pf (drop 4 data))
        else decode_ip pf data)
     else case pf_ethernet pf data of
       None \<Rightarrow> Ok None
     | Some (ethertype, payload) \<Rightarrow>
         Ok (if ethertype = Ipv4_ethertype then parse_ipv4 pf payload
             else if ethertype = Ipv6_ethertype then parse_ipv6 pf payload
             else None))"

section \<open>Monitoring\<close>

record monitor_result =
  packets :: "parsed_packet list"
  discarded_packets :: "64 word"

text \<open>
  The outcomes of the monitor's \<open>select\<close>: captured data, a failed or finished capture, a stop request,
  the time limit.
\<close>

datatype monitor_event = Captured bytes | StreamLost | StopRequested | TimedOut

definition saturating_succ :: "64 word \<Rightarrow> 64 word" where
  "saturating_succ n = (if n = - 1 then n else n + 1)"

text \<open>
  The loop of the task.  \<open>should_continue_fn\<close> is a \<open>FnMut\<close>: it has a state of its own.  The result is
  \<open>None\<close> while the monitor is still waiting for an event.
\<close>

fun monitor_loop ::
  "(bytes \<Rightarrow> (monitor_error, parsed_packet option) res) \<Rightarrow> (parsed_packet \<Rightarrow> bool) \<Rightarrow>
     ('s \<Rightarrow> parsed_packet \<Rightarrow> bool \<times> 's) \<Rightarrow> 's \<Rightarrow> monitor_result \<Rightarrow> monitor_event list \<Rightarrow>
     (monitor_error, monitor_result) res option" where
  "monitor_loop dec filter_fn should_continue_fn s r [] = None"
| "monitor_loop dec filter_fn should_continue_fn s r (Captured data # evs) =
    (case dec data of
       Panic m \<Rightarrow> Some (Panic m)
     | Err e \<Rightarrow> Some (Err e)
     | Ok None \<Rightarrow> monitor_loop dec filter_fn should_continue_fn s r evs
     | Ok (Some packet) \<Rightarrow>
         if \<not> filter_fn packet then
           monitor_loop dec filter_fn should_continue_fn s
             (r\<lparr>discarded_packets := saturating_succ (discarded_packets r)\<rparr>) evs
         else
           (let (should_continue, s') = should_continue_fn s packet;
                r' = r\<lparr>packets := packets r @ [packet]\<rparr>
            in if \<not> should_continue then Some (Ok r')
               else monitor_loop dec filter_fn should_continue_fn s' r' evs))"
| "monitor_loop dec filter_fn should_continue_fn s r (StreamLost # evs) = Some (Err MonitorUnexpectedlyStopped)"
| "monitor_loop dec filter_fn should_continue_fn s r (StopRequested # evs) = Some (Ok r)"
| "monitor_loop dec filter_fn should_continue_fn s r (TimedOut # evs) = Some (Ok r)"

record monitor_options =
  mo_timeout :: "nat option"
  mo_direction :: "string option"
  mo_no_frame :: bool

text \<open>
  Opening the capture (crate \<open>pcap\<close>): which of its calls succeed on an interface.  A monitor that was
  started is a task, here the function from the events it sees to its result.  Without a timeout in
  the options the time limit is never reached.
\<close>

record capture =
  from_device :: "string \<Rightarrow> bool"
  capture_open :: bool
  set_direction :: "string \<Rightarrow> bool"
  setnonblock :: bool
  capture_stream :: bool

type_synonym packet_monitor = "monitor_event list \<Rightarrow> (monitor_error, monitor_result) res option"

definition can_time_out :: "monitor_options \<Rightarrow> monitor_event \<Rightarrow> bool" where
  "can_time_out opts ev \<longleftrightarrow> ev \<noteq> TimedOut \<or> mo_timeout opts \<noteq> None"

definition start_packet_monitor_for_interface ::
  "capture \<Rightarrow> parsers \<Rightarrow> bool \<Rightarrow> string \<Rightarrow> (parsed_packet \<Rightarrow> bool) \<Rightarrow> ('s \<Rightarrow> parsed_packet \<Rightarrow> bool \<times> 's) \<Rightarrow> 's \<Rightarrow>
     monitor_options \<Rightarrow> (monitor_error, packet_monitor) res" where
  "start_packet_monitor_for_interface cap pf macos interface filter_fn should_continue_fn s opts =
    (if \<not> from_device cap interface then Panic ''Failed to open capture handle''
     else if \<not> capture_open cap then Panic ''Failed to activate capture''
     else if \<not> (case mo_direction opts of Some direction \<Rightarrow> set_direction cap direction | None \<Rightarrow> True)
       then Panic ''unwrap''
     else if \<not> setnonblock cap then Panic ''unwrap''
     else if \<not> capture_stream cap then Panic ''unwrap''
     else Ok (\<lambda>evs. monitor_loop (decode_packet pf macos (mo_no_frame opts)) filter_fn should_continue_fn s
       \<lparr>packets = [], discarded_packets = 0\<rparr> (filter (can_time_out opts) evs)))"

definition start_packet_monitor_until where
  "start_packet_monitor_until cap pf macos host_bridge_name filter_fn should_continue_fn s opts =
     start_packet_monitor_for_interface cap pf macos host_bridge_name filter_fn should_continue_fn s opts"

definition start_packet_monitor where
  "start_packet_monitor cap pf macos host_bridge_name filter_fn opts =
     start_packet_monitor_until cap pf macos host_bridge_name filter_fn (\<lambda>s _. (True, s)) () opts"

definition start_tunnel_packet_monitor_until where
  "start_tunnel_packet_monitor_until cap pf macos tun_interface_name filter_fn should_continue_fn s opts =
     start_packet_monitor_for_interface cap pf macos tun_interface_name filter_fn should_continue_fn s
       (opts\<lparr>mo_no_frame := True\<rparr>)"

text \<open>
  \<open>PacketMonitor::wait\<close> and \<open>into_result\<close>: the result of the task, a panic of it is one of the caller.
  \<open>into_result\<close> first asks the task to stop; the task sees that after the events \<open>evs\<close> that are
  already there.
\<close>

definition monitor_wait :: "packet_monitor \<Rightarrow> monitor_event list \<Rightarrow> (monitor_error, monitor_result) res option" where
  "monitor_wait handle evs =
     map_option (\<lambda>r. case r of Panic _ \<Rightarrow> Panic ''monitor panicked'' | _ \<Rightarrow> r) (handle evs)"

definition into_result :: "packet_monitor \<Rightarrow> monitor_event list \<Rightarrow> (monitor_error, monitor_result) res option" where
  "into_result handle evs = monitor_wait handle (evs @ [StopRequested])"

text \<open>\<open>poll_and_notify\<close>: the first poll, and only that, sends the notification.\<close>

definition poll_and_notify :: "'p \<Rightarrow> bool \<Rightarrow> 'p \<times> bool \<times> bool" where
  "poll_and_notify result tx = (result, False, tx)"

section \<open>Packet formats\<close>

lemma high_nibble: "b AND 0xF0 = v \<Longrightarrow> drop_bit 4 b AND 15 = drop_bit 4 v" for b :: byte
  by (drule arg_cong [where f = "drop_bit 4"]) simp

text \<open>
  What travels: a segment, datagram or other payload, between two addresses.  \<open>renderers\<close> are the
  layouts of the headers.
\<close>

type_synonym ip4 = "byte \<times> byte \<times> byte \<times> byte"

datatype segment = TcpSegment port port bytes | UdpDatagram port port bytes | OtherPayload byte bytes

datatype route = Route4 ip4 ip4 | Route6 "16 word list" "16 word list"

record renderers =
  rd_ethernet :: "16 word \<Rightarrow> bytes \<Rightarrow> bytes"
  rd_ipv4 :: "ip4 \<Rightarrow> ip4 \<Rightarrow> byte \<Rightarrow> bytes \<Rightarrow> bytes"
  rd_ipv6 :: "16 word list \<Rightarrow> 16 word list \<Rightarrow> byte \<Rightarrow> bytes \<Rightarrow> bytes"
  rd_tcp :: "port \<Rightarrow> port \<Rightarrow> bytes \<Rightarrow> bytes"
  rd_udp :: "port \<Rightarrow> port \<Rightarrow> bytes \<Rightarrow> bytes"

fun proto_of :: "segment \<Rightarrow> byte" where
  "proto_of (TcpSegment sport dport p) = Tcp"
| "proto_of (UdpDatagram sport dport p) = Udp"
| "proto_of (OtherPayload proto p) = proto"

fun ports_of :: "segment \<Rightarrow> port \<times> port" where
  "ports_of (TcpSegment sport dport p) = (sport, dport)"
| "ports_of (UdpDatagram sport dport p) = (sport, dport)"
| "ports_of (OtherPayload proto p) = (0, 0)"

fun segment_bytes :: "renderers \<Rightarrow> segment \<Rightarrow> bytes" where
  "segment_bytes fm (TcpSegment sport dport p) = rd_tcp fm sport dport p"
| "segment_bytes fm (UdpDatagram sport dport p) = rd_udp fm sport dport p"
| "segment_bytes fm (OtherPayload proto p) = p"

fun ip4_addr :: "ip4 \<Rightarrow> ip_addr" where
  "ip4_addr (a, b, c, d) = V4 a b c d"

fun ip_packet :: "renderers \<Rightarrow> route \<Rightarrow> segment \<Rightarrow> bytes" where
  "ip_packet fm (Route4 s d) seg = rd_ipv4 fm s d (proto_of seg) (segment_bytes fm seg)"
| "ip_packet fm (Route6 s d) seg = rd_ipv6 fm s d (proto_of seg) (segment_bytes fm seg)"

fun ethertype_of :: "route \<Rightarrow> 16 word" where
  "ethertype_of (Route4 s d) = Ipv4_ethertype"
| "ethertype_of (Route6 s d) = Ipv6_ethertype"

fun ends_of :: "route \<Rightarrow> ip_addr \<times> ip_addr" where
  "ends_of (Route4 s d) = (ip4_addr s, ip4_addr d)"
| "ends_of (Route6 s d) = (V6 s, V6 d)"

definition summary_of :: "route \<Rightarrow> segment \<Rightarrow> parsed_packet" where
  "summary_of route seg =
    \<lparr>source = \<lparr>sock_ip = fst (ends_of route), sock_port = fst (ports_of seg)\<rparr>,
     destination = \<lparr>sock_ip = snd (ends_of route), sock_port = snd (ports_of seg)\<rparr>,
     protocol = proto_of seg\<rparr>"

text \<open>
  The length fields have 16 bits: the total length of an IPv4 packet and the length of a UDP datagram
  count their headers, the payload length of an IPv6 packet does not.
\<close>

fun segment_fits :: "segment \<Rightarrow> bool" where
  "segment_fits (TcpSegment sport dport p) \<longleftrightarrow> True"
| "segment_fits (UdpDatagram sport dport p) \<longleftrightarrow> 8 + length p < 2 ^ 16"
| "segment_fits (OtherPayload proto p) \<longleftrightarrow> proto \<noteq> Tcp \<and> proto \<noteq> Udp"

fun packet_fits :: "route \<Rightarrow> bytes \<Rightarrow> bool" where
  "packet_fits (Route4 s d) p \<longleftrightarrow> 20 + length p < 2 ^ 16"
| "packet_fits (Route6 s d) p \<longleftrightarrow> length s = 8 \<and> length d = 8 \<and> length p < 2 ^ 16"

definition well_formed_packet :: "renderers \<Rightarrow> route \<Rightarrow> segment \<Rightarrow> bool" where
  "well_formed_packet fm route seg \<longleftrightarrow> segment_fits seg \<and> packet_fits route (segment_bytes fm seg)"

text \<open>
  The contract of the parsers: the fields that were rendered come back.  Bytes that follow a packet,
  the padding of a short Ethernet frame, are not part of its payload.
\<close>

locale packet_formats =
  fixes pf :: parsers
    and fm :: renderers
  assumes ethernet: "pf_ethernet pf (rd_ethernet fm ty p) = Some (ty, p)"
    and ipv4: "20 + length p < 2 ^ 16 \<Longrightarrow> pf_ipv4 pf (rd_ipv4 fm s d proto p @ padding) =
          Some \<lparr>iv_source = ip4_addr s, iv_destination = ip4_addr d, iv_protocol = proto, iv_payload = p\<rparr>"
    and ipv4_version: "20 + length p < 2 ^ 16 \<Longrightarrow>
          rd_ipv4 fm s d proto p \<noteq> [] \<and> hd (rd_ipv4 fm s d proto p) AND 0xF0 = 0x40"
    and ipv6: "length u = 8 \<Longrightarrow> length v = 8 \<Longrightarrow> length p < 2 ^ 16 \<Longrightarrow>
          pf_ipv6 pf (rd_ipv6 fm u v proto p @ padding) =
          Some \<lparr>iv_source = V6 u, iv_destination = V6 v, iv_protocol = proto, iv_payload = p\<rparr>"
    and ipv6_version: "length u = 8 \<Longrightarrow> length v = 8 \<Longrightarrow> length p < 2 ^ 16 \<Longrightarrow>
          rd_ipv6 fm u v proto p \<noteq> [] \<and> hd (rd_ipv6 fm u v proto p) AND 0xF0 = 0x60"
    and tcp: "pf_tcp pf (rd_tcp fm sport dport p) = Some (sport, dport)"
    and udp: "8 + length p < 2 ^ 16 \<Longrightarrow> pf_udp pf (rd_udp fm sport dport p) = Some (sport, dport)"
begin

lemma parse_packet:
  assumes "well_formed_packet fm route seg"
  shows "(case route of Route4 s d \<Rightarrow> parse_ipv4 | Route6 s d \<Rightarrow> parse_ipv6) pf (ip_packet fm route seg @ padding) =
    Some (summary_of route seg)"
proof -
  have "Tcp \<noteq> Udp" by (simp add: Tcp_def Udp_def)
  then show ?thesis
    using assms
    by (cases route; cases seg)
      (simp_all add: well_formed_packet_def parse_ipv4_def parse_ipv6_def ipv4 ipv6 tcp udp with_ports_def summary_of_def)
qed

lemma packet_version:
  assumes "well_formed_packet fm route seg"
  obtains b rest where "ip_packet fm route seg = b # rest"
    and "drop_bit 4 (b AND 0xF0) = (case route of Route4 s d \<Rightarrow> 4 | Route6 s d \<Rightarrow> 6)"
proof (cases route)
  case (Route4 s d)
  with assms ipv4_version [of "segment_bytes fm seg" s d "proto_of seg"] show ?thesis
    by (intro that [of "hd (ip_packet fm route seg)" "tl (ip_packet fm route seg)"])
      (auto simp: well_formed_packet_def dest!: high_nibble)
next
  case (Route6 u v)
  with assms ipv6_version [of u v "segment_bytes fm seg" "proto_of seg"] show ?thesis
    by (intro that [of "hd (ip_packet fm route seg)" "tl (ip_packet fm route seg)"])
      (auto simp: well_formed_packet_def dest!: high_nibble)
qed

lemma decode_frame:
  assumes "well_formed_packet fm route seg"
  shows "decode_packet pf macos False (rd_ethernet fm (ethertype_of route) (ip_packet fm route seg @ padding)) =
    Ok (Some (summary_of route seg))"
  using parse_packet [OF assms, of padding]
  by (cases route) (simp_all add: decode_packet_def ethernet Ipv4_ethertype_def Ipv6_ethertype_def)

lemma decode_bare:
  assumes "well_formed_packet fm route seg"
    and "length family = (if macos then 4 else 0)"
  shows "decode_packet pf macos True (family @ ip_packet fm route seg) = Ok (Some (summary_of route seg))"
proof -
  obtain b rest where packet: "ip_packet fm route seg = b # rest"
    and "drop_bit 4 (b AND 0xF0) = (case route of Route4 s d \<Rightarrow> 4 | Route6 s d \<Rightarrow> 6)"
    by (rule packet_version [OF assms(1)])
  with parse_packet [OF assms(1), of "[]"] have "decode_ip pf (ip_packet fm route seg) = Ok (Some (summary_of route seg))"
    by (simp add: decode_ip_def Let_def split: route.splits)
  then show ?thesis
    using assms(2) by (simp add: decode_packet_def split: if_splits)
qed

lemma decode_other_frame:
  assumes "ty \<noteq> Ipv4_ethertype" "ty \<noteq> Ipv6_ethertype"
  shows "decode_packet pf macos False (rd_ethernet fm ty p) = Ok None"
  using assms by (simp add: decode_packet_def ethernet)

end

text \<open>The header layouts, without options or extension headers.\<close>

definition be16 :: "16 word \<Rightarrow> bytes" where
  "be16 w = [ucast (drop_bit 8 w), ucast w]"

definition word_at :: "bytes \<Rightarrow> nat \<Rightarrow> 16 word" where
  "word_at p i = push_bit 8 (ucast (p ! i)) + ucast (p ! (i + 1))"

definition eth_frame :: "16 word \<Rightarrow> bytes \<Rightarrow> bytes" where
  "eth_frame ethertype p = replicate 12 0 @ be16 ethertype @ p"

definition ip4_packet ::
  "byte \<times> byte \<times> byte \<times> byte \<Rightarrow> byte \<times> byte \<times> byte \<times> byte \<Rightarrow> byte \<Rightarrow> bytes \<Rightarrow> bytes" where
  "ip4_packet = (\<lambda>(a, b, c, d) (a', b', c', d') proto p.
     [0x45, 0] @ be16 (of_nat (20 + length p)) @ [0, 0, 0, 0, 64, proto, 0, 0, a, b, c, d, a', b', c', d'] @ p)"

definition ip6_packet :: "16 word list \<Rightarrow> 16 word list \<Rightarrow> byte \<Rightarrow> bytes \<Rightarrow> bytes" where
  "ip6_packet s d proto p = [0x60, 0, 0, 0] @ be16 (of_nat (length p)) @ [proto, 64]
     @ concat (map be16 s) @ concat (map be16 d) @ p"

definition tcp_segment :: "port \<Rightarrow> port \<Rightarrow> bytes \<Rightarrow> bytes" where
  "tcp_segment sport dport p = be16 sport @ be16 dport @ replicate 16 0 @ p"

definition udp_datagram :: "port \<Rightarrow> port \<Rightarrow> bytes \<Rightarrow> bytes" where
  "udp_datagram sport dport p = be16 sport @ be16 dport @ be16 (of_nat (8 + length p)) @ [0, 0] @ p"

definition words_at :: "bytes \<Rightarrow> nat \<Rightarrow> 16 word list" where
  "words_at p i = map (\<lambda>k. word_at p (i + 2 * k)) [0..<8]"

definition layout_parsers :: parsers where
  "layout_parsers = \<lparr>
     pf_ethernet = \<lambda>p. if length p < 14 then None else Some (word_at p 12, drop 14 p),
     pf_ipv4 = \<lambda>p. if length p < 20 then None else
       Some \<lparr>iv_source = V4 (p ! 12) (p ! 13) (p ! 14) (p ! 15),
         iv_destination = V4 (p ! 16) (p ! 17) (p ! 18) (p ! 19), iv_protocol = p ! 9,
         iv_payload = take (unat (word_at p 2) - 20) (drop 20 p)\<rparr>,
     pf_ipv6 = \<lambda>p. if length p < 40 then None else
       Some \<lparr>iv_source = V6 (words_at p 8), iv_destination = V6 (words_at p 24), iv_protocol = p ! 6,
         iv_payload = take (unat (word_at p 4)) (drop 40 p)\<rparr>,
     pf_tcp = \<lambda>p. if length p < 20 then None else Some (word_at p 0, word_at p 2),
     pf_udp = \<lambda>p. if length p < 8 then None else Some (word_at p 0, word_at p 2)\<rparr>"

definition layout_renderers :: renderers where
  "layout_renderers = \<lparr>rd_ethernet = eth_frame, rd_ipv4 = ip4_packet, rd_ipv6 = ip6_packet,
     rd_tcp = tcp_segment, rd_udp = udp_datagram\<rparr>"

lemma word_bytes: "push_bit 8 (ucast (ucast (drop_bit 8 w) :: byte)) + ucast (ucast w :: byte) = (w :: 16 word)"
proof -
  have "push_bit 8 (ucast (ucast (drop_bit 8 w) :: byte)) OR ucast (ucast w :: byte) = w"
    by (rule bit_word_eqI) (auto simp: bit_simps)
  moreover have "push_bit 8 (ucast (ucast (drop_bit 8 w) :: byte)) AND (ucast (ucast w :: byte) :: 16 word) = 0"
    by (rule bit_word_eqI) (auto simp: bit_simps)
  ultimately show ?thesis
    by (simp add: disjunctive_add_eq_or)
qed

lemma length8: "length s = 8 \<longleftrightarrow> (\<exists>a b c d e f g h. s = [a, b, c, d, e, f, g, h])"
  by (auto simp: eval_nat_numeral length_Suc_conv)

lemma words_at_concat:
  assumes "length s = 8"
    and "n = length pre"
  shows "map (\<lambda>k. word_at (pre @ concat (map be16 s) @ post) (n + 2 * k)) [0..<8] = s"
proof -
  have "word_at (pre @ concat (map be16 s) @ post) (length pre + i) = word_at (concat (map be16 s) @ post) i" for i
    by (simp add: word_at_def nth_append)
  moreover have "[0..<8] = [0, 1, 2, 3, 4, 5, 6, 7 :: nat]" by (simp add: upt_rec)
  ultimately show ?thesis
    using assms(1) unfolding assms(2) by (auto simp: length8 be16_def word_at_def word_bytes)
qed

lemma length_be16s: "length (concat (map be16 s)) = 2 * length s"
  by (induction s) (simp_all add: be16_def)

lemma length_tcp_segment [simp]: "length (tcp_segment sport dport p) = 20 + length p"
  by (simp add: tcp_segment_def be16_def)

lemma layout_ipv6:
  assumes "length u = 8" "length v = 8" "length p < 2 ^ 16"
  shows "pf_ipv6 layout_parsers (ip6_packet u v proto p @ padding) =
     Some \<lparr>iv_source = V6 u, iv_destination = V6 v, iv_protocol = proto, iv_payload = p\<rparr>"
proof -
  let ?head = "[0x60, 0, 0, 0] @ be16 (of_nat (length p)) @ [proto, 64]"
  have "unat (of_nat (length p) :: 16 word) = length p"
    using assms(3) by (simp add: unat_of_nat)
  then show ?thesis
    using words_at_concat [OF assms(1), of 8 ?head "concat (map be16 v) @ p @ padding"]
      words_at_concat [OF assms(2), of 24 "?head @ concat (map be16 u)" "p @ padding"] assms(1,2)
    by (simp add: layout_parsers_def ip6_packet_def words_at_def length_be16s be16_def [of "of_nat (length p)"]
        word_at_def [of _ 4] word_bytes)
qed

lemma layout_ipv4:
  assumes "20 + length p < 2 ^ 16"
  shows "pf_ipv4 layout_parsers (ip4_packet s d proto p @ padding) =
     Some \<lparr>iv_source = ip4_addr s, iv_destination = ip4_addr d, iv_protocol = proto, iv_payload = p\<rparr>"
proof -
  have "unat (of_nat (20 + length p) :: 16 word) = 20 + length p"
    using assms by (simp only: unat_of_nat) simp
  moreover have "word_at (ip4_packet s d proto p @ padding) 2 = of_nat (20 + length p)"
    by (cases s; cases d) (simp add: ip4_packet_def be16_def word_at_def word_bytes)
  ultimately show ?thesis
    by (cases s; cases d) (simp add: layout_parsers_def, simp add: ip4_packet_def be16_def)
qed

lemmas layout_defs = layout_parsers_def layout_renderers_def eth_frame_def tcp_segment_def udp_datagram_def
  be16_def word_at_def word_bytes

interpretation layout: packet_formats layout_parsers layout_renderers
proof
  show "pf_ipv4 layout_parsers (rd_ipv4 layout_renderers s d proto p @ padding) =
     Some \<lparr>iv_source = ip4_addr s, iv_destination = ip4_addr d, iv_protocol = proto, iv_payload = p\<rparr>"
    if "20 + length p < 2 ^ 16" for s d proto p padding
    using layout_ipv4 [OF that] by (simp add: layout_renderers_def)
  show "pf_ipv6 layout_parsers (rd_ipv6 layout_renderers u v proto p @ padding) =
     Some \<lparr>iv_source = V6 u, iv_destination = V6 v, iv_protocol = proto, iv_payload = p\<rparr>"
    if "length u = 8" "length v = 8" "length p < 2 ^ 16" for u v proto p padding
    using layout_ipv6 [OF that] by (simp add: layout_renderers_def)
qed (auto simp: layout_defs ip4_packet_def ip6_packet_def nth_append)

text \<open>Runs on concrete captures decode the IPv4 packets of the layouts.\<close>

lemma layout_fits:
  "well_formed_packet layout_renderers (Route4 s d) (TcpSegment sport dport p) \<longleftrightarrow> 40 + length p < 2 ^ 16"
  "well_formed_packet layout_renderers (Route4 s d) (UdpDatagram sport dport p) \<longleftrightarrow> 28 + length p < 2 ^ 16"
  "well_formed_packet layout_renderers (Route4 s d) (OtherPayload proto p) \<longleftrightarrow>
     proto \<noteq> Tcp \<and> proto \<noteq> Udp \<and> 20 + length p < 2 ^ 16"
  by (auto simp: well_formed_packet_def layout_renderers_def tcp_segment_def udp_datagram_def be16_def)

lemma layout_decodes:
  "40 + length p < 2 ^ 16 \<Longrightarrow>
    decode_packet layout_parsers macos False (eth_frame Ipv4_ethertype (ip4_packet s d Tcp (tcp_segment sport dport p))) =
      Ok (Some (summary_of (Route4 s d) (TcpSegment sport dport p)))"
  "28 + length p < 2 ^ 16 \<Longrightarrow>
    decode_packet layout_parsers macos False (eth_frame Ipv4_ethertype (ip4_packet s d Udp (udp_datagram sport dport p))) =
      Ok (Some (summary_of (Route4 s d) (UdpDatagram sport dport p)))"
  "20 + length p < 2 ^ 16 \<Longrightarrow>
    decode_packet layout_parsers macos False (eth_frame Ipv4_ethertype (ip4_packet s d Icmp p)) =
      Ok (Some (summary_of (Route4 s d) (OtherPayload Icmp p)))"
  "28 + length p < 2 ^ 16 \<Longrightarrow>
    decode_packet layout_parsers False True (ip4_packet s d Udp (udp_datagram sport dport p)) =
      Ok (Some (summary_of (Route4 s d) (UdpDatagram sport dport p)))"
  using layout.decode_frame [of "Route4 s d" "TcpSegment sport dport p" macos "[]"]
    layout.decode_frame [of "Route4 s d" "UdpDatagram sport dport p" macos "[]"]
    layout.decode_frame [of "Route4 s d" "OtherPayload Icmp p" macos "[]"]
    layout.decode_bare [of "Route4 s d" "UdpDatagram sport dport p" "[]" False]
  by (simp_all add: layout_fits, simp_all add: layout_renderers_def Icmp_def Tcp_def Udp_def)

section \<open>Properties\<close>

text \<open>
  C27. Decoding: every well-formed packet is decoded to its addresses, its ports and its protocol: over
  IPv4 and over IPv6, in an Ethernet frame on the bridge and, on a tunnel device, bare or, on macOS,
  after the four bytes of its address family.  A TCP segment and a UDP datagram have the ports of their
  headers, anything else (ICMP, say) the port 0.  A frame of any other ethertype is ignored.
\<close>

theorem captured_packets_are_decoded:
  assumes "packet_formats pf fm" "well_formed_packet fm route seg"
  shows "decode_packet pf macos False (rd_ethernet fm (ethertype_of route) (ip_packet fm route seg @ padding)) =
      Ok (Some (summary_of route seg)) \<and>
    (length family = (if macos then 4 else 0) \<longrightarrow>
      decode_packet pf macos True (family @ ip_packet fm route seg) = Ok (Some (summary_of route seg))) \<and>
    (ty \<notin> {Ipv4_ethertype, Ipv6_ethertype} \<longrightarrow> decode_packet pf macos False (rd_ethernet fm ty payload) = Ok None)"
  using packet_formats.decode_frame [OF assms] packet_formats.decode_bare [OF assms]
    packet_formats.decode_other_frame [OF assms(1)] by simp

theorem captured_packets_are_decoded_witness:
  "decode_packet layout_parsers True True ([0, 0, 0, 30] @
     ip6_packet [0xFD00, 0, 0, 0, 0, 0, 0, 2] [0xFD00, 0, 0, 0, 0, 0, 0, 1] Udp (udp_datagram 4000 53 [1, 2])) =
   Ok (Some \<lparr>source = \<lparr>sock_ip = V6 [0xFD00, 0, 0, 0, 0, 0, 0, 2], sock_port = 4000\<rparr>,
     destination = \<lparr>sock_ip = V6 [0xFD00, 0, 0, 0, 0, 0, 0, 1], sock_port = 53\<rparr>, protocol = Udp\<rparr>) \<and>
   decode_packet layout_parsers False False (eth_frame 0x0806 []) = Ok None"
proof -
  let ?route = "Route6 [0xFD00, 0, 0, 0, 0, 0, 0, 2] [0xFD00, 0, 0, 0, 0, 0, 0, 1]" and ?seg = "UdpDatagram 4000 53 [1, 2]"
  have fits: "well_formed_packet layout_renderers ?route ?seg"
    by (simp add: well_formed_packet_def layout_renderers_def udp_datagram_def be16_def)
  note decoded = captured_packets_are_decoded [OF layout.packet_formats_axioms fits]
  show ?thesis
    using decoded [of True "[]" "[0, 0, 0, 30]"] decoded [of False "[]" "[]" "0x0806" "[]"]
    by (simp add: layout_renderers_def summary_of_def Ipv4_ethertype_def Ipv6_ethertype_def)
qed

text \<open>What a monitor has decoded before the event that ends it.\<close>

fun decoded :: "(bytes \<Rightarrow> (monitor_error, parsed_packet option) res) \<Rightarrow> monitor_event list \<Rightarrow> parsed_packet list" where
  "decoded dec [] = []"
| "decoded dec (Captured data # evs) = (case dec data of Ok (Some p) \<Rightarrow> p # decoded dec evs | _ \<Rightarrow> decoded dec evs)"
| "decoded dec (_ # evs) = []"

fun until_false :: "('a \<Rightarrow> bool) \<Rightarrow> 'a list \<Rightarrow> 'a list" where
  "until_false P [] = []"
| "until_false P (x # xs) = (if P x then x # until_false P xs else [x])"

lemma monitor_loop_packets:
  "monitor_loop dec filter_fn (\<lambda>s p. (cont p, s)) s r evs = Some (Ok r') \<Longrightarrow>
     packets r' = packets r @ until_false cont (filter filter_fn (decoded dec evs))"
proof (induction evs arbitrary: r)
  case (Cons ev evs)
  then show ?case
    by (cases ev) (auto simp: Let_def split: res.splits option.splits if_splits)
qed simp

lemma unat_bound: "unat (w :: 64 word) < 2 ^ 64"
  using unsigned_less [of w] by simp

lemma saturating_succ_unat: "unat (saturating_succ n) = min (unat n + 1) (2 ^ 64 - 1)"
proof (cases "n = - 1")
  case True
  then show ?thesis by (simp add: saturating_succ_def unsigned_minus_1_eq_mask mask_eq_exp_minus_1)
next
  case False
  then have "1 + n \<noteq> 0" by (metis add.inverse_unique minus_equation_iff)
  then have "unat (1 + n) = Suc (unat n)" by (rule unatSuc)
  moreover have "unat (1 + n) < 2 ^ 64" by (rule unat_bound)
  ultimately show ?thesis using False by (simp add: saturating_succ_def add.commute)
qed

lemma monitor_loop_discards:
  "monitor_loop dec filter_fn (\<lambda>s p. (True, s)) s r evs = Some (Ok r') \<Longrightarrow>
     unat (discarded_packets r') =
       min (unat (discarded_packets r) + length (filter (\<lambda>p. \<not> filter_fn p) (decoded dec evs))) (2 ^ 64 - 1)"
proof (induction evs arbitrary: r)
  case (Cons ev evs)
  have "unat (discarded_packets r) \<le> 2 ^ 64 - 1" by (metis Suc_pred' less_Suc_eq_le unat_bound zero_less_numeral zero_less_power)
  with Cons show ?case
    by (cases ev) (auto simp: saturating_succ_unat Let_def split: res.splits option.splits if_splits)
qed simp

lemma monitor_loop_stops:
  "monitor_loop dec filter_fn cont s r (evs @ [StopRequested]) \<noteq> None"
proof (induction evs arbitrary: s r)
  case (Cons ev evs)
  then show ?case
    by (cases ev) (auto simp: Let_def split: res.splits option.splits prod.splits)
qed simp

lemma monitor_wait_Ok: "monitor_wait handle evs = Some (Ok r) \<longleftrightarrow> handle evs = Some (Ok r)"
  by (cases "handle evs") (auto simp: monitor_wait_def split: res.split)

lemma started_monitor:
  assumes "start_packet_monitor_for_interface cap pf macos interface filter_fn cont s opts = Ok handle"
  shows "handle evs = monitor_loop (decode_packet pf macos (mo_no_frame opts)) filter_fn cont s
     \<lparr>packets = [], discarded_packets = 0\<rparr> (filter (can_time_out opts) evs)"
  using assms by (auto simp: start_packet_monitor_for_interface_def split: if_splits)

text \<open>
  C26. Monitoring: a monitor that is asked to stop always returns.  The packets that it returns are
  exactly the decoded packets that match the filter, in order, up to the first one after which it
  should not continue or else up to the stop or the time limit, if it has one; a monitor that runs
  until then counts every other decoded packet as discarded, saturating instead of wrapping around.
\<close>

theorem monitor_returns_matching_packets:
  assumes "start_packet_monitor_for_interface cap pf macos interface filter_fn (\<lambda>s p. (cont p, s)) s opts = Ok handle"
  shows "into_result handle evs \<noteq> None \<and>
    (\<forall>r. monitor_wait handle evs = Some (Ok r) \<longrightarrow>
       (let seen = decoded (decode_packet pf macos (mo_no_frame opts)) (filter (can_time_out opts) evs)
        in packets r = until_false cont (filter filter_fn seen) \<and>
          (cont = (\<lambda>_. True) \<longrightarrow>
            unat (discarded_packets r) = min (length (filter (\<lambda>p. \<not> filter_fn p) seen)) (2 ^ 64 - 1))))"
proof -
  let ?dec = "decode_packet pf macos (mo_no_frame opts)" and ?evs = "filter (can_time_out opts) evs"
  have "into_result handle evs \<noteq> None"
    unfolding into_result_def monitor_wait_def started_monitor [OF assms] filter_append
    using monitor_loop_stops [of ?dec filter_fn "\<lambda>s p. (cont p, s)" s _ ?evs] by (simp add: can_time_out_def)
  then show ?thesis
    using monitor_loop_packets [of ?dec filter_fn cont s _ ?evs]
      monitor_loop_discards [of ?dec filter_fn s _ ?evs]
    by (auto simp: monitor_wait_Ok started_monitor [OF assms] Let_def)
qed

definition demo_capture :: capture where
  "demo_capture = \<lparr>from_device = \<lambda>i. i = ''br-mullvadtest'', capture_open = True, set_direction = \<lambda>_. True,
     setnonblock = True, capture_stream = True\<rparr>"

definition demo_options :: monitor_options where
  "demo_options = \<lparr>mo_timeout = Some 5, mo_direction = Some ''In'', mo_no_frame = False\<rparr>"

definition demo_frame :: "byte \<Rightarrow> bytes" where
  "demo_frame proto = eth_frame Ipv4_ethertype (ip4_packet (10, 0, 0, 1) (1, 1, 1, 1) proto (tcp_segment 4000 53 []))"

definition demo_packet :: "byte \<Rightarrow> port \<Rightarrow> port \<Rightarrow> parsed_packet" where
  "demo_packet proto sport dport = \<lparr>source = \<lparr>sock_ip = V4 10 0 0 1, sock_port = sport\<rparr>,
     destination = \<lparr>sock_ip = V4 1 1 1 1, sock_port = dport\<rparr>, protocol = proto\<rparr>"

theorem monitor_returns_matching_packets_witness:
  "\<exists>handle r. start_packet_monitor_for_interface demo_capture layout_parsers False ''br-mullvadtest''
       (\<lambda>p. protocol p = Tcp) (\<lambda>s p. (True, s)) () demo_options = Ok handle \<and>
     monitor_wait handle [Captured (demo_frame Tcp), Captured (demo_frame Icmp), TimedOut, Captured (demo_frame Tcp)] = Some (Ok r) \<and>
     map (\<lambda>p. sock_port (destination p)) (packets r) = [53] \<and> unat (discarded_packets r) = 1"
proof -
  let ?cont = "\<lambda>(s :: unit) (p :: parsed_packet). (True, s)"
  let ?start = "start_packet_monitor_for_interface demo_capture layout_parsers False ''br-mullvadtest''
       (\<lambda>p. protocol p = Tcp) ?cont () demo_options"
  let ?evs = "[Captured (demo_frame Tcp), Captured (demo_frame Icmp), TimedOut, Captured (demo_frame Tcp)]"
  obtain handle where start: "?start = Ok handle"
    by (simp add: start_packet_monitor_for_interface_def demo_capture_def demo_options_def)
  have dec: "decode_packet layout_parsers False False (demo_frame Tcp) = Ok (Some (demo_packet Tcp 4000 53))"
    "decode_packet layout_parsers False False (demo_frame Icmp) = Ok (Some (demo_packet Icmp 0 0))"
    by (simp_all add: demo_frame_def demo_packet_def layout_decodes summary_of_def)
  have options: "mo_no_frame demo_options = False" "filter (can_time_out demo_options) ?evs = ?evs"
    by (simp_all add: demo_options_def can_time_out_def)
  have fields: "protocol (demo_packet proto a b) = proto" "sock_port (destination (demo_packet proto a b)) = b"
      "Icmp \<noteq> Tcp" for proto a b
    by (simp_all add: demo_packet_def Tcp_def Icmp_def)
  note facts = dec options fields saturating_succ_def
  have "\<exists>r. monitor_wait handle ?evs = Some (Ok r)"
    unfolding monitor_wait_Ok started_monitor [OF start] options by (simp add: facts)
  then obtain r where r: "monitor_wait handle ?evs = Some (Ok r)" ..
  with monitor_returns_matching_packets [OF start, of ?evs] start show ?thesis
    unfolding options by (intro exI [of _ handle] exI [of _ r]) (simp add: facts Let_def)
qed

end
