(* ===== verification/Client.thy ===== *)
theory Client
  imports Connection BTree
begin

text \<open>
  \<open>ServiceClient\<close> of \<open>test-rpc/src/client.rs\<close>: the wrapper through which the tests call the runner.
  The generated \<open>tarpc\<close> client is the environment: it answers every request, with a transport error
  or with the result of the service, in any way.  What the wrapper adds is modelled: the deadlines,
  the conversion and propagation of errors, the polling for a service state, and the reboot sequence.
\<close>

section \<open>Calls\<close>

text \<open>\<open>context::current()\<close> has the library's default deadline; some calls override it (seconds).\<close>

datatype deadline = DefaultDeadline | DeadlineIn nat

definition INSTALL_TIMEOUT :: nat where "INSTALL_TIMEOUT = 300"
definition REBOOT_TIMEOUT :: nat where "REBOOT_TIMEOUT = 30"
definition LOG_LEVEL_TIMEOUT :: nat where "LOG_LEVEL_TIMEOUT = 60"

datatype client_ev = Call deadline rpc_request | SleepSecs nat | ResetConnected | WaitServer

text \<open>The environment: one answer function per response type, given the history.\<close>

record client_env =
  ce_unit :: "client_ev list \<Rightarrow> rpc_request \<Rightarrow> string + (error + unit)"
  ce_exec :: "client_ev list \<Rightarrow> rpc_request \<Rightarrow> string + (error + exec_result)"
  ce_output :: "client_ev list \<Rightarrow> rpc_request \<Rightarrow> string + (error + log_line list)"
  ce_traces :: "client_ev list \<Rightarrow> rpc_request \<Rightarrow> string + (error + app_trace list)"
  ce_geoip :: "client_ev list \<Rightarrow> rpc_request \<Rightarrow> string + (error + am_i_mullvad)"
  ce_string :: "client_ev list \<Rightarrow> rpc_request \<Rightarrow> string + (error + string)"
  ce_ip :: "client_ev list \<Rightarrow> rpc_request \<Rightarrow> string + (error + ip_addr)"
  ce_addrs :: "client_ev list \<Rightarrow> rpc_request \<Rightarrow> string + (error + socket_addr list)"
  ce_logs :: "client_ev list \<Rightarrow> string + log_output"
  ce_os :: "client_ev list \<Rightarrow> string + os"
  ce_status :: "client_ev list \<Rightarrow> string + service_status"
  ce_next :: "client_ev list \<Rightarrow> next_result"

type_synonym 'a client = "(client_env, client_ev, error, 'a) prog"

text \<open>\<open>.await?\<close> on a call whose response is itself a \<open>Result\<close>.\<close>

definition rpc ::
  "(client_env \<Rightarrow> client_ev list \<Rightarrow> rpc_request \<Rightarrow> string + (error + 'a)) \<Rightarrow>
     deadline \<Rightarrow> rpc_request \<Rightarrow> 'a client" where
  "rpc answer dl req =
     bindE (perform (\<lambda>env tr. answer env tr req) (\<lambda>_. Call dl req))
       (\<lambda>r. case r of Inl e \<Rightarrow> fail (Tarpc e) | Inr (Inl e) \<Rightarrow> fail e | Inr (Inr a) \<Rightarrow> ret a)"

text \<open>\<open>.await.map_err(Error::Tarpc)\<close> on a call that cannot fail on the runner.\<close>

definition rpc_plain ::
  "(client_env \<Rightarrow> client_ev list \<Rightarrow> string + 'a) \<Rightarrow> deadline \<Rightarrow> rpc_request \<Rightarrow> 'a client" where
  "rpc_plain answer dl req =
     bindE (perform answer (\<lambda>_. Call dl req))
       (\<lambda>r. case r of Inl e \<Rightarrow> fail (Tarpc e) | Inr a \<Rightarrow> ret a)"

definition install_app :: "package \<Rightarrow> unit client" where
  "install_app pkg = rpc ce_unit (DeadlineIn INSTALL_TIMEOUT) (InstallApp pkg)"

definition uninstall_app :: "(string \<times> string) list \<Rightarrow> unit client" where
  "uninstall_app env = rpc ce_unit (DeadlineIn INSTALL_TIMEOUT) (UninstallApp env)"

definition exec_env :: "string \<Rightarrow> string list \<Rightarrow> (string \<times> string) list \<Rightarrow> exec_result client" where
  "exec_env path args env =
     rpc ce_exec (DeadlineIn INSTALL_TIMEOUT) (Exec path args (btree_collect env))"

definition exec :: "string \<Rightarrow> string list \<Rightarrow> exec_result client" where
  "exec path args = exec_env path args []"

definition poll_output :: "log_line list client" where
  "poll_output = rpc ce_output DefaultDeadline PollOutput"

definition try_poll_output :: "log_line list client" where
  "try_poll_output = rpc ce_output DefaultDeadline TryPollOutput"

definition get_mullvad_app_logs :: "log_output client" where
  "get_mullvad_app_logs = rpc_plain ce_logs DefaultDeadline GetMullvadAppLogs"

definition get_os :: "os client" where
  "get_os = rpc_plain ce_os DefaultDeadline GetOs"

definition mullvad_daemon_get_status :: "service_status client" where
  "mullvad_daemon_get_status = rpc_plain ce_status DefaultDeadline MullvadDaemonGetStatus"

definition MAX_ATTEMPTS :: nat where "MAX_ATTEMPTS = 10"
definition POLL_INTERVAL :: nat where "POLL_INTERVAL = 3"

fun poll_state :: "nat \<Rightarrow> (service_status \<Rightarrow> bool) \<Rightarrow> service_status client" where
  "poll_state 0 accept = fail Timeout"
| "poll_state (Suc n) accept =
     bindE mullvad_daemon_get_status (\<lambda>last_state.
       if accept last_state then ret last_state
       else seqE (emit (SleepSecs POLL_INTERVAL)) (poll_state n accept))"

definition mullvad_daemon_wait_for_state :: "(service_status \<Rightarrow> bool) \<Rightarrow> service_status client" where
  "mullvad_daemon_wait_for_state accept_state_fn = poll_state MAX_ATTEMPTS accept_state_fn"

definition find_mullvad_app_traces :: "app_trace list client" where
  "find_mullvad_app_traces = rpc ce_traces DefaultDeadline FindMullvadAppTraces"

definition send_tcp :: "interface option \<Rightarrow> socket_addr \<Rightarrow> socket_addr \<Rightarrow> unit client" where
  "send_tcp iface bind_addr destination =
     rpc ce_unit DefaultDeadline (SendTcpReq iface bind_addr destination)"

definition send_udp :: "interface option \<Rightarrow> socket_addr \<Rightarrow> socket_addr \<Rightarrow> unit client" where
  "send_udp iface bind_addr destination =
     rpc ce_unit DefaultDeadline (SendUdpReq iface bind_addr destination)"

definition send_ping :: "interface option \<Rightarrow> ip_addr \<Rightarrow> unit client" where
  "send_ping iface destination = rpc ce_unit DefaultDeadline (SendPingReq iface destination)"

definition geoip_lookup :: "string \<Rightarrow> am_i_mullvad client" where
  "geoip_lookup mullvad_host = rpc ce_geoip DefaultDeadline (GeoipLookup mullvad_host)"

definition get_interface_name :: "interface \<Rightarrow> string client" where
  "get_interface_name iface = rpc ce_string DefaultDeadline (GetInterfaceName iface)"

definition get_interface_ip :: "interface \<Rightarrow> ip_addr client" where
  "get_interface_ip iface = rpc ce_ip DefaultDeadline (GetInterfaceIp iface)"

definition resolve_hostname :: "string \<Rightarrow> socket_addr list client" where
  "resolve_hostname hostname = rpc ce_addrs DefaultDeadline (ResolveHostname hostname)"

definition set_daemon_log_level :: "verbosity \<Rightarrow> unit client" where
  "set_daemon_log_level verbosity_level =
     seqE (rpc ce_unit (DeadlineIn LOG_LEVEL_TIMEOUT) (SetDaemonLogLevel verbosity_level))
    (seqE (mullvad_daemon_wait_for_state (\<lambda>state. state = Running))
     (ret ()))"

definition set_daemon_environment :: "(string \<times> string) list \<Rightarrow> unit client" where
  "set_daemon_environment env =
     seqE (rpc ce_unit (DeadlineIn LOG_LEVEL_TIMEOUT) (SetDaemonEnvironment env))
    (seqE (mullvad_daemon_wait_for_state (\<lambda>state. state = Running))
     (ret ()))"

definition copy_file :: "string \<Rightarrow> string \<Rightarrow> unit client" where
  "copy_file src dest = rpc ce_unit DefaultDeadline (CopyFile src dest)"

definition reboot :: "unit client" where
  "reboot =
     seqE (rpc ce_unit (DeadlineIn REBOOT_TIMEOUT) Reboot)
    (seqE (emit ResetConnected)
    (bindE (perform ce_next (\<lambda>_. WaitServer))
     (\<lambda>r. case r of
        Elapsed \<Rightarrow> fail TestRunnerTimeout
      | Next _ \<Rightarrow> seqE (emit (SleepSecs 5)) (ret ()))))"

definition set_mullvad_daemon_service_state :: "bool \<Rightarrow> unit client" where
  "set_mullvad_daemon_service_state on =
     seqE (rpc ce_unit DefaultDeadline (SetMullvadDaemonServiceState on))
    (seqE (mullvad_daemon_wait_for_state
             (\<lambda>state. if on then state = Running else state = NotRunning))
     (ret ()))"

definition make_device_json_old :: "unit client" where
  "make_device_json_old = rpc ce_unit DefaultDeadline MakeDeviceJsonOld"

section \<open>Rules for the calls\<close>

lemma spec_rpc:
  assumes "\<And>a. Q (Ok a) [Call dl req]" "\<And>e. Q (Err e) [Call dl req]"
  shows "spec (rpc f dl req) Q"
  unfolding rpc_def using assms
  by (auto intro!: spec_rules split: sum.splits)

lemma spec_rpc_plain:
  assumes "\<And>a. Q (Ok a) [Call dl req]" "\<And>e. Q (Err e) [Call dl req]"
  shows "spec (rpc_plain f dl req) Q"
  unfolding rpc_plain_def using assms
  by (auto intro!: spec_rules split: sum.splits)

text \<open>The polling loop: rejected polls, each followed by a pause, then the answer.\<close>

definition polls :: "nat \<Rightarrow> client_ev list" where
  "polls n = concat (replicate n [Call DefaultDeadline MullvadDaemonGetStatus, SleepSecs POLL_INTERVAL])"

definition poll_outcome ::
  "nat \<Rightarrow> (service_status \<Rightarrow> bool) \<Rightarrow> (error, service_status) res \<Rightarrow> client_ev list \<Rightarrow> bool" where
  "poll_outcome n accept r es \<longleftrightarrow>
     (case r of
        Ok st \<Rightarrow> accept st \<and> (\<exists>k < n. es = polls k @ [Call DefaultDeadline MullvadDaemonGetStatus])
      | Err e \<Rightarrow> (e = Timeout \<and> es = polls n) \<or>
          (\<exists>k < n. es = polls k @ [Call DefaultDeadline MullvadDaemonGetStatus])
      | Panic s \<Rightarrow> False)"

lemma polls_Suc: "polls (Suc k) =
   Call DefaultDeadline MullvadDaemonGetStatus # SleepSecs POLL_INTERVAL # polls k"
  by (simp add: polls_def)

lemma poll_outcome_Suc:
  "poll_outcome n accept r es \<Longrightarrow>
   poll_outcome (Suc n) accept r
     (Call DefaultDeadline MullvadDaemonGetStatus # SleepSecs POLL_INTERVAL # es)"
  unfolding poll_outcome_def
  by (cases r) (auto simp: polls_Suc intro: exI [where x = "Suc _"])

lemma spec_poll_state: "spec (poll_state n accept) (poll_outcome n accept)"
proof (induction n)
  case 0
  show ?case by (auto intro!: spec_rules simp: poll_outcome_def polls_def)
next
  case (Suc n)
  have stop: "poll_outcome (Suc n) accept (Ok st) [Call DefaultDeadline MullvadDaemonGetStatus]"
    if "accept st" for st
    using that by (auto simp: poll_outcome_def polls_def intro: exI [where x = 0])
  have err: "poll_outcome (Suc n) accept (Err e) [Call DefaultDeadline MullvadDaemonGetStatus]" for e
    by (auto simp: poll_outcome_def polls_def intro: exI [where x = 0])
  show ?case
    unfolding poll_state.simps
  proof (rule spec_bindE [where P = "\<lambda>r es. es = [Call DefaultDeadline MullvadDaemonGetStatus] \<and>
      (\<forall>s. r \<noteq> Panic s)"])
    show "spec mullvad_daemon_get_status
       (\<lambda>r es. es = [Call DefaultDeadline MullvadDaemonGetStatus] \<and> (\<forall>s. r \<noteq> Panic s))"
      unfolding mullvad_daemon_get_status_def by (rule spec_rpc_plain) auto
  qed (auto intro!: spec_rules stop err spec_weaken [OF Suc.IH] poll_outcome_Suc)
qed

section \<open>Properties\<close>

text \<open>
   Waiting for a service state polls at most ten times: it returns the first accepted state
  after fewer than ten rejected polls with a pause of three seconds after each, or times out after
  exactly ten rejected polls, or ends with the error of a poll that failed.
\<close>

lemma wait_for_state_polls:
  "\<exists>es. snd (mullvad_daemon_wait_for_state accept env tr) = tr @ es \<and>
     poll_outcome 10 accept (fst (mullvad_daemon_wait_for_state accept env tr)) es"
  using spec_poll_state [of 10 accept]
  by (auto simp: spec_def mullvad_daemon_wait_for_state_def MAX_ATTEMPTS_def)

lemma poll_state_ok_status:
  "poll_state n accept env tr = (Ok st, tr') \<Longrightarrow>
     accept st \<and> (\<exists>tr0. ce_status env tr0 = Inr st \<and>
        tr' = tr0 @ [Call DefaultDeadline MullvadDaemonGetStatus])"
proof (induction n arbitrary: tr)
  case 0
  then show ?case by (simp add: prog_defs)
next
  case (Suc n)
  show ?case
  proof (cases "ce_status env tr")
    case (Inl e)
    with Suc.prems show ?thesis
      by (simp add: prog_defs mullvad_daemon_get_status_def rpc_plain_def)
  next
    case (Inr st0)
    with Suc show ?thesis
      by (auto simp: prog_defs mullvad_daemon_get_status_def rpc_plain_def split: if_splits)
  qed
qed

text \<open>
   Starting or stopping the daemon service is only reported as done when the last thing the
  client did was to ask for the service status and the answer was the requested state.
\<close>

lemma service_state_is_confirmed:
  assumes "set_mullvad_daemon_service_state on env tr = (Ok (), tr')"
  shows "\<exists>tr0. ce_status env tr0 = Inr (if on then Running else NotRunning) \<and>
           tr' = tr0 @ [Call DefaultDeadline MullvadDaemonGetStatus]"
proof -
  obtain tr1 st where "mullvad_daemon_wait_for_state
      (\<lambda>state. if on then state = Running else state = NotRunning) env tr1 = (Ok st, tr')"
    using assms
    by (auto simp: set_mullvad_daemon_service_state_def seqE_def bindE_def ret_def
        split: prod.splits res.splits)
  from poll_state_ok_status [OF this [unfolded mullvad_daemon_wait_for_state_def]]
  show ?thesis by (cases on) auto
qed

definition demo_client_env :: client_env where
  "demo_client_env = \<lparr>ce_unit = \<lambda>_ _. Inr (Inr ()), ce_exec = \<lambda>_ _. Inl [], ce_output = \<lambda>_ _. Inl [],
     ce_traces = \<lambda>_ _. Inl [], ce_geoip = \<lambda>_ _. Inl [], ce_string = \<lambda>_ _. Inl [], ce_ip = \<lambda>_ _. Inl [],
     ce_addrs = \<lambda>_ _. Inl [], ce_logs = \<lambda>_. Inl [], ce_os = \<lambda>_. Inl [],
     ce_status = \<lambda>tr. Inr (if length tr < 3 then NotRunning else Running), ce_next = \<lambda>_. Elapsed\<rparr>"

lemma service_state_is_confirmed_witness:
  "\<exists>tr0. ce_status demo_client_env tr0 = Inr Running \<and>
     snd (set_mullvad_daemon_service_state True demo_client_env []) =
       tr0 @ [Call DefaultDeadline MullvadDaemonGetStatus]"
proof -
  have "set_mullvad_daemon_service_state True demo_client_env [] =
      (Ok (), [Call DefaultDeadline (SetMullvadDaemonServiceState True),
               Call DefaultDeadline MullvadDaemonGetStatus, SleepSecs 3,
               Call DefaultDeadline MullvadDaemonGetStatus])"
    by (simp add: set_mullvad_daemon_service_state_def mullvad_daemon_wait_for_state_def
        MAX_ATTEMPTS_def POLL_INTERVAL_def eval_nat_numeral rpc_def rpc_plain_def prog_defs
        mullvad_daemon_get_status_def demo_client_env_def)
  from service_state_is_confirmed [OF this] this show ?thesis by simp
qed

end
