(* ===== verification/Summary.thy ===== *)
theory Summary
  imports Host BTree
begin

text \<open>
  \<open>test-manager/src/summary.rs\<close>: the summary file a test run writes, reading it back, and the HTML
  table over several summaries; and the test metadata of \<open>tests/test_metadata.rs\<close>.
\<close>

section \<open>Results\<close>

datatype summary_error = SumOpen io_error | SumWrite io_error | SumRead io_error | SumParse

datatype test_result = Pass | Fail | Unknown

definition utf8 :: "nat list \<Rightarrow> string" where
  "utf8 bs = map char_of bs"

definition PASS_STR :: string where "PASS_STR = utf8 [0xE2, 0x9C, 0x85]"
definition FAIL_STR :: string where "FAIL_STR = utf8 [0xE2, 0x9D, 0x8C]"
definition UNKNOWN_STR :: string where "UNKNOWN_STR = '' ''"

definition test_result_from_str :: "string \<Rightarrow> summary_error + test_result" where
  "test_result_from_str s =
    (if s = PASS_STR then Inr Pass else if s = FAIL_STR then Inr Fail else Inr Unknown)"

primrec test_result_display :: "test_result \<Rightarrow> string" where
  "test_result_display Pass = PASS_STR"
| "test_result_display Fail = FAIL_STR"
| "test_result_display Unknown = UNKNOWN_STR"

section \<open>Writing a summary\<close>

definition create_truncate :: open_options where
  "create_truncate = \<lparr>oo_create = True, oo_truncate = True, oo_append = False\<rparr>"

definition write_str :: "string \<Rightarrow> string \<Rightarrow> (summary_error, unit) host" where
  "write_str path data = fs_call SumWrite (WriteAll path create_truncate data)"

text \<open>A \<open>SummaryLogger\<close> is the open file; it is named by its path.\<close>

definition summary_logger_new :: "string \<Rightarrow> string \<Rightarrow> (summary_error, unit) host" where
  "summary_logger_new name path =
     seqE (fs_call SumOpen (OpenWrite path create_truncate))
    (seqE (write_str path name)
    (seqE (write_str path [CHR 0x0A])
     (ret ())))"

definition log_test_result :: "string \<Rightarrow> string \<Rightarrow> test_result \<Rightarrow> (summary_error, unit) host" where
  "log_test_result path test_name result =
     seqE (write_str path test_name)
    (seqE (write_str path '' '')
    (seqE (write_str path (test_result_display result))
    (seqE (write_str path [CHR 0x0A])
     (ret ()))))"

definition maybe_log_test_result ::
  "string option \<Rightarrow> string \<Rightarrow> test_result \<Rightarrow> (summary_error, unit) host" where
  "maybe_log_test_result summary_logger test_name result = (case summary_logger of
      Some path \<Rightarrow> log_test_result path test_name result
    | None \<Rightarrow> ret ())"

section \<open>Reading a summary\<close>

text \<open>
  \<open>str::split_whitespace\<close>.  \<open>ws_len\<close> is the number of bytes of the white-space character at the
  start of a string, 0 if there is none (Unicode \<open>White_Space\<close>, UTF-8 encoded).
\<close>

definition ws_len :: "string \<Rightarrow> nat" where
  "ws_len s = (case map of_char (take 3 s) of
      [] \<Rightarrow> 0
    | a # rest \<Rightarrow>
        if a \<in> {9, 10, 11, 12, 13, 32 :: nat} then 1
        else if a = 0xC2 \<and> rest \<noteq> [] \<and> hd rest \<in> {0x85, 0xA0} then 2
        else if a # rest = [0xE1, 0x9A, 0x80] \<or> a # rest = [0xE3, 0x80, 0x80] \<or>
                a # rest = [0xE2, 0x81, 0x9F] then 3
        else if a = 0xE2 \<and> length rest = 2 \<and> rest ! 0 = 0x80 \<and>
                (rest ! 1 \<in> {0xA8, 0xA9, 0xAF} \<or> 0x80 \<le> rest ! 1 \<and> rest ! 1 \<le> 0x8A) then 3
        else 0)"

function split_words :: "string \<Rightarrow> string \<Rightarrow> string list" where
  "split_words word s =
    (if s = [] then (if word = [] then [] else [word])
     else if ws_len s = 0 then split_words (word @ [hd s]) (tl s)
     else (if word = [] then [] else [word]) @ split_words [] (drop (ws_len s) s))"
  by auto

termination
  by (relation "measure (\<lambda>(w, s). length s)") auto

declare split_words.simps [simp del]

definition split_whitespace :: "string \<Rightarrow> string list" where
  "split_whitespace s = split_words [] s"

text \<open>\<open>AsyncBufReadExt::lines\<close>: lines end with a line feed, or a carriage return and a line feed.\<close>

definition strip_cr :: "string \<Rightarrow> string" where
  "strip_cr l = (if l \<noteq> [] \<and> last l = CHR 0x0D then butlast l else l)"

fun lines_from :: "string \<Rightarrow> string \<Rightarrow> string list" where
  "lines_from acc [] = (if acc = [] then [] else [acc])"
| "lines_from acc (c # s) = (if c = CHR 0x0A then strip_cr acc # lines_from [] s else lines_from (acc @ [c]) s)"

definition lines_of :: "string \<Rightarrow> string list" where
  "lines_of s = lines_from [] s"

record summary =
  sum_name :: string
  sum_results :: "test_result btree"

fun parse_results ::
  "(io_error + string) list \<Rightarrow> test_result btree \<Rightarrow> summary_error + test_result btree" where
  "parse_results [] results = Inr results"
| "parse_results (Inl e # lines) results = Inl (SumRead e)"
| "parse_results (Inr line # lines) results =
    (case split_whitespace line of
       test_name # result # _ \<Rightarrow>
         (case test_result_from_str result of
            Inl e \<Rightarrow> Inl e
          | Inr r \<Rightarrow> parse_results lines (btree_insert test_name r results))
     | _ \<Rightarrow> Inl SumParse)"

definition parse_lines :: "(io_error + string) list \<Rightarrow> summary_error + summary" where
  "parse_lines ls = (case ls of
      [] \<Rightarrow> Inl SumParse
    | Inl e # _ \<Rightarrow> Inl (SumRead e)
    | Inr name # rest \<Rightarrow> map_sum id (\<lambda>rs. \<lparr>sum_name = name, sum_results = rs\<rparr>) (parse_results rest []))"

definition parse_log :: "string \<Rightarrow> (summary_error, summary) host" where
  "parse_log path =
     seqE (fs_call SumOpen (OpenRead path))
    (bindE (perform (\<lambda>env tr. fe_lines (he_files env) tr path) (ReadLines path)) (\<lambda>ls.
     of_result (parse_lines ls)))"

definition passed :: "summary \<Rightarrow> test_result list" where
  "passed self = filter (\<lambda>x. x = Pass) (btree_values (sum_results self))"

section \<open>The summary table\<close>

text \<open>Metadata of a test; its body is not part of the metadata here.\<close>

record test_metadata =
  tm_name :: string
  tm_command :: string
  tm_client_version :: mullvad_client_version
  tm_priority :: "int option"
  tm_always_run :: bool
  tm_must_succeed :: bool
  tm_cleanup :: bool

definition centered :: "string \<Rightarrow> string" where
  "centered s = ''<td style='text-align: center;'>'' @ s"

definition arrow_down :: string where "arrow_down = utf8 [0xE2, 0xAC, 0x87, 0xEF, 0xB8, 0x8F]"
definition arrow_right :: string where "arrow_right = utf8 [0xE2, 0x9E, 0xA1, 0xEF, 0xB8, 0x8F]"
definition party :: string where "party = utf8 [0xF0, 0x9F, 0x8E, 0x89]"
definition rain :: string where "rain = utf8 [0xF0, 0x9F, 0x8C, 0xA7, 0xEF, 0xB8, 0x8F]"

definition ALL_PASSED :: string where "ALL_PASSED = party @ '' All Platforms passed '' @ party"

definition counter_text :: "nat \<Rightarrow> summary \<Rightarrow> string" where
  "counter_text total_tests summary =
    (let total_passed = length (passed summary)
     in if total_passed = total_tests then PASS_STR
        else ''('' @ show_nat total_passed @ ''/'' @ show_nat total_tests @ '')'')"

definition all_oses_text :: "nat \<Rightarrow> summary list \<Rightarrow> string" where
  "all_oses_text total_tests summaries =
    (let oses_passed = filter (\<lambda>summary. length (passed summary) = total_tests) summaries
     in if length oses_passed = length summaries then ALL_PASSED
        else let failed = sum_list (map (\<lambda>summary. if length (passed summary) = total_tests then 0 else 1) summaries)
          in rain @ '' '' @ utf8 [0xEF, 0xB8, 0x8F] @ '' '' @ show_nat failed @ '' Platform(s) failed '' @ rain)"

definition result_of :: "string \<Rightarrow> summary \<Rightarrow> test_result" where
  "result_of test_name summary = (case btree_get (sum_results summary) test_name of
      Some r \<Rightarrow> r | None \<Rightarrow> Unknown)"

definition failed_platforms :: "string \<Rightarrow> summary list \<Rightarrow> string list" where
  "failed_platforms test_name summaries =
     map sum_name (filter (\<lambda>summary. result_of test_name summary \<noteq> Pass) summaries)"

definition test_row :: "summary list \<Rightarrow> test_metadata \<Rightarrow> string list" where
  "test_row summaries test =
     [''<tr>'', ''<td>'' @ tm_name test @ (if tm_must_succeed test then '' *'' else []) @ ''</td>'']
     @ map (\<lambda>summary. centered (test_result_display (result_of (tm_name test) summary) @ ''</td>'')) summaries
     @ [centered [],
        (if failed_platforms (tm_name test) summaries = [] then PASS_STR
         else join '', '' (failed_platforms (tm_name test) summaries)) @ ''</td>'',
        ''<td>'' @ tm_name test @ ''</td>'',
        ''</tr>'']"

text \<open>The printed lines; \<open>tests\<close> is what \<open>inventory\<close> collected.\<close>

definition summary_table :: "test_metadata list \<Rightarrow> summary list \<Rightarrow> string list" where
  "summary_table tests summaries =
     [''<head> <style> table, th, td { border: 1px solid black; } </style> </head>'',
      ''<table>'',
      ''<tr>'',
      centered (''Test '' @ arrow_down @ '' / Platform '' @ arrow_right @ '' </td>'')]
     @ map (\<lambda>summary. centered (sum_name summary @ '' '' @ counter_text (length tests) summary @ ''</td>''))
         summaries
     @ [centered [], all_oses_text (length tests) summaries, ''</td>'',
        centered (''Test '' @ arrow_down @ ''</td>''),
        ''</tr>'']
     @ concat (map (test_row summaries) tests)
     @ [''</table>'',
        ''<p>'' @ PASS_STR @ '' = Test passed</p>'',
        ''<p>'' @ FAIL_STR @ '' = Test failed</p>'']"

fun parse_all :: "string list \<Rightarrow> (summary_error, summary list) host" where
  "parse_all [] = ret []"
| "parse_all (f # fs) = bindE (parse_log f) (\<lambda>s. bindE (parse_all fs) (\<lambda>ss. ret (s # ss)))"

definition print_summary_table ::
  "test_metadata list \<Rightarrow> string list \<Rightarrow> (summary_error, string list) host" where
  "print_summary_table tests summary_files =
     bindE (parse_all summary_files) (\<lambda>summaries. ret (summary_table tests summaries))"

section \<open>Lemmas: words and lines\<close>

definition plain_char :: "char \<Rightarrow> bool" where
  "plain_char c \<longleftrightarrow> 33 \<le> (of_char c :: nat) \<and> (of_char c :: nat) < 127"

text \<open>Names of tests are identifiers: visible ASCII characters.\<close>

definition test_name_ok :: "string \<Rightarrow> bool" where
  "test_name_ok n \<longleftrightarrow> n \<noteq> [] \<and> list_all plain_char n"

definition line_ok :: "string \<Rightarrow> bool" where
  "line_ok l \<longleftrightarrow> CHR 0x0A \<notin> set l \<and> (l = [] \<or> last l \<noteq> CHR 0x0D)"

lemma ws_len_plain: "plain_char c \<Longrightarrow> ws_len (c # s) = 0"
  by (auto simp: ws_len_def plain_char_def)

lemma split_words_plain:
  "list_all plain_char w \<Longrightarrow> split_words acc (w @ s) = split_words (acc @ w) s"
proof (induction w arbitrary: acc)
  case (Cons c w)
  then show ?case by (subst split_words.simps) (simp add: ws_len_plain)
qed simp

lemma split_words_space: "acc \<noteq> [] \<Longrightarrow> split_words acc ('' '' @ s) = acc # split_words [] s"
  by (subst split_words.simps) (simp add: ws_len_def)

lemma lines_from_append:
  "CHR 0x0A \<notin> set l \<Longrightarrow> lines_from acc (l @ CHR 0x0A # s) = strip_cr (acc @ l) # lines_from [] s"
  by (induction l arbitrary: acc) auto

lemma lines_of_line: "line_ok l \<Longrightarrow> lines_of (l @ CHR 0x0A # s) = l # lines_of s"
  by (auto simp: lines_of_def lines_from_append line_ok_def strip_cr_def)

lemma lines_of_concat:
  "list_all line_ok ls \<Longrightarrow> lines_of (concat (map (\<lambda>l. l @ [CHR 0x0A]) ls)) = ls"
  by (induction ls) (simp_all add: lines_of_line, simp add: lines_of_def)

definition result_line :: "string \<times> test_result \<Rightarrow> string" where
  "result_line = (\<lambda>(n, r). n @ '' '' @ test_result_display r)"

lemma split_words_mark:
  "split_words [] PASS_STR = [PASS_STR]" "split_words [] FAIL_STR = [FAIL_STR]"
  by (simp_all add: PASS_STR_def FAIL_STR_def utf8_def split_words.simps ws_len_def)

lemma split_result_line:
  assumes "test_name_ok n" "r \<noteq> Unknown"
  shows "split_whitespace (result_line (n, r)) = [n, test_result_display r]"
  using assms split_words_plain [of n "[]"] split_words_space [of n] split_words_mark
  by (cases r) (auto simp: split_whitespace_def result_line_def test_name_ok_def)

lemma result_marks_differ [simp]: "FAIL_STR \<noteq> PASS_STR"
  by (simp add: PASS_STR_def FAIL_STR_def utf8_def)

lemma parse_result_lines:
  assumes "list_all (\<lambda>(n, r). test_name_ok n \<and> r \<noteq> Unknown) rs"
  shows "parse_results (map Inr (map result_line rs)) m = Inr (foldl (\<lambda>m (k, v). btree_insert k v m) m rs)"
  using assms
proof (induction rs arbitrary: m)
  case (Cons x rs)
  obtain n r where x: "x = (n, r)" by fastforce
  with Cons.prems have "split_whitespace (result_line x) = [n, test_result_display r]" "r \<noteq> Unknown"
    by (simp_all add: split_result_line)
  moreover from this have "test_result_from_str (test_result_display r) = Inr r"
    by (cases r) (simp_all add: test_result_from_str_def)
  ultimately show ?case using Cons x by simp
qed simp

lemma plain_char_not_newline: "plain_char c \<Longrightarrow> c \<noteq> CHR 0x0A"
  by (auto simp: plain_char_def)

lemma result_line_ok:
  assumes "test_name_ok n" "r \<noteq> Unknown"
  shows "line_ok (result_line (n, r))"
proof -
  have "CHR 0x0A \<notin> set n"
    using assms(1) plain_char_not_newline by (auto simp: test_name_ok_def list_all_iff)
  with assms(2) show ?thesis
    by (cases r) (auto simp: line_ok_def result_line_def PASS_STR_def FAIL_STR_def utf8_def char_of_def)
qed

section \<open>Lemmas: what is written\<close>

text \<open>The bytes a successful program adds to a file it writes sequentially.\<close>

definition appends :: "string \<Rightarrow> string \<Rightarrow> (summary_error, unit) host \<Rightarrow> bool" where
  "appends path data m \<longleftrightarrow> spec m (\<lambda>r es. r = Ok () \<longrightarrow>
     (\<forall>s. file_run path es (s, length s) = (s @ data, length (s @ data))))"

lemma appends_write_str: "appends path data (write_str path data)"
  unfolding appends_def write_str_def fs_call_def create_truncate_def
  by (auto intro!: spec_rules simp: write_at_end)

lemma appends_ret: "appends path [] (ret ())"
  unfolding appends_def by (auto intro!: spec_rules)

lemma appends_seqE:
  assumes "appends path d1 m" "appends path d2 k"
  shows "appends path (d1 @ d2) (seqE m k)"
  unfolding appends_def
proof (rule spec_seqE [OF assms(1) [unfolded appends_def]])
  fix a es
  assume m: "Ok a = Ok () \<longrightarrow> (\<forall>s. file_run path es (s, length s) = (s @ d1, length (s @ d1)))"
  show "spec k (\<lambda>r es'. r = Ok () \<longrightarrow> (\<forall>s. file_run path (es @ es') (s, length s) =
      (s @ d1 @ d2, length (s @ d1 @ d2))))"
  proof (rule spec_weaken [OF assms(2) [unfolded appends_def]])
    fix r es'
    assume k: "r = Ok () \<longrightarrow> (\<forall>s. file_run path es' (s, length s) = (s @ d2, length (s @ d2)))"
    have "file_run path (es @ es') (s, length s) = (s @ d1 @ d2, length (s @ d1 @ d2))" if "r = Ok ()" for s
      using m k [THEN mp, OF that, THEN HOL.spec, of "s @ d1"] by simp
    then show "r = Ok () \<longrightarrow> (\<forall>s. file_run path (es @ es') (s, length s) =
        (s @ d1 @ d2, length (s @ d1 @ d2)))" by simp
  qed
qed auto

lemma appends_log_test_result:
  "appends path (result_line (n, r) @ [CHR 0x0A]) (log_test_result path n r)"
proof -
  note w = appends_write_str [of path]
  from appends_seqE [OF w [of n] appends_seqE [OF w [of "'' ''"]
      appends_seqE [OF w [of "test_result_display r"] appends_seqE [OF w [of "[CHR 0x0A]"] appends_ret]]]]
  show ?thesis by (simp add: log_test_result_def result_line_def)
qed

definition write_summary ::
  "string \<Rightarrow> string \<Rightarrow> (string \<times> test_result) list \<Rightarrow> (summary_error, unit) host" where
  "write_summary path name rs =
     seqE (summary_logger_new name path) (for_each (\<lambda>(n, r). log_test_result path n r) rs)"

lemma appends_for_each:
  "appends path (concat (map (\<lambda>x. result_line x @ [CHR 0x0A]) rs))
     (for_each (\<lambda>(n, r). log_test_result path n r) rs)"
proof (induction rs)
  case (Cons x rs)
  obtain n r where "x = (n, r)" by fastforce
  with appends_seqE [OF appends_log_test_result Cons] show ?case by simp
qed (simp add: appends_ret)

lemma spec_summary_logger_new:
  "spec (summary_logger_new name path) (\<lambda>r es. r = Ok () \<longrightarrow>
     (\<forall>f. file_run path es f = (name @ [CHR 0x0A], length name + 1)))"
  unfolding summary_logger_new_def write_str_def fs_call_def create_truncate_def
  by (auto intro!: spec_rules simp: write_at_def)

lemma spec_write_summary:
  "spec (write_summary path name rs) (\<lambda>r es. r = Ok () \<longrightarrow> (\<forall>f. fst (file_run path es f) =
     concat (map (\<lambda>l. l @ [CHR 0x0A]) (name # map result_line rs))))"
  unfolding write_summary_def
proof (rule spec_seqE [OF spec_summary_logger_new])
  fix a es
  assume new: "Ok a = Ok () \<longrightarrow> (\<forall>f. file_run path es f = (name @ [CHR 0x0A], length name + 1))"
  show "spec (for_each (\<lambda>(n, r). log_test_result path n r) rs) (\<lambda>r es'. r = Ok () \<longrightarrow>
      (\<forall>f. fst (file_run path (es @ es') f) = concat (map (\<lambda>l. l @ [CHR 0x0A]) (name # map result_line rs))))"
    by (rule spec_weaken [OF appends_for_each [unfolded appends_def]])
       (use new in \<open>auto simp: comp_def dest: spec [of _ "name @ [CHR 0x0A]"]\<close>)
qed auto

section \<open>Lemmas: counting\<close>

lemma passed_card:
  assumes "btree_inv (sum_results sm)"
  shows "length (passed sm) = card {n. btree_get (sum_results sm) n = Some Pass}"
proof -
  let ?m = "sum_results sm"
  have dist: "distinct (map fst ?m)"
    using assms by (auto simp: btree_inv_def strict_sorted_iff)
  have "length (passed sm) = length (filter (\<lambda>kv. snd kv = Pass) ?m)"
    by (simp add: passed_def btree_values_def filter_map comp_def)
  also have "\<dots> = card (set (map fst (filter (\<lambda>kv. snd kv = Pass) ?m)))"
    using dist by (metis distinct_card distinct_map_filter length_map)
  also have "set (map fst (filter (\<lambda>kv. snd kv = Pass) ?m)) = {n. btree_get ?m n = Some Pass}"
    using dist by (force simp: btree_get_def)
  finally show ?thesis .
qed

lemma passed_all_iff:
  assumes "btree_inv (sum_results sm)" "distinct names"
    and "set (btree_keys (sum_results sm)) \<subseteq> set names"
  shows "length (passed sm) = length names \<longleftrightarrow> (\<forall>n \<in> set names. result_of n sm = Pass)"
proof -
  let ?P = "{n. btree_get (sum_results sm) n = Some Pass}"
  have sub: "?P \<subseteq> set names"
    using assms(3) by (force simp: btree_get_def btree_keys_def dest: map_of_SomeD)
  have "card ?P = card (set names) \<longleftrightarrow> ?P = set names"
    using sub card_subset_eq by (metis List.finite_set)
  moreover have "?P = set names \<longleftrightarrow> (\<forall>n \<in> set names. result_of n sm = Pass)"
  proof -
    have "?P = set names \<longleftrightarrow> (\<forall>n \<in> set names. btree_get (sum_results sm) n = Some Pass)"
      using sub by blast
    then show ?thesis by (auto simp: result_of_def split: option.splits)
  qed
  ultimately show ?thesis
    using passed_card [OF assms(1)] distinct_card [OF assms(2)] by simp
qed

lemma all_oses_text_party:
  "all_oses_text k sms = ALL_PASSED \<longleftrightarrow>
     (\<forall>sm \<in> set sms. length (passed sm) = k)"
proof -
  have "length (filter P sms) = length sms \<longleftrightarrow> (\<forall>sm \<in> set sms. P sm)" for P :: "summary \<Rightarrow> bool"
    by (metis filter_id_conv length_filter_less linorder_neq_iff)
  moreover have "rain @ x \<noteq> ALL_PASSED" for x
    by (simp add: rain_def party_def utf8_def ALL_PASSED_def)
  ultimately show ?thesis by (simp add: all_oses_text_def Let_def)
qed

section \<open>Properties\<close>

text \<open>
  C24.  A summary that was written completely can be read back: parsing the lines of the file gives
  the name and, for every test, the result that was logged last, in the order of the test names.
  Names of tests are identifiers and the name of the summary is a single line.
\<close>

theorem summary_roundtrip:
  assumes "write_summary path name rs env tr = (Ok (), tr')"
    and "line_ok name" "list_all (\<lambda>(n, r). test_name_ok n \<and> r \<noteq> Unknown) rs"
  shows "parse_lines (map Inr (lines_of (file_after path tr' old))) =
           Inr \<lparr>sum_name = name, sum_results = btree_collect rs\<rparr>"
proof -
  have "list_all line_ok (name # map result_line rs)"
    using assms(2,3) by (auto simp: list_all_iff result_line_ok)
  moreover have "file_after path tr' old = concat (map (\<lambda>l. l @ [CHR 0x0A]) (name # map result_line rs))"
    using spec_run [OF spec_write_summary assms(1)]
    by (cases "file_run path tr (old, 0)") (auto simp: file_after_def)
  ultimately have "lines_of (file_after path tr' old) = name # map result_line rs"
    by (simp only: lines_of_concat)
  then show ?thesis
    using parse_result_lines [OF assms(3), of "[]"]
    by (simp add: parse_lines_def btree_collect_def)
qed

theorem summary_roundtrip_witness:
  "parse_lines (map Inr (lines_of (file_after ''s'' (snd (write_summary ''s'' ''debian11''
       [(''test_b'', Pass), (''test_a'', Fail), (''test_b'', Fail)] (calm_host []) [])) ''old''))) =
     Inr \<lparr>sum_name = ''debian11'', sum_results = [(''test_a'', Fail), (''test_b'', Fail)]\<rparr>"
proof -
  let ?rs = "[(''test_b'', Pass), (''test_a'', Fail), (''test_b'', Fail)]"
  obtain tr where tr: "write_summary ''s'' ''debian11'' ?rs (calm_host []) [] = (Ok (), tr)"
    by (simp add: write_summary_def summary_logger_new_def log_test_result_def write_str_def
        prog_defs fs_call_def)
  have "btree_collect ?rs = [(''test_a'', Fail), (''test_b'', Fail)]"
    by (simp add: btree_collect_def list_less_def less_char_def)
  with summary_roundtrip [OF tr, of "''old''"] tr show ?thesis
    by (simp add: line_ok_def test_name_ok_def plain_char_def)
qed

text \<open>
  The last column of the header says that all platforms passed exactly when every test passed on
  every platform, provided each summary only has results of known tests.
\<close>

lemma all_platforms_passed_iff:
  assumes "distinct (map tm_name tests)"
    and "list_all (\<lambda>sm. btree_inv (sum_results sm) \<and>
           set (btree_keys (sum_results sm)) \<subseteq> set (map tm_name tests)) sms"
  shows "all_oses_text (length tests) sms = ALL_PASSED \<longleftrightarrow>
     list_all (\<lambda>sm. list_all (\<lambda>t. result_of (tm_name t) sm = Pass) tests) sms"
  using assms(2) passed_all_iff [OF _ assms(1)]
  by (auto simp: all_oses_text_party list_all_iff)

definition demo_test :: "string \<Rightarrow> test_metadata" where
  "demo_test n = \<lparr>tm_name = n, tm_command = n, tm_client_version = VersionNew, tm_priority = None,
     tm_always_run = False, tm_must_succeed = False, tm_cleanup = True\<rparr>"

lemma all_platforms_passed_iff_witness:
  "all_oses_text 2 [\<lparr>sum_name = ''linux'', sum_results = [(''test_a'', Pass), (''test_b'', Pass)]\<rparr>,
      \<lparr>sum_name = ''windows'', sum_results = [(''test_a'', Pass)]\<rparr>] \<noteq> ALL_PASSED"
  using all_platforms_passed_iff [of "[demo_test ''test_a'', demo_test ''test_b'']"
      "[\<lparr>sum_name = ''linux'', sum_results = [(''test_a'', Pass), (''test_b'', Pass)]\<rparr>,
      \<lparr>sum_name = ''windows'', sum_results = [(''test_a'', Pass)]\<rparr>]"]
  by (simp add: demo_test_def btree_inv_def btree_keys_def list_less_def less_char_def result_of_def btree_get_def numeral_2_eq_2)

text \<open>
  A summary with a test whose result is unknown cannot be read back: its mark is a blank, so the
  line has no second column and the whole file is rejected.
\<close>

lemma unknown_result_is_unreadable:
  assumes "test_name_ok n"
  shows "parse_lines [Inr name, Inr (result_line (n, Unknown))] = Inl SumParse"
proof -
  have blank: "split_words [] '' '' = []" "split_words [] [] = []"
    by (simp_all add: split_words.simps ws_len_def)
  have "split_whitespace (result_line (n, Unknown)) = [n]"
    using assms split_words_plain [of n "[]" "''  ''"] split_words_space [of n "'' ''"] blank
    by (simp add: split_whitespace_def result_line_def test_name_ok_def UNKNOWN_STR_def)
  then show ?thesis by (simp add: parse_lines_def)
qed

lemma unknown_result_is_unreadable_witness:
  "parse_lines [Inr ''linux'', Inr ''test_a  ''] = Inl SumParse"
  using unknown_result_is_unreadable [of "''test_a''" "''linux''"]
  by (simp add: test_name_ok_def plain_char_def result_line_def UNKNOWN_STR_def)

end
