(* ===== verification/Daemon_World.thy ===== *)
theory Daemon_World
  imports Client Summary Network_Monitor
begin

text \<open>
  The world of the test manager while tests run: the types of the management interface, and the
  requests the tests make of the daemon, the runner, the network monitors, the account service and
  the manager's own files.

  The daemon is behind the generated gRPC client \<open>ManagementServiceClient\<close>, which is the environment
  here: it answers every request with a status or a value.  The types of the management interface
  are external; the records below have the fields the code reads or that its requests change.  An error value
  (\<open>tonic::Status\<close>, a failed conversion) is kept as its renderings, its message and its code.
\<close>

section \<open>Types of the management interface\<close>

record status =
  st_display :: string
  st_debug :: string
  st_message :: string
  st_code :: int

datatype transport_protocol = TransportUdp | TransportTcp
datatype tunnel_type = OpenVpn | Wireguard

text \<open>\<open>talpid_types::net::TunnelEndpoint\<close>; proxy, obfuscation and entry are only compared with \<open>None\<close>.\<close>

record tunnel_endpoint =
  te_address :: socket_addr
  te_protocol :: transport_protocol
  te_tunnel_type :: tunnel_type
  te_quantum_resistant :: bool
  te_proxy :: "string option"
  te_obfuscation :: "string option"
  te_entry_endpoint :: "string option"

text \<open>The flag of an error state is \<open>is_blocking\<close>.\<close>

datatype tunnel_state =
    Disconnected
  | is_Connecting: Connecting tunnel_endpoint
  | is_Connected: Connected tunnel_endpoint
  | Disconnecting
  | is_TunnelStateError: TunnelStateError bool

text \<open>A protobuf tunnel state is its conversion by \<open>TunnelState::try_from\<close>.\<close>

type_synonym proto_state = "status + tunnel_state"

text \<open>The field \<open>state\<close> of the message, for code that matches on it without converting it.\<close>

datatype state_kind = KDisconnected | KConnecting | KConnected | KDisconnecting | KError

record device =
  dev_id :: string
  dev_pubkey :: string

text \<open>\<open>DeviceState\<close>: the account with its device, both optional fields of their message.\<close>

record device_state =
  ds_state :: int
  ds_device :: "device option option"

datatype daemon_event =
    TunnelStateEvent proto_state | RelayListEvent | DeviceEvent "device_state option" | OtherEvent

text \<open>Items of the event stream; \<open>event\<close> is an optional field of the message.\<close>

datatype stream_item = StreamOk "daemon_event option" | StreamErr status | StreamEnd

record bridge_state =
  bs_state :: int

record obfuscation_settings =
  selected_obfuscation :: int
  udp2tcp_port :: "int option"

record wireguard_options =
  quantum_resistant :: "int option"

record default_dns_options =
  block_ads :: bool
  block_trackers :: bool
  block_malware :: bool
  block_adult_content :: bool
  block_gambling :: bool

record dns_options =
  default_options :: "default_dns_options option"
  custom_options :: "string list option"
  dns_state :: int

record tunnel_options =
  to_dns_options :: "dns_options option"
  wireguard :: "wireguard_options option"

datatype geographic = Country string | City string string | Hostname string string string
datatype location_constraint = LocationC geographic | CustomListC string

fun geo_country :: "geographic \<Rightarrow> string" where
  "geo_country (Country c) = c"
| "geo_country (City c ct) = c"
| "geo_country (Hostname c ct h) = c"

datatype 'a constraint = AnyC | Only 'a

record transport_port =
  tp_protocol :: transport_protocol
  tp_port :: "nat constraint"

record wireguard_constraints =
  wc_port :: "nat constraint"
  wc_use_multihop :: bool
  wc_entry_location :: "location_constraint constraint"

text \<open>\<open>talpid_types::net::wireguard::ConnectionConfig\<close>, as far as it differs between the tests.\<close>

record wg_connection =
  wg_private_key :: string
  wg_addresses :: "ip_addr list"
  wg_public_key :: string
  wg_allowed_ips :: "string list"
  wg_endpoint :: socket_addr
  wg_ipv4_gateway :: ip_addr

text \<open>
  The relay settings of the daemon: the constraints of normal settings that the code updates or reads,
  or a custom tunnel endpoint.
\<close>

record relay_constraints =
  rc_location :: "location_constraint constraint"
  rc_tunnel_protocol :: "tunnel_type constraint"
  rc_openvpn :: "transport_port constraint"
  rc_wireguard :: wireguard_constraints

datatype relay_settings = NormalRelays relay_constraints | CustomRelays string wg_connection

text \<open>Bridge settings the code does not build itself are opaque.\<close>

datatype bridge_settings = BridgeNormal "location_constraint option" "string list" int | BridgeOpaque string

record settings =
  s_relay_settings :: "relay_settings option"
  auto_connect :: bool
  allow_lan :: bool
  show_beta_releases :: bool
  s_bridge_state :: "bridge_state option"
  s_bridge_settings :: "bridge_settings option"
  s_obfuscation_settings :: "obfuscation_settings option"
  block_when_disconnected :: bool
  s_split_tunnel_apps :: "string list"
  s_tunnel_options :: "tunnel_options option"

record location =
  country_code :: string
  city_code :: string

record relay =
  hostname :: string
  relay_active :: bool
  endpoint_type :: int
  ipv4_addr_in :: string
  relay_location :: "location option"

record city = city_relays :: "relay list"
record country = country_cities :: "city list"
record relay_list = countries :: "country list"

record relay_constraints_update =
  ru_location :: "location_constraint constraint option"
  ru_tunnel_protocol :: "tunnel_type constraint option"
  ru_openvpn :: "transport_port constraint option"
  ru_wireguard :: "wireguard_constraints option"

text \<open>\<open>Default::default()\<close> of the updates and of the constraints.\<close>

definition no_update :: relay_constraints_update where
  "no_update = \<lparr>ru_location = None, ru_tunnel_protocol = None, ru_openvpn = None, ru_wireguard = None\<rparr>"

definition default_wireguard :: wireguard_constraints where
  "default_wireguard = \<lparr>wc_port = AnyC, wc_use_multihop = False, wc_entry_location = AnyC\<rparr>"

datatype relay_settings_update = NormalUpdate relay_constraints_update | CustomEndpoint string wg_connection

datatype mgmt_request =
    ConnectTunnel | DisconnectTunnel | EventsListen | GetTunnelState | GetSettings
  | GetRelayLocations | UpdateRelayLocations
  | UpdateRelaySettings relay_settings_update
  | OldUpdateRelaySettings string string string
  | SetBridgeState bridge_state
  | SetBridgeSettings bridge_settings
  | SetObfuscationSettings obfuscation_settings
  | SetAutoConnect bool | SetAllowLan bool | SetShowBetaReleases bool
  | SetBlockWhenDisconnected bool
  | ClearSplitTunnelApps | ClearSplitTunnelProcesses
  | SetDnsOptions dns_options
  | SetQuantumResistantTunnel int
  | LoginAccount string | LogoutAccount | GetDevice | UpdateDevice

section \<open>The account service (crate mullvad_api)\<close>

text \<open>\<open>rest::Error\<close>: an answer with a status and a code, or any other failure.\<close>

datatype api_error = ApiError nat string | ApiFailure string

datatype api_request = ListDevices string | RemoveDevice string string | CreateDevice string string

section \<open>Events and environment\<close>

datatype test_error =
    Rpc error | PingTimeout | GeoipError error | DaemonRunning | DaemonNotRunning
  | DaemonError string | Other string

text \<open>\<open>anyhow::Error\<close>: a source error and the contexts added on the way.\<close>

datatype anyhow =
    FromTest test_error | FromStatus status | FromSummary summary_error | FromPanic string
  | FromRpc error | WithContext string anyhow

datatype logger_op = StoreRecords bool | PrintStoredRecords | FlushRecords | LogRecord level string

text \<open>The constants of a run (\<open>tests/config.rs\<close>).\<close>

record test_config =
  account_number :: string
  tc_artifacts_dir :: string
  current_app_filename :: string
  previous_app_filename :: string
  ui_e2e_tests_filename :: string
  tc_mullvad_host :: string
  host_bridge_name :: string

text \<open>
  Tasks that a test starts and whose results it drops.  The third spoofs DNS packets, the fourth
  resolves names to provoke DNS queries.
\<close>

datatype spawned =
    SendProbes "interface option" socket_addr socket_addr
  | KeepSending socket_addr socket_addr
  | SpoofPackets "interface option" socket_addr socket_addr
  | ResolveNames nat

datatype mgr_ev =
    Runner client_ev
  | Disk host_ev
  | Daemon mgmt_request "status + unit"
  | StatePolled "status + proto_state"
  | KindPolled "status + state_kind option"
  | Listened "stream_item list"
  | DeviceRead "status + device_state"
  | Connect "status + unit"
  | Delay nat
  | Deadline bool
  | SetDefaultSettings settings
  | Logging logger_op
  | Printed string
  | Spawned spawned
  | Aborted spawned
  | MonitorStarted string monitor_options
  | MonitorSaw string "monitor_event list"
  | LookedUp string "status + ip_addr list"
  | Setup string "status + unit"
  | InitTestConfig test_config
  | RandomKey string
  | Api api_request "api_error + unit"

text \<open>
  \<open>me_packets\<close> is what the task of a monitor on the given interface sees until it is awaited or
  stopped.
\<close>

record mgr_env =
  me_runner :: "mgr_ev list \<Rightarrow> client_env"
  me_host :: "mgr_ev list \<Rightarrow> host_env"
  me_unit :: "mgr_ev list \<Rightarrow> mgmt_request \<Rightarrow> status + unit"
  me_settings :: "mgr_ev list \<Rightarrow> status + settings"
  me_state :: "mgr_ev list \<Rightarrow> status + proto_state"
  me_kind :: "mgr_ev list \<Rightarrow> status + state_kind option"
  me_relays :: "mgr_ev list \<Rightarrow> status + relay_list"
  me_device :: "mgr_ev list \<Rightarrow> status + device_state"
  me_events :: "mgr_ev list \<Rightarrow> stream_item list"
  me_connect :: "mgr_ev list \<Rightarrow> status + unit"
  me_elapsed :: "mgr_ev list \<Rightarrow> bool"
  me_capture :: "mgr_ev list \<Rightarrow> capture"
  me_packets :: "mgr_ev list \<Rightarrow> string \<Rightarrow> monitor_event list"
  me_lookup :: "mgr_ev list \<Rightarrow> string \<Rightarrow> status + ip_addr list"
  me_setup :: "mgr_ev list \<Rightarrow> string \<Rightarrow> status + unit"
  me_random_key :: "mgr_ev list \<Rightarrow> string"
  me_api :: "mgr_ev list \<Rightarrow> api_request \<Rightarrow> api_error + device list"

type_synonym ('e, 'a) mgr = "(mgr_env, mgr_ev, 'e, 'a) prog"

text \<open>
  What the tests get from libraries and from the protocol: the packet parsers of the build, parsers
  of addresses, and the numbers of the protocol's enumerations.  \<open>tk_patience\<close> bounds the loops that
  retry for as long as the account service asks them to wait.
\<close>

record test_kit =
  tk_parsers :: parsers
  tk_macos :: bool
  tk_parse_ip :: "string \<Rightarrow> ip_addr option"
  tk_parse_ipv4 :: "string \<Rightarrow> ip_addr option"
  tk_derive_key :: "string \<Rightarrow> string"
  tk_patience :: nat
  RelayType_Openvpn :: int
  RelayType_Bridge :: int
  RelayType_Wireguard :: int
  BridgeState_On :: int
  Ownership_Any :: int
  Obfuscation_Udp2tcp :: int
  QuantumResistant_On :: int
  QuantumResistant_Off :: int
  DnsState_Default :: int
  DnsState_Custom :: int
  DeviceState_Revoked :: int
  Code_ResourceExhausted :: int

primrec the_runner_ev :: "mgr_ev \<Rightarrow> client_ev option" where
  "the_runner_ev (Runner ev) = Some ev"
| "the_runner_ev (Disk ev) = None"
| "the_runner_ev (Daemon req r) = None"
| "the_runner_ev (StatePolled r) = None"
| "the_runner_ev (KindPolled r) = None"
| "the_runner_ev (Listened l) = None"
| "the_runner_ev (DeviceRead r) = None"
| "the_runner_ev (Connect r) = None"
| "the_runner_ev (Delay n) = None"
| "the_runner_ev (Deadline b) = None"
| "the_runner_ev (SetDefaultSettings s) = None"
| "the_runner_ev (Logging op) = None"
| "the_runner_ev (Printed s) = None"
| "the_runner_ev (Spawned t) = None"
| "the_runner_ev (Aborted t) = None"
| "the_runner_ev (MonitorStarted i opts) = None"
| "the_runner_ev (MonitorSaw i evs) = None"
| "the_runner_ev (LookedUp h r) = None"
| "the_runner_ev (Setup s r) = None"
| "the_runner_ev (InitTestConfig c) = None"
| "the_runner_ev (RandomKey k) = None"
| "the_runner_ev (Api req r) = None"

definition the_disk_ev :: "mgr_ev \<Rightarrow> host_ev option" where
  "the_disk_ev ev = (case ev of Disk h \<Rightarrow> Some h | _ \<Rightarrow> None)"

section \<open>Calls\<close>

text \<open>A call of the runner's \<open>ServiceClient\<close>, and file access of the manager itself.\<close>

definition runner :: "'a client \<Rightarrow> (error, 'a) mgr" where
  "runner m = embed me_runner Runner the_runner_ev m"

definition disk :: "('e, 'a) host \<Rightarrow> ('e, 'a) mgr" where
  "disk m = embed me_host Disk the_disk_ev m"

definition grpc :: "(status \<Rightarrow> 'e) \<Rightarrow> mgmt_request \<Rightarrow> ('e, unit) mgr" where
  "grpc wrap req = callE wrap (\<lambda>env tr. me_unit env tr req) (Daemon req)"

definition grpc_get ::
  "(status \<Rightarrow> 'e) \<Rightarrow> (mgr_env \<Rightarrow> mgr_ev list \<Rightarrow> status + 'a) \<Rightarrow> mgmt_request \<Rightarrow> ('e, 'a) mgr" where
  "grpc_get wrap q req = callE wrap q (\<lambda>r. Daemon req (map_sum id (\<lambda>_. ()) r))"

definition api_call :: "api_request \<Rightarrow> (api_error, device list) mgr" where
  "api_call req = performE (\<lambda>env tr. me_api env tr req) (\<lambda>r. Api req (map_sum id (\<lambda>_. ()) r))"

definition log_msg :: "level \<Rightarrow> string \<Rightarrow> ('e, unit) mgr" where
  "log_msg l s = emit (Logging (LogRecord l s))"

text \<open>\<open>tokio::time::timeout\<close>: the call is made, and its result is dropped if the deadline passed.\<close>

definition timeout :: "'e \<Rightarrow> ('e, 'a) mgr \<Rightarrow> ('e, 'a) mgr" where
  "timeout late m = bindE (attempt m) (\<lambda>r.
     bindE (perform me_elapsed Deadline) (\<lambda>elapsed. if elapsed then fail late else of_result r))"

lemmas mgr_calls = grpc_def grpc_get_def log_msg_def

section \<open>Network monitors of a test\<close>

text \<open>
  A started monitor is its interface and its task.  \<open>start\<close> is one of the functions of
  \<open>Network_Monitor\<close> that start it, given the capture.
\<close>

definition start_monitor ::
  "string \<Rightarrow> monitor_options \<Rightarrow> (capture \<Rightarrow> (monitor_error, packet_monitor) res) \<Rightarrow>
     ('e, string \<times> packet_monitor) mgr" where
  "start_monitor interface opts start = (\<lambda>env tr. case start (me_capture env tr) of
      Ok handle \<Rightarrow> (Ok (interface, handle), tr @ [MonitorStarted interface opts])
    | Err e \<Rightarrow> (Panic ''monitor'', tr)
    | Panic m \<Rightarrow> (Panic m, tr))"

definition monitor_outcome ::
  "(monitor_error, monitor_result) res option \<Rightarrow> ('e, monitor_error + monitor_result) mgr" where
  "monitor_outcome r = (case r of
      Some (Ok res) \<Rightarrow> ret (Inr res)
    | Some (Err e) \<Rightarrow> ret (Inl e)
    | Some (Panic m) \<Rightarrow> panic m
    | None \<Rightarrow> panic ''monitor is still running'')"

text \<open>
  \<open>wait\<close> ends at the latest when the time limit passes; a monitor without one would be waited for
  without end, which the tests never do.  \<open>into_result\<close> asks the task to stop.
\<close>

definition wait_monitor :: "string \<times> packet_monitor \<Rightarrow> ('e, monitor_error + monitor_result) mgr" where
  "wait_monitor mon =
     bindE (perform (\<lambda>env tr. me_packets env tr (fst mon)) (MonitorSaw (fst mon))) (\<lambda>evs.
     monitor_outcome (monitor_wait (snd mon) (evs @ [TimedOut])))"

definition stop_monitor :: "string \<times> packet_monitor \<Rightarrow> ('e, monitor_error + monitor_result) mgr" where
  "stop_monitor mon =
     bindE (perform (\<lambda>env tr. me_packets env tr (fst mon)) (MonitorSaw (fst mon))) (\<lambda>evs.
     monitor_outcome (into_result (snd mon) evs))"

definition unwrap_sum :: "'x + 'a \<Rightarrow> ('e, 'a) mgr" where
  "unwrap_sum r = (case r of Inl _ \<Rightarrow> panic ''unwrap'' | Inr a \<Rightarrow> ret a)"

definition monitor_default :: monitor_options where
  "monitor_default = \<lparr>mo_timeout = None, mo_direction = None, mo_no_frame = False\<rparr>"

definition unwrap_opt :: "'a option \<Rightarrow> ('e, 'a) mgr" where
  "unwrap_opt v = (case v of None \<Rightarrow> panic ''unwrap'' | Some a \<Rightarrow> ret a)"

text \<open>\<open>TestConfigContainer\<close>: the cell \<open>TEST_CONFIG\<close>, which is set at most once.\<close>

fun test_config_cell :: "mgr_ev list \<Rightarrow> test_config option" where
  "test_config_cell [] = None"
| "test_config_cell (InitTestConfig c # tr) = Some c"
| "test_config_cell (_ # tr) = test_config_cell tr"

definition init_test_config :: "test_config \<Rightarrow> ('e, unit) mgr" where
  "init_test_config inner = bindE (peek test_config_cell) (\<lambda>cell.
     if cell = None then emit (InitTestConfig inner) else panic ''unwrap'')"

definition deref_test_config :: "('e, test_config) mgr" where
  "deref_test_config = bindE (peek test_config_cell) unwrap_opt"

section \<open>Rules\<close>

lemma spec_runner:
  "spec m P \<Longrightarrow> (\<And>r es. P r es \<Longrightarrow> Q r (map Runner es)) \<Longrightarrow> spec (runner m) Q"
  unfolding runner_def by (rule spec_embed)

lemma spec_disk:
  "spec m P \<Longrightarrow> (\<And>r es. P r es \<Longrightarrow> Q r (map Disk es)) \<Longrightarrow> spec (disk m) Q"
  unfolding disk_def by (rule spec_embed)

lemma spec_unwrap_opt [spec_rules]:
  "(\<And>a. v = Some a \<Longrightarrow> spec (f a) Q) \<Longrightarrow> (v = None \<Longrightarrow> Q (Panic ''unwrap'') []) \<Longrightarrow> spec (bindE (unwrap_opt v) f) Q"
  by (cases v) (auto simp: unwrap_opt_def intro: spec_rules)

lemma spec_start_monitor:
  assumes "\<And>cap handle. start cap = Ok handle \<Longrightarrow> Q (Ok (interface, handle)) [MonitorStarted interface opts]"
    and "\<And>m. Q (Panic m) []"
  shows "spec (start_monitor interface opts start) Q"
  using assms by (auto simp: spec_def start_monitor_def split: res.split)

lemma spec_monitor_outcome:
  assumes "\<And>a. r = Some (Ok a) \<Longrightarrow> Q (Ok (Inr a)) []" "\<And>e. Q (Ok (Inl e)) []" "\<And>m. Q (Panic m) []"
  shows "spec (monitor_outcome r) Q"
  using assms by (auto simp: monitor_outcome_def intro!: spec_rules split: option.split res.split)

lemma spec_wait_monitor:
  assumes "\<And>evs a. monitor_wait (snd mon) (evs @ [TimedOut]) = Some (Ok a) \<Longrightarrow> Q (Ok (Inr a)) [MonitorSaw (fst mon) evs]"
    and "\<And>evs e. Q (Ok (Inl e)) [MonitorSaw (fst mon) evs]" "\<And>evs m. Q (Panic m) [MonitorSaw (fst mon) evs]"
  shows "spec (wait_monitor mon) Q"
  unfolding wait_monitor_def using assms by (intro spec_rules spec_monitor_outcome)

lemma spec_stop_monitor:
  assumes "\<And>evs a. into_result (snd mon) evs = Some (Ok a) \<Longrightarrow> Q (Ok (Inr a)) [MonitorSaw (fst mon) evs]"
    and "\<And>evs e. Q (Ok (Inl e)) [MonitorSaw (fst mon) evs]" "\<And>evs m. Q (Panic m) [MonitorSaw (fst mon) evs]"
  shows "spec (stop_monitor mon) Q"
  unfolding stop_monitor_def using assms by (intro spec_rules spec_monitor_outcome)

lemma spec_unwrap_sum [spec_rules]:
  "(\<And>a. v = Inr a \<Longrightarrow> spec (f a) Q) \<Longrightarrow> Q (Panic ''unwrap'') [] \<Longrightarrow> spec (bindE (unwrap_sum v) f) Q"
  by (cases v) (auto simp: unwrap_sum_def intro: spec_rules)

lemma spec_deref_test_config [spec_rules]:
  "(\<And>c. spec (f c) Q) \<Longrightarrow> Q (Panic ''unwrap'') [] \<Longrightarrow> spec (bindE deref_test_config f) Q"
  unfolding deref_test_config_def bindE_assoc by (intro spec_rules) simp_all

lemma only_unwrap_opt [only_rules]: "only P (unwrap_opt v)"
  unfolding unwrap_opt_def by (intro only_rules)

end
