(* ===== verification/Daemon_Client.thy ===== *)
theory Daemon_Client
  imports Daemon_World
begin

text \<open>
  What the test manager does with the Mullvad daemon: \<open>test-manager/src/tests/mod.rs\<close> (default
  settings and the clean-up after a test) and \<open>tests/helpers.rs\<close> (tunnel states, relays, probes,
  retries), in the world of \<open>Daemon_World\<close>.
\<close>

section \<open>Tunnel states (tests/helpers.rs)\<close>

definition PING_TIMEOUT :: nat where "PING_TIMEOUT = 3"
definition WAIT_FOR_TUNNEL_STATE_TIMEOUT :: nat where "WAIT_FOR_TUNNEL_STATE_TIMEOUT = 40"

definition daemon_error :: "string \<Rightarrow> status \<Rightarrow> test_error" where
  "daemon_error msg st = DaemonError (msg @ st_display st)"

definition daemon_error_debug :: "string \<Rightarrow> status \<Rightarrow> test_error" where
  "daemon_error_debug msg st = DaemonError (msg @ st_debug st)"

definition try_from_state :: "proto_state \<Rightarrow> (test_error, tunnel_state) mgr" where
  "try_from_state s = of_result (map_sum (daemon_error_debug ''Invalid tunnel state: '') id s)"

text \<open>
  The items are those that arrive before the deadline of \<open>WAIT_FOR_TUNNEL_STATE_TIMEOUT\<close>; when they
  are used up and the loop is still waiting, the deadline passes.
\<close>

fun find_next_tunnel_state_inner ::
  "(tunnel_state \<Rightarrow> bool) \<Rightarrow> stream_item list \<Rightarrow> (test_error, tunnel_state) mgr" where
  "find_next_tunnel_state_inner accept_state_fn [] =
     fail (DaemonError ''Tunnel event listener timed out'')"
| "find_next_tunnel_state_inner accept_state_fn (StreamOk None # rest) = panic ''unwrap''"
| "find_next_tunnel_state_inner accept_state_fn (StreamOk (Some (TunnelStateEvent new_state)) # rest) =
     bindE (try_from_state new_state) (\<lambda>state.
       if accept_state_fn state then ret state
       else find_next_tunnel_state_inner accept_state_fn rest)"
| "find_next_tunnel_state_inner accept_state_fn (StreamOk (Some RelayListEvent) # rest) =
     find_next_tunnel_state_inner accept_state_fn rest"
| "find_next_tunnel_state_inner accept_state_fn (StreamOk (Some (DeviceEvent d)) # rest) =
     find_next_tunnel_state_inner accept_state_fn rest"
| "find_next_tunnel_state_inner accept_state_fn (StreamOk (Some OtherEvent) # rest) =
     find_next_tunnel_state_inner accept_state_fn rest"
| "find_next_tunnel_state_inner accept_state_fn (StreamErr st # rest) =
     fail (daemon_error ''Failed to get next event: '' st)"
| "find_next_tunnel_state_inner accept_state_fn (StreamEnd # rest) =
     fail (DaemonError ''Lost daemon event stream'')"

definition find_next_tunnel_state :: "(tunnel_state \<Rightarrow> bool) \<Rightarrow> (test_error, tunnel_state) mgr" where
  "find_next_tunnel_state accept_state_fn =
     bindE (perform me_events Listened) (find_next_tunnel_state_inner accept_state_fn)"

definition wait_for_tunnel_state :: "(tunnel_state \<Rightarrow> bool) \<Rightarrow> (test_error, tunnel_state) mgr" where
  "wait_for_tunnel_state accept_state_fn =
     seqE (grpc (daemon_error ''Failed to get event stream: '') EventsListen)
    (bindE (callE (daemon_error_debug ''Failed to get tunnel state: '') me_state StatePolled) (\<lambda>s.
     bindE (try_from_state s) (\<lambda>state.
     if accept_state_fn state then ret state else find_next_tunnel_state accept_state_fn)))"

definition connect_and_wait :: "(test_error, unit) mgr" where
  "connect_and_wait =
     seqE (log_msg LInfo ''Connecting'')
    (seqE (grpc (daemon_error ''failed to begin connecting: '') ConnectTunnel)
    (bindE (wait_for_tunnel_state (\<lambda>state. is_Connected state \<or> is_TunnelStateError state)) (\<lambda>new_state.
     if is_TunnelStateError new_state then fail (DaemonError ''daemon entered error state'')
     else seqE (log_msg LInfo ''Connected'') (ret ()))))"

definition disconnect_and_wait :: "(test_error, unit) mgr" where
  "disconnect_and_wait =
     seqE (log_msg LInfo ''Disconnecting'')
    (seqE (grpc (daemon_error ''failed to begin disconnecting: '') DisconnectTunnel)
    (seqE (wait_for_tunnel_state (\<lambda>state. state = Disconnected))
    (seqE (log_msg LInfo ''Disconnected'') (ret ()))))"

definition get_tunnel_state :: "('e, tunnel_state) mgr" where
  "get_tunnel_state =
     bindE (expect ''mullvad RPC failed'' (callE id me_state StatePolled)) (\<lambda>s.
     expect ''unwrap'' (of_result s))"

section \<open>Relays (tests/helpers.rs)\<close>

definition update_relay_settings :: "relay_settings_update \<Rightarrow> (test_error, unit) mgr" where
  "update_relay_settings update =
     seqE (grpc (daemon_error ''Failed to set relay settings: '') (UpdateRelaySettings update)) (ret ())"

text \<open>\<open>Display\<close> of \<open>tests::Error\<close> (the arms that carry text).\<close>

primrec test_error_display :: "test_error \<Rightarrow> string" where
  "test_error_display (Rpc e) = ''RPC call failed''"
| "test_error_display PingTimeout = ''Timeout waiting for ping''"
| "test_error_display (GeoipError e) = ''geoip lookup failed''"
| "test_error_display DaemonRunning = ''Found running daemon unexpectedly''"
| "test_error_display DaemonNotRunning = ''Daemon unexpectedly not running''"
| "test_error_display (DaemonError s) = ''The daemon returned an error: '' @ s"
| "test_error_display (Other s) = ''An error occurred: '' @ s"

definition default_relay_update :: relay_settings_update where
  "default_relay_update = NormalUpdate
    \<lparr>ru_location = Some (Only (LocationC (Country ''se''))),
     ru_tunnel_protocol = Some AnyC, ru_openvpn = Some AnyC, ru_wireguard = Some default_wireguard\<rparr>"

text \<open>\<open>bridge_state::State::Auto\<close> and \<open>SelectedObfuscation::Off\<close> are the values of the protocol.\<close>

definition reset_relay_settings :: "int \<Rightarrow> int \<Rightarrow> (test_error, unit) mgr" where
  "reset_relay_settings State_Auto Obfuscation_Off =
     seqE disconnect_and_wait
    (seqE (map_err (\<lambda>e. DaemonError (''Failed to reset relay settings: '' @ test_error_display e))
             (update_relay_settings default_relay_update))
    (seqE (grpc (daemon_error ''Failed to reset bridge mode: '') (SetBridgeState \<lparr>bs_state = State_Auto\<rparr>))
     (grpc (daemon_error ''Failed to reset obfuscation: '')
        (SetObfuscationSettings \<lparr>selected_obfuscation = Obfuscation_Off, udp2tcp_port = Some 0\<rparr>))))"

fun after_relay_update :: "stream_item list \<Rightarrow> bool" where
  "after_relay_update (StreamOk (Some RelayListEvent) # rest) = True"
| "after_relay_update (StreamOk e # rest) = after_relay_update rest"
| "after_relay_update _ = False"

definition ensure_updated_relay_list :: "('e, unit) mgr" where
  "ensure_updated_relay_list =
     seqE (expect ''unwrap'' (grpc id EventsListen))
    (seqE (expect ''unwrap'' (grpc id UpdateRelayLocations))
    (bindE (perform me_events Listened) (\<lambda>events.
     if after_relay_update events then log_msg LDebug ''Received new relay list'' else ret ())))"

definition flatten_relaylist :: "relay_list \<Rightarrow> relay list" where
  "flatten_relaylist relays = concat (map city_relays (concat (map country_cities (countries relays))))"

definition filter_relays :: "(relay \<Rightarrow> bool) \<Rightarrow> (test_error, relay list) mgr" where
  "filter_relays criteria =
     bindE (grpc_get (daemon_error ''Failed to obtain relay list: '') me_relays GetRelayLocations) (\<lambda>relaylist.
     ret (filter criteria (flatten_relaylist relaylist)))"

definition random_entry_and_exit :: "(relay \<Rightarrow> bool) \<Rightarrow> (test_error, relay \<times> relay) mgr" where
  "random_entry_and_exit criteria =
     bindE (filter_relays criteria) (\<lambda>relays. case relays of
       a # b # _ \<Rightarrow> ret (a, b)
     | _ \<Rightarrow> fail (Other ''failed to randomly select two relays from daemon's relay list''))"

definition into_locationconstraint :: "relay \<Rightarrow> location_constraint option" where
  "into_locationconstraint relay = map_option (\<lambda>loc.
     LocationC (Hostname (country_code loc) (city_code loc) (hostname relay))) (relay_location relay)"

definition into_constraint :: "relay \<Rightarrow> location_constraint constraint option" where
  "into_constraint relay = map_option Only (into_locationconstraint relay)"

text \<open>The macro \<open>get_possible_api_endpoints\<close>; \<open>parse\<close> is \<open>Ipv4Addr::from_str\<close>.\<close>

definition lookup_first :: "string \<Rightarrow> (test_error, ip_addr) mgr" where
  "lookup_first host =
     bindE (expect (''failed to resolve '' @ host)
       (performE (\<lambda>env tr. me_lookup env tr (host @ '':0'')) (LookedUp (host @ '':0'')))) (\<lambda>addrs.
     case addrs of [] \<Rightarrow> panic ''unwrap'' | a # _ \<Rightarrow> ret a)"

fun parse_addrs :: "(string \<Rightarrow> ip_addr option) \<Rightarrow> relay list \<Rightarrow> ip_addr list option" where
  "parse_addrs parse [] = Some []"
| "parse_addrs parse (r # rs) = (case parse (ipv4_addr_in r) of
      None \<Rightarrow> None
    | Some a \<Rightarrow> map_option (Cons a) (parse_addrs parse rs))"

definition bridges :: "int \<Rightarrow> relay_list \<Rightarrow> relay list" where
  "bridges Bridge relays =
     concat (map (\<lambda>city. filter (\<lambda>relay. relay_active relay \<and> endpoint_type relay = Bridge) (city_relays city))
       (filter (\<lambda>city. filter (\<lambda>relay. relay_active relay \<and> endpoint_type relay = Bridge) (city_relays city) \<noteq> [])
         (concat (map country_cities (countries relays)))))"

definition get_possible_api_endpoints ::
  "(string \<Rightarrow> ip_addr option) \<Rightarrow> int \<Rightarrow> (test_error, ip_addr list) mgr" where
  "get_possible_api_endpoints parse Bridge =
     bindE (lookup_first ''api.devmole.eu'') (\<lambda>dev.
     bindE (lookup_first ''api.stagemole.eu'') (\<lambda>stage.
     bindE (lookup_first ''api.mullvad.net'') (\<lambda>prod.
     bindE (grpc_get (daemon_error ''Failed to obtain relay list: '') me_relays GetRelayLocations) (\<lambda>relay_list.
     case parse_addrs parse (bridges Bridge relay_list) of
       None \<Rightarrow> panic ''invalid IP''
     | Some ips \<Rightarrow> ret ([dev, stage, prod, V4 45 83 223 196] @ ips)))))"

section \<open>Probes and look-ups through the runner (tests/helpers.rs)\<close>

definition get_package_desc :: "string \<Rightarrow> string \<Rightarrow> test_error + package" where
  "get_package_desc artifacts_dir name = Inr \<lparr>pkg_path = path_join artifacts_dir name\<rparr>"

text \<open>Counters are \<open>usize\<close> with saturating increments.\<close>

record probe_result =
  pr_tcp :: "64 word"
  pr_udp :: "64 word"
  pr_icmp :: "64 word"

definition probe_default :: probe_result where
  "probe_default = \<lparr>pr_tcp = 0, pr_udp = 0, pr_icmp = 0\<rparr>"

definition probe_any :: "probe_result \<Rightarrow> bool" where
  "probe_any self \<longleftrightarrow> pr_tcp self > 0 \<or> pr_udp self > 0 \<or> pr_icmp self > 0"

definition probe_none :: "probe_result \<Rightarrow> bool" where
  "probe_none self \<longleftrightarrow> \<not> probe_any self"

definition probe_all :: "probe_result \<Rightarrow> bool" where
  "probe_all self \<longleftrightarrow> pr_tcp self > 0 \<and> pr_udp self > 0 \<and> pr_icmp self > 0"

definition count_probe :: "byte \<Rightarrow> probe_result \<Rightarrow> probe_result" where
  "count_probe proto r =
    (if proto = Tcp then r\<lparr>pr_tcp := saturating_succ (pr_tcp r)\<rparr>
     else if proto = Udp then r\<lparr>pr_udp := saturating_succ (pr_udp r)\<rparr>
     else if proto = Icmp then r\<lparr>pr_icmp := saturating_succ (pr_icmp r)\<rparr>
     else r)"

text \<open>
  The probes run in spawned tasks whose results are dropped, and which are aborted in the end; the
  monitor on the bridge of the host looks for packets to the destination for three seconds.
\<close>

definition probe_options :: monitor_options where
  "probe_options = \<lparr>mo_timeout = Some 3000, mo_direction = Some ''In'', mo_no_frame = False\<rparr>"

definition bridge_monitor ::
  "test_kit \<Rightarrow> (parsed_packet \<Rightarrow> bool) \<Rightarrow> monitor_options \<Rightarrow> ('e, string \<times> packet_monitor) mgr" where
  "bridge_monitor kit filter_fn opts = bindE deref_test_config (\<lambda>config.
     start_monitor (host_bridge_name config) opts (\<lambda>cap.
       start_packet_monitor cap (tk_parsers kit) (tk_macos kit) (host_bridge_name config) filter_fn opts))"

definition probe_bind_addr :: "interface option \<Rightarrow> (test_error, socket_addr) mgr" where
  "probe_bind_addr iface = (case iface of
      Some i \<Rightarrow> bindE (expect ''failed to obtain interface IP'' (runner (get_interface_ip i))) (\<lambda>ip.
        ret \<lparr>sock_ip = ip, sock_port = 0\<rparr>)
    | None \<Rightarrow> ret \<lparr>sock_ip = V4 0 0 0 0, sock_port = 0\<rparr>)"

definition send_guest_probes ::
  "test_kit \<Rightarrow> interface option \<Rightarrow> socket_addr \<Rightarrow> (test_error, probe_result) mgr" where
  "send_guest_probes kit iface dest =
     bindE (bridge_monitor kit (\<lambda>packet. sock_ip (destination packet) = sock_ip dest) probe_options) (\<lambda>pktmon.
     bindE (probe_bind_addr iface) (\<lambda>bind_addr.
     seqE (emit (Spawned (SendProbes iface bind_addr dest)))
    (bindE (wait_monitor pktmon) (\<lambda>r.
     bindE (unwrap_sum r) (\<lambda>monitor_result.
     seqE (emit (Aborted (SendProbes iface bind_addr dest)))
     (ret (fold (\<lambda>pkt. count_probe (protocol pkt)) (packets monitor_result) probe_default)))))))"

definition ping_with_timeout :: "ip_addr \<Rightarrow> interface option \<Rightarrow> (test_error, unit) mgr" where
  "ping_with_timeout dest iface = timeout PingTimeout (map_err Rpc (runner (send_ping iface dest)))"

definition GEOIP_MAX_ATTEMPTS :: nat where "GEOIP_MAX_ATTEMPTS = 5"
definition BEFORE_RETRY_DELAY :: nat where "BEFORE_RETRY_DELAY = 2000"

text \<open>The argument counts the attempts that may still follow the current one.\<close>

fun geoip_loop :: "string \<Rightarrow> nat \<Rightarrow> (test_error, am_i_mullvad) mgr" where
  "geoip_loop mullvad_host left =
     bindE (attempt (map_err GeoipError (runner (Client.geoip_lookup mullvad_host)))) (\<lambda>result.
     if \<not> isl result \<or> left = 0 then of_result result
     else seqE (emit (Delay BEFORE_RETRY_DELAY)) (geoip_loop mullvad_host (left - 1)))"

declare geoip_loop.simps [simp del]

definition geoip_lookup_with_retries :: "string \<Rightarrow> (test_error, am_i_mullvad) mgr" where
  "geoip_lookup_with_retries mullvad_host = geoip_loop mullvad_host (GEOIP_MAX_ATTEMPTS - 1)"

section \<open>Default settings and clean-up (tests/mod.rs)\<close>

text \<open>\<open>DEFAULT_SETTINGS\<close> is a cell that is set at most once; its content is read from the history.\<close>

fun default_settings :: "mgr_ev list \<Rightarrow> settings option" where
  "default_settings [] = None"
| "default_settings (SetDefaultSettings s # tr) = Some s"
| "default_settings (_ # tr) = default_settings tr"

definition set_default_settings :: "settings \<Rightarrow> ('e, unit) mgr" where
  "set_default_settings s = bindE (peek default_settings) (\<lambda>cell.
     if cell = None then emit (SetDefaultSettings s) else panic ''unwrap'')"

definition init_default_settings :: "('e, unit) mgr" where
  "init_default_settings = bindE (peek default_settings) (\<lambda>cell.
     if cell = None then
       bindE (expect ''Failed to obtain settings'' (grpc_get id me_settings GetSettings)) set_default_settings
     else ret ())"

definition grpc_context :: "string \<Rightarrow> mgmt_request \<Rightarrow> (anyhow, unit) mgr" where
  "grpc_context msg req = grpc (\<lambda>st. WithContext msg (FromStatus st)) req"

definition restore_settings :: "settings \<Rightarrow> (anyhow, unit) mgr" where
  "restore_settings s =
     seqE (grpc_context ''Could not set auto connect in cleanup'' (SetAutoConnect (auto_connect s)))
    (seqE (grpc_context ''Could not set allow lan in cleanup'' (SetAllowLan (allow_lan s)))
    (seqE (grpc_context ''Could not set show beta releases in cleanup''
             (SetShowBetaReleases (show_beta_releases s)))
    (bindE (unwrap_opt (s_bridge_state s)) (\<lambda>bs.
     seqE (grpc_context ''Could not set bridge state in cleanup'' (SetBridgeState bs))
    (bindE (unwrap_opt (s_bridge_settings s)) (\<lambda>bset.
     seqE (grpc_context ''Could not set bridge settings in cleanup'' (SetBridgeSettings bset))
    (bindE (unwrap_opt (s_obfuscation_settings s)) (\<lambda>obf.
     seqE (grpc_context ''Could set obfuscation settings in cleanup'' (SetObfuscationSettings obf))
    (seqE (grpc_context ''Could not set block when disconnected setting in cleanup''
             (SetBlockWhenDisconnected (block_when_disconnected s)))
    (seqE (grpc_context ''Could not clear split tunnel apps in cleanup'' ClearSplitTunnelApps)
    (seqE (grpc_context ''Could not clear split tunnel processes in cleanup'' ClearSplitTunnelProcesses)
    (bindE (unwrap_opt (s_tunnel_options s)) (\<lambda>topts.
     bindE (unwrap_opt (to_dns_options topts)) (\<lambda>dns.
     seqE (grpc_context ''Could not clear dns options in cleanup'' (SetDnsOptions dns))
    (bindE (unwrap_opt (wireguard topts)) (\<lambda>wg.
     bindE (unwrap_opt (quantum_resistant wg)) (\<lambda>pq.
     seqE (grpc_context ''Could not clear PQ options in cleanup'' (SetQuantumResistantTunnel pq))
     (ret ()))))))))))))))))))"

definition cleanup_after_test :: "int \<Rightarrow> int \<Rightarrow> (anyhow, unit) mgr" where
  "cleanup_after_test State_Auto Obfuscation_Off =
     seqE (log_msg LDebug ''Cleaning up daemon in test cleanup'')
    (bindE (peek default_settings) (\<lambda>cell. case cell of
       None \<Rightarrow> panic ''default settings were not initialized''
     | Some s \<Rightarrow>
         seqE (map_err FromTest (reset_relay_settings State_Auto Obfuscation_Off))
          (restore_settings s)))"

definition new_client :: "('e, unit) mgr" where
  "new_client =
     seqE (emit (Delay 500))
    (seqE (log_msg LDebug ''Mullvad daemon: connecting'')
     (expect ''unwrap'' (performE me_connect Connect)))"

definition old_client :: "('e, unit) mgr" where
  "old_client =
     seqE (emit (Delay 500))
    (seqE (log_msg LDebug ''Mullvad daemon (old): connecting'')
     (expect ''unwrap'' (performE me_connect Connect)))"

definition as_type :: "mullvad_client_version \<Rightarrow> ('e, unit) mgr" where
  "as_type client_type = (case client_type of
      VersionNew \<Rightarrow> new_client
    | VersionPrevious \<Rightarrow> old_client
    | VersionNone \<Rightarrow> ret ())"

section \<open>Rules\<close>

text \<open>Every event of these programs is of a kind that leaves the default settings alone.\<close>

lemma default_settings_append:
  "default_settings (tr @ es) = (case default_settings tr of Some s \<Rightarrow> Some s | None \<Rightarrow> default_settings es)"
  by (induction tr rule: default_settings.induct) auto

section \<open>Waiting for a tunnel state\<close>

text \<open>Stream items that neither end the wait nor make it fail.\<close>

fun undecided :: "(tunnel_state \<Rightarrow> bool) \<Rightarrow> stream_item \<Rightarrow> bool" where
  "undecided accept (StreamOk (Some (TunnelStateEvent (Inr s)))) = (\<not> accept s)"
| "undecided accept (StreamOk (Some RelayListEvent)) = True"
| "undecided accept (StreamOk (Some (DeviceEvent d))) = True"
| "undecided accept (StreamOk (Some OtherEvent)) = True"
| "undecided accept _ = False"

definition state_item :: "tunnel_state \<Rightarrow> stream_item" where
  "state_item s = StreamOk (Some (TunnelStateEvent (Inr s)))"

definition accepted_in :: "(tunnel_state \<Rightarrow> bool) \<Rightarrow> stream_item list \<Rightarrow> tunnel_state \<Rightarrow> bool" where
  "accepted_in accept items s \<longleftrightarrow> accept s \<and>
     (\<exists>pre post. items = pre @ state_item s # post \<and> list_all (undecided accept) pre)"

lemma accepted_in_simps [simp]:
  "\<not> accepted_in accept [] s"
  "accepted_in accept (i # items) s \<longleftrightarrow>
     (if undecided accept i then accepted_in accept items s else accept s \<and> i = state_item s)"
proof -
  show "\<not> accepted_in accept [] s" by (simp add: accepted_in_def)
  have "\<not> undecided accept (state_item s)" if "accept s" using that by (simp add: state_item_def)
  then show "accepted_in accept (i # items) s \<longleftrightarrow>
     (if undecided accept i then accepted_in accept items s else accept s \<and> i = state_item s)"
    by (auto simp: accepted_in_def Cons_eq_append_conv) (metis list.pred_inject(2))
qed

lemma spec_find_next:
  "spec (find_next_tunnel_state_inner accept items)
     (\<lambda>r es. es = [] \<and> (\<forall>s. r = Ok s \<longleftrightarrow> accepted_in accept items s))"
proof (induction accept items rule: find_next_tunnel_state_inner.induct)
  case (3 accept new rest)
  then show ?case
    by (cases new) (auto simp: try_from_state_def of_result_def state_item_def intro!: spec_rules)
qed (auto simp: state_item_def intro!: spec_rules)

text \<open>What the events of a wait say, and what the wait then returns.\<close>

definition waited_for :: "(tunnel_state \<Rightarrow> bool) \<Rightarrow> tunnel_state \<Rightarrow> mgr_ev list \<Rightarrow> bool" where
  "waited_for accept s es \<longleftrightarrow>
    (\<exists>polled rest. es = [Daemon EventsListen (Inr ()), StatePolled (Inr (Inr polled))] @ rest \<and>
       (if accept polled then s = polled \<and> rest = []
        else \<exists>items. rest = [Listened items] \<and> accepted_in accept items s))"

fun is_logging :: "mgr_ev \<Rightarrow> bool" where
  "is_logging (Logging op) = True"
| "is_logging _ = False"

lemma spec_wait_for_tunnel_state:
  "spec (wait_for_tunnel_state accept)
     (\<lambda>r es. (\<forall>s. r = Ok s \<longleftrightarrow> waited_for accept s es) \<and> \<not> list_ex is_logging es)"
proof -
  have listen: "spec (find_next_tunnel_state accept)
     (\<lambda>r es. \<exists>items. es = [Listened items] \<and> (\<forall>s. r = Ok s \<longleftrightarrow> accepted_in accept items s))"
    unfolding find_next_tunnel_state_def
    by (rule spec_bind_perform, rule spec_weaken [OF spec_find_next]) simp
  have *: "spec (bindE (try_from_state x)
      (\<lambda>state. if accept state then ret state else find_next_tunnel_state accept))
      (\<lambda>r es. (\<forall>s. r = Ok s \<longleftrightarrow>
           waited_for accept s (Daemon EventsListen (Inr u) # StatePolled (Inr x) # es)) \<and>
         \<not> list_ex is_logging (Daemon EventsListen (Inr u) # StatePolled (Inr x) # es))" for x and u :: unit
    by (cases x) (auto simp: try_from_state_def of_result_def waited_for_def
        intro!: spec_rules spec_weaken [OF listen])
  show ?thesis
    unfolding wait_for_tunnel_state_def mgr_calls
    by (rule spec_seq_callE, rule spec_bind_callE, rule *) (simp_all add: waited_for_def)
qed

lemma waited_for_accepted: "waited_for accept s es \<Longrightarrow> accept s"
  by (auto simp: waited_for_def accepted_in_def split: if_splits)

lemma not_logged_last: "\<not> list_ex is_logging es \<Longrightarrow> es \<noteq> xs @ [Logging op]"
  by auto

text \<open>The events of a successful connection.\<close>

definition connected_by :: "mgr_ev list \<Rightarrow> bool" where
  "connected_by es \<longleftrightarrow>
     (\<exists>wait endpoint. es = [Logging (LogRecord LInfo ''Connecting''), Daemon ConnectTunnel (Inr ())]
              @ wait @ [Logging (LogRecord LInfo ''Connected'')] \<and>
        waited_for (\<lambda>s. is_Connected s \<or> is_TunnelStateError s) (Connected endpoint) wait)"

lemma spec_connect_and_wait: "spec connect_and_wait (\<lambda>r es. r = Ok () \<longleftrightarrow> connected_by es)"
proof -
  let ?acc = "\<lambda>s. is_Connected s \<or> is_TunnelStateError s"
  let ?fin = "Logging (LogRecord LInfo ''Connected'')"
  have finish: "spec (bindE (wait_for_tunnel_state ?acc) (\<lambda>new_state.
        if is_TunnelStateError new_state then fail (DaemonError ''daemon entered error state'')
        else seqE (emit ?fin) (ret ())))
      (\<lambda>r es. r = Ok () \<longleftrightarrow> (\<exists>wait endpoint. es = wait @ [?fin] \<and> waited_for ?acc (Connected endpoint) wait))"
  proof (rule spec_bindE [OF spec_wait_for_tunnel_state])
    fix s es
    assume *: "(\<forall>s'. Ok s = Ok s' \<longleftrightarrow> waited_for ?acc s' es) \<and> \<not> list_ex is_logging es"
    then have "waited_for ?acc s es" by blast
    then have "is_Connected s \<or> is_TunnelStateError s" by (rule waited_for_accepted)
    with * show "spec (if is_TunnelStateError s then fail (DaemonError ''daemon entered error state'')
        else seqE (emit ?fin) (ret ()))
      (\<lambda>r es'. r = Ok () \<longleftrightarrow> (\<exists>wait endpoint. es @ es' = wait @ [?fin] \<and>
         waited_for ?acc (Connected endpoint) wait))"
      by (cases s) (auto dest: not_logged_last intro!: spec_rules)
  qed (auto dest: not_logged_last)
  show ?thesis
    unfolding connect_and_wait_def connected_by_def mgr_calls
    by (rule spec_seq_emit, rule spec_seq_callE, rule spec_weaken [OF finish]) auto
qed

text \<open>
  C30. Connecting: \<open>connect_and_wait\<close> returns \<open>Ok\<close> exactly when the daemon accepted the request, the
  event stream was opened \<^emph>\<open>before\<close> the state was polled, and the first state that is connected
  or an error, in the poll or among the events that follow, is the connected state.
\<close>

theorem connect_reaches_connected:
  "spec connect_and_wait (\<lambda>r es. r = Ok () \<longleftrightarrow> connected_by es)"
  by (rule spec_connect_and_wait)

text \<open>Events of a clean-up: everything but changes of the logger's mode and of the recorded defaults.\<close>

fun mode_op :: "mgr_ev \<Rightarrow> bool" where
  "mode_op (Logging (LogRecord l t)) = False"
| "mode_op (Logging _) = True"
| "mode_op _ = False"

lemma only_try_from_state [only_rules]: "only P (try_from_state s)"
  unfolding try_from_state_def by (rule only_rules)

lemma only_find_next [only_rules]: "only P (find_next_tunnel_state_inner accept items)"
  by (induction accept items rule: find_next_tunnel_state_inner.induct)
     (auto intro!: only_basic only_bindE only_try_from_state split: if_split)

lemma only_cleanup: "only (\<lambda>ev. \<not> mode_op ev) (cleanup_after_test a off)"
  unfolding cleanup_after_test_def reset_relay_settings_def disconnect_and_wait_def
    wait_for_tunnel_state_def find_next_tunnel_state_def update_relay_settings_def
    restore_settings_def grpc_context_def mgr_calls
  by (intro only_rules) simp_all

section \<open>The clean-up resets the settings\<close>

text \<open>
  The settings are the daemon's.  What its requests mean for them is a contract: \<open>apply\<close> gives the
  settings after a request that was accepted.  A setter changes its own setting and no other; an update
  of the relay constraints gives normal relay settings that follow every field of the update that is
  present; the requests about the tunnel, and those that only read, change nothing.
\<close>

definition tunnel_opts :: "settings \<Rightarrow> tunnel_options" where
  "tunnel_opts s = (case s_tunnel_options s of
      Some t \<Rightarrow> t | None \<Rightarrow> \<lparr>to_dns_options = None, wireguard = None\<rparr>)"

definition follows :: "relay_constraints_update \<Rightarrow> relay_constraints \<Rightarrow> bool" where
  "follows u rc \<longleftrightarrow> ru_location u \<in> {None, Some (rc_location rc)} \<and>
     ru_tunnel_protocol u \<in> {None, Some (rc_tunnel_protocol rc)} \<and>
     ru_openvpn u \<in> {None, Some (rc_openvpn rc)} \<and> ru_wireguard u \<in> {None, Some (rc_wireguard rc)}"

locale management_settings =
  fixes apply_request :: "mgmt_request \<Rightarrow> settings \<Rightarrow> settings"
  assumes flags: "apply_request (SetAutoConnect b) s = s\<lparr>auto_connect := b\<rparr>"
      "apply_request (SetAllowLan b) s = s\<lparr>allow_lan := b\<rparr>"
      "apply_request (SetShowBetaReleases b) s = s\<lparr>show_beta_releases := b\<rparr>"
      "apply_request (SetBlockWhenDisconnected b) s = s\<lparr>block_when_disconnected := b\<rparr>"
    and bridges: "apply_request (SetBridgeState bs) s = s\<lparr>s_bridge_state := Some bs\<rparr>"
      "apply_request (SetBridgeSettings bset) s = s\<lparr>s_bridge_settings := Some bset\<rparr>"
    and obfuscation: "apply_request (SetObfuscationSettings obf) s = s\<lparr>s_obfuscation_settings := Some obf\<rparr>"
    and split_tunnel: "apply_request ClearSplitTunnelApps s = s\<lparr>s_split_tunnel_apps := []\<rparr>"
      "apply_request ClearSplitTunnelProcesses s = s"
    and dns: "apply_request (SetDnsOptions d) s =
        s\<lparr>s_tunnel_options := Some ((tunnel_opts s)\<lparr>to_dns_options := Some d\<rparr>)\<rparr>"
    and quantum: "apply_request (SetQuantumResistantTunnel q) s =
        s\<lparr>s_tunnel_options := Some ((tunnel_opts s)\<lparr>wireguard := Some \<lparr>quantum_resistant = Some q\<rparr>\<rparr>)\<rparr>"
    and relays: "\<exists>rc. follows u rc \<and>
        apply_request (UpdateRelaySettings (NormalUpdate u)) s = s\<lparr>s_relay_settings := Some (NormalRelays rc)\<rparr>"
    and tunnel: "apply_request DisconnectTunnel s = s" "apply_request EventsListen s = s"

text \<open>
  The requests of a clean-up, in order, after those that disconnect, and the settings they lead to: the
  recorded ones, but for the relay settings, which are constants, and the apps of the split tunnel.
\<close>

definition reset_requests :: "int \<Rightarrow> int \<Rightarrow> mgmt_request list" where
  "reset_requests State_Auto Obfuscation_Off =
    [UpdateRelaySettings (NormalUpdate
       \<lparr>ru_location = Some (Only (LocationC (Country ''se''))), ru_tunnel_protocol = Some AnyC,
        ru_openvpn = Some AnyC, ru_wireguard = Some default_wireguard\<rparr>),
     SetBridgeState \<lparr>bs_state = State_Auto\<rparr>,
     SetObfuscationSettings \<lparr>selected_obfuscation = Obfuscation_Off, udp2tcp_port = Some 0\<rparr>]"

definition restore_requests :: "settings \<Rightarrow> mgmt_request list option" where
  "restore_requests s = (case (s_bridge_state s, s_bridge_settings s, s_obfuscation_settings s,
        Option.bind (s_tunnel_options s) to_dns_options,
        Option.bind (Option.bind (s_tunnel_options s) wireguard) quantum_resistant) of
      (Some bs, Some bset, Some obf, Some dns, Some pq) \<Rightarrow>
        Some [SetAutoConnect (auto_connect s), SetAllowLan (allow_lan s), SetShowBetaReleases (show_beta_releases s),
          SetBridgeState bs, SetBridgeSettings bset, SetObfuscationSettings obf,
          SetBlockWhenDisconnected (block_when_disconnected s), ClearSplitTunnelApps, ClearSplitTunnelProcesses,
          SetDnsOptions dns, SetQuantumResistantTunnel pq]
    | _ \<Rightarrow> None)"

definition quiet_request :: "mgmt_request \<Rightarrow> bool" where
  "quiet_request req \<longleftrightarrow> req = DisconnectTunnel \<or> req = EventsListen"

definition swedish_relays :: relay_constraints where
  "swedish_relays = \<lparr>rc_location = Only (LocationC (Country ''se'')), rc_tunnel_protocol = AnyC,
     rc_openvpn = AnyC, rc_wireguard = default_wireguard\<rparr>"

definition cleaned :: "settings \<Rightarrow> settings" where
  "cleaned s = s\<lparr>s_relay_settings := Some (NormalRelays swedish_relays), s_split_tunnel_apps := []\<rparr>"

context management_settings
begin

lemma reset_requests_apply:
  "\<exists>cur'. fold apply_request (reset_requests a off) cur = cur' \<and>
     s_relay_settings cur' = Some (NormalRelays swedish_relays)"
proof -
  let ?u = "\<lparr>ru_location = Some (Only (LocationC (Country ''se''))), ru_tunnel_protocol = Some AnyC,
     ru_openvpn = Some AnyC, ru_wireguard = Some default_wireguard\<rparr>"
  obtain rc where rc: "follows ?u rc"
      "apply_request (UpdateRelaySettings (NormalUpdate ?u)) cur = cur\<lparr>s_relay_settings := Some (NormalRelays rc)\<rparr>"
    using relays by blast
  then have "rc = swedish_relays" by (simp add: follows_def swedish_relays_def)
  with rc(2) show ?thesis by (simp add: reset_requests_def bridges obfuscation)
qed

lemma restore_requests_apply:
  assumes "restore_requests s = Some reqs" "s_relay_settings cur = Some (NormalRelays swedish_relays)"
  shows "fold apply_request reqs cur = cleaned s"
  using assms
  by (auto simp: restore_requests_def flags bridges obfuscation split_tunnel dns quantum cleaned_def tunnel_opts_def
      bind_eq_Some_conv split: option.splits)

lemma quiet_requests_apply:
  "list_all quiet_request reqs \<Longrightarrow> fold apply_request reqs cur = cur"
  by (induction reqs arbitrary: cur) (auto simp: tunnel quiet_request_def)

lemma cleanup_requests_apply:
  assumes "list_all quiet_request pre" "restore_requests s = Some reqs"
  shows "fold apply_request (pre @ reset_requests a off @ reqs) cur = cleaned s"
  using reset_requests_apply [of a off cur] restore_requests_apply [OF assms(2)]
  by (auto simp: quiet_requests_apply [OF assms(1)])

end

text \<open>A daemon that keeps the contract.\<close>

definition merged :: "'a option \<Rightarrow> 'a \<Rightarrow> 'a" where
  "merged new old = (case new of Some x \<Rightarrow> x | None \<Rightarrow> old)"

definition default_relays :: relay_constraints where
  "default_relays = \<lparr>rc_location = AnyC, rc_tunnel_protocol = AnyC, rc_openvpn = AnyC, rc_wireguard = default_wireguard\<rparr>"

definition merge_relays :: "relay_constraints_update \<Rightarrow> relay_settings option \<Rightarrow> relay_constraints" where
  "merge_relays u r = (let rc = (case r of Some (NormalRelays rc) \<Rightarrow> rc | _ \<Rightarrow> default_relays) in
     \<lparr>rc_location = merged (ru_location u) (rc_location rc),
      rc_tunnel_protocol = merged (ru_tunnel_protocol u) (rc_tunnel_protocol rc),
      rc_openvpn = merged (ru_openvpn u) (rc_openvpn rc), rc_wireguard = merged (ru_wireguard u) (rc_wireguard rc)\<rparr>)"

fun setting_after :: "mgmt_request \<Rightarrow> settings \<Rightarrow> settings" where
  "setting_after (SetAutoConnect b) s = s\<lparr>auto_connect := b\<rparr>"
| "setting_after (SetAllowLan b) s = s\<lparr>allow_lan := b\<rparr>"
| "setting_after (SetShowBetaReleases b) s = s\<lparr>show_beta_releases := b\<rparr>"
| "setting_after (SetBridgeState b) s = s\<lparr>s_bridge_state := Some b\<rparr>"
| "setting_after (SetBridgeSettings b) s = s\<lparr>s_bridge_settings := Some b\<rparr>"
| "setting_after (SetObfuscationSettings b) s = s\<lparr>s_obfuscation_settings := Some b\<rparr>"
| "setting_after (SetBlockWhenDisconnected b) s = s\<lparr>block_when_disconnected := b\<rparr>"
| "setting_after ClearSplitTunnelApps s = s\<lparr>s_split_tunnel_apps := []\<rparr>"
| "setting_after (SetDnsOptions d) s = s\<lparr>s_tunnel_options := Some ((tunnel_opts s)\<lparr>to_dns_options := Some d\<rparr>)\<rparr>"
| "setting_after (SetQuantumResistantTunnel q) s =
     s\<lparr>s_tunnel_options := Some ((tunnel_opts s)\<lparr>wireguard := Some \<lparr>quantum_resistant = Some q\<rparr>\<rparr>)\<rparr>"
| "setting_after (UpdateRelaySettings (NormalUpdate u)) s =
     s\<lparr>s_relay_settings := Some (NormalRelays (merge_relays u (s_relay_settings s)))\<rparr>"
| "setting_after (UpdateRelaySettings (CustomEndpoint host config)) s =
     s\<lparr>s_relay_settings := Some (CustomRelays host config)\<rparr>"
| "setting_after _ s = s"

interpretation daemon: management_settings setting_after
proof
  show "\<exists>rc. follows u rc \<and>
      setting_after (UpdateRelaySettings (NormalUpdate u)) s = s\<lparr>s_relay_settings := Some (NormalRelays rc)\<rparr>" for u s
    by (intro exI [of _ "merge_relays u (s_relay_settings s)"])
       (auto simp: follows_def merge_relays_def merged_def Let_def split: option.split)
qed simp_all

fun accepted_request :: "mgr_ev \<Rightarrow> mgmt_request option" where
  "accepted_request (Daemon req (Inr u)) = Some req"
| "accepted_request _ = None"

definition accepted :: "mgr_ev list \<Rightarrow> mgmt_request list" where
  "accepted es = List.map_filter accepted_request es"

lemma accepted_simps [simp]:
  "accepted [] = []"
  "accepted (e # es) = (case accepted_request e of None \<Rightarrow> accepted es | Some r \<Rightarrow> r # accepted es)"
  "accepted (es @ fs) = accepted es @ accepted fs"
  by (auto simp: accepted_def map_filter_def split: option.splits)

lemma spec_restore_settings:
  "spec (restore_settings s) (\<lambda>r es. r = Ok () \<longrightarrow> restore_requests s = Some (accepted es))"
  unfolding restore_settings_def grpc_context_def mgr_calls
  by (intro spec_rules) (auto simp: restore_requests_def)

definition seen_disconnected :: "mgr_ev list \<Rightarrow> bool" where
  "seen_disconnected es \<longleftrightarrow> (\<exists>pre wait post. es = pre @ wait @ post \<and>
     Daemon DisconnectTunnel (Inr ()) \<in> set pre \<and>
     waited_for (\<lambda>s. s = Disconnected) Disconnected wait)"

lemma seen_disconnected_append: "seen_disconnected es \<Longrightarrow> seen_disconnected (pre @ es @ post)"
  unfolding seen_disconnected_def by (metis Un_iff append.assoc set_append)

lemma seen_disconnected_append1: "seen_disconnected es \<Longrightarrow> seen_disconnected (es @ post)"
  using seen_disconnected_append [of es "[]" post] by simp

lemma spec_disconnect_and_wait:
  "spec disconnect_and_wait (\<lambda>r es. r = Ok () \<longrightarrow> seen_disconnected es)"
proof -
  let ?acc = "\<lambda>s. s = Disconnected"
  have wait: "spec (seqE (wait_for_tunnel_state ?acc) (seqE (emit e) (ret ())))
      (\<lambda>r es. r = Ok () \<longrightarrow> (\<exists>w post. es = w @ post \<and> waited_for ?acc Disconnected w))" for e
  proof (rule spec_seqE [OF spec_wait_for_tunnel_state])
    fix s es
    assume "(\<forall>s'. Ok s = Ok s' \<longleftrightarrow> waited_for ?acc s' es) \<and> \<not> list_ex is_logging es"
    then have "waited_for ?acc Disconnected es" using waited_for_accepted by blast
    then show "spec (seqE (emit e) (ret ()))
        (\<lambda>r es'. r = Ok () \<longrightarrow> (\<exists>w post. es @ es' = w @ post \<and> waited_for ?acc Disconnected w))"
      by (intro spec_rules) blast
  qed simp_all
  have seen: "seen_disconnected (e # Daemon DisconnectTunnel (Inr u) # w @ post)"
    if "waited_for ?acc Disconnected w" for e w post and u :: unit
    using that unfolding seen_disconnected_def
    by (intro exI [of _ "[e, Daemon DisconnectTunnel (Inr u)]"] exI [of _ w] exI [of _ post]) simp
  show ?thesis
    unfolding disconnect_and_wait_def mgr_calls
    by (rule spec_seq_emit, rule spec_seq_callE, rule spec_weaken [OF wait]) (auto intro: seen)
qed

text \<open>The requests that disconnect the tunnel, then those that reset the relay settings.\<close>

definition resets :: "int \<Rightarrow> int \<Rightarrow> mgmt_request list \<Rightarrow> bool" where
  "resets a off reqs \<longleftrightarrow> (\<exists>pre. list_all quiet_request pre \<and> reqs = pre @ reset_requests a off)"

fun quiet_event :: "mgr_ev \<Rightarrow> bool" where
  "quiet_event (Daemon req r) = quiet_request req"
| "quiet_event _ = True"

lemma accepted_quiet: "list_all quiet_event es \<Longrightarrow> list_all quiet_request (accepted es)"
proof (induction es)
  case (Cons e es)
  have "quiet_event e \<Longrightarrow> accepted_request e = Some req \<Longrightarrow> quiet_request req" for req
    by (cases e rule: accepted_request.cases) simp_all
  with Cons show ?case by (simp split: option.split)
qed simp

lemma only_disconnect: "only quiet_event disconnect_and_wait"
  unfolding disconnect_and_wait_def wait_for_tunnel_state_def find_next_tunnel_state_def mgr_calls
  by (intro only_rules) (simp_all add: quiet_request_def)

lemma spec_reset_relay_settings:
  "spec (reset_relay_settings a off) (\<lambda>r es. r = Ok () \<longrightarrow> seen_disconnected es \<and> resets a off (accepted es))"
  unfolding reset_relay_settings_def
proof (rule spec_seqE [OF spec_conj [OF spec_disconnect_and_wait only_disconnect [unfolded only_def]]])
  fix u :: unit and es
  assume "(Ok u = Ok () \<longrightarrow> seen_disconnected es) \<and> list_all quiet_event es"
  then have seen: "seen_disconnected (es @ es')" and quiet: "list_all quiet_request (accepted es)" for es'
    by (simp_all add: seen_disconnected_append1 accepted_quiet)
  show "spec (seqE (map_err (\<lambda>e. DaemonError (''Failed to reset relay settings: '' @ test_error_display e))
             (update_relay_settings default_relay_update))
    (seqE (grpc (daemon_error ''Failed to reset bridge mode: '') (SetBridgeState \<lparr>bs_state = a\<rparr>))
     (grpc (daemon_error ''Failed to reset obfuscation: '')
        (SetObfuscationSettings \<lparr>selected_obfuscation = off, udp2tcp_port = Some 0\<rparr>))))
      (\<lambda>r es'. r = Ok () \<longrightarrow> seen_disconnected (es @ es') \<and> resets a off (accepted (es @ es')))"
    unfolding update_relay_settings_def mgr_calls
    by (intro spec_seqE [where P = "\<lambda>r es. r = Ok () \<longrightarrow> accepted es = [UpdateRelaySettings default_relay_update]"]
        spec_map_err [where P = "\<lambda>r es. r = Ok () \<longrightarrow> accepted es = [UpdateRelaySettings default_relay_update]"] spec_rules)
       (use quiet in \<open>auto simp: seen resets_def reset_requests_def default_relay_update_def\<close>)
qed simp_all

definition cleans_up :: "int \<Rightarrow> int \<Rightarrow> settings \<Rightarrow> mgr_ev list \<Rightarrow> bool" where
  "cleans_up a off s es \<longleftrightarrow> seen_disconnected es \<and> (\<exists>pre reqs. list_all quiet_request pre \<and>
     restore_requests s = Some reqs \<and> accepted es = pre @ reset_requests a off @ reqs)"

lemma spec_cleanup:
  "spec (seqE (map_err FromTest (reset_relay_settings a off)) (restore_settings s)) (\<lambda>r es. r = Ok () \<longrightarrow>
     cleans_up a off s es)"
proof (rule spec_seqE)
  let ?P = "\<lambda>r es. r = Ok () \<longrightarrow> seen_disconnected es \<and> resets a off (accepted es)"
  show "spec (map_err FromTest (reset_relay_settings a off)) ?P"
    by (rule spec_map_err [OF spec_reset_relay_settings]) simp_all
  show "spec (restore_settings s) (\<lambda>r es'. r = Ok () \<longrightarrow> cleans_up a off s (es @ es'))" if "?P (Ok u) es" for u :: unit and es
    using that unfolding cleans_up_def resets_def
    by (intro spec_weaken [OF spec_restore_settings]) (auto intro: seen_disconnected_append1)
qed simp_all

lemma cleanup_ok:
  assumes "default_settings tr = Some s"
    and "cleanup_after_test State_Auto Obfuscation_Off env tr = (Ok (), tr')"
  obtains es where "tr' = tr @ es" "cleans_up State_Auto Obfuscation_Off s es"
proof -
  let ?log = "Logging (LogRecord LDebug ''Cleaning up daemon in test cleanup'')"
  have run: "seqE (map_err FromTest (reset_relay_settings State_Auto Obfuscation_Off))
      (restore_settings s) env (tr @ [?log]) = (Ok (), tr')"
    using assms by (simp add: cleanup_after_test_def log_msg_def run_simps default_settings_append)
  from spec_run [OF spec_cleanup [of State_Auto Obfuscation_Off s], of env "tr @ [?log]" "Ok ()" tr', OF run]
  obtain es' where es': "tr' = tr @ [?log] @ es'" "cleans_up State_Auto Obfuscation_Off s es'"
    by auto
  show ?thesis
    by (rule that [of "?log # es'"])
       (use es' seen_disconnected_append [of es' "[?log]" "[]"] in \<open>auto simp: cleans_up_def\<close>)
qed

lemma cleans_up_settings:
  assumes "management_settings apply_request" "cleans_up a off s es"
  shows "fold apply_request (accepted es) cur = cleaned s"
  using assms(2) management_settings.cleanup_requests_apply [OF assms(1)] by (auto simp: cleans_up_def)

text \<open>
  C31. After a test: once the default settings were recorded, a clean-up that returns \<open>Ok\<close> has
  disconnected the tunnel (it saw the disconnected state after the request), and the requests the
  daemon accepted turn whatever settings \<open>cur\<close> the test left behind into the recorded ones, with two
  exceptions: the relay settings are not the recorded ones but constants (the country Sweden, any tunnel
  protocol, default constraints), and no app is left in the split tunnel.
\<close>

theorem cleanup_restores_defaults:
  assumes "management_settings apply_request" "default_settings tr = Some s"
    and "cleanup_after_test State_Auto Obfuscation_Off env tr = (Ok (), tr @ es)"
  shows "fold apply_request (accepted es) cur =
      s\<lparr>s_relay_settings := Some (NormalRelays
          \<lparr>rc_location = Only (LocationC (Country ''se'')), rc_tunnel_protocol = AnyC, rc_openvpn = AnyC,
           rc_wireguard = \<lparr>wc_port = AnyC, wc_use_multihop = False, wc_entry_location = AnyC\<rparr>\<rparr>),
        s_split_tunnel_apps := []\<rparr> \<and>
    seen_disconnected es"
proof -
  obtain es' where "tr @ es = tr @ es'" "cleans_up State_Auto Obfuscation_Off s es'"
    using cleanup_ok [OF assms(2,3)] .
  then show ?thesis
    using cleans_up_settings [OF assms(1)]
    by (simp add: cleaned_def swedish_relays_def default_wireguard_def) (simp add: cleans_up_def)
qed

definition demo_dns :: dns_options where
  "demo_dns = \<lparr>default_options = None, custom_options = None, dns_state = 0\<rparr>"

definition demo_settings :: settings where
  "demo_settings = \<lparr>s_relay_settings = Some (NormalRelays (swedish_relays\<lparr>rc_location := Only (LocationC (Country ''xx''))\<rparr>)),
     auto_connect = False, allow_lan = True, show_beta_releases = False,
     s_bridge_state = Some \<lparr>bs_state = 0\<rparr>, s_bridge_settings = Some (BridgeOpaque ''normal''),
     s_obfuscation_settings = Some \<lparr>selected_obfuscation = 1, udp2tcp_port = None\<rparr>,
     block_when_disconnected = False, s_split_tunnel_apps = [],
     s_tunnel_options = Some \<lparr>to_dns_options = Some demo_dns, wireguard = Some \<lparr>quantum_resistant = Some 0\<rparr>\<rparr>\<rparr>"

definition demo_endpoint :: tunnel_endpoint where
  "demo_endpoint = \<lparr>te_address = \<lparr>sock_ip = V4 10 0 0 9, sock_port = 51820\<rparr>, te_protocol = TransportUdp,
     te_tunnel_type = Wireguard, te_quantum_resistant = False, te_proxy = None, te_obfuscation = None,
     te_entry_endpoint = None\<rparr>"

definition demo_mgr_env :: mgr_env where
  "demo_mgr_env = \<lparr>me_runner = \<lambda>_. demo_client_env, me_host = \<lambda>_. calm_host [],
     me_unit = \<lambda>_ _. Inr (), me_settings = \<lambda>_. Inr demo_settings,
     me_state = \<lambda>_. Inr (Inr (Connected demo_endpoint)), me_kind = \<lambda>_. Inr (Some KConnected),
     me_relays = \<lambda>_. Inr \<lparr>countries = []\<rparr>, me_device = \<lambda>_. Inr \<lparr>ds_state = 0, ds_device = None\<rparr>,
     me_events = \<lambda>_. [StreamOk (Some OtherEvent), state_item Disconnecting, state_item Disconnected],
     me_connect = \<lambda>_. Inr (), me_elapsed = \<lambda>_. False, me_capture = \<lambda>_. demo_capture, me_packets = \<lambda>_ _. [],
     me_lookup = \<lambda>_ _. Inr [], me_setup = \<lambda>_ _. Inr (), me_random_key = \<lambda>_. ''key'', me_api = \<lambda>_ _. Inr []\<rparr>"

theorem cleanup_restores_defaults_witness:
  "fold setting_after (accepted (tl (snd (cleanup_after_test 3 4 demo_mgr_env [SetDefaultSettings demo_settings]))))
     (demo_settings\<lparr>allow_lan := False, s_split_tunnel_apps := [''app''], s_tunnel_options := None\<rparr>) =
   demo_settings\<lparr>s_relay_settings := Some (NormalRelays swedish_relays)\<rparr>"
proof -
  have run: "cleanup_after_test 3 4 demo_mgr_env [SetDefaultSettings demo_settings] =
     (Ok (), [SetDefaultSettings demo_settings]
        @ tl (snd (cleanup_after_test 3 4 demo_mgr_env [SetDefaultSettings demo_settings])))"
    by (simp add: cleanup_after_test_def reset_relay_settings_def disconnect_and_wait_def
        wait_for_tunnel_state_def find_next_tunnel_state_def try_from_state_def of_result_def
        update_relay_settings_def restore_settings_def grpc_context_def unwrap_opt_def mgr_calls prog_defs
        demo_mgr_env_def demo_settings_def state_item_def)
  show ?thesis
    using cleanup_restores_defaults [OF daemon.management_settings_axioms _ run, of demo_settings]
    by (simp add: swedish_relays_def default_wireguard_def) (simp add: demo_settings_def)
qed

section \<open>Probes\<close>

lemma saturating_succ_pos: "saturating_succ n \<noteq> 0"
  unfolding saturating_succ_def by (metis add.inverse_unique add.right_neutral neg_equal_0_iff_equal one_neq_zero add.commute)

lemma protocols_distinct [simp]: "Tcp \<noteq> Udp" "Udp \<noteq> Tcp" "Tcp \<noteq> Icmp" "Icmp \<noteq> Tcp" "Udp \<noteq> Icmp" "Icmp \<noteq> Udp"
  by (simp_all add: Tcp_def Udp_def Icmp_def)

lemma count_probe_fields:
  "pr_tcp (count_probe proto r) = (if proto = Tcp then saturating_succ (pr_tcp r) else pr_tcp r)"
  "pr_udp (count_probe proto r) = (if proto = Udp then saturating_succ (pr_udp r) else pr_udp r)"
  "pr_icmp (count_probe proto r) = (if proto = Icmp then saturating_succ (pr_icmp r) else pr_icmp r)"
  by (auto simp: count_probe_def)

lemma count_probes:
  "pr_tcp (fold (\<lambda>p. count_probe (protocol p)) ps r) \<noteq> 0 \<longleftrightarrow> pr_tcp r \<noteq> 0 \<or> Tcp \<in> protocol ` set ps"
  "pr_udp (fold (\<lambda>p. count_probe (protocol p)) ps r) \<noteq> 0 \<longleftrightarrow> pr_udp r \<noteq> 0 \<or> Udp \<in> protocol ` set ps"
  "pr_icmp (fold (\<lambda>p. count_probe (protocol p)) ps r) \<noteq> 0 \<longleftrightarrow> pr_icmp r \<noteq> 0 \<or> Icmp \<in> protocol ` set ps"
proof (induction ps arbitrary: r)
  case (Cons p ps)
  { case 1 show ?case by (auto simp: Cons(1) count_probe_fields saturating_succ_pos) }
  { case 2 show ?case by (auto simp: Cons(2) count_probe_fields saturating_succ_pos) }
  { case 3 show ?case by (auto simp: Cons(3) count_probe_fields saturating_succ_pos) }
qed simp_all

lemma probe_counts:
  "probe_all (fold (\<lambda>p. count_probe (protocol p)) ps probe_default) \<longleftrightarrow> {Tcp, Udp, Icmp} \<subseteq> protocol ` set ps"
  "probe_none (fold (\<lambda>p. count_probe (protocol p)) ps probe_default) \<longleftrightarrow> {Tcp, Udp, Icmp} \<inter> protocol ` set ps = {}"
  by (simp_all add: probe_all_def probe_none_def probe_any_def word_greater_zero_iff count_probes)
     (auto simp: probe_default_def)

text \<open>The packets that a monitor with the given options decodes among the events it sees.\<close>

definition seen_packets :: "test_kit \<Rightarrow> monitor_options \<Rightarrow> monitor_event list \<Rightarrow> parsed_packet list" where
  "seen_packets kit opts evs =
     decoded (decode_packet (tk_parsers kit) (tk_macos kit) (mo_no_frame opts)) (filter (can_time_out opts) evs)"

lemma decoded_ending: "decoded dec (evs @ [TimedOut]) = decoded dec evs" "decoded dec (evs @ [StopRequested]) = decoded dec evs"
  by (induction dec evs rule: decoded.induct) (auto split: res.split option.split)

lemma until_false_True [simp]: "until_false (\<lambda>_. True) xs = xs"
  by (induction xs) auto

text \<open>
  A bridge monitor that was awaited under its time limit, or stopped, has seen everything that its
  loop decoded: it has kept the packets that match, and counted the others.
\<close>

lemma bridge_monitor_loop:
  assumes "start_packet_monitor cap (tk_parsers kit) (tk_macos kit) bridge f opts = Ok handle"
    and "mo_timeout opts \<noteq> None \<and> monitor_wait handle (evs @ [TimedOut]) = Some (Ok r) \<or>
         into_result handle evs = Some (Ok r)"
  obtains evs' where "monitor_loop (decode_packet (tk_parsers kit) (tk_macos kit) (mo_no_frame opts)) f (\<lambda>s _. (True, s)) ()
      \<lparr>packets = [], discarded_packets = 0\<rparr> evs' = Some (Ok r)"
    "decoded (decode_packet (tk_parsers kit) (tk_macos kit) (mo_no_frame opts)) evs' = seen_packets kit opts evs"
proof -
  let ?k = "\<lambda>(s :: unit) (_ :: parsed_packet). (True, s)"
  have start: "start_packet_monitor_for_interface cap (tk_parsers kit) (tk_macos kit) bridge f ?k () opts = Ok handle"
    using assms(1) by (simp add: start_packet_monitor_def start_packet_monitor_until_def)
  obtain x where x: "x = TimedOut \<or> x = StopRequested" "can_time_out opts x" "monitor_wait handle (evs @ [x]) = Some (Ok r)"
    using assms(2) by (auto simp: into_result_def can_time_out_def)
  show thesis
    by (rule that [of "filter (can_time_out opts) evs @ [x]"])
       (use x in \<open>auto simp: monitor_wait_Ok started_monitor [OF start] seen_packets_def decoded_ending\<close>)
qed

lemma bridge_monitor_result:
  assumes "start_packet_monitor cap (tk_parsers kit) (tk_macos kit) bridge f opts = Ok handle"
    and "mo_timeout opts \<noteq> None \<and> monitor_wait handle (evs @ [TimedOut]) = Some (Ok r) \<or>
         into_result handle evs = Some (Ok r)"
  shows "packets r = filter f (seen_packets kit opts evs)"
  using assms by (rule bridge_monitor_loop) (drule monitor_loop_packets, simp)

lemma bridge_monitor_discards:
  assumes "start_packet_monitor cap (tk_parsers kit) (tk_macos kit) bridge f opts = Ok handle"
    and "into_result handle evs = Some (Ok r)" "discarded_packets r = 0"
  shows "list_all f (seen_packets kit opts evs)"
  by (rule bridge_monitor_loop [OF assms(1), of evs r], simp add: assms(2), drule monitor_loop_discards)
     (simp add: assms(3) list_all_iff filter_empty_conv min_def split: if_splits)

text \<open>
  The events of a probe: a monitor is started on the bridge, the probes are sent, and \<open>seen\<close> is the
  set of protocols of the packets to the destination that the monitor decoded.
\<close>

definition probed :: "test_kit \<Rightarrow> interface option \<Rightarrow> socket_addr \<Rightarrow> byte set \<Rightarrow> mgr_ev list \<Rightarrow> bool" where
  "probed kit iface dest seen es \<longleftrightarrow> (\<exists>bridge calls bind_addr evs.
     es = MonitorStarted bridge probe_options # map Runner calls @
       [Spawned (SendProbes iface bind_addr dest), MonitorSaw bridge evs, Aborted (SendProbes iface bind_addr dest)] \<and>
     seen = protocol ` {p \<in> set (seen_packets kit probe_options evs). sock_ip (destination p) = sock_ip dest})"

lemma spec_probe_bind_addr:
  "spec (probe_bind_addr iface) (\<lambda>r es. (\<forall>e. r \<noteq> Err e) \<and> (\<exists>calls. es = map Runner calls))"
proof (cases iface)
  case None
  show ?thesis unfolding probe_bind_addr_def None option.simps by (intro spec_rules) (auto intro: exI [of _ "[]"])
next
  case (Some i)
  have "spec (get_interface_ip i) (\<lambda>r es. True)"
    unfolding get_interface_ip_def by (rule spec_rpc) simp_all
  then have ip: "spec (expect msg (runner (get_interface_ip i)) :: (test_error, ip_addr) mgr)
      (\<lambda>r es. (\<forall>e. r \<noteq> Err e) \<and> (\<exists>calls. es = map Runner calls))" for msg
    by (intro spec_expect spec_runner [where P = "\<lambda>_ _. True"]) auto
  show ?thesis
    unfolding probe_bind_addr_def Some option.simps
    by (rule spec_bindE [OF ip]) (auto intro!: spec_rules)
qed

text \<open>A monitor with a filter was started on the bridge.\<close>

definition monitors ::
  "test_kit \<Rightarrow> (parsed_packet \<Rightarrow> bool) \<Rightarrow> monitor_options \<Rightarrow> string \<times> packet_monitor \<Rightarrow> mgr_ev list \<Rightarrow> bool" where
  "monitors kit f opts mon es \<longleftrightarrow> es = [MonitorStarted (fst mon) opts] \<and>
     (\<exists>cap. start_packet_monitor cap (tk_parsers kit) (tk_macos kit) (fst mon) f opts = Ok (snd mon))"

lemma spec_bridge_monitor:
  "spec (bridge_monitor kit f opts) (\<lambda>r es. (\<forall>e. r \<noteq> Err e) \<and> (\<forall>mon. r = Ok mon \<longrightarrow> monitors kit f opts mon es))"
  unfolding bridge_monitor_def by (intro spec_rules spec_start_monitor) (auto simp: monitors_def)

lemma spec_await_monitor:
  assumes "start_packet_monitor cap (tk_parsers kit) (tk_macos kit) (fst mon) f opts = Ok (snd mon)" "mo_timeout opts \<noteq> None"
  shows "spec (wait_monitor mon) (\<lambda>r es. (\<forall>e. r \<noteq> Err e) \<and> (\<forall>res. r = Ok (Inr res) \<longrightarrow>
     (\<exists>evs. es = [MonitorSaw (fst mon) evs] \<and> packets res = filter f (seen_packets kit opts evs))))"
  using assms by (intro spec_wait_monitor) (auto dest: bridge_monitor_result)

lemma spec_end_monitor:
  assumes "start_packet_monitor cap (tk_parsers kit) (tk_macos kit) (fst mon) f opts = Ok (snd mon)"
  shows "spec (stop_monitor mon) (\<lambda>r es. (\<forall>e. r \<noteq> Err e) \<and> (\<forall>res. r = Ok (Inr res) \<longrightarrow>
     (\<exists>evs. es = [MonitorSaw (fst mon) evs] \<and> packets res = filter f (seen_packets kit opts evs))))"
  using assms by (intro spec_stop_monitor) (auto dest: bridge_monitor_result)

lemma spec_send_guest_probes:
  "spec (send_guest_probes kit iface dest) (\<lambda>r es. (\<forall>e. r \<noteq> Err e) \<and> (\<forall>result. r = Ok result \<longrightarrow>
     (\<exists>seen. probed kit iface dest seen es \<and>
       (probe_all result \<longleftrightarrow> {Tcp, Udp, Icmp} \<subseteq> seen) \<and> (probe_none result \<longleftrightarrow> {Tcp, Udp, Icmp} \<inter> seen = {}))))"
  unfolding send_guest_probes_def
proof (rule spec_bindE [OF spec_bridge_monitor])
  fix mon es
  let ?f = "\<lambda>packet. sock_ip (destination packet) = sock_ip dest"
  assume "(\<forall>e. Ok mon \<noteq> Err e) \<and> (\<forall>mon'. Ok mon = Ok mon' \<longrightarrow> monitors kit ?f probe_options mon' es)"
  then obtain bridge cap where mon: "es = [MonitorStarted bridge probe_options]" "fst mon = bridge"
      "start_packet_monitor cap (tk_parsers kit) (tk_macos kit) (fst mon) ?f probe_options = Ok (snd mon)"
    by (auto simp: monitors_def)
  have timed: "mo_timeout probe_options \<noteq> None" by (simp add: probe_options_def)
  show "spec (bindE (probe_bind_addr iface) (\<lambda>bind_addr.
     seqE (emit (Spawned (SendProbes iface bind_addr dest)))
    (bindE (wait_monitor mon) (\<lambda>r. bindE (unwrap_sum r) (\<lambda>monitor_result.
     seqE (emit (Aborted (SendProbes iface bind_addr dest)))
     (ret (fold (\<lambda>pkt. count_probe (protocol pkt)) (packets monitor_result) probe_default)))))))
     (\<lambda>r es'. (\<forall>e. r \<noteq> Err e) \<and> (\<forall>result. r = Ok result \<longrightarrow>
     (\<exists>seen. probed kit iface dest seen (es @ es') \<and>
       (probe_all result \<longleftrightarrow> {Tcp, Udp, Icmp} \<subseteq> seen) \<and> (probe_none result \<longleftrightarrow> {Tcp, Udp, Icmp} \<inter> seen = {}))))"
  proof (rule spec_bindE [OF spec_probe_bind_addr])
    fix bind_addr :: socket_addr and es1
    assume "(\<forall>e. Ok bind_addr \<noteq> Err e) \<and> (\<exists>calls. es1 = map Runner calls)"
    then obtain calls where calls: "es1 = map Runner calls" by blast
    show "spec (seqE (emit (Spawned (SendProbes iface bind_addr dest)))
        (bindE (wait_monitor mon) (\<lambda>r. bindE (unwrap_sum r) (\<lambda>monitor_result.
         seqE (emit (Aborted (SendProbes iface bind_addr dest)))
         (ret (fold (\<lambda>pkt. count_probe (protocol pkt)) (packets monitor_result) probe_default))))))
       (\<lambda>r es'. (\<forall>e. r \<noteq> Err e) \<and> (\<forall>result. r = Ok result \<longrightarrow>
       (\<exists>seen. probed kit iface dest seen (es @ es1 @ es') \<and>
         (probe_all result \<longleftrightarrow> {Tcp, Udp, Icmp} \<subseteq> seen) \<and> (probe_none result \<longleftrightarrow> {Tcp, Udp, Icmp} \<inter> seen = {}))))"
      by (rule spec_seq_emit, rule spec_bindE [OF spec_await_monitor [OF mon(3) timed]])
         (auto intro!: spec_rules simp: probe_counts probed_def mon calls, blast+)
  qed simp_all
qed simp_all

text \<open>
  C38. Probing: what \<open>send_guest_probes\<close> reports is what the monitor on the bridge saw during its
  three seconds, however many packets there were (the counters saturate instead of wrapping to
  zero): \<open>all\<close> holds exactly when packets of all three protocols to the destination were decoded,
  \<open>none\<close> exactly when no such packet was.  It never returns an error; it panics when it cannot tell.
\<close>

theorem probes_reflect_traffic:
  "spec (send_guest_probes kit iface dest) (\<lambda>r es. case r of
     Ok result \<Rightarrow> (\<exists>seen. probed kit iface dest seen es \<and>
       (probe_all result \<longleftrightarrow> {Tcp, Udp, Icmp} \<subseteq> seen) \<and> (probe_none result \<longleftrightarrow> {Tcp, Udp, Icmp} \<inter> seen = {}))
   | Err e \<Rightarrow> False
   | Panic m \<Rightarrow> True)"
  by (rule spec_weaken [OF spec_send_guest_probes]) (auto split: res.split)

section \<open>Look-ups with retries\<close>

definition geoip_calls :: "string \<Rightarrow> nat \<Rightarrow> mgr_ev list" where
  "geoip_calls host k = concat (replicate k
     [Runner (Call DefaultDeadline (GeoipLookup host)), Delay BEFORE_RETRY_DELAY])"

definition geoip_call :: "string \<Rightarrow> mgr_ev" where
  "geoip_call host = Runner (Call DefaultDeadline (GeoipLookup host))"

lemma spec_geoip_attempt:
  "spec (attempt (map_err GeoipError (runner (Client.geoip_lookup host)))) (\<lambda>r es. es = [geoip_call host] \<and>
     ((\<exists>a. r = Ok (Inr a)) \<or> (\<exists>e. r = Ok (Inl (GeoipError e)))))"
proof -
  have "spec (Client.geoip_lookup host) (\<lambda>r es. es = [Call DefaultDeadline (GeoipLookup host)] \<and>
      (\<forall>s. r \<noteq> Panic s))"
    unfolding Client.geoip_lookup_def by (rule spec_rpc) auto
  then have "spec (runner (Client.geoip_lookup host)) (\<lambda>r es. es = [geoip_call host] \<and> (\<forall>s. r \<noteq> Panic s))"
    by (rule spec_runner) (auto simp: geoip_call_def)
  then have "spec (map_err GeoipError (runner (Client.geoip_lookup host))) (\<lambda>r es. es = [geoip_call host] \<and>
      ((\<exists>a. r = Ok a) \<or> (\<exists>e. r = Err (GeoipError e))))"
    by (rule spec_map_err) auto
  then show ?thesis by (rule spec_attempt) auto
qed

lemma spec_geoip_loop:
  "spec (geoip_loop host left) (\<lambda>r es. \<exists>k \<le> left. es = geoip_calls host k @ [geoip_call host] \<and>
     ((\<exists>a. r = Ok a) \<or> k = left \<and> (\<exists>e. r = Err (GeoipError e))))"
  (is "spec _ (?Q left)")
proof (induction left)
  case 0
  show ?case
    by (subst geoip_loop.simps, rule spec_bindE [OF spec_geoip_attempt])
       (auto simp: of_result_def geoip_calls_def intro!: spec_rules)
next
  case (Suc left)
  have retry: "spec (seqE (emit (Delay BEFORE_RETRY_DELAY)) (geoip_loop host left))
      (\<lambda>r es. ?Q (Suc left) r (geoip_call host # es))"
    by (rule spec_seq_emit, rule spec_weaken [OF Suc.IH])
       (force simp: geoip_calls_def geoip_call_def)
  show ?case
    by (subst geoip_loop.simps, rule spec_bindE [OF spec_geoip_attempt])
       (auto simp: of_result_def geoip_calls_def intro!: spec_rules spec_weaken [OF retry])
qed

text \<open>
  Looking up the exit address: \<open>geoip_lookup_with_retries\<close> asks the runner at most five times,
  two seconds apart, stops at the first answer, and fails only when all five look-ups failed.
\<close>

lemma geoip_lookup_retries:
  "spec (geoip_lookup_with_retries host) (\<lambda>r es. \<exists>k \<le> 4. es = geoip_calls host k @ [geoip_call host] \<and>
     ((\<exists>a. r = Ok a) \<or> k = 4 \<and> (\<exists>e. r = Err (GeoipError e))))"
  unfolding geoip_lookup_with_retries_def
  by (rule spec_weaken [OF spec_geoip_loop]) (simp add: GEOIP_MAX_ATTEMPTS_def)

section \<open>Choosing relays\<close>

text \<open>
  Entry and exit: despite its name \<open>random_entry_and_exit\<close> is deterministic.  It returns the
  first two relays of the daemon's list that meet the criteria, and fails when there are fewer.
\<close>

lemma entry_and_exit_are_first_two:
  "fst (random_entry_and_exit criteria env tr) =
     (case me_relays env tr of
        Inl st \<Rightarrow> Err (DaemonError (''Failed to obtain relay list: '' @ st_display st))
      | Inr relays \<Rightarrow> (case filter criteria (flatten_relaylist relays) of
            a # b # _ \<Rightarrow> Ok (a, b)
          | _ \<Rightarrow> Err (Other ''failed to randomly select two relays from daemon's relay list'')))"
  by (auto simp: random_entry_and_exit_def filter_relays_def mgr_calls prog_defs daemon_error_def
      split: sum.split list.split)

end
