(* ===== verification/Manager_Log.thy ===== *)
theory Manager_Log
  imports Daemon_Client
begin

text \<open>
  \<open>test-manager/src/logging.rs\<close>: the logger that can hold records back, running one test with its
  panics caught, and printing the outcome of a test.

  The logger is a global; its calls are events of the manager and its state is what the calls so far
  have made of it (\<open>logger_run\<close>).  A stored record also has a time and a module path, and printed
  text has colours: they only decorate the output and are left out.
\<close>

section \<open>The logger\<close>

record logger_inner =
  buffer :: bool
  stored_records :: "(level \<times> string) list"

datatype logger_out = EnvLogger level string | Println level string

definition logger_init :: "logger_inner \<times> logger_out list" where
  "logger_init = (\<lparr>buffer = False, stored_records = []\<rparr>, [])"

text \<open>
  \<open>Logger::get_or_init\<close>: the directives given to the builder of \<open>env_logger\<close>.  \<open>parse_env\<close> is what the
  environment variable adds to them, \<open>max_level\<close> the most verbose level they let through.
\<close>

record env_filter =
  ef_modules :: "(string \<times> level) list"
  ef_level :: level

definition base_filter :: env_filter where
  "base_filter = \<lparr>ef_modules = [(''h2'', LInfo), (''tower'', LInfo), (''hyper'', LInfo), (''rustls'', LInfo)],
     ef_level = LDebug\<rparr>"

text \<open>The cell holds the logger, which is made and installed by the first call.\<close>

definition get_or_init ::
  "(env_filter \<Rightarrow> env_filter) \<Rightarrow> (env_filter \<Rightarrow> level) \<Rightarrow>
     (env_filter \<times> logger_inner) option \<times> log_facade \<Rightarrow> (env_filter \<times> logger_inner) option \<times> log_facade" where
  "get_or_init parse_env max_level = (\<lambda>(cell, facade). case cell of
      Some _ \<Rightarrow> (cell, facade)
    | None \<Rightarrow> (let env_logger = parse_env base_filter
        in (Some (env_logger, fst logger_init),
            if lf_logger_set facade then facade
            else facade\<lparr>lf_logger_set := True, lf_max_level := Some (max_level env_logger)\<rparr>)))"

text \<open>However often it is called, there is one logger, installed with its own filter.\<close>

lemma get_or_init_once:
  assumes "\<not> lf_logger_set facade"
  shows "(get_or_init parse_env max_level ^^ Suc n) (None, facade) =
    (Some (parse_env base_filter, fst logger_init),
     facade\<lparr>lf_logger_set := True, lf_max_level := Some (max_level (parse_env base_filter))\<rparr>)"
  using assms by (induction n) (simp_all add: get_or_init_def Let_def)

definition store_records :: "bool \<Rightarrow> logger_inner \<times> logger_out list \<Rightarrow> logger_inner \<times> logger_out list" where
  "store_records state = (\<lambda>(inner, out). (inner\<lparr>buffer := state\<rparr>, out))"

definition print_stored_records :: "logger_inner \<times> logger_out list \<Rightarrow> logger_inner \<times> logger_out list" where
  "print_stored_records = (\<lambda>(inner, out).
     (inner\<lparr>stored_records := []\<rparr>, out @ map (\<lambda>(l, t). Println l t) (stored_records inner)))"

definition flush_records :: "logger_inner \<times> logger_out list \<Rightarrow> logger_inner \<times> logger_out list" where
  "flush_records = (\<lambda>(inner, out). (inner\<lparr>stored_records := []\<rparr>, out))"

text \<open>\<open>enabled\<close> is the filter of \<open>env_logger\<close>.\<close>

definition logger_log ::
  "(level \<Rightarrow> string \<Rightarrow> bool) \<Rightarrow> level \<Rightarrow> string \<Rightarrow> logger_inner \<times> logger_out list \<Rightarrow> logger_inner \<times> logger_out list" where
  "logger_log enabled l t = (\<lambda>(inner, out).
     if \<not> enabled l t then (inner, out)
     else if buffer inner then (inner\<lparr>stored_records := stored_records inner @ [(l, t)]\<rparr>, out)
     else (inner, out @ [EnvLogger l t]))"

fun logger_step ::
  "(level \<Rightarrow> string \<Rightarrow> bool) \<Rightarrow> mgr_ev \<Rightarrow> logger_inner \<times> logger_out list \<Rightarrow> logger_inner \<times> logger_out list" where
  "logger_step enabled (Logging (StoreRecords b)) st = store_records b st"
| "logger_step enabled (Logging PrintStoredRecords) st = print_stored_records st"
| "logger_step enabled (Logging FlushRecords) st = flush_records st"
| "logger_step enabled (Logging (LogRecord l t)) st = logger_log enabled l t st"
| "logger_step enabled _ st = st"

definition logger_run ::
  "(level \<Rightarrow> string \<Rightarrow> bool) \<Rightarrow> mgr_ev list \<Rightarrow> logger_inner \<times> logger_out list \<Rightarrow> logger_inner \<times> logger_out list" where
  "logger_run enabled es st = fold (logger_step enabled) es st"

section \<open>Running one test\<close>

text \<open>The payload of a panic, and \<open>panic_as_string\<close>.\<close>

datatype panic_payload = PanicString string | PanicStr string | PanicOther

definition panic_as_string :: "panic_payload \<Rightarrow> string" where
  "panic_as_string err = (case err of
      PanicString s \<Rightarrow> s
    | PanicStr s \<Rightarrow> s
    | PanicOther \<Rightarrow> ''unknown message'')"

text \<open>\<open>catch_unwind\<close>: the panics of the modelled code all carry a text.\<close>

definition catch_unwind :: "('e, 'a) mgr \<Rightarrow> ('e2, string + ('e + 'a)) mgr" where
  "catch_unwind m = (\<lambda>env tr. case m env tr of
      (Ok a, tr') \<Rightarrow> (Ok (Inr (Inr a)), tr')
    | (Err e, tr') \<Rightarrow> (Ok (Inr (Inl e)), tr')
    | (Panic s, tr') \<Rightarrow> (Ok (Inl (panic_as_string (PanicStr s))), tr'))"

type_synonym test_verdict = "string + (test_error + unit)"

record test_output =
  error_messages :: "log_line list"
  to_test_name :: string
  to_result :: test_verdict
  to_log_output :: log_output

definition verdict_failed :: "test_verdict \<Rightarrow> bool" where
  "verdict_failed v = (case v of Inr (Inr _) \<Rightarrow> False | _ \<Rightarrow> True)"

text \<open>\<open>dbg\<close> is the \<open>Debug\<close> rendering of an RPC error.\<close>

definition run_test ::
  "(error \<Rightarrow> string) \<Rightarrow> (test_error, unit) mgr \<Rightarrow> string \<Rightarrow> (test_error, test_output) mgr" where
  "run_test dbg test test_name =
     seqE (attempt (runner Client.try_poll_output))
    (bindE (catch_unwind test) (\<lambda>result.
     bindE (if verdict_failed result then
         bindE (attempt (runner Client.try_poll_output)) (\<lambda>output_after_test. case output_after_test of
             Inr lines \<Rightarrow> ret lines
           | Inl e \<Rightarrow> ret [OutOther (''could not get logs: '' @ dbg e)])
       else ret []) (\<lambda>output.
     bindE (map_err Rpc (runner Client.get_mullvad_app_logs)) (\<lambda>log_output.
     ret \<lparr>error_messages = output, to_test_name = test_name, to_result = result, to_log_output = log_output\<rparr>))))"

section \<open>Printing the outcome\<close>

primrec output_display :: "log_line \<Rightarrow> string" where
  "output_display (OutError s) = s"
| "output_display (OutWarning s) = s"
| "output_display (OutInfo s) = s"
| "output_display (OutOther s) = s"

primrec logging_error_display :: "logging_error \<Rightarrow> string" where
  "logging_error_display StandardOutput = ''Could not get standard output from runner''"
| "logging_error_display (Logs s) = ''Could not get mullvad app logs from runner''"

definition log_text :: "logging_error + log_file \<Rightarrow> string" where
  "log_text log = (case log of
      Inr log \<Rightarrow> ''Log '' @ lf_name log @ '':'' @ [CHR 0x0A] @ lf_content log
    | Inl e \<Rightarrow> ''Could not get log: '' @ logging_error_display e)"

definition failure_lines :: "test_output \<Rightarrow> string list" where
  "failure_lines self =
     [''TEST '' @ to_test_name self @ '' HAD LOGS:'',
      (case settings_json (to_log_output self) of
         Inr settings \<Rightarrow> ''settings.json: '' @ settings
       | Inl e \<Rightarrow> ''Could not get settings.json: '' @ logging_error_display e)]
     @ (case log_files (to_log_output self) of
          Inr logs \<Rightarrow> map log_text logs
        | Inl e \<Rightarrow> [''Could not get logs: '' @ logging_error_display e])
     @ [''TEST RUNNER '' @ to_test_name self @ '' HAD RUNTIME OUTPUT:'']
     @ (if error_messages self = [] then [''<no output>''] else map output_display (error_messages self))
     @ [''TEST '' @ to_test_name self @ '' END OF OUTPUT'']"

text \<open>\<open>dbg\<close> is the \<open>Debug\<close> rendering of a test error.\<close>

definition print_output :: "(test_error \<Rightarrow> string) \<Rightarrow> test_output \<Rightarrow> string list" where
  "print_output dbg self = (case to_result self of
      Inr (Inr _) \<Rightarrow> [''TEST '' @ to_test_name self @ '' SUCCEEDED!'']
    | Inr (Inl e) \<Rightarrow> (''TEST '' @ to_test_name self @ '' RETURNED ERROR: '' @ dbg e) # failure_lines self
    | Inl panic_msg \<Rightarrow> (''TEST '' @ to_test_name self @ '' PANICKED WITH MESSAGE: '' @ panic_msg) # failure_lines self)"

section \<open>Lemmas\<close>

lemma logger_run_simps [simp]:
  "logger_run enabled [] st = st"
  "logger_run enabled (e # es) st = logger_run enabled es (logger_step enabled e st)"
  "logger_run enabled (es @ fs) st = logger_run enabled fs (logger_run enabled es st)"
  by (simp_all add: logger_run_def)

text \<open>The records in a history that pass the filter.\<close>

fun logged :: "(level \<Rightarrow> string \<Rightarrow> bool) \<Rightarrow> mgr_ev list \<Rightarrow> (level \<times> string) list" where
  "logged enabled [] = []"
| "logged enabled (Logging (LogRecord l t) # es) =
     (if enabled l t then (l, t) # logged enabled es else logged enabled es)"
| "logged enabled (_ # es) = logged enabled es"

lemma logged_append [simp]: "logged enabled (es @ fs) = logged enabled es @ logged enabled fs"
  by (induction enabled es rule: logged.induct) auto

lemma logger_run_quiet:
  assumes "\<not> list_ex mode_op es"
  shows "logger_run enabled es (inner, out) =
    (if buffer inner then (inner\<lparr>stored_records := stored_records inner @ logged enabled es\<rparr>, out)
     else (inner, out @ map (\<lambda>(l, t). EnvLogger l t) (logged enabled es)))"
  using assms
proof (induction enabled es arbitrary: inner out rule: logged.induct)
  case (2 enabled l t es)
  then show ?case by (auto simp: logger_log_def)
qed (auto simp: store_records_def)

lemma only_catch_unwind [only_rules]: "only P m \<Longrightarrow> only P (catch_unwind m)"
  unfolding only_def spec_def catch_unwind_def
  by (auto split: prod.splits res.splits) (metis fst_conv snd_conv)+

lemma only_runner [only_rules]:
  "only (\<lambda>_. True) m \<Longrightarrow> (\<And>ev. P (Runner ev)) \<Longrightarrow> only P (runner m)"
  unfolding runner_def by (rule only_embed)

lemma only_disk [only_rules]:
  "only (\<lambda>_. True) m \<Longrightarrow> (\<And>ev. P (Disk ev)) \<Longrightarrow> only P (disk m)"
  unfolding disk_def by (rule only_embed)

lemma only_run_test:
  assumes "only P test" "\<And>ev. P (Runner ev)"
  shows "only P (run_test dbg test name)"
  unfolding run_test_def Client.try_poll_output_def get_mullvad_app_logs_def rpc_def rpc_plain_def
  by (intro only_rules assms) simp_all

end
