(* ===== verification/Run_Tests.thy ===== *)
theory Run_Tests
  imports Manager_Log
begin

text \<open>
  \<open>test-manager/src/run_tests.rs\<close>: selecting the tests, running them one after the other with the
  clean-up between them, printing and recording their results, and the result of the whole run.

  The tests themselves are arbitrary programs of the manager's world (\<open>tm_func\<close>), which may return,
  fail or panic.  \<open>to_lowercase\<close> of the standard library and the \<open>Debug\<close> renderings are parameters.
\<close>

section \<open>Selecting tests\<close>

record test_entry = test_metadata +
  tm_func :: "(test_error, unit) mgr"

definition priority_key :: "test_entry \<Rightarrow> int" where
  "priority_key test = (case tm_priority test of Some p \<Rightarrow> p | None \<Rightarrow> 0)"

definition retained :: "(string \<Rightarrow> string) \<Rightarrow> string list \<Rightarrow> test_entry \<Rightarrow> bool" where
  "retained to_lowercase test_filters test \<longleftrightarrow>
     tm_always_run test \<or>
     list_ex (\<lambda>command. contains (to_lowercase (tm_command test)) (to_lowercase command)) test_filters"

definition select_tests ::
  "(string \<Rightarrow> string) \<Rightarrow> string list \<Rightarrow> test_entry list \<Rightarrow> test_entry list" where
  "select_tests to_lowercase test_filters inventory =
    (let tests = sort_key priority_key inventory
     in if test_filters \<noteq> [] then filter (retained to_lowercase test_filters) tests else tests)"

section \<open>The loop\<close>

record run_opts =
  ro_print_failed_tests_only :: bool
  ro_summary_logger :: "string option"
  ro_state_auto :: int
  ro_obfuscation_off :: int
  ro_debug_rpc :: "error \<Rightarrow> string"
  ro_debug_test :: "test_error \<Rightarrow> string"

definition only_if :: "bool \<Rightarrow> ('e, unit) mgr \<Rightarrow> ('e, unit) mgr" where
  "only_if b m = (if b then m else ret ())"

definition summary_result :: "test_verdict \<Rightarrow> test_result" where
  "summary_result v = (if verdict_failed v then Fail else Pass)"

text \<open>The body of the loop up to the evaluation of the verdict, in four stages.\<close>

definition prepare :: "run_opts \<Rightarrow> test_entry \<Rightarrow> (anyhow, unit) mgr" where
  "prepare opts test =
     seqE (as_type (tm_client_version test))
    (seqE (only_if (tm_client_version test = VersionNew) init_default_settings)
    (seqE (log_msg LInfo (''Running '' @ tm_name test))
     (only_if (ro_print_failed_tests_only opts) (emit (Logging (StoreRecords True))))))"

definition needs_cleanup :: "test_entry \<Rightarrow> test_output \<Rightarrow> bool" where
  "needs_cleanup test test_result \<longleftrightarrow> tm_client_version test = VersionNew \<and>
     (tm_cleanup test \<or> verdict_failed (to_result test_result))"

definition clean_up :: "run_opts \<Rightarrow> test_entry \<Rightarrow> test_output \<Rightarrow> (anyhow, unit) mgr" where
  "clean_up opts test test_result = only_if (needs_cleanup test test_result)
     (seqE new_client (cleanup_after_test (ro_state_auto opts) (ro_obfuscation_off opts)))"

definition conclude :: "run_opts \<Rightarrow> test_entry \<Rightarrow> test_output \<Rightarrow> (anyhow, unit) mgr" where
  "conclude opts test test_result =
     seqE (only_if (ro_print_failed_tests_only opts)
             (seqE (emit (Logging (if verdict_failed (to_result test_result) then PrintStoredRecords
                                   else FlushRecords)))
              (emit (Logging (StoreRecords False)))))
    (seqE (for_each (\<lambda>line. emit (Printed line)) (print_output (ro_debug_test opts) test_result))
     (map_err (\<lambda>e. WithContext ''Failed to log test result'' (FromSummary e))
        (disk (maybe_log_test_result (ro_summary_logger opts) (tm_name test)
                 (summary_result (to_result test_result))))))"

definition run_one :: "run_opts \<Rightarrow> test_entry \<Rightarrow> (anyhow, test_output) mgr" where
  "run_one opts test =
     seqE (prepare opts test)
    (bindE (map_err (\<lambda>e. WithContext ''Failed to run test'' (FromTest e))
              (run_test (ro_debug_rpc opts) (tm_func test) (tm_name test))) (\<lambda>test_result.
     seqE (clean_up opts test test_result)
    (seqE (conclude opts test test_result)
     (ret test_result))))"

record run_state =
  final_result :: "anyhow + unit"
  successful_tests :: "string list"
  failed_tests :: "string list"

definition run_start :: run_state where
  "run_start = \<lparr>final_result = Inr (), successful_tests = [], failed_tests = []\<rparr>"

definition record_verdict :: "string \<Rightarrow> test_verdict \<Rightarrow> run_state \<Rightarrow> run_state" where
  "record_verdict name v st = (case v of
      Inl msg \<Rightarrow> st\<lparr>failed_tests := failed_tests st @ [name],
                     final_result := Inl (WithContext ''test panicked'' (FromPanic msg))\<rparr>
    | Inr (Inl failure) \<Rightarrow> st\<lparr>failed_tests := failed_tests st @ [name],
                     final_result := Inl (WithContext ''test failed'' (FromTest failure))\<rparr>
    | Inr (Inr result) \<Rightarrow> st\<lparr>successful_tests := successful_tests st @ [name],
                     final_result := (case final_result st of Inl e \<Rightarrow> Inl e | Inr _ \<Rightarrow> Inr result)\<rparr>)"

fun run_loop :: "run_opts \<Rightarrow> test_entry list \<Rightarrow> run_state \<Rightarrow> (anyhow, run_state) mgr" where
  "run_loop opts [] st = ret st"
| "run_loop opts (test # tests) st =
     bindE (run_one opts test) (\<lambda>test_result.
       let st' = record_verdict (tm_name test) (to_result test_result) st
       in if verdict_failed (to_result test_result) \<and> tm_must_succeed test then ret st'
          else run_loop opts tests st')"

definition setup_call :: "string \<Rightarrow> (anyhow, unit) mgr" where
  "setup_call what = callE FromStatus (\<lambda>env tr. me_setup env tr what) (Setup what)"

definition report :: "run_state \<Rightarrow> ('e, unit) mgr" where
  "report st =
     seqE (log_msg LInfo ''TESTS THAT SUCCEEDED:'')
    (seqE (for_each (log_msg LInfo) (successful_tests st))
    (seqE (log_msg LInfo ''TESTS THAT FAILED:'')
     (for_each (log_msg LInfo) (failed_tests st))))"

text \<open>\<open>inventory\<close> is the list of tests the crate of that name collected.\<close>

definition run ::
  "(string \<Rightarrow> string) \<Rightarrow> run_opts \<Rightarrow> test_config \<Rightarrow> string \<Rightarrow> string list \<Rightarrow> bool \<Rightarrow> test_entry list \<Rightarrow> (anyhow, unit) mgr" where
  "run to_lowercase opts config pty_path test_filters skip_wait inventory =
     seqE (log_msg LTrace ''Setting test constants'')
    (seqE (init_test_config config)
    (seqE (log_msg LInfo (''Connecting to '' @ pty_path))
    (seqE (expect ''unwrap'' (setup_call ''SerialStream::open''))
    (seqE (setup_call ''create_client_transports'')
    (seqE (only_if (\<not> skip_wait) (setup_call ''wait_for_server''))
    (seqE (log_msg LInfo ''Running client'')
    (bindE (run_loop opts (select_tests to_lowercase test_filters inventory) run_start) (\<lambda>st.
     seqE (report st)
    (seqE (perform me_elapsed Deadline)
     (of_result (final_result st)))))))))))"

section \<open>The loop as a step relation\<close>

text \<open>Which tests are run, in which order, with which verdicts, and how the history grows.\<close>

inductive executes ::
  "run_opts \<Rightarrow> mgr_env \<Rightarrow> test_entry list \<Rightarrow> mgr_ev list \<Rightarrow> (test_entry \<times> test_verdict) list \<Rightarrow> mgr_ev list \<Rightarrow> bool"
  for opts env where
  exec_done: "executes opts env [] tr [] tr"
| exec_stop: "run_one opts t env tr = (Ok out, tr') \<Longrightarrow> verdict_failed (to_result out) \<Longrightarrow> tm_must_succeed t \<Longrightarrow>
    executes opts env (t # ts) tr [(t, to_result out)] tr'"
| exec_next: "run_one opts t env tr = (Ok out, tr') \<Longrightarrow> \<not> (verdict_failed (to_result out) \<and> tm_must_succeed t) \<Longrightarrow>
    executes opts env ts tr' res tr'' \<Longrightarrow> executes opts env (t # ts) tr ((t, to_result out) # res) tr''"

definition tally :: "(test_entry \<times> test_verdict) list \<Rightarrow> run_state \<Rightarrow> run_state" where
  "tally res st = fold (\<lambda>(t, v). record_verdict (tm_name t) v) res st"

lemma run_loop_executes:
  "run_loop opts ts st env tr = (Ok st', tr') \<Longrightarrow> \<exists>res. executes opts env ts tr res tr' \<and> st' = tally res st"
proof (induction ts arbitrary: st tr)
  case Nil
  then show ?case by (auto simp: ret_def tally_def intro: executes.intros)
next
  case (Cons t ts)
  then obtain out tr1 where one: "run_one opts t env tr = (Ok out, tr1)"
    by (auto simp: bindE_def split: prod.splits res.splits)
  let ?st = "record_verdict (tm_name t) (to_result out) st"
  show ?case
  proof (cases "verdict_failed (to_result out) \<and> tm_must_succeed t")
    case True
    with Cons.prems one have "st' = ?st" "tr' = tr1"
      by (auto simp: bindE_def ret_def Let_def)
    with True one show ?thesis
      by (intro exI [of _ "[(t, to_result out)]"]) (auto simp: tally_def intro: exec_stop)
  next
    case False
    with Cons.prems one have "run_loop opts ts ?st env tr1 = (Ok st', tr')"
      by (auto simp: bindE_def Let_def)
    from Cons.IH [OF this] obtain res where "executes opts env ts tr1 res tr'" "st' = tally res ?st"
      by blast
    with one False show ?thesis
      by (intro exI [of _ "(t, to_result out) # res"]) (auto simp: tally_def intro: exec_next)
  qed
qed

inductive_cases executes_NilE: "executes opts env [] tr res tr'"
inductive_cases executes_ConsE: "executes opts env (t # ts) tr res tr'"

text \<open>The relation is exactly the loop: it has at most one outcome, and the loop returns that outcome.\<close>

lemma executes_run_loop:
  "executes opts env ts tr res tr' \<Longrightarrow> run_loop opts ts st env tr = (Ok (tally res st), tr')"
  by (induction arbitrary: st rule: executes.induct)
     (auto simp: bindE_def ret_def tally_def Let_def)

lemma executes_deterministic:
  "executes opts env ts tr res tr' \<Longrightarrow> executes opts env ts tr res2 tr2 \<Longrightarrow> res2 = res \<and> tr2 = tr'"
proof (induction arbitrary: res2 tr2 rule: executes.induct)
  case (exec_done tr)
  then show ?case by (auto elim: executes_NilE)
next
  case (exec_stop t tr out tr' ts)
  note one = exec_stop.hyps
  from exec_stop.prems show ?case by (rule executes_ConsE) (use one in simp_all)
next
  case (exec_next t tr out tr' ts res tr'')
  note one = exec_next.hyps(1,2) and rest = exec_next.IH
  from exec_next.prems show ?case
    by (rule executes_ConsE) (use one rest in \<open>simp_all add: one\<close>)
qed

definition names :: "(test_verdict \<Rightarrow> bool) \<Rightarrow> (test_entry \<times> test_verdict) list \<Rightarrow> string list" where
  "names P res = map (\<lambda>(t, v). tm_name t) (filter (\<lambda>(t, v). P v) res)"

lemma names_simps [simp]:
  "names P [] = []"
  "names P ((t, v) # res) = (if P v then tm_name t # names P res else names P res)"
  by (simp_all add: names_def)

lemma record_verdict_fields:
  "successful_tests (record_verdict n v st) = successful_tests st @ (if verdict_failed v then [] else [n])"
  "failed_tests (record_verdict n v st) = failed_tests st @ (if verdict_failed v then [n] else [])"
  "final_result (record_verdict n v st) = Inr () \<longleftrightarrow> \<not> verdict_failed v \<and> final_result st = Inr ()"
  by (auto simp: record_verdict_def verdict_failed_def split: sum.splits)

lemma tally_fields:
  "successful_tests (tally res st) = successful_tests st @ names (\<lambda>v. \<not> verdict_failed v) res"
  "failed_tests (tally res st) = failed_tests st @ names verdict_failed res"
  "final_result (tally res st) = Inr () \<longleftrightarrow> final_result st = Inr () \<and> names verdict_failed res = []"
  by (induction res arbitrary: st) (auto simp: tally_def record_verdict_fields split: if_splits)

lemma executes_prefix:
  "executes opts env ts tr res tr' \<Longrightarrow>
     map fst res = ts \<or> (\<exists>t v rest pre. res = pre @ [(t, v)] \<and> ts = map fst res @ rest \<and> rest \<noteq> [] \<and>
        verdict_failed v \<and> tm_must_succeed t)"
proof (induction rule: executes.induct)
  case (exec_stop t tr out tr' ts)
  then show ?case by (cases ts) auto
next
  case (exec_next t tr out tr' ts res tr'')
  from exec_next.IH show ?case
  proof
    assume "\<exists>t v rest pre. res = pre @ [(t, v)] \<and> ts = map fst res @ rest \<and> rest \<noteq> [] \<and>
        verdict_failed v \<and> tm_must_succeed t"
    then obtain t' v rest pre where "res = pre @ [(t', v)]" "ts = map fst res @ rest" "rest \<noteq> []"
        "verdict_failed v" "tm_must_succeed t'"
      by blast
    then show ?thesis
      by (intro disjI2 exI [of _ t'] exI [of _ v] exI [of _ rest] exI [of _ "(t, to_result out) # pre"]) simp
  qed simp
qed simp

text \<open>
  C12. The loop over the tests: when it returns, the tests were run one after the other in the given
  order; \<open>successful_tests\<close> and \<open>failed_tests\<close> hold exactly the names of those that passed and those
  that failed, in that order; the result is \<open>Ok\<close> exactly when none failed; and either all tests were
  run, or the last one run is a failed \<open>must_succeed\<close> test and the ones after it were left out.
\<close>

theorem run_loop_tallies_verdicts:
  assumes "run_loop opts ts run_start env tr = (Ok st, tr')"
  shows "\<exists>res. executes opts env ts tr res tr' \<and>
     successful_tests st = names (\<lambda>v. \<not> verdict_failed v) res \<and>
     failed_tests st = names verdict_failed res \<and>
     (final_result st = Inr () \<longleftrightarrow> failed_tests st = []) \<and>
     (map fst res = ts \<or> (\<exists>t v rest pre. res = pre @ [(t, v)] \<and> ts = map fst res @ rest \<and> rest \<noteq> [] \<and>
        verdict_failed v \<and> tm_must_succeed t))"
proof -
  from run_loop_executes [OF assms] obtain res where
    res: "executes opts env ts tr res tr'" "st = tally res run_start" by blast
  with executes_prefix [OF res(1)] show ?thesis
    by (intro exI [of _ res]) (simp add: tally_fields run_start_def)
qed

section \<open>Selection\<close>

text \<open>
  C35. Selecting tests: the selected tests are in ascending order of priority, tests of equal priority
  keep the order of the inventory, and a test is selected exactly when there are no filters, it is
  marked \<open>always_run\<close>, or its command contains one of the filters, compared in lower case.
\<close>

theorem selection_is_stable:
  "sorted (map priority_key (select_tests to_lowercase test_filters inventory)) \<and>
   filter (\<lambda>t. priority_key t = k) (select_tests to_lowercase test_filters inventory) =
     filter (\<lambda>t. priority_key t = k \<and> (test_filters = [] \<or> tm_always_run t \<or>
        (\<exists>f \<in> set test_filters. sublist (to_lowercase f) (to_lowercase (tm_command t))))) inventory"
proof -
  have sel: "select_tests to_lowercase test_filters inventory =
      filter (\<lambda>t. test_filters = [] \<or> retained to_lowercase test_filters t) (sort_key priority_key inventory)"
    by (simp add: select_tests_def Let_def)
  have stable: "filter (\<lambda>t. priority_key t = k) (sort_key priority_key inventory) =
      filter (\<lambda>t. priority_key t = k) inventory"
    by (rule sort_key_stable)
  have "filter (\<lambda>t. priority_key t = k) (select_tests to_lowercase test_filters inventory) =
      filter (\<lambda>t. test_filters = [] \<or> retained to_lowercase test_filters t)
        (filter (\<lambda>t. priority_key t = k) (sort_key priority_key inventory))"
    unfolding sel filter_filter by meson
  then show ?thesis
    unfolding stable filter_filter
    by (auto simp: sel sorted_filter retained_def contains_iff_sublist list_ex_iff intro!: filter_cong)
qed

section \<open>Isolation of the tests\<close>

text \<open>Events of the manager itself: no request to the daemon, no change of the logger's mode.\<close>

definition aside :: "mgr_ev \<Rightarrow> bool" where
  "aside ev \<longleftrightarrow> accepted_request ev = None \<and> \<not> mode_op ev"

lemma aside_simps [simp]:
  "aside (Runner e)" "aside (Disk d)" "aside (Connect c)" "aside (Delay n)" "aside (Deadline b)"
  "aside (Printed s)" "aside (Logging (LogRecord l t))" "aside (Setup w u)"
  by (simp_all add: aside_def)

lemma aside_accepted: "list_all aside es \<Longrightarrow> accepted es = []"
  by (induction es) (auto simp: aside_def)

lemma only_as_type: "only aside (as_type v)"
  unfolding as_type_def new_client_def old_client_def mgr_calls
  by (cases v) (auto intro!: only_rules)

lemma only_new_client: "only aside new_client"
  unfolding new_client_def mgr_calls by (intro only_rules) simp_all

lemma only_log_result: "only (\<lambda>_. True) (maybe_log_test_result logger name result)"
  unfolding maybe_log_test_result_def log_test_result_def write_str_def fs_call_def
  by (intro only_rules) simp_all

lemma init_ok:
  assumes "init_default_settings env tr = (Ok (), tr')"
  shows "default_settings tr' \<noteq> None"
  using assms
  by (auto simp: init_default_settings_def set_default_settings_def run_simps mgr_calls prog_defs
      default_settings_append split: if_splits sum.splits)

lemma default_settings_stays: "default_settings tr = Some s \<Longrightarrow> default_settings (tr @ es) = Some s"
  by (simp add: default_settings_append)

lemma only_conclude: "only (\<lambda>ev. accepted_request ev = None) (conclude opts test out)"
  unfolding conclude_def only_if_def by (intro only_rules only_log_result) simp_all

lemma accepted_none: "list_all (\<lambda>ev. accepted_request ev = None) es \<Longrightarrow> accepted es = []"
  by (induction es) auto

lemma run_one_stages:
  assumes "run_one opts t env tr = (Ok out, tr')"
  obtains tr1 tr2 tr3 where "prepare opts t env tr = (Ok (), tr1)"
    "run_test (ro_debug_rpc opts) (tm_func t) (tm_name t) env tr1 = (Ok out, tr2)"
    "clean_up opts t out env tr2 = (Ok (), tr3)" "conclude opts t out env tr3 = (Ok (), tr')"
  using assms unfolding run_one_def
  by (elim seqE_OkE bindE_OkE) (auto simp: ret_def map_err_def split: prod.splits res.splits)

lemma prepare_ok:
  assumes "prepare opts t env tr = (Ok (), tr1)" "tm_client_version t = VersionNew"
  shows "default_settings tr1 \<noteq> None"
  using assms unfolding prepare_def
  by (elim seqE_OkE) (auto simp: only_if_def log_msg_def emit_def ret_def default_settings_append
      dest!: init_ok split: if_splits)

text \<open>
  C6. Isolation: after a test of the current app that failed or did not opt out of the clean-up, if
  the loop goes on at all, the requests the daemon accepted so far leave it with the settings that were
  read before the first such test, whatever the tests did to them, with two exceptions: the relay
  settings are set to constants (the country Sweden, any tunnel protocol, default constraints), and no
  app is left in the split tunnel.
\<close>

theorem settings_are_default_after_test:
  assumes "run_one opts t env tr = (Ok out, tr')" "only (\<lambda>_. True) (tm_func t)"
    and "tm_client_version t = VersionNew" "tm_cleanup t \<or> verdict_failed (to_result out)"
    and "management_settings apply_request"
  shows "\<exists>s. default_settings tr' = Some s \<and> fold apply_request (accepted tr') cur =
     s\<lparr>s_relay_settings := Some (NormalRelays
          \<lparr>rc_location = Only (LocationC (Country ''se'')), rc_tunnel_protocol = AnyC, rc_openvpn = AnyC,
           rc_wireguard = \<lparr>wc_port = AnyC, wc_use_multihop = False, wc_entry_location = AnyC\<rparr>\<rparr>),
        s_split_tunnel_apps := []\<rparr>"
proof -
  obtain tr1 tr2 tr3 where st: "prepare opts t env tr = (Ok (), tr1)"
    "run_test (ro_debug_rpc opts) (tm_func t) (tm_name t) env tr1 = (Ok out, tr2)"
    "clean_up opts t out env tr2 = (Ok (), tr3)" "conclude opts t out env tr3 = (Ok (), tr')"
    using assms(1) by (rule run_one_stages)
  obtain es1 where es1: "tr2 = tr1 @ es1"
    using only_run_test [OF assms(2)] st(2) by (rule only_run) simp_all
  obtain s where s: "default_settings tr1 = Some s"
    using prepare_ok [OF st(1) assms(3)] by blast
  have "seqE new_client (cleanup_after_test (ro_state_auto opts) (ro_obfuscation_off opts)) env tr2 = (Ok (), tr3)"
    using st(3) assms(3,4) by (simp add: clean_up_def only_if_def needs_cleanup_def)
  then obtain tr2' where cl: "(new_client :: (anyhow, unit) mgr) env tr2 = (Ok (), tr2')"
    "cleanup_after_test (ro_state_auto opts) (ro_obfuscation_off opts) env tr2' = (Ok (), tr3)"
    by (rule seqE_OkE) simp
  obtain es2 where es2: "tr2' = tr2 @ es2"
    using only_new_client cl(1) by (rule only_run)
  have s2: "default_settings tr2' = Some s"
    using s by (simp add: es1 es2 default_settings_append)
  obtain es3 where es3: "tr3 = tr2' @ es3" "\<And>cur. fold apply_request (accepted es3) cur = cleaned s"
    using cleanup_ok [OF s2 cl(2)] cleans_up_settings [OF assms(5)] by metis
  obtain es4 where es4: "tr' = tr3 @ es4" "accepted es4 = []"
    using only_conclude st(4) by (rule only_run) (simp add: accepted_none)
  show ?thesis
    using s2
    by (simp add: es3 es4 default_settings_append) (simp add: cleaned_def swedish_relays_def default_wireguard_def)
qed

section \<open>Buffered logs\<close>

lemma aside_not_mode: "aside ev \<Longrightarrow> \<not> mode_op ev"
  by (simp add: aside_def)

lemma only_init: "only (\<lambda>ev. \<not> mode_op ev) init_default_settings"
  unfolding init_default_settings_def set_default_settings_def mgr_calls
  by (intro only_rules) simp_all

lemma only_clean_up: "only (\<lambda>ev. \<not> mode_op ev) (clean_up opts t out)"
  unfolding clean_up_def only_if_def
  by (intro only_rules only_cleanup only_weaken [OF only_new_client] aside_not_mode)

lemma prepare_buffers:
  assumes "prepare opts t env tr = (Ok (), tr1)" "ro_print_failed_tests_only opts"
  obtains es where "tr1 = tr @ es @ [Logging (StoreRecords True)]" "\<not> list_ex mode_op es"
    "Logging (LogRecord LInfo (''Running '' @ tm_name t)) \<in> set es"
proof -
  let ?m = "seqE (as_type (tm_client_version t)) (only_if (tm_client_version t = VersionNew) init_default_settings)
     :: (anyhow, unit) mgr"
  let ?log = "Logging (LogRecord LInfo (''Running '' @ tm_name t))"
  have o: "only (\<lambda>ev. \<not> mode_op ev) ?m"
    unfolding only_if_def
    by (intro only_rules only_init only_weaken [OF only_as_type] aside_not_mode)
  have "seqE ?m (seqE (emit ?log) (emit (Logging (StoreRecords True)))) env tr = (Ok (), tr1)"
    using assms by (simp add: prepare_def only_if_def seqE_def bindE_assoc log_msg_def)
  then obtain tr0 where tr0: "?m env tr = (Ok (), tr0)" "tr1 = tr0 @ [?log, Logging (StoreRecords True)]"
    by (rule seqE_OkE) (simp add: run_simps, simp add: emit_def)
  obtain es where "tr0 = tr @ es" "list_all (\<lambda>ev. \<not> mode_op ev) es"
    using o tr0(1) by (rule only_run)
  with tr0 show ?thesis by (intro that [of "es @ [?log]"]) (simp_all add: list_all_iff list_ex_iff)
qed

lemma conclude_unbuffers:
  assumes "conclude opts t out env tr = (Ok (), tr')" "ro_print_failed_tests_only opts"
  obtains es where "tr' = tr @ [Logging (if verdict_failed (to_result out) then PrintStoredRecords else FlushRecords),
      Logging (StoreRecords False)] @ es" "list_all (\<lambda>ev. \<not> is_logging ev) es"
proof -
  let ?m = "seqE (for_each (\<lambda>line. emit (Printed line)) (print_output (ro_debug_test opts) out))
     (map_err (\<lambda>e. WithContext ''Failed to log test result'' (FromSummary e))
        (disk (maybe_log_test_result (ro_summary_logger opts) (tm_name t) (summary_result (to_result out)))))"
  have o: "only (\<lambda>ev. \<not> is_logging ev) ?m"
    by (intro only_rules only_log_result) simp_all
  have run: "?m env (tr @ [Logging (if verdict_failed (to_result out) then PrintStoredRecords else FlushRecords),
      Logging (StoreRecords False)]) = (Ok (), tr')"
    using assms by (simp add: conclude_def only_if_def seqE_def bindE_assoc)
      (cases "verdict_failed (to_result out)"; simp add: run_simps flip: seqE_def)
  obtain es where "tr' = (tr @ [Logging (if verdict_failed (to_result out) then PrintStoredRecords else FlushRecords),
      Logging (StoreRecords False)]) @ es" "list_all (\<lambda>ev. \<not> is_logging ev) es"
    using o run by (rule only_run)
  then show ?thesis by (intro that [of es]) simp_all
qed

lemma logged_none: "list_all (\<lambda>ev. \<not> is_logging ev) es \<Longrightarrow> logged enabled es = [] \<and> \<not> list_ex mode_op es"
  by (induction enabled es rule: logged.induct) auto

text \<open>
  C17. Printing failed tests only: the records that were logged while a test and its clean-up ran are
  held back and then printed if the test failed and dropped if it passed; records before the test are
  shown live; and the logger is left unbuffered and empty for the next test.
\<close>

theorem buffered_log_is_shown_iff_failed:
  assumes "run_one opts t env tr = (Ok out, tr')" "ro_print_failed_tests_only opts"
    and "only (\<lambda>ev. \<not> mode_op ev) (tm_func t)"
    and "logger_run enabled tr logger_init = (\<lparr>buffer = False, stored_records = []\<rparr>, shown)"
  shows "\<exists>before testing cleaning.
     prepare opts t env tr = (Ok (), tr @ before) \<and>
     run_test (ro_debug_rpc opts) (tm_func t) (tm_name t) env (tr @ before) = (Ok out, tr @ before @ testing) \<and>
     clean_up opts t out env (tr @ before @ testing) = (Ok (), tr @ before @ testing @ cleaning) \<and>
     conclude opts t out env (tr @ before @ testing @ cleaning) = (Ok (), tr') \<and>
     Logging (LogRecord LInfo (''Running '' @ tm_name t)) \<in> set before \<and>
     logger_run enabled tr' logger_init = (\<lparr>buffer = False, stored_records = []\<rparr>,
       shown @ map (\<lambda>(l, s). EnvLogger l s) (logged enabled before) @
       (if verdict_failed (to_result out) then map (\<lambda>(l, s). Println l s) (logged enabled (testing @ cleaning)) else []))"
proof -
  obtain tr1 tr2 tr3 where st: "prepare opts t env tr = (Ok (), tr1)"
    "run_test (ro_debug_rpc opts) (tm_func t) (tm_name t) env tr1 = (Ok out, tr2)"
    "clean_up opts t out env tr2 = (Ok (), tr3)" "conclude opts t out env tr3 = (Ok (), tr')"
    using assms(1) by (rule run_one_stages)
  obtain es0 where es0: "tr1 = tr @ es0 @ [Logging (StoreRecords True)]" "\<not> list_ex mode_op es0"
    "Logging (LogRecord LInfo (''Running '' @ tm_name t)) \<in> set es0"
    using st(1) assms(2) by (rule prepare_buffers)
  obtain es1 where es1: "tr2 = tr1 @ es1" "list_all (\<lambda>ev. \<not> mode_op ev) es1"
    using only_run_test [OF assms(3)] st(2) by (rule only_run) simp_all
  obtain es2 where es2: "tr3 = tr2 @ es2" "list_all (\<lambda>ev. \<not> mode_op ev) es2"
    using only_clean_up st(3) by (rule only_run)
  obtain es3 where es3: "tr' = tr3 @ [Logging (if verdict_failed (to_result out) then PrintStoredRecords else FlushRecords),
      Logging (StoreRecords False)] @ es3" "list_all (\<lambda>ev. \<not> is_logging ev) es3"
    using st(4) assms(2) by (rule conclude_unbuffers)
  have quiet: "\<not> list_ex mode_op (es1 @ es2)" "\<not> list_ex mode_op es3" "logged enabled es3 = []"
    using es1(2) es2(2) logged_none [OF es3(2)] by (auto simp: list_ex_iff list_all_iff)
  have "logger_run enabled tr' logger_init = (\<lparr>buffer = False, stored_records = []\<rparr>,
       shown @ map (\<lambda>(l, s). EnvLogger l s) (logged enabled es0) @
       (if verdict_failed (to_result out) then map (\<lambda>(l, s). Println l s) (logged enabled (es1 @ es2)) else []))"
    unfolding es3(1) es2(1) es1(1) es0(1) append.assoc
    using assms(4) logger_run_quiet [OF es0(2)] logger_run_quiet [OF quiet(1)] logger_run_quiet [OF quiet(2)] quiet(3)
    by (simp add: store_records_def print_stored_records_def flush_records_def)
  then show ?thesis
    using st es0 es1 es2 es3
    by (intro exI [of _ "es0 @ [Logging (StoreRecords True)]"] exI [of _ es1] exI [of _ es2]) simp
qed

section \<open>The result of a run\<close>

lemma executes_all_pass:
  assumes "executes opts env ts tr res tr'" "names verdict_failed res = []"
  shows "map fst res = ts \<and> list_all (\<lambda>(t, v). \<not> verdict_failed v) res"
proof -
  from assms(2) have pass: "list_all (\<lambda>(t, v). \<not> verdict_failed v) res"
    by (induction res) (auto split: if_splits)
  with executes_prefix [OF assms(1)] show ?thesis by auto
qed

lemma ok_run_executes:
  assumes "run to_lowercase opts config pty_path test_filters skip_wait inventory env tr = (Ok (), tr')"
  shows "\<exists>tr1 res tr2. executes opts env (select_tests to_lowercase test_filters inventory) tr1 res tr2 \<and>
     map fst res = select_tests to_lowercase test_filters inventory \<and>
     list_all (\<lambda>(t, v). \<not> verdict_failed v) res"
proof -
  let ?ts = "select_tests to_lowercase test_filters inventory"
  from assms obtain tr1 st tr2 tr3 where loop: "run_loop opts ?ts run_start env tr1 = (Ok st, tr2)"
    and ok: "of_result (final_result st) env tr3 = (Ok (), tr')"
    unfolding run_def by (elim seqE_OkE bindE_OkE) blast
  obtain res where res: "executes opts env ?ts tr1 res tr2" "st = tally res run_start"
    using run_loop_executes [OF loop] by blast
  from ok have "final_result st = Inr ()"
    by (auto simp: of_result_def prog_defs split: sum.splits)
  then have "names verdict_failed res = []"
    by (simp add: res(2) tally_fields)
  with executes_all_pass [OF res(1)] res(1) show ?thesis by blast
qed

text \<open>
  C13. A green run: when \<open>run\<close> returns \<open>Ok\<close>, every selected test was run, in the order of the
  selection, and every one of them passed.
\<close>

theorem ok_run_passed_all_tests:
  assumes "run to_lowercase opts config pty_path test_filters skip_wait inventory env tr = (Ok (), tr')"
  shows "\<exists>tr1 res tr2. executes opts env (select_tests to_lowercase test_filters inventory) tr1 res tr2 \<and>
     map fst res = select_tests to_lowercase test_filters inventory \<and>
     list_all (\<lambda>(t, v). \<not> verdict_failed v) res"
  using assms by (rule ok_run_executes)

text \<open>Where the result of a test appears: on the console or in the summary.\<close>

fun reports :: "mgr_ev \<Rightarrow> bool" where
  "reports (Printed s) = True"
| "reports (Disk d) = True"
| "reports (Logging PrintStoredRecords) = True"
| "reports _ = False"

lemma only_cleanup_silent: "only (\<lambda>ev. \<not> reports ev) (cleanup_after_test a off)"
  unfolding cleanup_after_test_def reset_relay_settings_def disconnect_and_wait_def
    wait_for_tunnel_state_def find_next_tunnel_state_def update_relay_settings_def
    restore_settings_def grpc_context_def mgr_calls
  by (intro only_rules) simp_all

lemma only_clean_up_silent: "only (\<lambda>ev. \<not> reports ev) (clean_up opts t out)"
  unfolding clean_up_def only_if_def new_client_def mgr_calls
  by (intro only_rules only_cleanup_silent) simp_all

text \<open>
  C39. A failing clean-up hides the test: when the clean-up after a test returns an error, the whole
  run ends with that error before the verdict of the test, passed or failed, is printed, before the
  records held back are shown and before the summary is written; the remaining tests are not run.
\<close>

theorem failed_cleanup_hides_verdict:
  assumes "prepare opts t env tr = (Ok (), tr1)"
    and "run_test (ro_debug_rpc opts) (tm_func t) (tm_name t) env tr1 = (Ok out, tr2)"
    and "clean_up opts t out env tr2 = (Err e, tr3)"
  shows "run_loop opts (t # ts) st env tr = (Err e, tr3) \<and>
     (\<exists>es. tr3 = tr2 @ es \<and> \<not> list_ex reports es)"
proof
  show "run_loop opts (t # ts) st env tr = (Err e, tr3)"
    using assms by (simp add: run_one_def seqE_def bindE_def map_err_def)
  show "\<exists>es. tr3 = tr2 @ es \<and> \<not> list_ex reports es"
    using only_clean_up_silent assms(3)
    by (rule only_run) (auto simp: list_all_iff list_ex_iff)
qed

section \<open>Witnesses\<close>

definition demo_opts :: run_opts where
  "demo_opts = \<lparr>ro_print_failed_tests_only = True, ro_summary_logger = None, ro_state_auto = 0,
     ro_obfuscation_off = 0, ro_debug_rpc = \<lambda>_. ''rpc'', ro_debug_test = \<lambda>_. ''error''\<rparr>"

definition demo_logs :: log_output where
  "demo_logs = \<lparr>settings_json = Inr ''{}'', log_files = Inr []\<rparr>"

definition demo_run_env :: mgr_env where
  "demo_run_env = demo_mgr_env\<lparr>me_runner := \<lambda>_. demo_client_env\<lparr>ce_logs := \<lambda>_. Inr demo_logs\<rparr>\<rparr>"

definition demo_entry :: "string \<Rightarrow> mullvad_client_version \<Rightarrow> bool \<Rightarrow> (test_error, unit) mgr \<Rightarrow> test_entry" where
  "demo_entry name version must func = \<lparr>tm_name = name, tm_command = name, tm_client_version = version,
     tm_priority = None, tm_always_run = False, tm_must_succeed = must, tm_cleanup = False, tm_func = func\<rparr>"

definition demo_bad :: "(test_error, unit) mgr" where
  "demo_bad = seqE (log_msg LInfo ''working'') (seqE (grpc (daemon_error ''lan: '') (SetAllowLan False)) (fail PingTimeout))"

definition demo_out :: "string \<Rightarrow> test_verdict \<Rightarrow> test_output" where
  "demo_out name v = \<lparr>error_messages = (if verdict_failed v then [OutOther ''could not get logs: rpc''] else []),
     to_test_name = name, to_result = v, to_log_output = demo_logs\<rparr>"

lemmas run_eval = run_one_def prepare_def clean_up_def conclude_def only_if_def needs_cleanup_def as_type_def
  new_client_def init_default_settings_def set_default_settings_def run_test_def catch_unwind_def
  Client.try_poll_output_def get_mullvad_app_logs_def rpc_def rpc_plain_def runner_def embed_def
  map_filter_def panic_as_string_def verdict_failed_def print_output_def failure_lines_def
  maybe_log_test_result_def disk_def the_disk_ev_def
  cleanup_after_test_def reset_relay_settings_def disconnect_and_wait_def wait_for_tunnel_state_def
  find_next_tunnel_state_def try_from_state_def of_result_def update_relay_settings_def
  restore_settings_def grpc_context_def unwrap_opt_def mgr_calls prog_defs state_item_def
  demo_opts_def demo_logs_def demo_run_env_def demo_mgr_env_def demo_client_env_def demo_settings_def
  demo_entry_def demo_bad_def demo_out_def Let_def

lemma demo_run_bad:
  "fst (run_one demo_opts (demo_entry ''a'' VersionNew True demo_bad) demo_run_env []) =
     Ok (demo_out ''a'' (Inr (Inl PingTimeout)))"
  by (simp add: run_eval)

lemma demo_run_bad_eq:
  "run_one demo_opts (demo_entry ''a'' VersionNew True demo_bad) demo_run_env [] =
     (Ok (demo_out ''a'' (Inr (Inl PingTimeout))),
      snd (run_one demo_opts (demo_entry ''a'' VersionNew True demo_bad) demo_run_env []))"
  using demo_run_bad by (simp add: prod_eq_iff)

lemma demo_bad_quiet: "only (\<lambda>ev. \<not> mode_op ev) (tm_func (demo_entry name version must demo_bad))"
  unfolding demo_entry_def demo_bad_def mgr_calls by (simp, intro only_rules) simp_all

theorem settings_are_default_after_test_witness:
  "\<exists>s. default_settings (snd (run_one demo_opts (demo_entry ''a'' VersionNew True demo_bad) demo_run_env [])) = Some s \<and>
     fold setting_after (accepted (snd (run_one demo_opts (demo_entry ''a'' VersionNew True demo_bad) demo_run_env [])))
       demo_settings =
     s\<lparr>s_relay_settings := Some (NormalRelays
          \<lparr>rc_location = Only (LocationC (Country ''se'')), rc_tunnel_protocol = AnyC, rc_openvpn = AnyC,
           rc_wireguard = \<lparr>wc_port = AnyC, wc_use_multihop = False, wc_entry_location = AnyC\<rparr>\<rparr>),
        s_split_tunnel_apps := []\<rparr>"
  by (rule settings_are_default_after_test [OF demo_run_bad_eq _ _ _ daemon.management_settings_axioms])
     (auto simp: demo_entry_def demo_out_def verdict_failed_def
       intro: only_weaken [OF demo_bad_quiet [unfolded demo_entry_def, simplified]])

theorem buffered_log_is_shown_iff_failed_witness:
  "\<exists>before testing cleaning.
     run_test (ro_debug_rpc demo_opts) demo_bad ''a'' demo_run_env before =
       (Ok (demo_out ''a'' (Inr (Inl PingTimeout))), before @ testing) \<and>
     logger_run (\<lambda>_ _. True) (snd (run_one demo_opts (demo_entry ''a'' VersionNew True demo_bad) demo_run_env []))
       logger_init = (\<lparr>buffer = False, stored_records = []\<rparr>,
       map (\<lambda>(l, s). EnvLogger l s) (logged (\<lambda>_ _. True) before) @
       map (\<lambda>(l, s). Println l s) (logged (\<lambda>_ _. True) (testing @ cleaning)))"
  using buffered_log_is_shown_iff_failed [OF demo_run_bad_eq _ demo_bad_quiet, of "\<lambda>_ _. True" "[]"]
  by (auto simp: logger_init_def demo_opts_def demo_out_def verdict_failed_def demo_entry_def)

lemma demo_loop:
  "run_loop demo_opts [demo_entry ''a'' VersionNone False demo_bad, demo_entry ''b'' VersionNone True (panic ''p''),
     demo_entry ''c'' VersionNone False (ret ())] run_start demo_run_env [] =
   (Ok \<lparr>final_result = Inl (WithContext ''test panicked'' (FromPanic ''p'')), successful_tests = [],
        failed_tests = [''a'', ''b'']\<rparr>,
    snd (run_loop demo_opts [demo_entry ''a'' VersionNone False demo_bad, demo_entry ''b'' VersionNone True (panic ''p''),
     demo_entry ''c'' VersionNone False (ret ())] run_start demo_run_env []))"
  by (simp add: run_eval run_start_def record_verdict_def)

theorem run_loop_tallies_verdicts_witness:
  "\<exists>res. names verdict_failed res = [''a'', ''b''] \<and> names (\<lambda>v. \<not> verdict_failed v) res = [] \<and>
     executes demo_opts demo_run_env [demo_entry ''a'' VersionNone False demo_bad,
       demo_entry ''b'' VersionNone True (panic ''p''), demo_entry ''c'' VersionNone False (ret ())] []
       res (snd (run_loop demo_opts [demo_entry ''a'' VersionNone False demo_bad,
         demo_entry ''b'' VersionNone True (panic ''p''), demo_entry ''c'' VersionNone False (ret ())]
         run_start demo_run_env []))"
  using run_loop_tallies_verdicts [OF demo_loop] by auto

definition demo_test_config :: test_config where
  "demo_test_config = \<lparr>account_number = ''1234'', tc_artifacts_dir = ''/opt/testing'', current_app_filename = ''app.deb'',
     previous_app_filename = ''old.deb'', ui_e2e_tests_filename = ''app-e2e-tests'', tc_mullvad_host = ''mullvad.net'',
     host_bridge_name = ''br-mullvadtest''\<rparr>"

lemma demo_run_ok:
  "run id demo_opts demo_test_config ''/dev/pts/1'' [''a''] False
     [demo_entry ''ab'' VersionNone False (ret ()), demo_entry ''b'' VersionNone True (panic ''p'')] demo_run_env [] =
   (Ok (), snd (run id demo_opts demo_test_config ''/dev/pts/1'' [''a''] False
     [demo_entry ''ab'' VersionNone False (ret ()), demo_entry ''b'' VersionNone True (panic ''p'')] demo_run_env []))"
  by (simp add: run_eval run_def run_start_def record_verdict_def select_tests_def retained_def priority_key_def
      setup_call_def report_def init_test_config_def peek_def)

theorem ok_run_passed_all_tests_witness:
  "\<exists>tr1 res tr2. executes demo_opts demo_run_env (select_tests id [''a'']
     [demo_entry ''ab'' VersionNone False (ret ()), demo_entry ''b'' VersionNone True (panic ''p'')]) tr1 res tr2 \<and>
     list_all (\<lambda>(t, v). \<not> verdict_failed v) res"
  using ok_run_passed_all_tests [OF demo_run_ok] by blast

definition demo_stuck_env :: mgr_env where
  "demo_stuck_env = demo_run_env\<lparr>me_unit := \<lambda>_ req. if req = DisconnectTunnel then Inl \<lparr>st_display = ''down'', st_debug = ''down'', st_message = ''down'', st_code = 14\<rparr> else Inr ()\<rparr>"

theorem failed_cleanup_hides_verdict_witness:
  "\<exists>tr3. run_loop demo_opts [demo_entry ''a'' VersionNew True demo_bad] run_start demo_stuck_env [] =
     (Err (FromTest (DaemonError ''failed to begin disconnecting: down'')), tr3)"
proof -
  let ?t = "demo_entry ''a'' VersionNew True demo_bad"
  let ?out = "demo_out ''a'' (Inr (Inl PingTimeout))"
  let ?p = "prepare demo_opts ?t demo_stuck_env []"
  let ?r = "run_test (ro_debug_rpc demo_opts) (tm_func ?t) (tm_name ?t) demo_stuck_env (snd ?p)"
  let ?c = "clean_up demo_opts ?t ?out demo_stuck_env (snd ?r)"
  have "?p = (Ok (), snd ?p)" "?r = (Ok ?out, snd ?r)"
    "?c = (Err (FromTest (DaemonError ''failed to begin disconnecting: down'')), snd ?c)"
    by (simp_all add: run_eval demo_stuck_env_def daemon_error_def)
  from failed_cleanup_hides_verdict [OF this] show ?thesis by blast
qed

end
