(* ===== verification/Vm_Network.thy ===== *)
theory Vm_Network
  imports Host
begin

text \<open>
  \<open>test-manager/src/vm/network/linux.rs\<close>, \<open>vm/util.rs\<close> and \<open>vm/logging.rs\<close>: the virtual network that the
  manager builds on a Linux host for the guest (bridge, NAT, dummy hosts, WireGuard peer, DHCP server,
  TAP device), finding the guest's address in the log of the DHCP server, and finding the path of the
  serial device in the output of the VM.

  The regular expressions of the code are applied by the crate \<open>regex\<close>; a compiled expression is a
  parameter here, the function from a line to its first capture group.  The lines of a child process
  are those that appear before the caller's time limit.
\<close>

section \<open>Addresses and names\<close>

definition show_ip :: "byte \<times> byte \<times> byte \<times> byte \<Rightarrow> string" where
  "show_ip = (\<lambda>(a, b, c, d). show_v4 a b c d)"

definition TEST_SUBNET :: "(byte \<times> byte \<times> byte \<times> byte) \<times> nat" where
  "TEST_SUBNET = ((172, 29, 1, 1), 24)"
definition TEST_SUBNET_DHCP_FIRST :: "byte \<times> byte \<times> byte \<times> byte" where "TEST_SUBNET_DHCP_FIRST = (172, 29, 1, 2)"
definition TEST_SUBNET_DHCP_LAST :: "byte \<times> byte \<times> byte \<times> byte" where "TEST_SUBNET_DHCP_LAST = (172, 29, 1, 128)"
definition BRIDGE_NAME :: string where "BRIDGE_NAME = ''br-mullvadtest''"
definition TAP_NAME :: string where "TAP_NAME = ''tap-mullvadtest''"
definition DUMMY_LAN_INTERFACE_NAME :: string where "DUMMY_LAN_INTERFACE_NAME = ''lan-mullvadtest''"
definition DUMMY_LAN_INTERFACE_IP :: "byte \<times> byte \<times> byte \<times> byte" where "DUMMY_LAN_INTERFACE_IP = (172, 29, 1, 200)"
definition DUMMY_INET_INTERFACE_NAME :: string where "DUMMY_INET_INTERFACE_NAME = ''net-mullvadtest''"
definition DUMMY_INET_INTERFACE_IP :: "byte \<times> byte \<times> byte \<times> byte" where "DUMMY_INET_INTERFACE_IP = (1, 3, 3, 7)"
definition CUSTOM_TUN_REMOTE_PRIVKEY :: string where
  "CUSTOM_TUN_REMOTE_PRIVKEY = ''gLvQuyqazziyf+pUCAFUgTnWIwn6fPE5MOReOqPEGHU=''"
definition CUSTOM_TUN_LOCAL_PUBKEY :: string where
  "CUSTOM_TUN_LOCAL_PUBKEY = ''h6elqt3dfamtS/p9jxJ8bIYs8UW9YHfTFhvx0fabTFo=''"
definition CUSTOM_TUN_REMOTE_REAL_ADDR :: "byte \<times> byte \<times> byte \<times> byte" where
  "CUSTOM_TUN_REMOTE_REAL_ADDR = (172, 29, 1, 200)"
definition CUSTOM_TUN_REMOTE_REAL_PORT :: nat where "CUSTOM_TUN_REMOTE_REAL_PORT = 51820"
definition CUSTOM_TUN_LOCAL_TUN_ADDR :: "byte \<times> byte \<times> byte \<times> byte" where
  "CUSTOM_TUN_LOCAL_TUN_ADDR = (192, 168, 15, 2)"
definition CUSTOM_TUN_REMOTE_TUN_ADDR :: "byte \<times> byte \<times> byte \<times> byte" where
  "CUSTOM_TUN_REMOTE_TUN_ADDR = (192, 168, 15, 1)"
definition CUSTOM_TUN_GATEWAY :: "byte \<times> byte \<times> byte \<times> byte" where
  "CUSTOM_TUN_GATEWAY = CUSTOM_TUN_REMOTE_TUN_ADDR"
definition NON_TUN_GATEWAY :: "byte \<times> byte \<times> byte \<times> byte" where "NON_TUN_GATEWAY = (172, 29, 1, 1)"
definition CUSTOM_TUN_INTERFACE_NAME :: string where "CUSTOM_TUN_INTERFACE_NAME = ''wg-relay0''"

definition test_subnet :: string where
  "test_subnet = show_ip (fst TEST_SUBNET) @ ''/'' @ show_nat (snd TEST_SUBNET)"

datatype network_error =
    IpStart io_error | IpFailed int | SysctlStart io_error | SysctlFailed int
  | NftStart io_error | NftRun io_error | NftFailed int
  | CreateWireguardConfig io_error | WriteWireguardConfig io_error | WgStart io_error | WgFailed int
  | DnsmasqStart io_error | CreateDnsmasqFile io_error

section \<open>Commands\<close>

text \<open>\<open>code().unwrap()\<close> on a failed exit status: a process that a signal killed has no code.\<close>

definition check_exit :: "(int \<Rightarrow> 'e) \<Rightarrow> exit_status \<Rightarrow> ('e, unit) host" where
  "check_exit failed st = (if status_success st then ret ()
     else case status_code st of Some c \<Rightarrow> fail (failed c) | None \<Rightarrow> panic ''unwrap'')"

definition run_checked :: "(io_error \<Rightarrow> 'e) \<Rightarrow> (int \<Rightarrow> 'e) \<Rightarrow> command \<Rightarrow> ('e, unit) host" where
  "run_checked start failed cmd = bindE (cmd_output start cmd) (\<lambda>out. check_exit failed (out_status out))"

definition run_ip_cmd :: "string list \<Rightarrow> (network_error, unit) host" where
  "run_ip_cmd args = run_checked IpStart IpFailed (command_new ''ip'' args)"

definition enable_forwarding :: "(network_error, unit) host" where
  "enable_forwarding = run_checked SysctlStart SysctlFailed (command_new ''sysctl'' [''net.ipv4.ip_forward=1''])"

definition run_nft :: "string \<Rightarrow> (network_error, unit) host" where
  "run_nft input =
    (let cmd = command_new ''nft'' [''-f'', ''-'']
     in seqE (cmd_spawn NftStart cmd)
       (seqE (expect ''write to nft failed'' (sys_call id ''stdin'' [input]))
       (bindE (cmd_wait_output NftRun cmd) (\<lambda>out. check_exit NftFailed (out_status out)))))"

definition tempfile :: "(io_error \<Rightarrow> 'e) \<Rightarrow> ('e, string) host" where
  "tempfile wrap = query_call wrap ''TempFile::new'' []"

definition write_tempfile :: "string \<Rightarrow> string \<Rightarrow> (network_error, unit) host" where
  "write_tempfile path data =
     fs_call WriteWireguardConfig (WriteAll path \<lparr>oo_create = True, oo_truncate = True, oo_append = False\<rparr> data)"

definition unlines :: "string list \<Rightarrow> string" where
  "unlines ls = join [CHR 0x0A] ls"

definition wg_config :: string where
  "wg_config = unlines
    [[], [], ''[Interface]'',
     ''PrivateKey = '' @ CUSTOM_TUN_REMOTE_PRIVKEY,
     ''ListenPort = '' @ show_nat CUSTOM_TUN_REMOTE_REAL_PORT,
     [], ''[Peer]'',
     ''PublicKey = '' @ CUSTOM_TUN_LOCAL_PUBKEY,
     ''AllowedIPs = '' @ show_ip CUSTOM_TUN_LOCAL_TUN_ADDR, [], []]"

definition create_local_wireguard_peer :: "(network_error, unit) host" where
  "create_local_wireguard_peer =
     seqE (run_ip_cmd [''link'', ''add'', ''dev'', CUSTOM_TUN_INTERFACE_NAME, ''type'', ''wireguard''])
    (seqE (run_ip_cmd [''addr'', ''add'', ''dev'', CUSTOM_TUN_INTERFACE_NAME, show_ip CUSTOM_TUN_REMOTE_TUN_ADDR,
             ''peer'', show_ip CUSTOM_TUN_LOCAL_TUN_ADDR])
    (bindE (tempfile CreateWireguardConfig) (\<lambda>path.
     seqE (write_tempfile path wg_config)
    (seqE (run_checked WgStart WgFailed (command_new ''wg'' [''setconf'', CUSTOM_TUN_INTERFACE_NAME, path]))
     (run_ip_cmd [''link'', ''set'', ''dev'', CUSTOM_TUN_INTERFACE_NAME, ''up''])))))"

definition dnsmasq_command :: "string \<Rightarrow> string \<Rightarrow> command" where
  "dnsmasq_command leases_file pid_file = command_new ''dnsmasq''
    ([''-i'', BRIDGE_NAME, ''-F'', show_ip TEST_SUBNET_DHCP_FIRST @ '','' @ show_ip TEST_SUBNET_DHCP_LAST,
      ''-i'', BRIDGE_NAME, ''--no-daemon''] @ [''-l'', leases_file] @ [''-x'', pid_file])"

definition start_dnsmasq :: "(network_error, unit) host" where
  "start_dnsmasq =
     bindE (tempfile CreateDnsmasqFile) (\<lambda>leases_file.
     bindE (tempfile CreateDnsmasqFile) (\<lambda>pid_file.
     cmd_spawn DnsmasqStart (dnsmasq_command leases_file pid_file)))"

definition nat_rules :: string where
  "nat_rules = unlines
    [[], ''table ip mullvad_test_nat {'', ''    chain POSTROUTING {'',
     ''        type nat hook postrouting priority srcnat; policy accept;'',
     ''        ip saddr '' @ test_subnet @ '' ip daddr != '' @ test_subnet @ '' counter masquerade'',
     ''    }'', ''}'']"

definition setup_test_network :: "(network_error, unit) host" where
  "setup_test_network =
     seqE enable_forwarding
    (seqE (run_ip_cmd [''link'', ''add'', BRIDGE_NAME, ''type'', ''bridge''])
    (seqE (run_ip_cmd [''addr'', ''add'', ''dev'', BRIDGE_NAME, test_subnet])
    (seqE (run_ip_cmd [''link'', ''set'', ''dev'', BRIDGE_NAME, ''up''])
    (seqE (run_nft nat_rules)
    (seqE (run_ip_cmd [''link'', ''add'', DUMMY_LAN_INTERFACE_NAME, ''type'', ''dummy''])
    (seqE (run_ip_cmd [''addr'', ''add'', ''dev'', DUMMY_LAN_INTERFACE_NAME, show_ip DUMMY_LAN_INTERFACE_IP])
    (seqE (run_ip_cmd [''link'', ''add'', DUMMY_INET_INTERFACE_NAME, ''type'', ''dummy''])
    (seqE (run_ip_cmd [''addr'', ''add'', ''dev'', DUMMY_INET_INTERFACE_NAME, show_ip DUMMY_INET_INTERFACE_IP])
    (seqE create_local_wireguard_peer
    (seqE start_dnsmasq
    (seqE (run_ip_cmd [''tuntap'', ''add'', TAP_NAME, ''mode'', ''tap''])
    (seqE (run_ip_cmd [''link'', ''set'', TAP_NAME, ''master'', BRIDGE_NAME])
     (run_ip_cmd [''link'', ''set'', TAP_NAME, ''up''])))))))))))))"

section \<open>Searching the output of a process\<close>

definition child_lines :: "string \<Rightarrow> ('e, (io_error + string) list) host" where
  "child_lines stream = perform (\<lambda>env tr. fe_lines (he_files env) tr stream) (ReadLines stream)"

text \<open>\<open>captures\<close> is the compiled expression, \<open>parse\<close> is \<open>IpAddr::from_str\<close>.\<close>

fun first_dhcp_ack_loop :: "(string \<Rightarrow> string option) \<Rightarrow> (string \<Rightarrow> ip_addr option) \<Rightarrow> (io_error + string) list \<Rightarrow> ip_addr option" where
  "first_dhcp_ack_loop captures parse [] = None"
| "first_dhcp_ack_loop captures parse (Inl e # ls) = None"
| "first_dhcp_ack_loop captures parse (Inr line # ls) = (case captures line of
      None \<Rightarrow> first_dhcp_ack_loop captures parse ls
    | Some addr \<Rightarrow> (case parse addr of
          Some ip \<Rightarrow> Some ip
        | None \<Rightarrow> first_dhcp_ack_loop captures parse ls))"

definition first_dhcp_ack ::
  "(string \<Rightarrow> string option) \<Rightarrow> (string \<Rightarrow> ip_addr option) \<Rightarrow> ('e, ip_addr option) host" where
  "first_dhcp_ack captures parse =
     bindE (child_lines ''dnsmasq stderr'') (\<lambda>ls. ret (first_dhcp_ack_loop captures parse ls))"

datatype no_pty = NoPty

fun find_pty_loop :: "(string \<Rightarrow> string option) \<Rightarrow> (io_error + string) list \<Rightarrow> no_pty + string" where
  "find_pty_loop captures [] = Inl NoPty"
| "find_pty_loop captures (Inl e # ls) = Inl NoPty"
| "find_pty_loop captures (Inr line # ls) = (case captures line of
      Some path \<Rightarrow> Inr path
    | None \<Rightarrow> find_pty_loop captures ls)"

definition find_pty :: "(string \<Rightarrow> string option) \<Rightarrow> string \<Rightarrow> (no_pty, string) host" where
  "find_pty captures stream = bindE (child_lines stream) (\<lambda>ls. of_result (find_pty_loop captures ls))"

text \<open>\<open>forward_logs\<close>: the lines that are logged, each with the prefix.\<close>

fun forward_logs :: "string \<Rightarrow> (io_error + string) list \<Rightarrow> string list" where
  "forward_logs prefix_text [] = []"
| "forward_logs prefix_text (Inl e # ls) = []"
| "forward_logs prefix_text (Inr line # ls) = (prefix_text @ line) # forward_logs prefix_text ls"

section \<open>Lemmas\<close>

text \<open>The commands that were started, and events that report success.\<close>

fun launched_by :: "host_ev \<Rightarrow> command option" where
  "launched_by (Output cmd r) = Some cmd"
| "launched_by (Status cmd r) = Some cmd"
| "launched_by (Spawn cmd r) = Some cmd"
| "launched_by _ = None"

definition launched :: "host_ev list \<Rightarrow> command list" where
  "launched es = List.map_filter launched_by es"

lemma launched_simps [simp]:
  "launched [] = []"
  "launched (e # es) = (case launched_by e of None \<Rightarrow> launched es | Some c \<Rightarrow> c # launched es)"
  by (auto simp: launched_def map_filter_def split: option.splits)

fun succeeded :: "host_ev \<Rightarrow> bool" where
  "succeeded (Output cmd r) = (case r of Inr out \<Rightarrow> status_success (out_status out) | Inl _ \<Rightarrow> False)"
| "succeeded (WaitOutput cmd r) = (case r of Inr out \<Rightarrow> status_success (out_status out) | Inl _ \<Rightarrow> False)"
| "succeeded (Status cmd r) = (case r of Inr st \<Rightarrow> status_success st | Inl _ \<Rightarrow> False)"
| "succeeded (Spawn cmd r) = (r = Inr ())"
| "succeeded (Fs op r) = (r = Inr ())"
| "succeeded (Sys n a r) = (r = Inr ())"
| "succeeded (Query n a r) = (\<not> isl r)"
| "succeeded _ = True"

text \<open>
  A program that runs a fixed sequence of commands and stops at the first failure: \<open>runs cmds m\<close>.
  The commands after a temporary file was made depend on its name.
\<close>

definition runs :: "(command list \<Rightarrow> bool) \<Rightarrow> ('e, 'a) host \<Rightarrow> bool" where
  "runs C m \<longleftrightarrow> spec m (\<lambda>r es. \<exists>cmds. C cmds \<and>
     (case r of Ok _ \<Rightarrow> launched es = cmds \<and> list_all succeeded es
      | _ \<Rightarrow> es \<noteq> [] \<and> prefix (launched es) cmds \<and> list_all succeeded (butlast es) \<and> \<not> succeeded (last es)))"

lemma launched_append [simp]: "launched (es @ fs) = launched es @ launched fs"
  by (simp add: launched_def map_filter_def)

lemma runs_bindE:
  fixes m :: "('e, 'a) host" and f :: "'a \<Rightarrow> ('e, 'b) host"
  assumes "runs C m" "\<And>a. runs (D a) (f a)" "\<And>a. \<exists>d. D a d"
  shows "runs (\<lambda>cmds. \<exists>a c d. C c \<and> D a d \<and> cmds = c @ d) (bindE m f)"
  unfolding runs_def
proof (rule spec_bindE [OF assms(1) [unfolded runs_def]])
  fix a :: 'a and es
  assume "\<exists>cmds. C cmds \<and> (case (Ok a :: ('e, 'a) res) of Ok _ \<Rightarrow> launched es = cmds \<and> list_all succeeded es
      | _ \<Rightarrow> es \<noteq> [] \<and> prefix (launched es) cmds \<and> list_all succeeded (butlast es) \<and> \<not> succeeded (last es))"
  then have es: "C (launched es)" "list_all succeeded es" by auto
  show "spec (f a) (\<lambda>r es'. \<exists>cmds. (\<exists>a c d. C c \<and> D a d \<and> cmds = c @ d) \<and>
     (case r of Ok _ \<Rightarrow> launched (es @ es') = cmds \<and> list_all succeeded (es @ es')
      | _ \<Rightarrow> es @ es' \<noteq> [] \<and> prefix (launched (es @ es')) cmds \<and> list_all succeeded (butlast (es @ es')) \<and>
          \<not> succeeded (last (es @ es'))))"
    by (rule spec_weaken [OF assms(2) [unfolded runs_def]])
       (use es in \<open>fastforce simp: butlast_append split: res.splits\<close>)
qed (use assms(3) in \<open>fastforce\<close>)+

lemma runs_seqE:
  assumes "runs C m" "runs D k" "\<exists>d. D d"
  shows "runs (\<lambda>cmds. \<exists>c d. C c \<and> D d \<and> cmds = c @ d) (seqE m k)"
  unfolding seqE_def using runs_bindE [of C m "\<lambda>_. D" "\<lambda>_. k"] assms by simp

lemma runs_weaken: "runs C m \<Longrightarrow> (\<And>cmds. C cmds \<Longrightarrow> D cmds) \<Longrightarrow> runs D m"
  unfolding runs_def by (erule spec_weaken) blast

lemma runs_seq:
  assumes "runs (\<lambda>cmds. cmds = c) m" "runs D k" "\<exists>d. D d"
  shows "runs (\<lambda>cmds. \<exists>d. D d \<and> cmds = c @ d) (seqE m k)"
  by (rule runs_weaken [OF runs_seqE [OF assms]]) auto

text \<open>
  The same without the claim that a failure ends the program, and with a plan that may depend on the
  result: \<open>launches C m\<close>.
\<close>

definition launches :: "('a \<Rightarrow> command list \<Rightarrow> bool) \<Rightarrow> ('e, 'a) host \<Rightarrow> bool" where
  "launches C m \<longleftrightarrow> spec m (\<lambda>r es. case r of Ok a \<Rightarrow> C a (launched es)
     | _ \<Rightarrow> \<exists>a cmds. C a cmds \<and> prefix (launched es) cmds)"

lemma launches_runs: "runs C m \<Longrightarrow> launches (\<lambda>_. C) m"
  unfolding runs_def launches_def by (erule spec_weaken) (auto split: res.splits)

lemma launches_weaken: "launches C m \<Longrightarrow> (\<And>a cmds. C a cmds \<Longrightarrow> D a cmds) \<Longrightarrow> launches D m"
  unfolding launches_def by (erule spec_weaken) (auto split: res.splits)

lemma launches_map_err: "launches C m \<Longrightarrow> launches C (map_err g m)"
  unfolding launches_def by (erule spec_map_err) auto

lemma launches_ret: "launches (\<lambda>b cmds. b = a \<and> cmds = []) (ret a)"
  unfolding launches_def by (rule spec_ret) simp

lemma launches_bindE:
  fixes m :: "('e, 'a) host" and f :: "'a \<Rightarrow> ('e, 'b) host"
  assumes "launches C m" "\<And>a. launches (D a) (f a)" "\<And>a. \<exists>b d. D a b d"
  shows "launches (\<lambda>b cmds. \<exists>a c d. C a c \<and> D a b d \<and> cmds = c @ d) (bindE m f)"
  unfolding launches_def
proof (rule spec_bindE [OF assms(1) [unfolded launches_def]])
  fix a :: 'a and es
  assume "case Ok a :: ('e, 'a) res of Ok a \<Rightarrow> C a (launched es) | _ \<Rightarrow> \<exists>a cmds. C a cmds \<and> prefix (launched es) cmds"
  then have es: "C a (launched es)" by simp
  show "spec (f a) (\<lambda>r es'. case r of Ok b \<Rightarrow> \<exists>a c d. C a c \<and> D a b d \<and> launched (es @ es') = c @ d
     | _ \<Rightarrow> \<exists>b cmds. (\<exists>a c d. C a c \<and> D a b d \<and> cmds = c @ d) \<and> prefix (launched (es @ es')) cmds)"
    by (rule spec_weaken [OF assms(2) [unfolded launches_def]])
       (use es in \<open>fastforce split: res.splits\<close>)
qed (use assms(3) in \<open>fastforce simp: prefix_append\<close>)+

lemma launches_seqE:
  assumes "launches C m" "launches D k" "\<exists>b d. D b d"
  shows "launches (\<lambda>b cmds. \<exists>a c d. C a c \<and> D b d \<and> cmds = c @ d) (seqE m k)"
  unfolding seqE_def using launches_bindE [of C m "\<lambda>_. D" "\<lambda>_. k"] assms by simp

lemma launches_nothing: "only (\<lambda>e. launched_by e = None) m \<Longrightarrow> launches (\<lambda>_ cmds. cmds = []) m"
  unfolding launches_def only_def
  by (erule spec_weaken) (auto simp: launched_def map_filter_def list_all_iff filter_empty_conv split: res.splits)

lemma runs_checked: "runs (\<lambda>cmds. cmds = [cmd]) (run_checked start failed cmd)"
  unfolding runs_def run_checked_def check_exit_def cmd_output_def
  by (auto simp: status_success_def split: exit_status.splits option.splits intro!: spec_rules)

lemma runs_ip: "runs (\<lambda>cmds. cmds = [command_new ''ip'' args]) (run_ip_cmd args)"
  by (simp add: run_ip_cmd_def runs_checked)

lemma runs_forwarding: "runs (\<lambda>cmds. cmds = [command_new ''sysctl'' [''net.ipv4.ip_forward=1'']]) enable_forwarding"
  by (simp add: enable_forwarding_def runs_checked)

lemma runs_nft: "runs (\<lambda>cmds. cmds = [command_new ''nft'' [''-f'', ''-'']]) (run_nft input)"
  unfolding runs_def run_nft_def check_exit_def cmd_spawn_def cmd_wait_output_def sys_call_def Let_def
  by (auto simp: status_success_def seqE_def split: exit_status.splits option.splits intro!: spec_rules)

lemma runs_tempfile: "runs (\<lambda>cmds. cmds = []) (tempfile wrap)"
  unfolding runs_def tempfile_def query_call_def by (auto intro!: spec_rules)

lemma runs_write: "runs (\<lambda>cmds. cmds = []) (write_tempfile path data)"
  unfolding runs_def write_tempfile_def fs_call_def by (auto intro!: spec_rules)

lemma runs_spawn: "runs (\<lambda>cmds. cmds = [cmd]) (cmd_spawn wrap cmd)"
  unfolding runs_def cmd_spawn_def by (auto intro!: spec_rules)

definition ip_command :: "string list \<Rightarrow> command" where
  "ip_command args = command_new ''ip'' args"

text \<open>The commands that build the network; the arguments are the names of the temporary files.\<close>

definition wireguard_commands :: "string \<Rightarrow> command list" where
  "wireguard_commands wg =
     [ip_command [''link'', ''add'', ''dev'', CUSTOM_TUN_INTERFACE_NAME, ''type'', ''wireguard''],
      ip_command [''addr'', ''add'', ''dev'', CUSTOM_TUN_INTERFACE_NAME, show_ip CUSTOM_TUN_REMOTE_TUN_ADDR,
          ''peer'', show_ip CUSTOM_TUN_LOCAL_TUN_ADDR],
      command_new ''wg'' [''setconf'', CUSTOM_TUN_INTERFACE_NAME, wg],
      ip_command [''link'', ''set'', ''dev'', CUSTOM_TUN_INTERFACE_NAME, ''up'']]"

definition network_commands :: "string \<Rightarrow> string \<Rightarrow> string \<Rightarrow> command list" where
  "network_commands wg leases pid =
     [command_new ''sysctl'' [''net.ipv4.ip_forward=1''],
      ip_command [''link'', ''add'', BRIDGE_NAME, ''type'', ''bridge''],
      ip_command [''addr'', ''add'', ''dev'', BRIDGE_NAME, test_subnet],
      ip_command [''link'', ''set'', ''dev'', BRIDGE_NAME, ''up''],
      command_new ''nft'' [''-f'', ''-''],
      ip_command [''link'', ''add'', DUMMY_LAN_INTERFACE_NAME, ''type'', ''dummy''],
      ip_command [''addr'', ''add'', ''dev'', DUMMY_LAN_INTERFACE_NAME, show_ip DUMMY_LAN_INTERFACE_IP],
      ip_command [''link'', ''add'', DUMMY_INET_INTERFACE_NAME, ''type'', ''dummy''],
      ip_command [''addr'', ''add'', ''dev'', DUMMY_INET_INTERFACE_NAME, show_ip DUMMY_INET_INTERFACE_IP]]
     @ wireguard_commands wg @ [dnsmasq_command leases pid] @
     [ip_command [''tuntap'', ''add'', TAP_NAME, ''mode'', ''tap''],
      ip_command [''link'', ''set'', TAP_NAME, ''master'', BRIDGE_NAME],
      ip_command [''link'', ''set'', TAP_NAME, ''up'']]"

lemma runs_wireguard: "runs (\<lambda>cmds. \<exists>wg. cmds = wireguard_commands wg) create_local_wireguard_peer"
proof -
  have "runs (\<lambda>cmds. \<exists>wg. cmds = [command_new ''wg'' [''setconf'', CUSTOM_TUN_INTERFACE_NAME, wg],
        ip_command [''link'', ''set'', ''dev'', CUSTOM_TUN_INTERFACE_NAME, ''up'']])
      (bindE (tempfile CreateWireguardConfig) (\<lambda>path. seqE (write_tempfile path wg_config)
        (seqE (run_checked WgStart WgFailed (command_new ''wg'' [''setconf'', CUSTOM_TUN_INTERFACE_NAME, path]))
          (run_ip_cmd [''link'', ''set'', ''dev'', CUSTOM_TUN_INTERFACE_NAME, ''up'']))))"
    by (rule runs_weaken [OF runs_bindE [OF runs_tempfile runs_seq [OF runs_write runs_seq [OF runs_checked runs_ip]]]])
       (auto simp: ip_command_def)
  from runs_seq [OF runs_ip runs_seq [OF runs_ip this]] show ?thesis
    unfolding create_local_wireguard_peer_def
    by (rule runs_weaken) (auto simp: wireguard_commands_def ip_command_def)
qed

lemma runs_dnsmasq: "runs (\<lambda>cmds. \<exists>leases pid. cmds = [dnsmasq_command leases pid]) start_dnsmasq"
  unfolding start_dnsmasq_def
  by (rule runs_weaken [OF runs_bindE [OF runs_tempfile runs_bindE [OF runs_tempfile runs_spawn]]]) auto

lemma runs_network: "runs (\<lambda>cmds. \<exists>wg leases pid. cmds = network_commands wg leases pid) setup_test_network"
proof -
  have tail: "runs (\<lambda>cmds. cmds = [ip_command [''tuntap'', ''add'', TAP_NAME, ''mode'', ''tap''],
      ip_command [''link'', ''set'', TAP_NAME, ''master'', BRIDGE_NAME], ip_command [''link'', ''set'', TAP_NAME, ''up'']])
    (seqE (run_ip_cmd [''tuntap'', ''add'', TAP_NAME, ''mode'', ''tap''])
    (seqE (run_ip_cmd [''link'', ''set'', TAP_NAME, ''master'', BRIDGE_NAME])
     (run_ip_cmd [''link'', ''set'', TAP_NAME, ''up''])))"
    by (rule runs_weaken [OF runs_seq [OF runs_ip runs_seq [OF runs_ip runs_ip]]]) (auto simp: ip_command_def)
  have "runs (\<lambda>cmds. \<exists>leases pid. cmds = dnsmasq_command leases pid # [ip_command [''tuntap'', ''add'', TAP_NAME, ''mode'', ''tap''],
      ip_command [''link'', ''set'', TAP_NAME, ''master'', BRIDGE_NAME], ip_command [''link'', ''set'', TAP_NAME, ''up'']])
    (seqE start_dnsmasq (seqE (run_ip_cmd [''tuntap'', ''add'', TAP_NAME, ''mode'', ''tap''])
    (seqE (run_ip_cmd [''link'', ''set'', TAP_NAME, ''master'', BRIDGE_NAME])
     (run_ip_cmd [''link'', ''set'', TAP_NAME, ''up'']))))"
    by (rule runs_weaken [OF runs_seqE [OF runs_dnsmasq tail]]) force+
  then have middle: "runs (\<lambda>cmds. \<exists>wg leases pid. cmds = wireguard_commands wg @
      dnsmasq_command leases pid # [ip_command [''tuntap'', ''add'', TAP_NAME, ''mode'', ''tap''],
      ip_command [''link'', ''set'', TAP_NAME, ''master'', BRIDGE_NAME], ip_command [''link'', ''set'', TAP_NAME, ''up'']])
    (seqE create_local_wireguard_peer (seqE start_dnsmasq
    (seqE (run_ip_cmd [''tuntap'', ''add'', TAP_NAME, ''mode'', ''tap''])
    (seqE (run_ip_cmd [''link'', ''set'', TAP_NAME, ''master'', BRIDGE_NAME])
     (run_ip_cmd [''link'', ''set'', TAP_NAME, ''up''])))))"
    by (rule runs_weaken [OF runs_seqE [OF runs_wireguard]]) blast+
  show ?thesis
    unfolding setup_test_network_def
    by (rule runs_weaken [OF runs_seq [OF runs_forwarding runs_seq [OF runs_ip runs_seq [OF runs_ip
          runs_seq [OF runs_ip runs_seq [OF runs_nft runs_seq [OF runs_ip runs_seq [OF runs_ip
          runs_seq [OF runs_ip runs_seq [OF runs_ip middle]]]]]]]]]])
       (auto simp: network_commands_def ip_command_def)
qed

text \<open>
  Building the network: when \<open>setup_test_network\<close> returns \<open>Ok\<close>, exactly the commands of the plan
  were run, in its order, and all of them succeeded; otherwise the commands that were run are a
  beginning of the plan, and nothing is run after the first step that did not succeed.
\<close>

lemma network_is_built_in_order:
  "spec setup_test_network (\<lambda>r es. \<exists>wg leases pid. case r of
      Ok _ \<Rightarrow> launched es = network_commands wg leases pid \<and> list_all succeeded es
    | _ \<Rightarrow> es \<noteq> [] \<and> prefix (launched es) (network_commands wg leases pid) \<and>
        list_all succeeded (butlast es) \<and> \<not> succeeded (last es))"
  using runs_network unfolding runs_def by (rule spec_weaken) blast

end
