(* ===== verification/Vm_Qemu.thy ===== *)
theory Vm_Qemu
  imports Vm_Network Config
begin

text \<open>
  \<open>test-manager/src/vm/qemu.rs\<close>: starting a guest in QEMU on the network of \<open>Vm_Network\<close>, with its
  firmware copy and TPM emulator, and finding its serial device and address.

  \<open>temp_dir\<close> stands for \<open>std::env::temp_dir()\<close>; random names (\<open>Uuid\<close>) come from the host.  Destructors
  that only close handles or kill children (\<open>kill_on_drop\<close>) are not modelled; the temporary directory
  of the TPM emulator is.
\<close>

section \<open>Data\<close>

datatype qemu_error =
    Network network_error | StartQemu io_error | QemuFailed "exit_status option" | NoPtyError | NoIpAddr
  | CopyOvmfVars io_error | WrapOvmfVars | StartTpmEmulator io_error | TpmEmulator io_error
  | TpmSocketTimeout | MkTempDir io_error

record qemu_instance =
  qi_pty :: string
  qi_ip :: ip_addr
  qi_child :: command

definition random_uuid :: "('e, string) host" where
  "random_uuid = perform (\<lambda>env tr. case he_query env tr ''Uuid::new_v4'' [] of Inr s \<Rightarrow> s | Inl _ \<Rightarrow> [])
     (\<lambda>s. Query ''Uuid::new_v4'' [] (Inr s))"

definition random_tempfile_name :: "string \<Rightarrow> ('e, string) host" where
  "random_tempfile_name temp_dir = bindE random_uuid (\<lambda>u. ret (path_join temp_dir (''tmp'' @ u)))"

section \<open>Firmware\<close>

definition OVMF_VARS_PATH :: string where "OVMF_VARS_PATH = ''/usr/share/OVMF/OVMF_VARS.secboot.fd''"
definition OVMF_CODE_PATH :: string where "OVMF_CODE_PATH = ''/usr/share/OVMF/OVMF_CODE.secboot.fd''"

text \<open>An \<open>OvmfHandle\<close> is the path of the copy of the variables.\<close>

definition ovmf_new :: "string \<Rightarrow> (qemu_error, string) host" where
  "ovmf_new temp_dir =
     bindE (random_tempfile_name temp_dir) (\<lambda>temp_vars_path.
     seqE (fs_call CopyOvmfVars (CopyTo OVMF_VARS_PATH temp_vars_path))
    (seqE (sys_call (\<lambda>_. WrapOvmfVars) ''TempFile::from_existing'' [temp_vars_path])
     (ret temp_vars_path)))"

definition ovmf_args :: "string \<Rightarrow> string list" where
  "ovmf_args temp_vars =
    [''-global'', ''driver=cfi.pflash01,property=secure,value=on'',
     ''-drive'', ''if=pflash,format=raw,unit=0,file='' @ OVMF_CODE_PATH @ '',readonly=on'',
     ''-drive'', ''if=pflash,format=raw,unit=1,file='' @ temp_vars,
     ''-machine'', ''q35,smm=on'']"

section \<open>TPM emulator\<close>

definition tempdir_new :: "string \<Rightarrow> (qemu_error, string) host" where
  "tempdir_new temp_dir =
     bindE random_uuid (\<lambda>u. let dir = path_join temp_dir u in
     seqE (fs_call MkTempDir (CreateDirAll dir)) (ret dir))"

text \<open>\<open>TempDir::delete\<close> and the destructor remove the directory and ignore the result; after \<open>delete\<close> the
  destructor does not run (\<open>mem::forget\<close>).\<close>

definition tempdir_remove :: "string \<Rightarrow> ('e, unit) host" where
  "tempdir_remove dir = seqE (attempt (fs_call id (RemoveDirAll dir))) (ret ())"

definition swtpm_command :: "string \<Rightarrow> command" where
  "swtpm_command dir = command_new ''swtpm''
    [''socket'', ''-t'', ''--ctrl'', ''type=unixio,path='' @ path_join dir ''tpmsock'',
     ''--tpmstate'', ''dir='' @ dir, ''--tpm2'']"

text \<open>The task that waits for the emulator; it owns the directory.\<close>

definition tpm_task :: "string \<Rightarrow> (qemu_error, unit) host" where
  "tpm_task dir =
     bindE (attempt (cmd_wait TpmEmulator (swtpm_command dir))) (\<lambda>r. case r of
       Inl e \<Rightarrow> seqE (tempdir_remove dir) (fail e)
     | Inr status \<Rightarrow> seqE (tempdir_remove dir) (ret ()))"

text \<open>
  Waiting for the socket.  The future under the timeout of ten seconds looks once and otherwise sleeps
  for one second; \<open>timeout\<close> polls the future before it looks at the clock, so it always completes.
\<close>

definition await_socket :: "string \<Rightarrow> ('e, unit) host" where
  "await_socket sock_path =
     bindE (attempt (try_exists id sock_path)) (\<lambda>r. case r of
       Inr True \<Rightarrow> ret ()
     | _ \<Rightarrow> sleep_ms 1000)"

definition tpm_run :: "string \<Rightarrow> (qemu_error, string) host" where
  "tpm_run temp_dir =
     bindE (tempdir_new temp_dir) (\<lambda>dir. let sock_path = path_join dir ''tpmsock'' in
     bindE (attempt (cmd_spawn StartTpmEmulator (swtpm_command dir))) (\<lambda>r. case r of
       Inl e \<Rightarrow> seqE (tempdir_remove dir) (fail e)
     | Inr _ \<Rightarrow>
         seqE (emit (SpawnThread ''[swtpm] stdout''))
        (seqE (emit (SpawnThread ''[swtpm] stderr''))
        (seqE (emit (SpawnThread ''swtpm''))
        (seqE (await_socket sock_path)
         (ret sock_path))))))"

definition tpm_args :: "string \<Rightarrow> string list" where
  "tpm_args sock_path =
    [''-tpmdev'', ''emulator,id=tpm0,chardev=chrtpm'',
     ''-chardev'', ''socket,id=chrtpm,path='' @ sock_path,
     ''-device'', ''tpm-tis,tpmdev=tpm0'']"

section \<open>The QEMU command\<close>

definition base_args :: "vm_config \<Rightarrow> string list" where
  "base_args vm =
    [''-cpu'', ''host'', ''-accel'', ''kvm'', ''-m'', ''4096'', ''-smp'', ''2'',
     ''-drive'', ''file='' @ image_path vm,
     ''-device'', ''virtio-serial-pci'', ''-serial'', ''pty'',
     ''-nic'', ''tap,ifname='' @ TAP_NAME @ '',script=no,downscript=no'',
     ''-device'', ''nec-usb-xhci,id=xhci'']"

definition display_args :: "display \<Rightarrow> string list" where
  "display_args d = (case d of
      DisplayNone \<Rightarrow> [''-display'', ''none'']
    | DisplayLocal \<Rightarrow> []
    | DisplayVnc \<Rightarrow> [''-display'', ''vnc=:1''])"

fun disk_args :: "nat \<Rightarrow> string list \<Rightarrow> string list" where
  "disk_args i [] = []"
| "disk_args i (disk # ds) =
     [''-drive'', ''if=none,id=disk'' @ show_nat i @ '',file='' @ disk,
      ''-device'', ''usb-storage,drive=disk'' @ show_nat i @ '',bus=xhci.0''] @ disk_args (Suc i) ds"

definition opt_args :: "('a \<Rightarrow> string list) \<Rightarrow> 'a option \<Rightarrow> string list" where
  "opt_args f x = (case x of None \<Rightarrow> [] | Some a \<Rightarrow> f a)"

definition qemu_command :: "config \<Rightarrow> vm_config \<Rightarrow> string option \<Rightarrow> string option \<Rightarrow> command" where
  "qemu_command cfg vm ovmf_handle tpm_emulator = command_new ''qemu-system-x86_64''
    (base_args vm
     @ (if \<not> keep_changes (runtime_opts cfg) then [''-snapshot''] else [])
     @ display_args (ro_display (runtime_opts cfg))
     @ disk_args 0 (disks vm)
     @ opt_args ovmf_args ovmf_handle
     @ opt_args tpm_args tpm_emulator)"

section \<open>Running a guest\<close>

text \<open>\<open>pty_re\<close> and \<open>dhcp_re\<close> are the compiled regular expressions, \<open>parse\<close> is \<open>IpAddr::from_str\<close>.\<close>

definition obtain_pty :: "(string \<Rightarrow> string option) \<Rightarrow> command \<Rightarrow> (qemu_error, string) host" where
  "obtain_pty pty_re child =
     bindE (attempt (find_pty pty_re ''qemu stdout'')) (\<lambda>r. case r of
       Inr pty_path \<Rightarrow> ret pty_path
     | Inl _ \<Rightarrow> bindE (attempt (cmd_try_wait id child)) (\<lambda>w. case w of
           Inr status \<Rightarrow> fail (QemuFailed status)
         | Inl _ \<Rightarrow> fail NoPtyError))"

definition some_if :: "bool \<Rightarrow> ('e, 'a) host \<Rightarrow> ('e, 'a option) host" where
  "some_if b m = (if b then bindE m (\<lambda>a. ret (Some a)) else ret None)"

definition qemu_run ::
  "(string \<Rightarrow> string option) \<Rightarrow> (string \<Rightarrow> string option) \<Rightarrow> (string \<Rightarrow> ip_addr option) \<Rightarrow> string \<Rightarrow>
     config \<Rightarrow> vm_config \<Rightarrow> (qemu_error, qemu_instance) host" where
  "qemu_run pty_re dhcp_re parse temp_dir cfg vm =
     seqE (map_err Network setup_test_network)
    (bindE (some_if (tpm vm) (ovmf_new temp_dir)) (\<lambda>ovmf_handle.
     bindE (some_if (tpm vm) (tpm_run temp_dir)) (\<lambda>tpm_emulator.
     let child = qemu_command cfg vm ovmf_handle tpm_emulator in
     seqE (cmd_spawn StartQemu child)
    (seqE (emit (SpawnThread ''[qemu] stderr''))
    (bindE (obtain_pty pty_re child) (\<lambda>pty_path.
     seqE (emit (SpawnThread ''[qemu] stdout''))
    (bindE (first_dhcp_ack dhcp_re parse) (\<lambda>ack. case ack of
       None \<Rightarrow> fail NoIpAddr
     | Some ip_addr \<Rightarrow> ret \<lparr>qi_pty = pty_path, qi_ip = ip_addr, qi_child = child\<rparr>))))))))"

definition qemu_wait :: "qemu_instance \<Rightarrow> ('e, unit) host" where
  "qemu_wait self = seqE (attempt (cmd_wait id (qi_child self))) (ret ())"

section \<open>Lemmas\<close>

lemmas qemu_calls = host_calls cmd_wait_def cmd_try_wait_def random_uuid_def child_lines_def

lemma launches_ovmf: "launches (\<lambda>_ cmds. cmds = []) (ovmf_new temp_dir)"
  unfolding ovmf_new_def random_tempfile_name_def qemu_calls
  by (intro launches_nothing only_rules) simp_all

lemma launches_tpm:
  "launches (\<lambda>sock cmds. \<exists>dir. sock = path_join dir ''tpmsock'' \<and> cmds = [swtpm_command dir]) (tpm_run temp_dir)"
  unfolding launches_def tpm_run_def tempdir_new_def await_socket_def tempdir_remove_def qemu_calls Let_def
  by (auto simp: bindE_assoc seqE_def split: bool.splits intro!: spec_rules) (metis prefix_order.refl)+

definition qemu_tail ::
  "(string \<Rightarrow> string option) \<Rightarrow> (string \<Rightarrow> string option) \<Rightarrow> (string \<Rightarrow> ip_addr option) \<Rightarrow> command \<Rightarrow>
     (qemu_error, qemu_instance) host" where
  "qemu_tail pty_re dhcp_re parse child =
     seqE (cmd_spawn StartQemu child)
    (seqE (emit (SpawnThread ''[qemu] stderr''))
    (bindE (obtain_pty pty_re child) (\<lambda>pty_path.
     seqE (emit (SpawnThread ''[qemu] stdout''))
    (bindE (first_dhcp_ack dhcp_re parse) (\<lambda>ack. case ack of
       None \<Rightarrow> fail NoIpAddr
     | Some ip_addr \<Rightarrow> ret \<lparr>qi_pty = pty_path, qi_ip = ip_addr, qi_child = child\<rparr>)))))"

lemma qemu_run_tail:
  "qemu_run pty_re dhcp_re parse temp_dir cfg vm =
     seqE (map_err Network setup_test_network)
    (bindE (some_if (tpm vm) (ovmf_new temp_dir)) (\<lambda>ovmf_handle.
     bindE (some_if (tpm vm) (tpm_run temp_dir)) (\<lambda>tpm_emulator.
     qemu_tail pty_re dhcp_re parse (qemu_command cfg vm ovmf_handle tpm_emulator))))"
  by (simp add: qemu_run_def qemu_tail_def Let_def)

text \<open>The line that decides a search, after lines that do not match.\<close>

definition first_match :: "(string \<Rightarrow> 'b option) \<Rightarrow> (io_error + string) list \<Rightarrow> 'b \<Rightarrow> bool" where
  "first_match f ls b \<longleftrightarrow> (\<exists>pre line post. ls = map Inr pre @ Inr line # post \<and>
     (\<forall>l \<in> set pre. f l = None) \<and> f line = Some b)"

lemma first_match_Cons:
  "first_match f (Inr line # ls) b \<longleftrightarrow> f line = Some b \<or> f line = None \<and> first_match f ls b"
proof
  assume "first_match f (Inr line # ls) b"
  then obtain pre l post where "Inr line # ls = map Inr pre @ Inr l # post" "\<forall>l \<in> set pre. f l = None" "f l = Some b"
    unfolding first_match_def by blast
  then show "f line = Some b \<or> f line = None \<and> first_match f ls b"
    by (cases pre) (auto simp: first_match_def)
next
  assume "f line = Some b \<or> f line = None \<and> first_match f ls b"
  then show "first_match f (Inr line # ls) b"
  proof
    assume "f line = Some b"
    then show ?thesis unfolding first_match_def by (intro exI [of _ "[]"] exI [of _ line] exI [of _ ls]) simp
  next
    assume "f line = None \<and> first_match f ls b"
    then obtain pre l post where "f line = None" "ls = map Inr pre @ Inr l # post" "\<forall>l \<in> set pre. f l = None" "f l = Some b"
      unfolding first_match_def by blast
    then show ?thesis unfolding first_match_def by (intro exI [of _ "line # pre"] exI [of _ l] exI [of _ post]) simp
  qed
qed

lemma first_match_simps [simp]: "\<not> first_match f [] b" "\<not> first_match f (Inl e # ls) b"
  by (auto simp: first_match_def Cons_eq_append_conv)

lemma find_pty_loop_match: "find_pty_loop captures ls = Inr path \<longleftrightarrow> first_match captures ls path"
  by (induction captures ls rule: find_pty_loop.induct) (auto simp: first_match_Cons split: option.splits)

lemma first_dhcp_ack_match:
  "first_dhcp_ack_loop captures parse ls = Some ip \<longleftrightarrow>
     first_match (\<lambda>l. Option.bind (captures l) parse) ls ip"
  by (induction captures parse ls rule: first_dhcp_ack_loop.induct) (auto simp: first_match_Cons split: option.splits)

text \<open>What a started guest saw, and which errors its start can end with.\<close>

lemma obtain_pty_spec:
  "spec (obtain_pty pty_re child) (\<lambda>r es. \<exists>out. case r of
      Ok pty \<Rightarrow> es = [ReadLines ''qemu stdout'' out] \<and> first_match pty_re out pty
    | Err e \<Rightarrow> (\<nexists>pty. first_match pty_re out pty) \<and>
        ((\<exists>status. es = [ReadLines ''qemu stdout'' out, TryWait child (Inr status)] \<and> e = QemuFailed status) \<or>
         (\<exists>err. es = [ReadLines ''qemu stdout'' out, TryWait child (Inl err)] \<and> e = NoPtyError))
    | Panic _ \<Rightarrow> False)"
  unfolding obtain_pty_def
proof (rule spec_bindE)
  show "spec (attempt (find_pty pty_re ''qemu stdout'')) (\<lambda>r es. \<exists>out. es = [ReadLines ''qemu stdout'' out] \<and>
      (case r of Ok (Inr pty) \<Rightarrow> first_match pty_re out pty | Ok (Inl _) \<Rightarrow> (\<nexists>pty. first_match pty_re out pty) | _ \<Rightarrow> False))"
    unfolding find_pty_def child_lines_def of_result_def
    by (rule spec_attempt [where P = "\<lambda>r es. \<exists>out. es = [ReadLines ''qemu stdout'' out] \<and>
      (case r of Ok pty \<Rightarrow> first_match pty_re out pty | Err _ \<Rightarrow> (\<nexists>pty. first_match pty_re out pty) | _ \<Rightarrow> False)"])
       (auto intro!: spec_rules simp flip: find_pty_loop_match split: sum.splits)
qed (auto simp: cmd_try_wait_def split: sum.splits intro!: spec_rules)


lemma qemu_tail_spec:
  "spec (qemu_tail pty_re dhcp_re parse child) (\<lambda>r es. case r of
      Ok inst \<Rightarrow> (\<exists>out err. es = [Spawn child (Inr ()), SpawnThread ''[qemu] stderr'', ReadLines ''qemu stdout'' out,
          SpawnThread ''[qemu] stdout'', ReadLines ''dnsmasq stderr'' err] \<and> qi_child inst = child \<and>
        first_match pty_re out (qi_pty inst) \<and> first_match (\<lambda>l. Option.bind (dhcp_re l) parse) err (qi_ip inst))
    | _ \<Rightarrow> prefix (launched es) [child])"
  unfolding qemu_tail_def cmd_spawn_def first_dhcp_ack_def child_lines_def bindE_assoc bindE_ret
  by (intro spec_rules spec_bindE [OF obtain_pty_spec])
     (auto simp flip: first_dhcp_ack_match intro!: spec_rules split: option.splits)

lemma launches_tail:
  "launches (\<lambda>inst cmds. qi_child inst = child \<and> cmds = [child]) (qemu_tail pty_re dhcp_re parse child)"
  unfolding launches_def
  by (rule spec_weaken [OF qemu_tail_spec]) (auto split: res.splits intro!: exI [of _ "\<lparr>qi_pty = [], qi_ip = undefined, qi_child = child\<rparr>"])

text \<open>The processes of a guest: the network, the TPM emulator if there is one, QEMU.\<close>

definition qemu_plan :: "config \<Rightarrow> vm_config \<Rightarrow> command \<Rightarrow> command list \<Rightarrow> bool" where
  "qemu_plan cfg vm child cmds \<longleftrightarrow> (\<exists>wg leases pid vars dir.
     child = (if tpm vm then qemu_command cfg vm (Some vars) (Some (path_join dir ''tpmsock'')) else qemu_command cfg vm None None) \<and>
     cmds = network_commands wg leases pid @ (if tpm vm then [swtpm_command dir] else []) @ [child])"

lemma some_instance: "\<exists>inst. qi_child inst = child"
  by (metis qemu_instance.select_convs(3))

lemma launches_qemu_run:
  "launches (\<lambda>inst cmds. qemu_plan cfg vm (qi_child inst) cmds) (qemu_run pty_re dhcp_re parse temp_dir cfg vm)"
proof -
  let ?network = "map_err Network setup_test_network"
  let ?tail = "\<lambda>vars sock. qemu_tail pty_re dhcp_re parse (qemu_command cfg vm vars sock)"
  have network: "launches (\<lambda>_ cmds. \<exists>wg leases pid. cmds = network_commands wg leases pid) ?network"
    by (rule launches_map_err [OF launches_runs [OF runs_network]])
  show ?thesis
  proof (cases "tpm vm")
    case False
    have "launches (\<lambda>inst cmds. qemu_plan cfg vm (qi_child inst) cmds) (seqE ?network (?tail None None))"
      by (rule launches_weaken [OF launches_seqE [OF network launches_tail]])
         (use some_instance False in \<open>auto simp: qemu_plan_def\<close>, blast)
    with False show ?thesis by (simp add: qemu_run_tail some_if_def)
  next
    case True
    have tpm: "launches (\<lambda>inst cmds. \<exists>dir. qi_child inst = qemu_command cfg vm (Some vars) (Some (path_join dir ''tpmsock'')) \<and>
        cmds = [swtpm_command dir, qi_child inst]) (bindE (tpm_run temp_dir) (\<lambda>sock. ?tail (Some vars) (Some sock)))" for vars
      by (rule launches_weaken [OF launches_bindE [OF launches_tpm launches_tail]])
         (use some_instance in auto)
    have "launches (\<lambda>inst cmds. \<exists>vars dir. qi_child inst = qemu_command cfg vm (Some vars) (Some (path_join dir ''tpmsock'')) \<and>
        cmds = [swtpm_command dir, qi_child inst])
      (bindE (ovmf_new temp_dir) (\<lambda>vars. bindE (tpm_run temp_dir) (\<lambda>sock. ?tail (Some vars) (Some sock))))"
      by (rule launches_weaken [OF launches_bindE [OF launches_ovmf tpm]])
         (auto, metis some_instance)
    from launches_seqE [OF network this] have "launches (\<lambda>inst cmds. qemu_plan cfg vm (qi_child inst) cmds)
      (seqE ?network (bindE (ovmf_new temp_dir) (\<lambda>vars. bindE (tpm_run temp_dir) (\<lambda>sock. ?tail (Some vars) (Some sock)))))"
      by (rule launches_weaken) (auto simp: qemu_plan_def True, (metis some_instance)+)
    with True show ?thesis by (simp add: qemu_run_tail some_if_def bindE_assoc)
  qed
qed

lemma launches_anything: "launches C m \<Longrightarrow> spec m (\<lambda>_ _. True)"
  unfolding launches_def by (erule spec_weaken) simp

lemma snapshot_elsewhere:
  "''-snapshot'' \<notin> set (base_args vm)" "''-snapshot'' \<notin> set (display_args d)" "''-snapshot'' \<notin> set (disk_args i ds)"
  "''-snapshot'' \<notin> set (opt_args ovmf_args x)" "''-snapshot'' \<notin> set (opt_args tpm_args x)"
  by (simp_all add: base_args_def display_args_def opt_args_def ovmf_args_def tpm_args_def split: display.split option.split)
     (induction i ds rule: disk_args.induct, simp_all)

lemma snapshot_arg:
  "''-snapshot'' \<in> set (cmd_args (qemu_command cfg vm vars sock)) \<longleftrightarrow> \<not> keep_changes (runtime_opts cfg)"
  by (simp add: qemu_command_def command_new_def snapshot_elsewhere)

lemma snapshot_of_plan:
  assumes "qemu_plan cfg vm child cmds" "prefix cmds' cmds"
  shows "list_all (\<lambda>cmd. ''-snapshot'' \<in> set (cmd_args cmd) \<longleftrightarrow> \<not> keep_changes (runtime_opts cfg))
      (filter (\<lambda>cmd. cmd_program cmd = ''qemu-system-x86_64'') cmds')"
proof -
  have "cmd_program c \<noteq> ''qemu-system-x86_64''" if "c \<in> set (network_commands wg leases pid @ [swtpm_command dir])"
    for c wg leases pid dir
    using that by (auto simp: network_commands_def wireguard_commands_def dnsmasq_command_def swtpm_command_def
        ip_command_def command_new_def)
  then have "list_all (\<lambda>c. cmd_program c = ''qemu-system-x86_64'' \<longrightarrow>
      (''-snapshot'' \<in> set (cmd_args c) \<longleftrightarrow> \<not> keep_changes (runtime_opts cfg))) cmds"
    using assms(1) snapshot_arg [of cfg vm] by (fastforce simp: qemu_plan_def list_all_iff split: if_splits)
  moreover have "set cmds' \<subseteq> set cmds" using assms(2) by (rule set_mono_prefix)
  ultimately show ?thesis by (auto simp: list_all_iff)
qed

text \<open>
  Commands that leave the images of the configuration alone: QEMU with \<open>-snapshot\<close>, and \<open>tart run\<close> on a
  clone.
\<close>

definition scratch_only :: "command \<Rightarrow> bool" where
  "scratch_only cmd \<longleftrightarrow>
     (cmd_program cmd = ''qemu-system-x86_64'' \<longrightarrow> ''-snapshot'' \<in> set (cmd_args cmd)) \<and>
     (cmd_program cmd = ''tart'' \<and> take 1 (cmd_args cmd) = [''run''] \<longrightarrow> prefix ''test-'' (cmd_args cmd ! 1))"

definition scratch_ev :: "host_ev \<Rightarrow> bool" where
  "scratch_ev e \<longleftrightarrow> (case launched_by e of Some cmd \<Rightarrow> scratch_only cmd | None \<Rightarrow> True)"

lemma scratch_launched: "list_all scratch_ev es \<longleftrightarrow> list_all scratch_only (launched es)"
  by (induction es) (auto simp: scratch_ev_def split: option.splits)

lemma qemu_run_scratch:
  assumes "\<not> keep_changes (runtime_opts cfg)"
  shows "only scratch_ev (qemu_run pty_re dhcp_re parse temp_dir cfg vm)"
proof -
  have no_tart: "cmd_program c \<noteq> ''tart''" if "qemu_plan cfg vm child cmds" "c \<in> set cmds" for c child cmds
    using that by (auto simp: qemu_plan_def network_commands_def wireguard_commands_def dnsmasq_command_def
        swtpm_command_def ip_command_def command_new_def qemu_command_def split: if_splits)
  have "list_all scratch_only cmds'" if "qemu_plan cfg vm child cmds" "prefix cmds' cmds" for child cmds cmds'
    using snapshot_of_plan [OF that] no_tart [OF that(1)] set_mono_prefix [OF that(2)] assms
    by (auto simp: list_all_iff scratch_only_def)
  then show ?thesis
    unfolding only_def scratch_launched
    by (intro spec_weaken [OF launches_qemu_run [unfolded launches_def]]) (fastforce split: res.splits)
qed

section \<open>Properties\<close>

lemma qemu_run_found:
  "spec (qemu_run pty_re dhcp_re parse temp_dir cfg vm) (\<lambda>r es. case r of
      Ok inst \<Rightarrow> (\<exists>pre out err. es = pre @ [ReadLines ''qemu stdout'' out, SpawnThread ''[qemu] stdout'',
          ReadLines ''dnsmasq stderr'' err] \<and> first_match pty_re out (qi_pty inst) \<and>
        first_match (\<lambda>l. Option.bind (dhcp_re l) parse) err (qi_ip inst))
    | _ \<Rightarrow> True)" (is "spec _ ?found")
proof -
  have tail: "spec (qemu_tail pty_re dhcp_re parse child) (\<lambda>r es. ?found r (pre @ es))" for pre child
    by (rule spec_weaken [OF qemu_tail_spec]) (fastforce split: res.splits)
  have any: "spec (some_if b m) (\<lambda>_ _. True)" if "spec m (\<lambda>_ _. True)" for b and m :: "(qemu_error, 'x) host"
    using that by (auto simp: some_if_def intro: spec_ret spec_bindE)
  show ?thesis
    unfolding qemu_run_tail
    by (rule spec_seqE [OF launches_anything [OF launches_map_err [OF launches_runs [OF runs_network]]]],
        rule spec_bindE [OF any [OF launches_anything [OF launches_ovmf]]],
        rule spec_bindE [OF any [OF launches_anything [OF launches_tpm]]])
       (use tail [of _ "es @ es' @ es''" for es es' es'', unfolded append_assoc] in simp_all)
qed

text \<open>
  C18. Starting a guest: when QEMU was started, the processes that were run are those that build the
  network, in their order, then the TPM emulator if the configuration has a TPM, then QEMU itself with
  the image, disks, display, firmware and TPM of the configuration; the serial device is the first one
  that QEMU's output names and the address is the first one that the DHCP server acknowledged.  On
  failure, nothing but a beginning of this sequence was run.  In every case QEMU gets \<open>-snapshot\<close>
  exactly if changes are not to be kept.
\<close>

theorem guest_is_started_as_configured:
  "spec (qemu_run pty_re dhcp_re parse temp_dir cfg vm) (\<lambda>r es.
     (case r of
        Ok inst \<Rightarrow> qemu_plan cfg vm (qi_child inst) (launched es) \<and>
          (\<exists>pre out err. es = pre @ [ReadLines ''qemu stdout'' out, SpawnThread ''[qemu] stdout'',
              ReadLines ''dnsmasq stderr'' err] \<and> first_match pty_re out (qi_pty inst) \<and>
            first_match (\<lambda>l. Option.bind (dhcp_re l) parse) err (qi_ip inst))
      | _ \<Rightarrow> \<exists>child cmds. qemu_plan cfg vm child cmds \<and> prefix (launched es) cmds) \<and>
     list_all (\<lambda>cmd. ''-snapshot'' \<in> set (cmd_args cmd) \<longleftrightarrow> \<not> keep_changes (runtime_opts cfg))
       (filter (\<lambda>cmd. cmd_program cmd = ''qemu-system-x86_64'') (launched es)))"
  by (rule spec_weaken [OF spec_conj [OF launches_qemu_run [unfolded launches_def] qemu_run_found]])
     (use snapshot_of_plan in \<open>fastforce split: res.splits\<close>)

text \<open>
  A guest whose serial device does not appear in time is reported as one that exited, even while it
  is still running: the error \<open>NoPty\<close> is left for a failing \<open>try_wait\<close>.
\<close>

lemma running_guest_is_reported_as_exited:
  "spec (obtain_pty pty_re child) (\<lambda>r es. case r of
      Err NoPtyError \<Rightarrow> (\<exists>out err. es = [ReadLines ''qemu stdout'' out, TryWait child (Inl err)])
    | Err (QemuFailed None) \<Rightarrow> (\<exists>out. es = [ReadLines ''qemu stdout'' out, TryWait child (Inr None)])
    | _ \<Rightarrow> True)"
  by (rule spec_weaken [OF obtain_pty_spec]) (auto split: res.splits qemu_error.splits option.splits)

text \<open>The TPM emulator's socket is looked for once; the start goes on without it.\<close>

lemma missing_tpm_socket_is_accepted:
  "spec (await_socket sock) (\<lambda>r es. r = Ok () \<and>
     (es = [Exists sock (Inr True)] \<or> (\<exists>e. e \<noteq> Inr True \<and> es = [Exists sock e, SleepMs 1000])))"
  unfolding await_socket_def try_exists_def sleep_ms_def
  by (auto split: bool.splits intro!: spec_rules)

text \<open>The directory of the TPM emulator is removed exactly once, whether waiting for it succeeds or not.\<close>

lemma tpm_directory_is_removed:
  "spec (tpm_task dir) (\<lambda>r es. \<exists>w d. es = [Wait (swtpm_command dir) w, Fs (RemoveDirAll dir) d])"
  unfolding tpm_task_def tempdir_remove_def cmd_wait_def fs_call_def
  by (auto simp: seqE_def bindE_assoc split: sum.splits intro!: spec_rules)

end
