(* ===== verification/Vm_Tart.thy ===== *)
theory Vm_Tart
  imports Vm_Qemu Summary
begin

text \<open>
  \<open>test-manager/src/vm/tart.rs\<close> and \<open>vm/network/macos.rs\<close>: guests on a macOS host.  A guest runs in a
  temporary clone of the machine unless changes are to be kept; the clone is destroyed when the guest
  has ended, when its handle is dropped, and when starting it fails.

  \<open>vm_fault\<close> is \<open>anyhow::Error\<close> for the code under \<open>vm/\<close>.  As in \<open>Vm_Qemu\<close>, killing a child when its
  handle is dropped is not modelled.
\<close>

datatype vm_fault =
    VmIo io_error | VmText string | VmExit string int | VmStatus string exit_status
  | VmQemu qemu_error | VmContext string vm_fault

abbreviation "io_context msg \<equiv> (\<lambda>e. VmContext msg (VmIo e))"

definition quoted :: "string \<Rightarrow> string" where
  "quoted s = [CHR 0x27] @ s @ [CHR 0x27]"

section \<open>Trimming\<close>

function trim_start :: "string \<Rightarrow> string" where
  "trim_start s = (if ws_len s = 0 \<or> s = [] then s else trim_start (drop (ws_len s) s))"
  by auto

termination
  by (relation "measure length") auto

declare trim_start.simps [simp del]

fun trim_end :: "string \<Rightarrow> string" where
  "trim_end [] = []"
| "trim_end (c # s) = (if trim_start (c # s) = [] then [] else c # trim_end s)"

definition trim :: "string \<Rightarrow> string" where
  "trim s = trim_end (trim_start s)"

section \<open>The network of a macOS host\<close>

definition MACOS_DUMMY_LAN_INTERFACE_IP :: "byte \<times> byte \<times> byte \<times> byte" where
  "MACOS_DUMMY_LAN_INTERFACE_IP = (192, 168, 64, 1)"
definition MACOS_REMOTE_REAL_ADDR :: "byte \<times> byte \<times> byte \<times> byte" where
  "MACOS_REMOTE_REAL_ADDR = (192, 168, 64, 1)"
definition MACOS_NON_TUN_GATEWAY :: ip_addr where
  "MACOS_NON_TUN_GATEWAY = V4 192 168 64 1"
definition MACOS_TUN_INTERFACE_NAME :: string where
  "MACOS_TUN_INTERFACE_NAME = ''utun123''"

definition vm_checked :: "string \<Rightarrow> string \<Rightarrow> command \<Rightarrow> (vm_fault, unit) host" where
  "vm_checked msg failed cmd = run_checked (io_context msg) (VmExit failed) cmd"

definition enable_forwarding_macos :: "(vm_fault, unit) host" where
  "enable_forwarding_macos =
     seqE (vm_checked ''Run sysctl'' ''sysctl failed'' (command_new ''/usr/sbin/sysctl'' [''net.inet.ip.forwarding'']))
     (vm_checked ''Run sysctl'' ''sysctl failed''
        (command_new ''/usr/bin/sudo'' [''/usr/sbin/sysctl'', ''net.inet.ip.forwarding=1'']))"

definition create_wireguard_interface :: "(vm_fault, unit) host" where
  "create_wireguard_interface =
     bindE (cmd_output (io_context ''Check if wireguard tunnel exists'')
              (command_new ''/sbin/ifconfig'' [MACOS_TUN_INTERFACE_NAME])) (\<lambda>out.
       if status_success (out_status out) then ret ()
       else vm_checked ''Run wireguard-go'' ''wireguard-go failed''
              (command_new ''/usr/bin/sudo'' [''wireguard-go'', MACOS_TUN_INTERFACE_NAME]))"

definition setup_test_network_macos :: "(vm_fault, unit) host" where
  "setup_test_network_macos =
     seqE enable_forwarding_macos
     (map_err (VmContext ''Failed to create WireGuard interface'') create_wireguard_interface)"

fun find_bridge :: "(string \<times> ip_addr option) list \<Rightarrow> string option" where
  "find_bridge [] = None"
| "find_bridge ((name, addr) # addrs) =
    (if \<not> prefix ''bridge'' name then find_bridge addrs
     else if addr = Some MACOS_NON_TUN_GATEWAY then Some name
     else find_bridge addrs)"

definition find_vm_bridge :: "(vm_fault, string) host" where
  "find_vm_bridge =
     bindE (expect ''unwrap'' (callE id (\<lambda>env. he_ifaddrs env) IfAddrs)) (\<lambda>addrs.
     case find_bridge addrs of
       Some name \<Rightarrow> ret name
     | None \<Rightarrow> fail (VmText ''Failed to identify bridge used by tart -- not running?''))"

definition configure_tunnel :: "(vm_fault, unit) host" where
  "configure_tunnel =
     bindE (cmd_output (io_context ''Check if wireguard tunnel has IP'')
              (command_new ''/usr/sbin/ipconfig'' [''getifaddr'', MACOS_TUN_INTERFACE_NAME])) (\<lambda>out.
     if status_success (out_status out) then ret ()
     else
       bindE (tempfile (io_context ''Failed to create temporary wireguard config'')) (\<lambda>path.
       seqE (fs_call (io_context ''Failed to write wireguard config'')
               (WriteAll path \<lparr>oo_create = True, oo_truncate = True, oo_append = False\<rparr> wg_config))
      (seqE (vm_checked ''Run wg'' ''wg failed''
               (command_new ''/usr/bin/sudo'' [''wg'', ''setconf'', MACOS_TUN_INTERFACE_NAME, path]))
      (bindE (cmd_status (io_context ''Run ipconfig'')
               (command_new ''/usr/bin/sudo'' [''/usr/sbin/ipconfig'', ''set'', MACOS_TUN_INTERFACE_NAME, ''manual'',
                  show_ip CUSTOM_TUN_REMOTE_TUN_ADDR])) (\<lambda>st.
       check_exit (VmExit ''ipconfig failed'') st)))))"

section \<open>Machines\<close>

record machine_copy =
  mc_name :: string
  should_destroy :: bool

definition borrow_vm :: "string \<Rightarrow> machine_copy" where
  "borrow_vm name = \<lparr>mc_name = name, should_destroy = False\<rparr>"

definition clone_command :: "string \<Rightarrow> string \<Rightarrow> command" where
  "clone_command name clone_name = command_new ''tart'' [''clone'', name, clone_name]"

definition clone_vm :: "string \<Rightarrow> (vm_fault, machine_copy) host" where
  "clone_vm name =
     bindE random_uuid (\<lambda>u. let clone_name = ''test-'' @ u in
     bindE (cmd_status (io_context (''failed to run '' @ quoted ''tart clone'')) (clone_command name clone_name)) (\<lambda>st.
     if \<not> status_success st then fail (VmStatus (quoted ''tart clone'' @ '' failed'') st)
     else ret \<lparr>mc_name = clone_name, should_destroy = True\<rparr>))"

definition delete_command :: "string \<Rightarrow> command" where
  "delete_command name = command_new ''tart'' [''delete'', name]"

definition destroy_inner :: "machine_copy \<Rightarrow> (vm_fault, unit) host" where
  "destroy_inner self =
     bindE (cmd_status (io_context (''Failed to run '' @ quoted ''tart delete'')) (delete_command (mc_name self))) (\<lambda>st.
     if \<not> status_success st then fail (VmStatus (quoted ''tart delete'' @ '' failed'') st) else ret ())"

definition try_destroy :: "machine_copy \<Rightarrow> ('e, machine_copy) host" where
  "try_destroy self =
    (if \<not> should_destroy self then ret self
     else bindE (attempt (destroy_inner self)) (\<lambda>r. case r of
       Inl e \<Rightarrow> ret self
     | Inr _ \<Rightarrow> ret (self\<lparr>should_destroy := False\<rparr>)))"

text \<open>The destructor, and \<open>cleanup\<close>, at whose end the destructor runs as well.\<close>

definition drop_machine :: "machine_copy \<Rightarrow> ('e, unit) host" where
  "drop_machine self = seqE (try_destroy self) (ret ())"

definition cleanup_machine :: "machine_copy \<Rightarrow> ('e, unit) host" where
  "cleanup_machine self = bindE (try_destroy self) drop_machine"

section \<open>Running a guest\<close>

record tart_instance =
  ti_pty :: string
  ti_ip :: ip_addr
  ti_child :: command
  ti_machine :: "machine_copy option"

definition tart_command :: "config \<Rightarrow> machine_copy \<Rightarrow> command" where
  "tart_command cfg machine = command_new ''tart''
    ([''run'', mc_name machine, ''--serial''] @
     (case ro_display (runtime_opts cfg) of
        DisplayNone \<Rightarrow> [''--no-graphics'']
      | DisplayLocal \<Rightarrow> []
      | DisplayVnc \<Rightarrow> [''--vnc'', ''--no-graphics'']))"

definition tart_pty :: "(string \<Rightarrow> string option) \<Rightarrow> command \<Rightarrow> (vm_fault, string) host" where
  "tart_pty pty_re child =
     bindE (attempt (find_pty pty_re ''tart stdout'')) (\<lambda>r. case r of
       Inr pty_path \<Rightarrow> ret pty_path
     | Inl _ \<Rightarrow> bindE (attempt (cmd_try_wait id child)) (\<lambda>w. case w of
           Inr (Some status) \<Rightarrow> fail (VmStatus (quoted ''tart start'' @ '' failed'') status)
         | _ \<Rightarrow> fail (VmText ''Could not find pty'')))"

definition tart_ip :: "(string \<Rightarrow> ip_addr option) \<Rightarrow> machine_copy \<Rightarrow> (vm_fault, ip_addr) host" where
  "tart_ip parse machine =
     bindE (cmd_output (io_context ''Could not obtain VM IP'')
              (command_new ''tart'' [''ip'', mc_name machine, ''--wait'', ''60''])) (\<lambda>out.
     case from_utf8 (out_stdout out) of
       Inl _ \<Rightarrow> fail (VmText (quoted ''tart ip'' @ '' returned non-UTF8''))
     | Inr s \<Rightarrow> (case parse (trim s) of
           None \<Rightarrow> fail (VmText (''Could not parse IP address from '' @ quoted ''tart ip''))
         | Some ip \<Rightarrow> ret ip))"

text \<open>The part of \<open>run\<close> that owns the machine; leaving it early drops the machine.\<close>

definition tart_start ::
  "(string \<Rightarrow> string option) \<Rightarrow> (string \<Rightarrow> ip_addr option) \<Rightarrow> config \<Rightarrow> machine_copy \<Rightarrow>
     (vm_fault, tart_instance) host" where
  "tart_start pty_re parse cfg machine =
    (let child = tart_command cfg machine in
     seqE (cmd_spawn (io_context ''Failed to start Tart'') child)
    (seqE (emit (SpawnThread ''[tart] stderr''))
    (bindE (tart_pty pty_re child) (\<lambda>pty_path.
     seqE (emit (SpawnThread ''[tart] stdout''))
    (bindE (tart_ip parse machine) (\<lambda>ip_addr.
     seqE configure_tunnel
     (ret \<lparr>ti_pty = pty_path, ti_ip = ip_addr, ti_child = child, ti_machine = Some machine\<rparr>)))))))"

definition or_drop :: "machine_copy \<Rightarrow> ('e, 'a) host \<Rightarrow> ('e, 'a) host" where
  "or_drop machine body = (\<lambda>env tr. case body env tr of
      (Ok a, tr') \<Rightarrow> (Ok a, tr')
    | (r, tr') \<Rightarrow> (r, snd ((drop_machine machine :: ('e, unit) host) env tr')))"

definition tart_run ::
  "(string \<Rightarrow> string option) \<Rightarrow> (string \<Rightarrow> ip_addr option) \<Rightarrow> config \<Rightarrow> vm_config \<Rightarrow> (vm_fault, tart_instance) host" where
  "tart_run pty_re parse cfg vm =
     seqE (map_err (VmContext ''Failed to set up networking'') setup_test_network_macos)
    (bindE (if keep_changes (runtime_opts cfg) then ret (borrow_vm (image_path vm)) else clone_vm (image_path vm)) (\<lambda>machine.
     or_drop machine (tart_start pty_re parse cfg machine)))"

definition tart_wait :: "tart_instance \<Rightarrow> ('e, tart_instance) host" where
  "tart_wait self =
     seqE (attempt (cmd_wait id (ti_child self)))
     (case ti_machine self of
        Some machine \<Rightarrow> seqE (cleanup_machine machine) (ret (self\<lparr>ti_machine := None\<rparr>))
      | None \<Rightarrow> ret self)"

definition tart_drop :: "tart_instance \<Rightarrow> ('e, unit) host" where
  "tart_drop self = (case ti_machine self of Some machine \<Rightarrow> drop_machine machine | None \<Rightarrow> ret ())"

section \<open>Lemmas\<close>

text \<open>
  The machines that were cloned, and those that \<open>tart delete\<close> was run for, whatever its exit status: the
  code tries a failed deletion once more where it cleans up explicitly, and otherwise only logs it.
\<close>

fun cloned_by :: "host_ev \<Rightarrow> string option" where
  "cloned_by (Status cmd r) = (case (cmd_program cmd = ''tart'', cmd_args cmd) of
     (True, [op, name, clone_name]) \<Rightarrow> if op = ''clone'' \<and> r = Inr (Exited 0) then Some clone_name else None
   | _ \<Rightarrow> None)"
| "cloned_by _ = None"

fun deleted_by :: "host_ev \<Rightarrow> string option" where
  "deleted_by (Status cmd r) = (case (cmd_program cmd = ''tart'', cmd_args cmd) of
     (True, [op, name]) \<Rightarrow> if op = ''delete'' then Some name else None
   | _ \<Rightarrow> None)"
| "deleted_by _ = None"

definition cloned :: "host_ev list \<Rightarrow> string list" where
  "cloned es = List.map_filter cloned_by es"

definition deleted :: "host_ev list \<Rightarrow> string list" where
  "deleted es = List.map_filter deleted_by es"

lemma machine_history_simps [simp]:
  "cloned [] = []" "deleted [] = []"
  "cloned (e # es) = (case cloned_by e of None \<Rightarrow> cloned es | Some n \<Rightarrow> n # cloned es)"
  "deleted (e # es) = (case deleted_by e of None \<Rightarrow> deleted es | Some n \<Rightarrow> n # deleted es)"
  "cloned (es @ fs) = cloned es @ cloned fs" "deleted (es @ fs) = deleted es @ deleted fs"
  by (auto simp: cloned_def deleted_def map_filter_def split: option.splits)

definition machine_quiet :: "host_ev \<Rightarrow> bool" where
  "machine_quiet e \<longleftrightarrow> cloned_by e = None \<and> deleted_by e = None"

lemma machine_quiet_simps [simp]:
  "machine_quiet (Output c o1)" "machine_quiet (Spawn c u)" "machine_quiet (SpawnThread n)" "machine_quiet (Fs op u)"
  "machine_quiet (Query n a q)" "machine_quiet (ReadLines n l)" "machine_quiet (TryWait c w)" "machine_quiet (Wait c x)"
  by (simp_all add: machine_quiet_def)

lemma quiet_history: "list_all machine_quiet es \<Longrightarrow> cloned es = [] \<and> deleted es = []"
  by (induction es) (auto simp: machine_quiet_def)

lemma spec_quiet: "only machine_quiet m \<Longrightarrow> spec m (\<lambda>_ es. cloned es = [] \<and> deleted es = [])"
  unfolding only_def by (erule spec_weaken) (simp add: quiet_history)

lemma only_exit: "only P (check_exit failed st)"
  by (auto simp: check_exit_def intro!: only_rules split: option.splits)

lemma quiet_network: "only machine_quiet setup_test_network_macos"
  unfolding setup_test_network_macos_def enable_forwarding_macos_def create_wireguard_interface_def
    vm_checked_def run_checked_def cmd_output_def
  by (intro only_rules only_exit) simp_all

lemma quiet_tunnel: "only machine_quiet configure_tunnel"
  unfolding configure_tunnel_def vm_checked_def run_checked_def tempfile_def host_calls
  by (intro only_rules only_exit) (simp_all add: machine_quiet_def command_new_def)

lemma quiet_pty: "only machine_quiet (tart_pty pty_re child)"
  unfolding tart_pty_def find_pty_def child_lines_def cmd_try_wait_def by (intro only_rules) simp_all

lemma quiet_ip: "only machine_quiet (tart_ip parse machine)"
  unfolding tart_ip_def host_calls by (intro only_rules) simp_all

lemma quiet_start: "only machine_quiet (tart_start pty_re parse cfg machine)"
  unfolding tart_start_def Let_def host_calls by (intro only_rules quiet_pty quiet_ip quiet_tunnel) simp_all

text \<open>What becomes of a machine: the names it is deleted under.\<close>

definition owed :: "machine_copy \<Rightarrow> string set" where
  "owed machine = (if should_destroy machine then {mc_name machine} else {})"

lemma delete_command_history [simp]:
  "cloned_by (Status (delete_command n) r) = None" "deleted_by (Status (delete_command n) r) = Some n"
  by (simp_all add: delete_command_def command_new_def)

lemma clone_command_history [simp]:
  "cloned_by (Status (clone_command name n) r) = (if r = Inr (Exited 0) then Some n else None)"
  "deleted_by (Status (clone_command name n) r) = None"
  by (simp_all add: clone_command_def command_new_def)

declare cloned_by.simps(1) [simp del] deleted_by.simps(1) [simp del]

lemma try_destroy_spec:
  "spec (try_destroy machine) (\<lambda>r es. cloned es = [] \<and> set (deleted es) = owed machine \<and>
     (\<exists>machine'. r = Ok machine' \<and> owed machine' \<subseteq> owed machine))"
proof -
  have "spec (destroy_inner machine) (\<lambda>r es. (\<forall>s. r \<noteq> Panic s) \<and> cloned es = [] \<and> deleted es = [mc_name machine])"
    unfolding destroy_inner_def cmd_status_def by (auto intro!: spec_rules)
  then have "spec (attempt (destroy_inner machine)) (\<lambda>r es. (\<exists>x. r = Ok x) \<and> cloned es = [] \<and> deleted es = [mc_name machine])"
    by (rule spec_attempt) auto
  note destroy = this
  show ?thesis
  proof (cases "should_destroy machine")
    case False
    then show ?thesis by (auto simp: try_destroy_def owed_def intro!: spec_ret)
  next
    case True
    have "owed machine = {mc_name machine}" "owed (machine\<lparr>should_destroy := False\<rparr>) = {}"
      using True by (simp_all add: owed_def)
    then show ?thesis
      unfolding try_destroy_def
      by (simp add: True) (rule spec_bindE [OF destroy], auto split: sum.splits intro!: spec_ret)
  qed
qed

lemma drop_machine_spec:
  "spec (drop_machine machine) (\<lambda>r es. r = Ok () \<and> cloned es = [] \<and> set (deleted es) = owed machine)"
  unfolding drop_machine_def by (rule spec_seqE [OF try_destroy_spec]) (auto intro!: spec_rules)

lemma cleanup_machine_spec:
  "spec (cleanup_machine machine) (\<lambda>r es. r = Ok () \<and> cloned es = [] \<and> set (deleted es) = owed machine)"
  unfolding cleanup_machine_def
proof (rule spec_bindE [OF try_destroy_spec])
  fix machine' :: machine_copy and es
  assume *: "cloned es = [] \<and> set (deleted es) = owed machine \<and>
    (\<exists>m. Ok machine' = (Ok m :: ('a, machine_copy) res) \<and> owed m \<subseteq> owed machine)"
  show "spec (drop_machine machine') (\<lambda>r es'. r = Ok () \<and> cloned (es @ es') = [] \<and> set (deleted (es @ es')) = owed machine)"
    by (rule spec_weaken [OF drop_machine_spec]) (use * in auto)
qed auto

lemma spec_or_drop:
  assumes "spec body P"
    and "\<And>a es. P (Ok a) es \<Longrightarrow> Q (Ok a) es"
    and "\<And>r es es'. P r es \<Longrightarrow> (\<forall>a. r \<noteq> Ok a) \<Longrightarrow> cloned es' = [] \<Longrightarrow> set (deleted es') = owed machine \<Longrightarrow> Q r (es @ es')"
  shows "spec (or_drop machine body) Q"
  unfolding spec_def
proof (intro allI)
  fix env tr
  obtain r tr' where m: "body env tr = (r, tr')" by fastforce
  with assms(1) obtain es where es: "tr' = tr @ es" "P r es" by (meson spec_run)
  obtain es' where es': "snd ((drop_machine machine :: ('a, unit) host) env tr') = tr' @ es'" "cloned es' = []" "set (deleted es') = owed machine"
    by (rule specD [OF drop_machine_spec [where 'a = 'a], of machine env tr']) auto
  show "\<exists>es. snd (or_drop machine body env tr) = tr @ es \<and> Q (fst (or_drop machine body env tr)) es"
  proof (cases r)
    case (Ok a)
    with m es assms(2) show ?thesis by (auto simp: or_drop_def)
  qed (use m es es' assms(3) in \<open>auto simp: or_drop_def\<close>)
qed

text \<open>The names a clone may have.\<close>

definition clone_names :: "config \<Rightarrow> string set" where
  "clone_names cfg = (if keep_changes (runtime_opts cfg) then {} else {n. prefix ''test-'' n})"

lemma tart_run_spec:
  "spec (tart_run pty_re parse cfg vm) (\<lambda>r es. set (cloned es) \<subseteq> clone_names cfg \<and> (case r of
      Ok inst \<Rightarrow> (\<exists>machine. ti_machine inst = Some machine \<and> deleted es = [] \<and> set (cloned es) = owed machine)
    | _ \<Rightarrow> set (deleted es) = set (cloned es)))"
  (is "spec _ ?ends")
proof -
  have start: "spec (or_drop machine (tart_start pty_re parse cfg machine)) (\<lambda>r es. case r of
      Ok inst \<Rightarrow> ti_machine inst = Some machine \<and> deleted es = [] \<and> cloned es = []
    | _ \<Rightarrow> set (deleted es) = owed machine \<and> cloned es = [])" for machine
  proof (rule spec_or_drop)
    have "spec (tart_start pty_re parse cfg machine) (\<lambda>r es. \<forall>inst. r = Ok inst \<longrightarrow> ti_machine inst = Some machine)"
      unfolding tart_start_def Let_def cmd_spawn_def
      by (intro spec_rules spec_bindE [OF spec_quiet [OF quiet_pty]] spec_bindE [OF spec_quiet [OF quiet_ip]]
          spec_seqE [OF spec_quiet [OF quiet_tunnel]]) auto
    from spec_conj [OF spec_quiet [OF quiet_start] this]
    show "spec (tart_start pty_re parse cfg machine) (\<lambda>r es. (cloned es = [] \<and> deleted es = []) \<and>
        (\<forall>inst. r = Ok inst \<longrightarrow> ti_machine inst = Some machine))" .
  qed (auto split: res.splits)
  have own: "spec (if keep_changes (runtime_opts cfg) then ret (borrow_vm (image_path vm)) else clone_vm (image_path vm))
      (\<lambda>r es. set (cloned es) \<subseteq> clone_names cfg \<and> deleted es = [] \<and> (case r of Ok machine \<Rightarrow> set (cloned es) = owed machine | _ \<Rightarrow> cloned es = []))"
    unfolding clone_vm_def random_uuid_def cmd_status_def
    by (auto simp: owed_def borrow_vm_def clone_names_def status_success_def Let_def intro!: spec_rules)
  have "spec (bindE (if keep_changes (runtime_opts cfg) then ret (borrow_vm (image_path vm)) else clone_vm (image_path vm))
      (\<lambda>machine. or_drop machine (tart_start pty_re parse cfg machine))) (\<lambda>r es. ?ends r (pre @ es))"
    if "cloned pre = []" "deleted pre = []" for pre
  proof (rule spec_bindE [OF own])
    fix machine es
    assume "set (cloned es) \<subseteq> clone_names cfg \<and> deleted es = [] \<and> (case (Ok machine :: (vm_fault, machine_copy) res) of
        Ok machine \<Rightarrow> set (cloned es) = owed machine | _ \<Rightarrow> cloned es = [])"
    then have es: "set (cloned es) \<subseteq> clone_names cfg" "deleted es = []" "set (cloned es) = owed machine" by auto
    show "spec (or_drop machine (tart_start pty_re parse cfg machine)) (\<lambda>r es'. ?ends r (pre @ es @ es'))"
      by (rule spec_weaken [OF start]) (use that es in \<open>auto split: res.splits\<close>)
  qed (use that in auto)
  then show ?thesis
    unfolding tart_run_def
    by (intro spec_seqE [OF spec_quiet [OF only_map_err [OF quiet_network]]]) auto
qed

lemma tart_drop_spec:
  "spec (tart_drop inst) (\<lambda>r es. r = Ok () \<and> cloned es = [] \<and>
     set (deleted es) = (case ti_machine inst of Some machine \<Rightarrow> owed machine | None \<Rightarrow> {}))"
  unfolding tart_drop_def by (auto split: option.splits intro!: spec_ret spec_weaken [OF drop_machine_spec])

lemma tart_wait_spec:
  "spec (tart_wait inst) (\<lambda>r es. r = Ok (inst\<lparr>ti_machine := None\<rparr>) \<and> cloned es = [] \<and>
     set (deleted es) = (case ti_machine inst of Some machine \<Rightarrow> owed machine | None \<Rightarrow> {}))"
proof (cases "ti_machine inst")
  case None
  then have "inst\<lparr>ti_machine := None\<rparr> = inst" by (cases inst) simp
  with None show ?thesis
    unfolding tart_wait_def cmd_wait_def seqE_def by (auto intro!: spec_rules)
next
  case (Some machine)
  have "spec (seqE (cleanup_machine machine) (ret (inst\<lparr>ti_machine := None\<rparr>)))
      (\<lambda>r es. r = Ok (inst\<lparr>ti_machine := None\<rparr>) \<and> cloned (Wait c w # es) = [] \<and> set (deleted (Wait c w # es)) = owed machine)" for c w
    by (rule spec_seqE [OF cleanup_machine_spec]) (simp_all add: spec_ret)
  with Some show ?thesis
    unfolding tart_wait_def cmd_wait_def seqE_def by (simp only: option.case) (rule spec_bind_attempt_callE)
qed

text \<open>The life of a guest: it is started, perhaps waited for, and dropped.\<close>

definition tart_life where
  "tart_life pty_re parse cfg vm waited =
     bindE (tart_run pty_re parse cfg vm) (\<lambda>inst.
     bindE (if waited then tart_wait inst else ret inst) tart_drop)"

text \<open>Without \<open>keep_changes\<close> only clones are run.\<close>

lemma scratch_other:
  "scratch_ev (SpawnThread n)" "scratch_ev (Fs op u)" "scratch_ev (Query n a q)" "scratch_ev (ReadLines n l)"
  "scratch_ev (TryWait c w)" "scratch_ev (Wait c x)" "scratch_ev (Sys n a u)" "scratch_ev (IfAddrs i)"
  "scratch_ev (Exists p b)" "scratch_ev (IsFile p f)" "scratch_ev (ReadDir p d)"
  by (simp_all add: scratch_ev_def)

lemma scratch_command:
  assumes "p \<noteq> ''qemu-system-x86_64''" "p \<noteq> ''tart'' \<or> take 1 args \<noteq> [''run''] \<or> prefix ''test-'' (args ! 1)"
  shows "scratch_ev (Output (command_new p args) o1)" "scratch_ev (Status (command_new p args) st)"
    "scratch_ev (Spawn (command_new p args) u)"
  using assms by (auto simp: scratch_ev_def scratch_only_def command_new_def)

lemmas scratch_rules = scratch_other scratch_command

lemma scratch_network: "only scratch_ev setup_test_network_macos"
  unfolding setup_test_network_macos_def enable_forwarding_macos_def create_wireguard_interface_def
    vm_checked_def run_checked_def cmd_output_def
  by (intro only_rules only_exit) (simp_all add: scratch_rules)

lemma scratch_tunnel: "only scratch_ev configure_tunnel"
  unfolding configure_tunnel_def vm_checked_def run_checked_def tempfile_def host_calls
  by (intro only_rules only_exit) (simp_all add: scratch_rules)

lemma scratch_start:
  assumes "prefix ''test-'' (mc_name machine)"
  shows "only scratch_ev (tart_start pty_re parse cfg machine)"
  unfolding tart_start_def tart_pty_def tart_ip_def tart_command_def find_pty_def child_lines_def Let_def host_calls cmd_try_wait_def
  by (intro only_rules scratch_tunnel) (use assms in \<open>simp_all add: scratch_rules split: display.splits\<close>)

lemma scratch_destroy: "only scratch_ev (try_destroy machine)"
  unfolding try_destroy_def destroy_inner_def delete_command_def cmd_status_def
  by (intro only_rules) (simp_all add: scratch_rules)

lemma scratch_drop_machine: "only scratch_ev (drop_machine machine)"
  unfolding drop_machine_def by (intro only_rules scratch_destroy)

lemma scratch_wait: "only scratch_ev (tart_wait inst)" "only scratch_ev (tart_drop inst)"
  unfolding tart_wait_def tart_drop_def cleanup_machine_def cmd_wait_def
  by (intro only_rules scratch_destroy scratch_drop_machine; simp add: scratch_rules)+

lemma tart_run_scratch:
  assumes "\<not> keep_changes (runtime_opts cfg)"
  shows "only scratch_ev (tart_run pty_re parse cfg vm)"
proof -
  have clone: "spec (clone_vm (image_path vm)) (\<lambda>r es. list_all scratch_ev es \<and>
      (case r of Ok machine \<Rightarrow> prefix ''test-'' (mc_name machine) | _ \<Rightarrow> True))"
    unfolding clone_vm_def random_uuid_def clone_command_def cmd_status_def Let_def
    by (auto simp: scratch_rules intro!: spec_rules)
  have drop: "only scratch_ev (or_drop machine m)" if "only scratch_ev m" for machine and m :: "(vm_fault, 'a) host"
    unfolding only_def spec_def
  proof (intro allI)
    fix env tr
    obtain r tr' where m: "m env tr = (r, tr')" by fastforce
    with that obtain es where es: "tr' = tr @ es" "list_all scratch_ev es"
      by (auto simp: only_def dest: spec_run)
    obtain es' where "snd ((drop_machine machine :: (vm_fault, unit) host) env tr') = tr' @ es'" "list_all scratch_ev es'"
      by (rule specD [OF scratch_drop_machine [unfolded only_def]])
    with m es show "\<exists>es. snd (or_drop machine m env tr) = tr @ es \<and> list_all scratch_ev es"
      by (cases r) (auto simp: or_drop_def)
  qed
  have "only scratch_ev (bindE (clone_vm (image_path vm)) (\<lambda>machine. or_drop machine (tart_start pty_re parse cfg machine)))"
    unfolding only_def
    by (rule spec_bindE [OF clone]) (auto intro!: spec_weaken [OF drop [OF scratch_start, unfolded only_def]])
  with assms show ?thesis
    unfolding tart_run_def by (intro only_seqE only_map_err scratch_network) simp
qed

section \<open>Properties\<close>

text \<open>
  C21. Machines: over the life of a guest, whether its start succeeds or fails, whether it is waited for
  or just dropped, \<open>tart delete\<close> is run for exactly the clones that were made, never for the machine
  itself; no clone is made when changes are to be kept, and otherwise a clone has a name of its own
  that begins with \<open>test-\<close>.
\<close>

theorem tart_deletes_exactly_its_clones:
  "spec (tart_life pty_re parse cfg vm waited) (\<lambda>r es.
     set (deleted es) = set (cloned es) \<and> set (cloned es) \<subseteq> clone_names cfg)"
  unfolding tart_life_def
proof (rule spec_bindE [OF tart_run_spec])
  fix inst es
  assume "set (cloned es) \<subseteq> clone_names cfg \<and> (case (Ok inst :: (vm_fault, tart_instance) res) of
      Ok inst \<Rightarrow> (\<exists>machine. ti_machine inst = Some machine \<and> deleted es = [] \<and> set (cloned es) = owed machine)
    | _ \<Rightarrow> set (deleted es) = set (cloned es))"
  then obtain machine where es: "set (cloned es) \<subseteq> clone_names cfg" "ti_machine inst = Some machine" "deleted es = []"
    "set (cloned es) = owed machine" by auto
  have wait: "spec (if waited then tart_wait inst else ret inst) (\<lambda>r es'. cloned es' = [] \<and>
      (\<exists>inst'. r = Ok inst' \<and> set (deleted es') \<union> (case ti_machine inst' of Some m \<Rightarrow> owed m | None \<Rightarrow> {}) = owed machine))"
    by (cases waited) (auto simp: es intro!: spec_ret spec_weaken [OF tart_wait_spec])
  show "spec (bindE (if waited then tart_wait inst else ret inst) tart_drop) (\<lambda>r es'.
      set (deleted (es @ es')) = set (cloned (es @ es')) \<and> set (cloned (es @ es')) \<subseteq> clone_names cfg)"
    by (rule spec_bindE [OF wait]) (use es in \<open>fastforce intro!: spec_weaken [OF tart_drop_spec]\<close>)+
qed auto

end
