(* ===== verification/Vm_Provision.thy ===== *)
theory Vm_Provision
  imports Vm_Tart App_Packages
begin

text \<open>
  \<open>test-manager/src/vm/mod.rs\<close>, \<open>vm/provision.rs\<close>, \<open>vm/ssh.rs\<close> and \<open>vm/update.rs\<close>: starting a guest of the
  configured kind, bringing the runner and the packages onto it, and updating its system.

  The operations of the crate \<open>ssh2\<close> are calls of the host, named after its functions.  The embedded
  files (\<open>include_bytes!\<close>) are named by their paths in the repository.
\<close>

section \<open>Paths\<close>

fun split_slash :: "string \<Rightarrow> string \<Rightarrow> string list" where
  "split_slash acc [] = [acc]"
| "split_slash acc (c # s) = (if c = CHR ''/'' then acc # split_slash [] s else split_slash (acc @ [c]) s)"

text \<open>\<open>Path::file_name\<close>: the last component, if it is a normal one.\<close>

definition path_file_name :: "string \<Rightarrow> string option" where
  "path_file_name p =
    (let cs = filter (\<lambda>c. c \<noteq> [] \<and> c \<noteq> ''.'') (split_slash [] p)
     in if cs = [] \<or> last cs = ''..'' then None else Some (last cs))"

section \<open>SSH\<close>

definition PORT :: nat where "PORT = 22"

abbreviation ssh_call :: "string \<Rightarrow> string list \<Rightarrow> (vm_fault, unit) host" where
  "ssh_call name args \<equiv> sys_call VmIo name args"

definition ssh_connect :: "string \<Rightarrow> string \<Rightarrow> ip_addr \<Rightarrow> (vm_fault, unit) host" where
  "ssh_connect user password ip =
     seqE (sys_call (io_context ''TCP connect failed'') ''TcpStream::connect'' [ip_display ip, show_nat PORT])
    (seqE (sys_call (io_context ''Failed to connect to SSH server'') ''Session::new'' [])
    (seqE (ssh_call ''handshake'' [])
     (sys_call (io_context ''SSH auth failed'') ''userauth_password'' [user, password])))"

definition ssh_exec :: "string \<Rightarrow> (vm_fault, string) host" where
  "ssh_exec cmd =
     seqE (ssh_call ''channel_session'' [])
    (seqE (ssh_call ''exec'' [cmd])
    (bindE (query_call VmIo ''read_to_string'' []) (\<lambda>out.
     seqE (ssh_call ''send_eof'' [])
    (seqE (ssh_call ''wait_eof'' [])
    (seqE (ssh_call ''wait_close'' [])
     (ret out))))))"

definition exec_blocking :: "string \<Rightarrow> (vm_fault, string) host" where
  "exec_blocking cmd =
     seqE (ssh_call ''channel_session'' [])
    (seqE (ssh_call ''exec'' [cmd])
    (bindE (query_call VmIo ''read_to_string'' []) (\<lambda>out.
     seqE (ssh_call ''send_eof'' [])
    (seqE (ssh_call ''wait_eof'' [])
    (seqE (ssh_call ''wait_close'' [])
     (ret out))))))"

definition ssh_send_file :: "string \<Rightarrow> string \<Rightarrow> string \<Rightarrow> (vm_fault, unit) host" where
  "ssh_send_file source source_len dest =
     seqE (ssh_call ''scp_send'' [dest, ''0o744'', source_len])
    (seqE (sys_call (io_context ''failed to write file'') ''io::copy'' [source, dest])
    (seqE (ssh_call ''send_eof'' [])
    (seqE (ssh_call ''wait_eof'' [])
    (seqE (ssh_call ''close'' [])
     (ssh_call ''wait_close'' [])))))"

definition ssh_send_file_path :: "string \<Rightarrow> string \<Rightarrow> (vm_fault, unit) host" where
  "ssh_send_file_path source dest_dir = (case path_file_name source of
      None \<Rightarrow> fail (VmText ''Missing source file name'')
    | Some name \<Rightarrow>
        seqE (fs_call (io_context ''Failed to open file'') (OpenRead source))
       (bindE (query_call (io_context ''Failed to get file size'') ''metadata.len'' [source]) (\<lambda>len.
        ssh_send_file source len (path_join dest_dir name))))"

section \<open>Provisioning\<close>

definition REMOTE_TEMP_DIR :: string where "REMOTE_TEMP_DIR = ''/tmp/''"
definition SCRIPT_PAYLOAD :: string where "SCRIPT_PAYLOAD = ''scripts/ssh-setup.sh''"
definition OPENVPN_CERT :: string where "OPENVPN_CERT = ''openvpn.ca.crt''"

definition unwrap_option :: "'a option \<Rightarrow> ('e, 'a) host" where
  "unwrap_option x = (case x of Some a \<Rightarrow> ret a | None \<Rightarrow> panic ''unwrap'')"

definition in_quotes :: "string \<Rightarrow> string" where
  "in_quotes s = [CHR 0x22] @ s @ [CHR 0x22]"

definition setup_args :: "string \<Rightarrow> string \<Rightarrow> string \<Rightarrow> string \<Rightarrow> string" where
  "setup_args remote_dir current previous ui =
     remote_dir @ '' '' @ in_quotes current @ '' '' @ in_quotes previous @ '' '' @ in_quotes ui"

text \<open>\<open>embedded_len\<close> gives the lengths of the embedded files.\<close>

definition blocking_ssh ::
  "(string \<Rightarrow> nat) \<Rightarrow> string \<Rightarrow> string \<Rightarrow> ip_addr \<Rightarrow> string \<Rightarrow> manifest \<Rightarrow> string \<Rightarrow> (vm_fault, unit) host" where
  "blocking_ssh embedded_len user password guest_ip local_runner_dir app remote_dir =
     seqE (ssh_connect user password guest_ip)
    (seqE (map_err (VmContext ''Failed to send test runner to remote'')
             (ssh_send_file_path (path_join local_runner_dir ''test-runner'') REMOTE_TEMP_DIR))
    (seqE (map_err (VmContext ''Failed to send current app package to remote'')
             (ssh_send_file_path (current_app_path app) REMOTE_TEMP_DIR))
    (seqE (map_err (VmContext ''Failed to send previous app package to remote'')
             (ssh_send_file_path (previous_app_path app) REMOTE_TEMP_DIR))
    (seqE (map_err (VmContext ''Failed to send UI test runner to remote'')
             (ssh_send_file_path (ui_e2e_tests_path app) REMOTE_TEMP_DIR))
    (seqE (map_err (VmContext ''failed to send openvpn crt to remote'')
             (ssh_send_file OPENVPN_CERT (show_nat (embedded_len OPENVPN_CERT)) (path_join REMOTE_TEMP_DIR ''openvpn.ca.crt'')))
    (seqE (map_err (VmContext ''failed to send bootstrap script to remote'')
             (ssh_send_file SCRIPT_PAYLOAD (show_nat (embedded_len SCRIPT_PAYLOAD)) (path_join REMOTE_TEMP_DIR ''ssh-setup.sh'')))
    (bindE (unwrap_option (path_file_name (current_app_path app))) (\<lambda>current.
     bindE (unwrap_option (path_file_name (previous_app_path app))) (\<lambda>previous.
     bindE (unwrap_option (path_file_name (ui_e2e_tests_path app))) (\<lambda>ui.
     seqE (map_err (VmContext ''Failed to run setup script'')
             (ssh_exec (''sudo '' @ path_join REMOTE_TEMP_DIR ''ssh-setup.sh'' @ '' '' @ setup_args remote_dir current previous ui)))
     (ret ())))))))))))"

text \<open>\<open>spawn_blocking(...).await\<close>: a panic of the task is an error of the join handle.\<close>

definition join_task :: "(string \<Rightarrow> 'e) \<Rightarrow> ('e, 'a) host \<Rightarrow> ('e, 'a) host" where
  "join_task joined m = (\<lambda>env tr. case m env tr of
      (Panic s, tr') \<Rightarrow> (Err (joined s), tr')
    | (r, tr') \<Rightarrow> (r, tr'))"

definition remote_dir_of :: "os_type \<Rightarrow> string" where
  "remote_dir_of os = (case os of
      OsWindows \<Rightarrow> ''C:'' @ [CHR 0x5C] @ ''testing''
    | OsMacos \<Rightarrow> ''/opt/testing''
    | OsLinux \<Rightarrow> ''/opt/testing'')"

definition ssh ::
  "(string \<Rightarrow> nat) \<Rightarrow> ip_addr \<Rightarrow> os_type \<Rightarrow> string \<Rightarrow> manifest \<Rightarrow> string \<Rightarrow> string \<Rightarrow> (vm_fault, string) host" where
  "ssh embedded_len guest_ip os local_runner_dir app user password =
    (let remote_dir = remote_dir_of os in
     seqE (join_task (\<lambda>s. VmContext ''Failed to join SSH task'' (VmText s))
             (blocking_ssh embedded_len user password guest_ip local_runner_dir app remote_dir))
     (ret remote_dir))"

definition provision_vm ::
  "(string \<Rightarrow> nat) \<Rightarrow> vm_config \<Rightarrow> ip_addr \<Rightarrow> manifest \<Rightarrow> (vm_fault, string) host" where
  "provision_vm embedded_len vm guest_ip app = (case provisioner vm of
      Ssh \<Rightarrow> (case get_ssh_options vm of
          None \<Rightarrow> fail (VmText ''missing SSH config'')
        | Some (user, password) \<Rightarrow> (case get_runner_dir vm of
            None \<Rightarrow> panic ''not implemented''
          | Some dir \<Rightarrow> map_err (VmContext ''Failed to provision runner over SSH'')
              (ssh embedded_len guest_ip (os_type vm) dir app user password)))
    | Noop \<Rightarrow> (case artifacts_dir vm of
          None \<Rightarrow> fail (VmText (quoted ''artifacts_dir'' @ '' must be set to a mountpoint''))
        | Some dir \<Rightarrow> ret dir))"

section \<open>Updating\<close>

datatype update = Logs "string list" | Nothing

definition update_commands :: "vm_config \<Rightarrow> string list option" where
  "update_commands vm = (case (os_type vm, package_type vm) of
      (OsLinux, Some Deb) \<Rightarrow> Some [''sudo apt-get update'', ''sudo apt-get upgrade'']
    | (OsLinux, Some Rpm) \<Rightarrow> Some [''sudo dnf update'']
    | (OsLinux, None) \<Rightarrow> None
    | (OsMacos, _) \<Rightarrow> None
    | (OsWindows, _) \<Rightarrow> None)"

text \<open>The lazily evaluated \<open>map ... collect\<close>: the first error ends it.\<close>

fun exec_all :: "string list \<Rightarrow> (vm_fault, string list) host" where
  "exec_all [] = ret []"
| "exec_all (cmd # cmds) =
     bindE (exec_blocking cmd) (\<lambda>out. bindE (exec_all cmds) (\<lambda>outs. ret (out # outs)))"

definition packages :: "vm_config \<Rightarrow> ip_addr \<Rightarrow> (vm_fault, update) host" where
  "packages vm guest_ip = (case provisioner vm of
      Noop \<Rightarrow> ret Nothing
    | Ssh \<Rightarrow> (case update_commands vm of
        None \<Rightarrow> ret Nothing
      | Some cmds \<Rightarrow> (case get_ssh_options vm of
          None \<Rightarrow> fail (VmText ''missing SSH config'')
        | Some (user, password) \<Rightarrow>
            seqE (ssh_connect user password guest_ip)
           (bindE (exec_all cmds) (\<lambda>out. ret (Logs out))))))"

definition update_display :: "update \<Rightarrow> string" where
  "update_display u = (case u of Nothing \<Rightarrow> ''Nothing was updated'' | Logs out \<Rightarrow> concat out)"

section \<open>Guests of either kind\<close>

datatype vm_instance = QemuVm qemu_instance | TartVm tart_instance

primrec get_pty :: "vm_instance \<Rightarrow> string" where
  "get_pty (QemuVm i) = qi_pty i"
| "get_pty (TartVm i) = ti_pty i"

primrec get_ip :: "vm_instance \<Rightarrow> ip_addr" where
  "get_ip (QemuVm i) = qi_ip i"
| "get_ip (TartVm i) = ti_ip i"

primrec wait_vm :: "vm_instance \<Rightarrow> ('e, vm_instance) host" where
  "wait_vm (QemuVm i) = seqE (qemu_wait i) (ret (QemuVm i))"
| "wait_vm (TartVm i) = bindE (tart_wait i) (\<lambda>i. ret (TartVm i))"

primrec drop_vm :: "vm_instance \<Rightarrow> ('e, unit) host" where
  "drop_vm (QemuVm i) = ret ()"
| "drop_vm (TartVm i) = tart_drop i"

text \<open>
  What the code takes from its build and its libraries: the platform it is built for, the compiled
  regular expressions, \<open>IpAddr::from_str\<close>, \<open>temp_dir()\<close> and the lengths of the embedded files.
\<close>

record vm_host =
  vh_macos :: bool
  vh_qemu_pty :: "string \<Rightarrow> string option"
  vh_tart_pty :: "string \<Rightarrow> string option"
  vh_dhcp :: "string \<Rightarrow> string option"
  vh_parse_ip :: "string \<Rightarrow> ip_addr option"
  vh_temp_dir :: string
  vh_embedded_len :: "string \<Rightarrow> nat"

definition vm_config_of :: "config \<Rightarrow> string \<Rightarrow> (vm_fault, vm_config) host" where
  "vm_config_of cfg name = of_result (map_sum VmText id (get_vm_config cfg name))"

definition run_vm :: "vm_host \<Rightarrow> config \<Rightarrow> string \<Rightarrow> (vm_fault, vm_instance) host" where
  "run_vm vh cfg name =
     bindE (vm_config_of cfg name) (\<lambda>vm. case vm_type vm of
       Qemu \<Rightarrow> bindE (map_err (\<lambda>e. VmContext ''Failed to run QEMU VM'' (VmQemu e))
                  (qemu_run (vh_qemu_pty vh) (vh_dhcp vh) (vh_parse_ip vh) (vh_temp_dir vh) cfg vm)) (\<lambda>i. ret (QemuVm i))
     | Tart \<Rightarrow>
         if vh_macos vh then bindE (map_err (VmContext ''Failed to run Tart VM'')
                  (tart_run (vh_tart_pty vh) (vh_parse_ip vh) cfg vm)) (\<lambda>i. ret (TartVm i))
         else fail (VmText ''Failed to run Tart VM on a non-macOS host''))"

definition provision :: "vm_host \<Rightarrow> config \<Rightarrow> string \<Rightarrow> vm_instance \<Rightarrow> manifest \<Rightarrow> (vm_fault, string) host" where
  "provision vh cfg name inst app =
     bindE (vm_config_of cfg name) (\<lambda>vm. provision_vm (vh_embedded_len vh) vm (get_ip inst) app)"

definition update_packages :: "vm_config \<Rightarrow> vm_instance \<Rightarrow> (vm_fault, update) host" where
  "update_packages vm inst = join_task VmText (packages vm (get_ip inst))"

section \<open>Lemmas\<close>

text \<open>What was sent to the guest, and which commands were started on it.\<close>

fun sent_by :: "host_ev \<Rightarrow> (string \<times> string) option" where
  "sent_by (Sys name args r) = (case args of [src, dest] \<Rightarrow>
     if name = ''io::copy'' \<and> r = Inr () then Some (src, dest) else None | _ \<Rightarrow> None)"
| "sent_by _ = None"

fun started_by :: "host_ev \<Rightarrow> string option" where
  "started_by (Sys name args r) = (case args of [cmd] \<Rightarrow>
     if name = ''exec'' \<and> r = Inr () then Some cmd else None | _ \<Rightarrow> None)"
| "started_by _ = None"

definition sent :: "host_ev list \<Rightarrow> (string \<times> string) list" where
  "sent es = List.map_filter sent_by es"

definition started :: "host_ev list \<Rightarrow> string list" where
  "started es = List.map_filter started_by es"

lemma guest_history_simps [simp]:
  "sent [] = []" "started [] = []"
  "sent (e # es) = (case sent_by e of None \<Rightarrow> sent es | Some x \<Rightarrow> x # sent es)"
  "started (e # es) = (case started_by e of None \<Rightarrow> started es | Some x \<Rightarrow> x # started es)"
  "sent (es @ fs) = sent es @ sent fs" "started (es @ fs) = started es @ started fs"
  by (auto simp: sent_def started_def map_filter_def split: option.splits)

text \<open>\<open>sends P m\<close>: \<open>m\<close> does not panic and starts nothing; when it succeeds, it has sent files as \<open>P\<close> says.\<close>

definition sends :: "((string \<times> string) list \<Rightarrow> bool) \<Rightarrow> ('e, 'a) host \<Rightarrow> bool" where
  "sends P m \<longleftrightarrow> spec m (\<lambda>r es. started es = [] \<and>
     (case r of Ok _ \<Rightarrow> P (sent es) | Err _ \<Rightarrow> True | Panic _ \<Rightarrow> False))"

lemma sends_map_err: "sends P m \<Longrightarrow> sends P (map_err g m)"
  unfolding sends_def by (erule spec_map_err) auto

lemma sends_weaken: "sends P m \<Longrightarrow> (\<And>ts. P ts \<Longrightarrow> Q ts) \<Longrightarrow> sends Q m"
  unfolding sends_def by (erule spec_weaken) (auto split: res.splits)

lemma sends_seqE:
  assumes "sends P m" "sends Q k"
  shows "sends (\<lambda>ts. \<exists>a b. P a \<and> Q b \<and> ts = a @ b) (seqE m k)"
  unfolding sends_def
proof (rule spec_seqE [OF assms(1) [unfolded sends_def]])
  fix x es
  assume "started es = [] \<and> (case Ok x of Ok _ \<Rightarrow> P (sent es) | Err _ \<Rightarrow> True | Panic _ \<Rightarrow> False)"
  then show "spec k (\<lambda>r es'. started (es @ es') = [] \<and>
      (case r of Ok _ \<Rightarrow> \<exists>a b. P a \<and> Q b \<and> sent (es @ es') = a @ b | Err _ \<Rightarrow> True | Panic _ \<Rightarrow> False))"
    by (intro spec_weaken [OF assms(2) [unfolded sends_def]]) (auto split: res.splits)
qed auto

lemma sends_connect: "sends (\<lambda>ts. ts = []) (ssh_connect user password ip)"
  unfolding sends_def ssh_connect_def sys_call_def by (auto intro!: spec_rules)

lemma sends_file: "sends (\<lambda>ts. ts = [(source, dest)]) (ssh_send_file source len dest)"
  unfolding sends_def ssh_send_file_def sys_call_def by (auto intro!: spec_rules)

lemma sends_file_path:
  "sends (\<lambda>ts. \<exists>name. path_file_name source = Some name \<and> ts = [(source, path_join dir name)])
     (ssh_send_file_path source dir)"
proof (cases "path_file_name source")
  case None
  then show ?thesis unfolding sends_def ssh_send_file_path_def by (auto intro: spec_fail)
next
  case (Some name)
  then show ?thesis
    unfolding ssh_send_file_path_def Some option.case fs_call_def query_call_def sends_def
    by (intro spec_rules spec_weaken [OF sends_file [unfolded sends_def]]) (auto simp: Some split: res.splits)
qed

text \<open>Running a command on the guest.\<close>

lemma ssh_exec_spec:
  "spec (ssh_exec cmd) (\<lambda>r es. sent es = [] \<and> (case r of Ok _ \<Rightarrow> started es = [cmd] | Err _ \<Rightarrow> prefix (started es) [cmd] | Panic _ \<Rightarrow> False))"
  unfolding ssh_exec_def sys_call_def query_call_def by (auto intro!: spec_rules)

lemma exec_blocking_ssh_exec: "exec_blocking cmd = ssh_exec cmd"
  by (simp add: exec_blocking_def ssh_exec_def)

definition payload :: "string \<Rightarrow> manifest \<Rightarrow> string \<Rightarrow> string \<Rightarrow> string \<Rightarrow> (string \<times> string) list" where
  "payload runner_dir app current previous ui =
    [(path_join runner_dir ''test-runner'', ''/tmp/test-runner''),
     (current_app_path app, path_join ''/tmp/'' current),
     (previous_app_path app, path_join ''/tmp/'' previous),
     (ui_e2e_tests_path app, path_join ''/tmp/'' ui),
     (''openvpn.ca.crt'', ''/tmp/openvpn.ca.crt''),
     (''scripts/ssh-setup.sh'', ''/tmp/ssh-setup.sh'')]"

definition provisioned :: "string \<Rightarrow> manifest \<Rightarrow> string \<Rightarrow> host_ev list \<Rightarrow> bool" where
  "provisioned runner_dir app remote_dir es \<longleftrightarrow> (\<exists>current previous ui.
     path_file_name (current_app_path app) = Some current \<and> path_file_name (previous_app_path app) = Some previous \<and>
     path_file_name (ui_e2e_tests_path app) = Some ui \<and> sent es = payload runner_dir app current previous ui \<and>
     started es = [''sudo /tmp/ssh-setup.sh '' @ setup_args remote_dir current previous ui])"

lemma split_slash_append: "split_slash acc (s @ CHR ''/'' # t) = split_slash acc s @ split_slash [] t"
  by (induction s arbitrary: acc) auto

lemma runner_file_name: "path_file_name (path_join dir ''test-runner'') = Some ''test-runner''"
proof -
  have own: "split_slash [] ''test-runner'' = [''test-runner'']" by simp
  consider "dir = []" | d where "dir = d @ ''/''" | "dir \<noteq> []" "last dir \<noteq> CHR ''/''"
    by (metis append_butlast_last_id)
  then show ?thesis
    by cases (simp_all add: path_join_def path_file_name_def Let_def split_slash_append own)
qed

definition transfer_all :: "(string \<Rightarrow> nat) \<Rightarrow> string \<Rightarrow> string \<Rightarrow> ip_addr \<Rightarrow> string \<Rightarrow> manifest \<Rightarrow> (vm_fault, unit) host" where
  "transfer_all embedded_len user password guest_ip local_runner_dir app =
     seqE (ssh_connect user password guest_ip)
    (seqE (map_err (VmContext ''Failed to send test runner to remote'')
             (ssh_send_file_path (path_join local_runner_dir ''test-runner'') REMOTE_TEMP_DIR))
    (seqE (map_err (VmContext ''Failed to send current app package to remote'')
             (ssh_send_file_path (current_app_path app) REMOTE_TEMP_DIR))
    (seqE (map_err (VmContext ''Failed to send previous app package to remote'')
             (ssh_send_file_path (previous_app_path app) REMOTE_TEMP_DIR))
    (seqE (map_err (VmContext ''Failed to send UI test runner to remote'')
             (ssh_send_file_path (ui_e2e_tests_path app) REMOTE_TEMP_DIR))
    (seqE (map_err (VmContext ''failed to send openvpn crt to remote'')
             (ssh_send_file OPENVPN_CERT (show_nat (embedded_len OPENVPN_CERT)) (path_join REMOTE_TEMP_DIR ''openvpn.ca.crt'')))
     (map_err (VmContext ''failed to send bootstrap script to remote'')
        (ssh_send_file SCRIPT_PAYLOAD (show_nat (embedded_len SCRIPT_PAYLOAD)) (path_join REMOTE_TEMP_DIR ''ssh-setup.sh''))))))))"

lemma blocking_ssh_transfer:
  "blocking_ssh embedded_len user password ip runner_dir app remote_dir =
     seqE (transfer_all embedded_len user password ip runner_dir app)
    (bindE (unwrap_option (path_file_name (current_app_path app))) (\<lambda>current.
     bindE (unwrap_option (path_file_name (previous_app_path app))) (\<lambda>previous.
     bindE (unwrap_option (path_file_name (ui_e2e_tests_path app))) (\<lambda>ui.
     seqE (map_err (VmContext ''Failed to run setup script'')
             (ssh_exec (''sudo '' @ path_join REMOTE_TEMP_DIR ''ssh-setup.sh'' @ '' '' @ setup_args remote_dir current previous ui)))
     (ret ())))))"
  by (simp add: blocking_ssh_def transfer_all_def seqE_def bindE_assoc)

lemma tmp_joins:
  "path_join ''/tmp/'' ''test-runner'' = ''/tmp/test-runner''"
  "path_join ''/tmp/'' ''openvpn.ca.crt'' = ''/tmp/openvpn.ca.crt''"
  "path_join ''/tmp/'' ''ssh-setup.sh'' = ''/tmp/ssh-setup.sh''"
  "REMOTE_TEMP_DIR = ''/tmp/''" "OPENVPN_CERT = ''openvpn.ca.crt''" "SCRIPT_PAYLOAD = ''scripts/ssh-setup.sh''"
  by (simp_all add: path_join_def REMOTE_TEMP_DIR_def OPENVPN_CERT_def SCRIPT_PAYLOAD_def)

lemma sends_transfer:
  "sends (\<lambda>ts. \<exists>current previous ui. path_file_name (current_app_path app) = Some current \<and>
      path_file_name (previous_app_path app) = Some previous \<and> path_file_name (ui_e2e_tests_path app) = Some ui \<and>
      ts = payload runner_dir app current previous ui)
    (transfer_all embedded_len user password ip runner_dir app)"
  unfolding transfer_all_def
  by (rule sends_weaken [OF sends_seqE [OF sends_connect sends_seqE [OF sends_map_err [OF sends_file_path]
        sends_seqE [OF sends_map_err [OF sends_file_path] sends_seqE [OF sends_map_err [OF sends_file_path]
        sends_seqE [OF sends_map_err [OF sends_file_path] sends_seqE [OF sends_map_err [OF sends_file]
        sends_map_err [OF sends_file]]]]]]]])
     (clarsimp simp: payload_def runner_file_name tmp_joins)

lemma blocking_ssh_spec:
  "spec (blocking_ssh embedded_len user password ip runner_dir app remote_dir) (\<lambda>r es.
     (started es = [] \<or> provisioned runner_dir app remote_dir es) \<and>
     (case r of Ok _ \<Rightarrow> provisioned runner_dir app remote_dir es | Err _ \<Rightarrow> True | Panic _ \<Rightarrow> False))"
  (is "spec _ ?Q")
  unfolding blocking_ssh_transfer
proof (rule spec_seqE [OF sends_transfer [unfolded sends_def]])
  fix x es
  assume "started es = [] \<and> (case Ok x :: (vm_fault, unit) res of Ok _ \<Rightarrow>
      \<exists>current previous ui. path_file_name (current_app_path app) = Some current \<and>
      path_file_name (previous_app_path app) = Some previous \<and> path_file_name (ui_e2e_tests_path app) = Some ui \<and>
      sent es = payload runner_dir app current previous ui | Err _ \<Rightarrow> True | Panic _ \<Rightarrow> False)"
  then obtain current previous ui where names: "path_file_name (current_app_path app) = Some current"
      "path_file_name (previous_app_path app) = Some previous" "path_file_name (ui_e2e_tests_path app) = Some ui"
    and es: "sent es = payload runner_dir app current previous ui" "started es = []" by auto
  let ?script = "''sudo '' @ path_join REMOTE_TEMP_DIR ''ssh-setup.sh'' @ '' '' @ setup_args remote_dir current previous ui"
  have "spec (seqE (map_err f (ssh_exec ?script)) (ret ())) (\<lambda>r es'. ?Q r (es @ es'))" for f :: "vm_fault \<Rightarrow> vm_fault"
  proof (rule spec_seqE)
    show "spec (map_err f (ssh_exec ?script)) (\<lambda>r es'. sent es' = [] \<and>
        (case r of Ok _ \<Rightarrow> started es' = [?script] | Err _ \<Rightarrow> prefix (started es') [?script] | Panic _ \<Rightarrow> False))"
      by (rule spec_map_err [OF ssh_exec_spec]) auto
  qed (auto simp: provisioned_def names es tmp_joins prefix_Cons intro!: spec_ret)
  then show "spec (bindE (unwrap_option (path_file_name (current_app_path app))) (\<lambda>current.
     bindE (unwrap_option (path_file_name (previous_app_path app))) (\<lambda>previous.
     bindE (unwrap_option (path_file_name (ui_e2e_tests_path app))) (\<lambda>ui.
     seqE (map_err (VmContext ''Failed to run setup script'')
             (ssh_exec (''sudo '' @ path_join REMOTE_TEMP_DIR ''ssh-setup.sh'' @ '' '' @ setup_args remote_dir current previous ui)))
     (ret ()))))) (\<lambda>r es'. ?Q r (es @ es'))"
    by (simp add: names unwrap_option_def)
qed auto

lemma spec_join_task:
  assumes "spec m Q" "\<And>s es. Q (Panic s) es \<Longrightarrow> Q (Err (joined s)) es"
  shows "spec (join_task joined m) Q"
  unfolding spec_def
proof (intro allI)
  fix env tr
  obtain r tr' where m: "m env tr = (r, tr')" by fastforce
  with assms(1) obtain es where "tr' = tr @ es" "Q r es" by (meson spec_run)
  with m assms(2) show "\<exists>es. snd (join_task joined m env tr) = tr @ es \<and> Q (fst (join_task joined m env tr)) es"
    by (cases r) (auto simp: join_task_def)
qed

lemma ssh_spec:
  "spec (ssh embedded_len ip os runner_dir app user password) (\<lambda>r es.
     (started es = [] \<or> provisioned runner_dir app (remote_dir_of os) es) \<and>
     (case r of Ok dir \<Rightarrow> dir = remote_dir_of os \<and> provisioned runner_dir app (remote_dir_of os) es
      | Err _ \<Rightarrow> True | Panic _ \<Rightarrow> False))"
  unfolding ssh_def Let_def
  by (rule spec_seqE [OF spec_join_task [OF blocking_ssh_spec]]) (auto intro!: spec_ret)

lemma exec_all_spec:
  "spec (exec_all cmds) (\<lambda>r es. case r of
      Ok outs \<Rightarrow> started es = cmds \<and> length outs = length cmds
    | Err _ \<Rightarrow> prefix (started es) cmds
    | Panic _ \<Rightarrow> False)"
proof (induction cmds)
  case (Cons cmd cmds)
  show ?case
    unfolding exec_all.simps exec_blocking_ssh_exec
  proof (rule spec_bindE [OF ssh_exec_spec])
    fix out es
    assume "sent es = [] \<and> (case (Ok out :: (vm_fault, string) res) of Ok _ \<Rightarrow> started es = [cmd]
        | Err _ \<Rightarrow> prefix (started es) [cmd] | Panic _ \<Rightarrow> False)"
    then have es: "started es = [cmd]" by simp
    show "spec (bindE (exec_all cmds) (\<lambda>outs. ret (out # outs))) (\<lambda>r es'. case r of
        Ok outs \<Rightarrow> started (es @ es') = cmd # cmds \<and> length outs = length (cmd # cmds)
      | Err _ \<Rightarrow> prefix (started (es @ es')) (cmd # cmds) | Panic _ \<Rightarrow> False)"
      by (rule spec_bindE [OF Cons.IH]) (auto simp: es intro!: spec_ret)
  qed (auto simp: prefix_Cons)
qed (auto intro!: spec_ret)

text \<open>
  Updating: without SSH, or on a system without an update command, nothing is done; otherwise the
  commands of the distribution are started one after the other, each after the one before it ended,
  and the result has one output for each of them.
\<close>

lemma update_runs_commands:
  "spec (update_packages vm inst) (\<lambda>r es. case (provisioner vm, update_commands vm) of
      (Ssh, Some cmds) \<Rightarrow> (case r of
          Ok u \<Rightarrow> (\<exists>outs. u = Logs outs \<and> started es = cmds \<and> length outs = length cmds)
        | Err _ \<Rightarrow> prefix (started es) cmds
        | Panic _ \<Rightarrow> False)
    | _ \<Rightarrow> es = [] \<and> r = Ok Nothing)"
proof -
  have connected: "spec (seqE (ssh_connect user password ip) (bindE (exec_all cmds) (\<lambda>out. ret (Logs out)))) (\<lambda>r es. case r of
      Ok u \<Rightarrow> (\<exists>outs. u = Logs outs \<and> started es = cmds \<and> length outs = length cmds)
    | Err _ \<Rightarrow> prefix (started es) cmds | Panic _ \<Rightarrow> False)" for user password ip cmds
  proof (rule spec_seqE [OF sends_connect [unfolded sends_def]])
    fix x es
    assume "started es = [] \<and> (case Ok x of Ok _ \<Rightarrow> sent es = [] | Err _ \<Rightarrow> True | Panic _ \<Rightarrow> False)"
    then show "spec (bindE (exec_all cmds) (\<lambda>out. ret (Logs out))) (\<lambda>r es'. case r of
        Ok u \<Rightarrow> (\<exists>outs. u = Logs outs \<and> started (es @ es') = cmds \<and> length outs = length cmds)
      | Err _ \<Rightarrow> prefix (started (es @ es')) cmds | Panic _ \<Rightarrow> False)"
      by (intro spec_bindE [OF exec_all_spec]) (auto intro!: spec_ret)
  qed auto
  show ?thesis
    unfolding update_packages_def packages_def
    by (rule spec_join_task) (auto split: provisioner.splits option.splits intro!: spec_rules connected)
qed

section \<open>Images\<close>

lemmas ssh_defs = ssh_connect_def ssh_exec_def ssh_send_file_def ssh_send_file_path_def

lemma scratch_ssh:
  "only scratch_ev (ssh_connect user password ip)" "only scratch_ev (ssh_exec cmd)"
  "only scratch_ev (ssh_send_file src len dest)" "only scratch_ev (ssh_send_file_path src dir)"
  unfolding ssh_defs sys_call_def query_call_def fs_call_def
  by (intro only_rules; simp add: scratch_rules)+

lemma only_join_task: "only P m \<Longrightarrow> only P (join_task joined m)"
  unfolding only_def by (erule spec_join_task)

lemma scratch_provision: "only scratch_ev (provision_vm embedded_len vm ip app)"
  unfolding provision_vm_def ssh_def blocking_ssh_def unwrap_option_def Let_def
  by (cases "provisioner vm") (auto split: option.splits intro!: only_rules only_join_task scratch_ssh)

lemma scratch_update: "only scratch_ev (update_packages vm inst)"
proof -
  have "only scratch_ev (exec_all cmds)" for cmds
    by (induction cmds) (auto simp: exec_blocking_ssh_exec intro!: only_rules scratch_ssh)
  then show ?thesis
    unfolding update_packages_def packages_def
    by (auto split: provisioner.splits option.splits intro!: only_rules only_join_task scratch_ssh)
qed

lemma run_vm_scratch:
  assumes "\<not> keep_changes (runtime_opts cfg)"
  shows "only scratch_ev (run_vm vh cfg name)"
  unfolding run_vm_def vm_config_of_def
  by (auto split: vm_type.splits intro!: only_rules qemu_run_scratch tart_run_scratch assms)

lemma vm_end_scratch: "only scratch_ev (wait_vm inst)" "only scratch_ev (drop_vm inst)"
  by (cases inst; auto simp: qemu_wait_def cmd_wait_def scratch_rules intro!: only_rules scratch_wait)+

section \<open>Properties\<close>

text \<open>
  C20. Provisioning: over SSH, success means that the test runner, the three packages, the certificate
  and the setup script were transferred, in this order, and that the script was then started with the
  directory and the names of the packages; the script is never started before everything was
  transferred.  Without SSH nothing is done and the directory is that of the configuration.  The only
  panic is that of an architecture for which there is no runner.
\<close>

theorem guest_is_provisioned:
  "spec (provision_vm embedded_len vm ip app) (\<lambda>r es. case provisioner vm of
      Noop \<Rightarrow> es = [] \<and> (case artifacts_dir vm of Some dir \<Rightarrow> r = Ok dir | None \<Rightarrow> \<exists>e. r = Err e)
    | Ssh \<Rightarrow> (case get_runner_dir vm of
        None \<Rightarrow> started es = [] \<and> (\<forall>dir. r \<noteq> Ok dir)
      | Some runner_dir \<Rightarrow>
          (started es = [] \<or> provisioned runner_dir app (remote_dir_of (os_type vm)) es) \<and>
          (case r of Ok dir \<Rightarrow> dir = remote_dir_of (os_type vm) \<and> provisioned runner_dir app dir es
           | Err _ \<Rightarrow> True | Panic _ \<Rightarrow> False)))"
proof (cases "provisioner vm")
  case Noop
  then show ?thesis
    by (auto simp: provision_vm_def split: option.splits intro!: spec_rules)
next
  case Ssh
  then show ?thesis
    by (auto simp: provision_vm_def split: option.splits intro!: spec_rules spec_map_err [OF ssh_spec])
qed

end
