(* ===== verification/Manager_Main.thy ===== *)
theory Manager_Main
  imports Run_Tests Vm_Provision
begin

text \<open>
  \<open>test-manager/src/main.rs\<close> and \<open>container.rs\<close>: the commands of the test manager, composed from the
  configuration, the packages, the guests, the test run and the summaries.

  The program sees two worlds, the configuration file and everything else (\<open>mgr\<close>, whose host part has
  the processes and files of the manager); \<open>configured\<close> and \<open>managed\<close> embed them.  What comes from the
  build, from libraries or from the operating system (the target, the user, the arguments, the list of
  tests, \<open>serde_json\<close>, regular expressions, the protocol's numbers) is in \<open>main_build\<close>.
\<close>

section \<open>Arguments\<close>

record run_tests_args =
  rt_name :: string
  rt_display :: bool
  rt_vnc :: "16 word option"
  rt_account :: string
  rt_current_app :: string
  rt_previous_app :: string
  rt_test_filters :: "string list"
  rt_verbose :: bool
  rt_test_report :: "string option"

datatype commands =
    SetCommand string vm_config
  | RemoveCommand string
  | ListCommand
  | RunVm string "16 word option" bool
  | RunTests run_tests_args
  | FormatTestReports "string list"
  | Update string

definition get_vnc_port :: "commands \<Rightarrow> 16 word option" where
  "get_vnc_port cmd = (case cmd of
      RunTests a \<Rightarrow> rt_vnc a
    | RunVm name vnc keep \<Rightarrow> vnc
    | _ \<Rightarrow> None)"

definition DEFAULT_MULLVAD_HOST :: string where "DEFAULT_MULLVAD_HOST = ''mullvad.net''"

section \<open>Worlds\<close>

datatype main_fault =
    MainConfig config_error | MainVm vm_fault | MainText string | MainSummary summary_error | MainRun anyhow
  | MainContext string main_fault

datatype 'd main_ev = Cfg "'d config_ev" | Mgr mgr_ev

record 'd main_env =
  mn_config :: "'d main_ev list \<Rightarrow> 'd config_env"
  mn_mgr :: "'d main_ev list \<Rightarrow> mgr_env"

type_synonym ('d, 'a) main_prog = "('d main_env, 'd main_ev, main_fault, 'a) prog"

definition the_cfg :: "'d main_ev \<Rightarrow> 'd config_ev option" where
  "the_cfg e = (case e of Cfg c \<Rightarrow> Some c | Mgr m \<Rightarrow> None)"

definition the_mgr :: "'d main_ev \<Rightarrow> mgr_ev option" where
  "the_mgr e = (case e of Mgr m \<Rightarrow> Some m | Cfg c \<Rightarrow> None)"

definition configured :: "('d, 'a) config_prog \<Rightarrow> ('d main_env, 'd main_ev, config_error, 'a) prog" where
  "configured m = embed mn_config Cfg the_cfg m"

definition managed :: "('e, 'a) mgr \<Rightarrow> ('d main_env, 'd main_ev, 'e, 'a) prog" where
  "managed m = embed mn_mgr Mgr the_mgr m"

definition on_host :: "string \<Rightarrow> ('e \<Rightarrow> main_fault) \<Rightarrow> ('e, 'a) host \<Rightarrow> ('d, 'a) main_prog" where
  "on_host msg inject m = map_err (\<lambda>e. MainContext msg (inject e)) (managed (disk m))"

definition println :: "string \<Rightarrow> ('d, unit) main_prog" where
  "println line = managed (emit (Printed line))"

record 'd main_build =
  mb_linux :: bool
  mb_euid :: nat
  mb_args :: "string list"
  mb_vm :: vm_host
  mb_from_slice :: "'d \<Rightarrow> string + config"
  mb_to_vec :: "config \<Rightarrow> 'd"
  mb_sort_by_len :: "string list \<Rightarrow> string list"
  mb_version_regex :: "string \<Rightarrow> string option"
  mb_to_lowercase :: "string \<Rightarrow> string"
  mb_inventory :: "test_entry list"
  mb_state_auto :: int
  mb_obfuscation_off :: int
  mb_debug_rpc :: "error \<Rightarrow> string"
  mb_debug_test :: "test_error \<Rightarrow> string"

section \<open>Relaunching in a container (container.rs)\<close>

definition rootlesskit_command :: "string list \<Rightarrow> 16 word option \<Rightarrow> command" where
  "rootlesskit_command args vnc_port = command_new ''rootlesskit''
    ([''--net'', ''slirp4netns'', ''--copy-up=/etc''] @
     (case vnc_port of
        Some port \<Rightarrow> [''--port-driver'', ''slirp4netns'', ''-p'', ''127.0.0.1:'' @ show_nat (unat port) @ '':5901/tcp'']
      | None \<Rightarrow> [''--disable-host-loopback'']) @ args)"

text \<open>\<open>Some code\<close> is the exit of the process with this code.\<close>

definition relaunch_with_rootlesskit :: "nat \<Rightarrow> string list \<Rightarrow> 16 word option \<Rightarrow> ('e, int option) host" where
  "relaunch_with_rootlesskit euid args vnc_port =
    (if euid = 0 then ret None
     else bindE (expect ''unwrap'' (cmd_status id (rootlesskit_command args vnc_port))) (\<lambda>st.
       ret (Some (case status_code st of Some c \<Rightarrow> c | None \<Rightarrow> 1))))"

section \<open>Commands\<close>

text \<open>The end of the life of a guest: its handle is dropped however the code that owns it ends.\<close>

definition owning :: "vm_instance \<Rightarrow> ('d, 'a \<times> vm_instance) main_prog \<Rightarrow> ('d, 'a) main_prog" where
  "owning inst m = (\<lambda>env tr.
    let dropped = (\<lambda>i tr. snd ((managed (disk (drop_vm i)) :: ('d, unit) main_prog) env tr))
    in case m env tr of
      (Ok (a, inst'), tr') \<Rightarrow> (Ok a, dropped inst' tr')
    | (Err e, tr') \<Rightarrow> (Err e, dropped inst tr')
    | (Panic s, tr') \<Rightarrow> (Panic s, dropped inst tr'))"

definition set_command :: "'d main_build \<Rightarrow> config_file \<Rightarrow> string \<Rightarrow> vm_config \<Rightarrow> ('d, unit) main_prog" where
  "set_command mb cf name c =
     bindE (map_err MainConfig (configured (set_config (mb_to_vec mb) name c cf))) (\<lambda>(r, _).
     case r of
       Inr _ \<Rightarrow> ret ()
     | Inl e \<Rightarrow> fail (MainContext ''Failed to edit or create VM config''
                  (MainContext ''Failed to update VM config'' (MainConfig e))))"

definition run_remove :: "'d main_build \<Rightarrow> config_file \<Rightarrow> string \<Rightarrow> ('d, unit) main_prog" where
  "run_remove mb cf name =
     bindE (map_err (\<lambda>e. MainContext ''Failed to remove config entry'' (MainConfig e))
              (configured (remove_command (mb_to_vec mb) name cf))) (\<lambda>(out, _).
     for_each println out)"

definition run_vm_command :: "'d main_build \<Rightarrow> config \<Rightarrow> string \<Rightarrow> 16 word option \<Rightarrow> bool \<Rightarrow> ('d, unit) main_prog" where
  "run_vm_command mb cfg name vnc keep =
    (let cfg = cfg\<lparr>runtime_opts := \<lparr>ro_display = (if vnc \<noteq> None then DisplayVnc else DisplayLocal), keep_changes = keep\<rparr>\<rparr> in
     bindE (on_host ''Failed to start VM'' MainVm (run_vm (mb_vm mb) cfg name)) (\<lambda>inst.
     owning inst (bindE (managed (disk (wait_vm inst))) (\<lambda>inst. ret ((), inst)))))"

definition display_of :: "run_tests_args \<Rightarrow> ('d, display) main_prog" where
  "display_of a = (case (rt_display a, rt_vnc a \<noteq> None) of
      (False, False) \<Rightarrow> ret DisplayNone
    | (True, False) \<Rightarrow> ret DisplayLocal
    | (False, True) \<Rightarrow> ret DisplayVnc
    | (True, True) \<Rightarrow> panic ''invalid combination'')"

definition unwrap_name :: "string \<Rightarrow> ('d, string) main_prog" where
  "unwrap_name path = (case path_file_name path of Some n \<Rightarrow> ret n | None \<Rightarrow> panic ''unwrap'')"

definition bridge_name :: "'d main_build \<Rightarrow> ('d, string) main_prog" where
  "bridge_name mb = (if vh_macos (mb_vm mb) then map_err MainVm (managed (disk find_vm_bridge)) else ret BRIDGE_NAME)"

definition run_opts_of :: "'d main_build \<Rightarrow> run_tests_args \<Rightarrow> run_opts" where
  "run_opts_of mb a = \<lparr>ro_print_failed_tests_only = \<not> rt_verbose a, ro_summary_logger = rt_test_report a,
     ro_state_auto = mb_state_auto mb, ro_obfuscation_off = mb_obfuscation_off mb,
     ro_debug_rpc = mb_debug_rpc mb, ro_debug_test = mb_debug_test mb\<rparr>"

text \<open>The part of the \<open>run-tests\<close> command that has a guest.\<close>

definition run_tests_on ::
  "'d main_build \<Rightarrow> run_tests_args \<Rightarrow> config \<Rightarrow> vm_config \<Rightarrow> string \<Rightarrow> manifest \<Rightarrow> vm_instance \<Rightarrow>
     ('d, (main_fault + unit) \<times> vm_instance) main_prog" where
  "run_tests_on mb a cfg vm host app inst =
     bindE (on_host ''Failed to run provisioning for VM'' MainVm (provision (mb_vm mb) cfg (rt_name a) inst app)) (\<lambda>artifacts_dir.
     let skip_wait = provisioner vm \<noteq> Noop in
     seqE (case rt_test_report a of
             Some path \<Rightarrow> on_host ''Failed to create summary logger'' MainSummary (summary_logger_new (rt_name a) path)
           | None \<Rightarrow> ret ())
    (bindE (unwrap_name (current_app_path app)) (\<lambda>current.
     bindE (unwrap_name (previous_app_path app)) (\<lambda>previous.
     bindE (unwrap_name (ui_e2e_tests_path app)) (\<lambda>ui.
     bindE (bridge_name mb) (\<lambda>bridge.
     bindE (attempt (map_err (\<lambda>e. MainContext ''Tests failed'' (MainRun e))
       (managed (run (mb_to_lowercase mb) (run_opts_of mb a)
          \<lparr>account_number = rt_account a, tc_artifacts_dir = artifacts_dir, current_app_filename = current,
           previous_app_filename = previous, ui_e2e_tests_filename = ui, tc_mullvad_host = host,
           host_bridge_name = bridge\<rparr>
          (get_pty inst) (rt_test_filters a) skip_wait (mb_inventory mb))))) (\<lambda>result.
     bindE (if rt_display a then managed (disk (wait_vm inst)) else ret inst) (\<lambda>inst.
     ret (result, inst)))))))))"

definition run_tests_command :: "'d main_build \<Rightarrow> config \<Rightarrow> run_tests_args \<Rightarrow> ('d, unit) main_prog" where
  "run_tests_command mb cfg a =
     bindE (display_of a) (\<lambda>d.
     let cfg = cfg\<lparr>runtime_opts := (runtime_opts cfg)\<lparr>ro_display := d\<rparr>\<rparr>;
         host = (case mullvad_host cfg of Some h \<Rightarrow> h | None \<Rightarrow> DEFAULT_MULLVAD_HOST) in
     bindE (on_host ''Cannot get VM config'' MainVm (vm_config_of cfg (rt_name a))) (\<lambda>vm.
     bindE (on_host ''Could not find the specified app packages'' MainText
              (get_app_manifest (mb_sort_by_len mb) (mb_version_regex mb) vm (rt_current_app a) (rt_previous_app a))) (\<lambda>app.
     bindE (on_host ''Failed to start VM'' MainVm (run_vm (mb_vm mb) cfg (rt_name a))) (\<lambda>inst.
     bindE (owning inst (run_tests_on mb a cfg vm host app inst)) of_result))))"

definition format_reports :: "'d main_build \<Rightarrow> string list \<Rightarrow> ('d, unit) main_prog" where
  "format_reports mb paths =
     bindE (on_host ''Print report'' MainSummary
              (print_summary_table (map test_metadata.truncate (mb_inventory mb)) paths)) (\<lambda>lines.
     for_each println lines)"

definition update_command :: "'d main_build \<Rightarrow> config \<Rightarrow> string \<Rightarrow> ('d, unit) main_prog" where
  "update_command mb cfg name =
     bindE (on_host ''Cannot get VM config'' MainVm (vm_config_of cfg name)) (\<lambda>vm.
     bindE (on_host ''Failed to start VM'' MainVm (run_vm (mb_vm mb) cfg name)) (\<lambda>inst.
     owning inst
      (bindE (on_host ''Failed to update packages to the VM image'' MainVm (update_packages vm inst)) (\<lambda>out.
       seqE (managed (log_msg LInfo (''Update command finished with output: '' @ update_display out)))
      (seqE (managed (log_msg LInfo ''Note: updates have not been persisted to the image''))
       (ret ((), inst)))))))"

definition run_command :: "'d main_build \<Rightarrow> config_file \<Rightarrow> commands \<Rightarrow> ('d, unit) main_prog" where
  "run_command mb cf cmd = (case cmd of
      SetCommand name c \<Rightarrow> set_command mb cf name c
    | RemoveCommand name \<Rightarrow> run_remove mb cf name
    | ListCommand \<Rightarrow> for_each println (list_command (cfile_config cf))
    | RunVm name vnc keep \<Rightarrow> run_vm_command mb (cfile_config cf) name vnc keep
    | RunTests a \<Rightarrow> run_tests_command mb (cfile_config cf) a
    | FormatTestReports paths \<Rightarrow> format_reports mb paths
    | Update name \<Rightarrow> update_command mb (cfile_config cf) name)"

datatype main_end = ExitCode int | Returned

definition main :: "'d main_build \<Rightarrow> commands \<Rightarrow> ('d, main_end) main_prog" where
  "main mb cmd =
     bindE (if mb_linux mb then managed (disk (relaunch_with_rootlesskit (mb_euid mb) (mb_args mb) (get_vnc_port cmd)))
            else ret None) (\<lambda>relaunched. case relaunched of
       Some c \<Rightarrow> ret (ExitCode c)
     | None \<Rightarrow>
         bindE (map_err (\<lambda>e. MainContext ''Failed to load config'' (MainConfig e))
                  (configured (config_file_load_or_default (mb_from_slice mb) ''config.json''))) (\<lambda>cf.
         seqE (run_command mb cf cmd) (ret Returned)))"

section \<open>Lemmas: which processes the manager starts\<close>

lemma only_embed_of:
  assumes "only Q m" "\<And>ev. Q ev \<Longrightarrow> P (up ev)"
  shows "only P (embed sub up down m)"
  unfolding only_def
  by (rule spec_embed [OF assms(1) [unfolded only_def]]) (use assms(2) in \<open>auto simp: list_all_iff\<close>)

definition scratch_mgr :: "mgr_ev \<Rightarrow> bool" where
  "scratch_mgr ev \<longleftrightarrow> (case the_disk_ev ev of Some e \<Rightarrow> scratch_ev e | None \<Rightarrow> True)"

definition scratch_main :: "'d main_ev \<Rightarrow> bool" where
  "scratch_main ev \<longleftrightarrow> (case the_mgr ev of Some e \<Rightarrow> scratch_mgr e | None \<Rightarrow> True)"

lemma scratch_mgr_simps [simp]:
  "scratch_mgr (Disk e) \<longleftrightarrow> scratch_ev e" "scratch_mgr (Runner c)" "scratch_mgr (Daemon req u)" "scratch_mgr (StatePolled p)"
  "scratch_mgr (Listened l)" "scratch_mgr (Connect u)" "scratch_mgr (Delay n)" "scratch_mgr (Deadline b)"
  "scratch_mgr (SetDefaultSettings st)" "scratch_mgr (Logging op)" "scratch_mgr (Printed t)" "scratch_mgr (Setup w u)"
  "scratch_mgr (InitTestConfig tc)"
  by (simp_all add: scratch_mgr_def the_disk_ev_def)

lemma only_disk_scratch: "only scratch_ev m \<Longrightarrow> only scratch_mgr (disk m)"
  unfolding disk_def by (erule only_embed_of) simp

lemma only_managed: "only scratch_mgr m \<Longrightarrow> only scratch_main (managed m)"
  unfolding managed_def by (erule only_embed_of) (simp add: scratch_main_def the_mgr_def)

lemma only_configured: "only (\<lambda>_. True) m \<Longrightarrow> only scratch_main (configured m)"
  unfolding configured_def by (erule only_embed_of) (simp add: scratch_main_def the_mgr_def)

lemma only_on_host: "only scratch_ev m \<Longrightarrow> only scratch_main (on_host msg inject m)"
  unfolding on_host_def by (intro only_map_err only_managed only_disk_scratch)

lemma only_println: "only scratch_main (println line)"
  unfolding println_def by (intro only_managed only_rules) simp

lemmas scratch_intros = only_managed only_configured only_on_host only_println only_disk_scratch

lemma only_owning:
  assumes "only scratch_main m"
  shows "only scratch_main (owning inst m)"
  unfolding only_def spec_def
proof (intro allI)
  fix env tr
  obtain r tr' where m: "m env tr = (r, tr')" by fastforce
  from only_run [OF assms m] obtain es where es: "tr' = tr @ es" "list_all scratch_main es" .
  have drop: "\<exists>es'. snd ((managed (disk (drop_vm i)) :: ('a, unit) main_prog) env tr') = tr' @ es' \<and> list_all scratch_main es'" for i
    using only_managed [OF only_disk_scratch [OF vm_end_scratch(2)]] unfolding only_def spec_def by blast
  show "\<exists>es. snd (owning inst m env tr) = tr @ es \<and> list_all scratch_main es"
    using drop m es by (cases r) (auto simp: owning_def Let_def, fastforce+)
qed

lemma scratch_log_result: "only scratch_ev (maybe_log_test_result logger name result)"
  unfolding maybe_log_test_result_def log_test_result_def write_str_def fs_call_def
  by (intro only_rules) (simp_all add: scratch_rules)

lemma scratch_cleanup: "only scratch_mgr (cleanup_after_test a off)"
  unfolding cleanup_after_test_def reset_relay_settings_def disconnect_and_wait_def
    wait_for_tunnel_state_def find_next_tunnel_state_def update_relay_settings_def
    restore_settings_def grpc_context_def mgr_calls
  by (intro only_rules) simp_all

lemma scratch_clients: "only scratch_mgr new_client" "only scratch_mgr old_client" "only scratch_mgr init_default_settings"
  unfolding new_client_def old_client_def init_default_settings_def set_default_settings_def mgr_calls
  by (intro only_rules; simp)+

lemma scratch_as_type: "only scratch_mgr (as_type v)"
  by (cases v) (auto simp: as_type_def intro!: only_rules scratch_clients)

lemma scratch_run_one:
  assumes "only scratch_mgr (tm_func t)"
  shows "only scratch_mgr (run_one opts t)"
  unfolding run_one_def prepare_def clean_up_def conclude_def only_if_def mgr_calls
  by (intro only_bindE only_seqE only_cond only_map_err only_run_test only_for_each only_disk_scratch only_basic
      scratch_as_type scratch_clients scratch_cleanup scratch_log_result assms) simp_all

lemma scratch_run_loop:
  assumes "list_all (\<lambda>t. only scratch_mgr (tm_func t)) ts"
  shows "only scratch_mgr (run_loop opts ts st)"
  using assms
proof (induction ts arbitrary: st)
  case (Cons t ts)
  then show ?case
    by (auto simp: Let_def intro!: only_bindE only_basic scratch_run_one)
qed (auto intro!: only_rules)

lemma scratch_run:
  assumes "list_all (\<lambda>t. only scratch_mgr (tm_func t)) inventory"
  shows "only scratch_mgr (run to_lowercase opts config pty_path test_filters skip_wait inventory)"
proof -
  have "list_all (\<lambda>t. only scratch_mgr (tm_func t)) (select_tests to_lowercase test_filters inventory)"
    using assms by (auto simp: select_tests_def list_all_iff Let_def)
  then show ?thesis
    unfolding run_def init_test_config_def setup_call_def report_def only_if_def mgr_calls
    by (intro only_rules scratch_run_loop) simp_all
qed

lemma scratch_find_app: "only scratch_ev (find_app sort_by_len app e2e pt)"
proof -
  have "only scratch_ev (collect_matches app e2e pt entries matches)" for app entries matches
    by (induction entries arbitrary: matches)
       (auto simp: is_file_def scratch_rules split: option.splits intro!: only_rules)
  then show ?thesis
    unfolding find_app_def is_file_def read_dir_def Let_def
    by (intro only_rules) (simp_all add: scratch_rules)
qed

lemma scratch_manifest: "only scratch_ev (get_app_manifest sort_by_len version_regex vm current previous)"
  unfolding get_app_manifest_def Let_def by (intro only_rules scratch_find_app)

lemma scratch_reports: "only scratch_ev (print_summary_table tests files)"
proof -
  have "only scratch_ev (parse_all files)" for files
    by (induction files) (auto simp: parse_log_def fs_call_def scratch_rules intro!: only_rules)
  then show ?thesis unfolding print_summary_table_def by (intro only_rules)
qed

lemma scratch_summary: "only scratch_ev (summary_logger_new name path)"
  unfolding summary_logger_new_def write_str_def fs_call_def by (intro only_rules) (simp_all add: scratch_rules)

lemma scratch_bridge: "only scratch_ev find_vm_bridge"
  unfolding find_vm_bridge_def by (intro only_rules) (simp_all add: scratch_rules)

lemma scratch_config_of: "only P (vm_config_of cfg name)"
  unfolding vm_config_of_def by (rule only_basic)

lemma scratch_provision_guest: "only scratch_ev (provision vh cfg name inst app)"
  unfolding provision_def by (intro only_rules scratch_config_of scratch_provision)

lemma scratch_run_tests:
  assumes "\<not> keep_changes (runtime_opts cfg)" "list_all (\<lambda>t. only scratch_mgr (tm_func t)) (mb_inventory mb)"
  shows "only scratch_main (run_tests_command mb cfg a)"
proof -
  have on: "only scratch_main (run_tests_on mb a cfg' vm host app inst)" for cfg' vm host app inst
    unfolding run_tests_on_def unwrap_name_def bridge_name_def Let_def
    by (intro only_bindE only_seqE only_attempt only_option only_cond only_map_err only_basic scratch_intros
        scratch_provision_guest scratch_summary scratch_bridge scratch_run vm_end_scratch assms)
  have "only P (display_of a)" for P :: "'a main_ev \<Rightarrow> bool"
    unfolding display_of_def by (auto split: bool.splits intro!: only_rules)
  with on assms(1) show ?thesis
    unfolding run_tests_command_def Let_def
    by (intro only_bindE only_owning only_basic scratch_intros scratch_config_of scratch_manifest run_vm_scratch) simp_all
qed

lemma scratch_config_commands:
  "only (\<lambda>_. True) (set_config to_vec name c cf)" "only (\<lambda>_. True) (remove_command to_vec name cf)"
  "only (\<lambda>_. True) (config_file_load_or_default from_slice path)"
  unfolding set_config_def remove_command_def config_edit_def config_save_def Let_def
    config_file_load_or_default_def config_load_or_default_def config_load_def
  by (auto intro!: only_rules split: prod.splits sum.splits config_error.splits)

lemma scratch_command_of:
  assumes "\<not> keep_changes (runtime_opts (cfile_config cf))"
    and "list_all (\<lambda>t. only scratch_mgr (tm_func t)) (mb_inventory mb)"
    and "case cmd of RunVm name vnc keep \<Rightarrow> \<not> keep | _ \<Rightarrow> True"
  shows "only scratch_main (run_command mb cf cmd)"
proof (cases cmd)
  case (SetCommand name c)
  then show ?thesis
    by (auto simp: run_command_def set_command_def split: sum.splits
        intro!: only_bindE only_map_err only_configured only_basic scratch_config_commands)
next
  case (RemoveCommand name)
  then show ?thesis
    by (auto simp: run_command_def run_remove_def
        intro!: only_bindE only_map_err only_configured only_for_each only_println scratch_config_commands)
next
  case ListCommand
  then show ?thesis by (simp add: run_command_def only_for_each only_println)
next
  case (RunVm name vnc keep)
  with assms(3) show ?thesis
    by (auto simp: run_command_def run_vm_command_def Let_def
        intro!: only_bindE only_owning only_basic scratch_intros run_vm_scratch vm_end_scratch)
next
  case (RunTests a)
  with assms scratch_run_tests show ?thesis by (simp add: run_command_def)
next
  case (FormatTestReports paths)
  then show ?thesis
    by (auto simp: run_command_def format_reports_def intro!: only_bindE only_for_each scratch_intros scratch_reports)
next
  case (Update name)
  with assms(1) show ?thesis
    by (auto simp: run_command_def update_command_def mgr_calls
        intro!: only_bindE only_seqE only_owning only_basic scratch_intros scratch_config_of run_vm_scratch scratch_update)
qed

text \<open>The processes and files in the history of the program.\<close>

definition host_history :: "'d main_ev list \<Rightarrow> host_ev list" where
  "host_history es = List.map_filter (\<lambda>e. Option.bind (the_mgr e) the_disk_ev) es"

lemma scratch_history: "list_all scratch_main es \<Longrightarrow> list_all scratch_only (launched (host_history es))"
  unfolding scratch_launched [symmetric]
  by (auto simp: host_history_def map_filter_def list_all_iff scratch_main_def scratch_mgr_def split: option.splits bind_splits)

lemma loaded_runtime:
  assumes "\<And>d c. from_slice d = Inr c \<Longrightarrow> runtime_opts c = runtime_default"
  shows "spec (config_file_load_or_default from_slice path) (\<lambda>r es. case r of
     Ok cf \<Rightarrow> \<not> keep_changes (runtime_opts (cfile_config cf)) | _ \<Rightarrow> True)"
proof -
  have "spec (config_load from_slice path) (\<lambda>r es. case r of Ok c \<Rightarrow> \<not> keep_changes (runtime_opts c) | _ \<Rightarrow> True)"
    unfolding config_load_def of_result_def
    by (auto simp: runtime_default_def dest!: assms split: sum.splits intro!: spec_rules)
  then have "spec (attempt (config_load from_slice path)) (\<lambda>r es. case r of
      Ok (Inr c) \<Rightarrow> \<not> keep_changes (runtime_opts c) | _ \<Rightarrow> True)"
    by (rule spec_attempt) auto
  then have "spec (config_load_or_default from_slice path) (\<lambda>r es. case r of
      Ok c \<Rightarrow> \<not> keep_changes (runtime_opts c) | _ \<Rightarrow> True)"
    unfolding config_load_or_default_def
    by (rule spec_bindE) (auto simp: config_default_def runtime_default_def split: sum.splits config_error.splits intro!: spec_rules)
  then show ?thesis
    unfolding config_file_load_or_default_def by (rule spec_bindE) (auto intro!: spec_ret)
qed

lemma scratch_relaunch: "only scratch_ev (relaunch_with_rootlesskit euid args vnc)"
  unfolding relaunch_with_rootlesskit_def rootlesskit_command_def cmd_status_def
  by (intro only_rules) (simp_all add: scratch_rules)

section \<open>Properties\<close>

text \<open>
  C7. Images: whatever the host, the guest and the daemon do, no command of the manager other than
  \<open>run-vm --keep-changes\<close> starts a guest that could change an image of the configuration: every QEMU is
  started with \<open>-snapshot\<close> and every Tart machine that is run is a clone.  The hypotheses are that fields
  marked \<open>serde(skip)\<close> are read as their defaults, and that the tests themselves start no guests.
\<close>

theorem images_are_left_alone:
  assumes "\<And>d c. mb_from_slice mb d = Inr c \<Longrightarrow> runtime_opts c = runtime_default"
    and "list_all (\<lambda>t. only scratch_mgr (tm_func t)) (mb_inventory mb)"
    and "case cmd of RunVm name vnc keep \<Rightarrow> \<not> keep | _ \<Rightarrow> True"
  shows "spec (main mb cmd) (\<lambda>r es. list_all scratch_only (launched (host_history es)))"
proof -
  have "spec (configured (config_file_load_or_default (mb_from_slice mb) path)) (\<lambda>r es. list_all scratch_main es \<and>
      (case r of Ok cf \<Rightarrow> \<not> keep_changes (runtime_opts (cfile_config cf)) | _ \<Rightarrow> True))" for path
    unfolding configured_def
    by (rule spec_embed [OF loaded_runtime [OF assms(1)]]) (auto simp: list_all_iff scratch_main_def the_mgr_def)
  then have load: "spec (map_err f (configured (config_file_load_or_default (mb_from_slice mb) path))) (\<lambda>r es. list_all scratch_main es \<and>
      (case r of Ok cf \<Rightarrow> \<not> keep_changes (runtime_opts (cfile_config cf)) | _ \<Rightarrow> True))" for f path
    by (rule spec_map_err) auto
  have "only scratch_main (bindE (map_err f (configured (config_file_load_or_default (mb_from_slice mb) path))) (\<lambda>cf.
      seqE (run_command mb cf cmd) (ret Returned)))" for f path
    unfolding only_def
    by (rule spec_bindE [OF load])
       (auto intro!: spec_seqE [OF scratch_command_of [OF _ assms(2,3), unfolded only_def]] spec_ret)
  then have "only scratch_main (main mb cmd)"
    unfolding main_def
    by (intro only_bindE [OF only_cond only_option] only_basic only_managed only_disk_scratch scratch_relaunch)
  then show ?thesis
    unfolding only_def by (rule spec_weaken) (rule scratch_history)
qed

text \<open>A manager for the witnesses: one guest, one test.\<close>

definition demo_vm_host :: vm_host where
  "demo_vm_host = \<lparr>vh_macos = False, vh_qemu_pty = \<lambda>l. if l = ''pty'' then Some ''/dev/pts/1'' else None, vh_tart_pty = \<lambda>_. None,
     vh_dhcp = \<lambda>l. if l = ''ack'' then Some ''172.29.1.2'' else None, vh_parse_ip = \<lambda>_. Some (V4 172 29 1 2),
     vh_temp_dir = ''/tmp'', vh_embedded_len = \<lambda>_. 100\<rparr>"

definition demo_build :: "config main_build" where
  "demo_build = \<lparr>mb_linux = True, mb_euid = 0, mb_args = [''test-manager''], mb_vm = demo_vm_host,
     mb_from_slice = \<lambda>d. Inr (skip_runtime d), mb_to_vec = skip_runtime, mb_sort_by_len = id,
     mb_version_regex = \<lambda>_. Some ''2023.2'', mb_to_lowercase = id,
     mb_inventory = [demo_entry ''test_a'' VersionNone False (ret ())], mb_state_auto = 0, mb_obfuscation_off = 0,
     mb_debug_rpc = \<lambda>_. ''rpc'', mb_debug_test = \<lambda>_. ''error''\<rparr>"

theorem images_are_left_alone_witness:
  "spec (main demo_build (Update ''debian'')) (\<lambda>r es. list_all scratch_only (launched (host_history es)))"
  by (rule images_are_left_alone)
     (auto simp: demo_build_def skip_runtime_def demo_entry_def intro: only_basic)

text \<open>
  C34. Containment: on Linux, a manager that does not run as root does nothing but start itself again under
  \<open>rootlesskit\<close>, with the same arguments and only the VNC port of the command published, and ends with
  that process's exit code.
\<close>

theorem unprivileged_manager_only_relaunches:
  assumes "mb_linux mb" "mb_euid mb \<noteq> 0"
  shows "spec (main mb cmd) (\<lambda>r es.
     \<exists>st. es = [Mgr (Disk (Status (rootlesskit_command (mb_args mb) (get_vnc_port cmd)) st))] \<and>
       r = (case st of Inl _ \<Rightarrow> Panic ''unwrap''
            | Inr s \<Rightarrow> Ok (ExitCode (case status_code s of Some c \<Rightarrow> c | None \<Rightarrow> 1))))"
proof -
  let ?cmd = "rootlesskit_command (mb_args mb) (get_vnc_port cmd)"
  let ?relaunch = "relaunch_with_rootlesskit (mb_euid mb) (mb_args mb) (get_vnc_port cmd)"
  have "spec ?relaunch (\<lambda>r es. (\<exists>e. es = [Status ?cmd (Inl e)] \<and> r = Panic ''unwrap'') \<or>
      (\<exists>s. es = [Status ?cmd (Inr s)] \<and> r = Ok (Some (case status_code s of Some c \<Rightarrow> c | None \<Rightarrow> 1))))"
    unfolding relaunch_with_rootlesskit_def cmd_status_def using assms by (auto intro!: spec_rules)
  then have "spec (disk ?relaunch) (\<lambda>r es. (\<exists>e. es = [Disk (Status ?cmd (Inl e))] \<and> r = Panic ''unwrap'') \<or>
      (\<exists>s. es = [Disk (Status ?cmd (Inr s))] \<and> r = Ok (Some (case status_code s of Some c \<Rightarrow> c | None \<Rightarrow> 1))))"
    unfolding disk_def by (rule spec_embed) (auto split: sum.split_asm)
  then have "spec (managed (disk ?relaunch)) (\<lambda>r es.
      (\<exists>e. es = [Mgr (Disk (Status ?cmd (Inl e)))] \<and> r = Panic ''unwrap'') \<or>
      (\<exists>s. es = [Mgr (Disk (Status ?cmd (Inr s)))] \<and> r = Ok (Some (case status_code s of Some c \<Rightarrow> c | None \<Rightarrow> 1))))"
    unfolding managed_def by (rule spec_embed) (auto split: sum.split_asm)
  then show ?thesis
    unfolding main_def using assms by simp (erule spec_bindE, auto intro!: spec_ret)
qed

theorem unprivileged_manager_only_relaunches_witness:
  "spec (main (demo_build\<lparr>mb_euid := 1000\<rparr>) ListCommand) (\<lambda>r es.
     \<exists>st. es = [Mgr (Disk (Status (rootlesskit_command [''test-manager''] None) st))])"
proof -
  have "mb_linux (demo_build\<lparr>mb_euid := 1000\<rparr>)" "mb_euid (demo_build\<lparr>mb_euid := 1000\<rparr>) \<noteq> 0"
    by (simp_all add: demo_build_def)
  from unprivileged_manager_only_relaunches [OF this, of ListCommand] show ?thesis
    by (rule spec_weaken) (auto simp: demo_build_def get_vnc_port_def)
qed

lemma owning_Ok:
  assumes "owning inst m env tr = (Ok a, tr')"
  obtains inst' tr1 where "m env tr = (Ok (a, inst'), tr1)"
  using assms by (auto simp: owning_def Let_def split: prod.splits res.splits)

lemma embed_Ok:
  assumes "embed sub up down m env tr = (Ok a, tr')"
  obtains tr1 where "m (sub env tr) (List.map_filter down tr) = (Ok a, tr1)"
  using assms by (auto simp: embed_def split: prod.splits)

lemma map_err_Ok: "map_err g m env tr = (Ok a, tr') \<longleftrightarrow> m env tr = (Ok a, tr')"
  by (auto simp: map_err_def split: prod.splits res.splits)

lemma attempt_Inr: "attempt m env tr = (Ok (Inr a), tr') \<longleftrightarrow> m env tr = (Ok a, tr')"
  by (auto simp: attempt_def split: prod.splits res.splits)

lemma of_result_Ok: "of_result r env tr = (Ok a, tr') \<longleftrightarrow> r = Inr a \<and> tr' = tr"
  by (auto simp: of_result_def prog_defs split: sum.splits)

lemma run_tests_on_Ok:
  assumes "run_tests_on mb a cfg vm host app inst env tr = (Ok (Inr (), inst'), tr')"
  obtains config skip_wait tr1 tr2 tr3 where
    "run (mb_to_lowercase mb) (run_opts_of mb a) config (get_pty inst) (rt_test_filters a) skip_wait (mb_inventory mb)
       (mn_mgr env tr1) tr2 = (Ok (), tr3)"
  using assms unfolding run_tests_on_def Let_def
  by (elim bindE_OkE seqE_OkE)
     (auto simp: ret_def attempt_Inr map_err_Ok managed_def elim!: embed_Ok)

text \<open>
  C3. A green command: when the manager ends successfully after \<open>run-tests\<close>, and did so itself rather
  than relaunching, it had started the named guest, and every selected test was run on it, in the order
  of the selection, and passed.
\<close>

theorem successful_run_tests_is_green:
  assumes "main mb (RunTests a) env tr = (Ok Returned, tr')"
  shows "\<exists>cfg inst tr0 tr1. run_vm (mb_vm mb) cfg (rt_name a) (me_host (mn_mgr env tr0) (List.map_filter the_mgr tr0))
       (List.map_filter the_disk_ev (List.map_filter the_mgr tr0)) = (Ok inst, tr1) \<and>
     (\<exists>trx tr2 res tr3. executes (run_opts_of mb a) (mn_mgr env trx) (select_tests (mb_to_lowercase mb) (rt_test_filters a) (mb_inventory mb))
         tr2 res tr3 \<and>
       map fst res = select_tests (mb_to_lowercase mb) (rt_test_filters a) (mb_inventory mb) \<and>
       list_all (\<lambda>(t, v). \<not> verdict_failed v) res)"
proof -
  from assms obtain cf trc trd where cmd: "run_command mb cf (RunTests a) env trc = (Ok (), trd)"
    unfolding main_def
    by (elim bindE_OkE) (auto simp: ret_def split: option.splits elim!: bindE_OkE seqE_OkE)
  then obtain d cfg vm app inst tr0 tr1 tr4 tr5 host where
    started: "on_host ''Failed to start VM'' MainVm (run_vm (mb_vm mb) cfg (rt_name a)) env tr0 = (Ok inst, tr1)" and
    owned: "owning inst (run_tests_on mb a cfg vm host app inst) env tr4 = (Ok (Inr ()), tr5)"
    unfolding run_command_def run_tests_command_def Let_def
    by simp (elim bindE_OkE, auto simp: of_result_Ok)
  from owned obtain inst' tr6 where "run_tests_on mb a cfg vm host app inst env tr4 = (Ok (Inr (), inst'), tr6)"
    by (rule owning_Ok)
  then obtain config skip_wait trx tr8 tr9 where run: "run (mb_to_lowercase mb) (run_opts_of mb a) config (get_pty inst) (rt_test_filters a)
      skip_wait (mb_inventory mb) (mn_mgr env trx) tr8 = (Ok (), tr9)"
    by (rule run_tests_on_Ok)
  from started obtain tr7 where "run_vm (mb_vm mb) cfg (rt_name a) (me_host (mn_mgr env tr0) (List.map_filter the_mgr tr0))
       (List.map_filter the_disk_ev (List.map_filter the_mgr tr0)) = (Ok inst, tr7)"
    unfolding on_host_def map_err_Ok managed_def disk_def by (elim embed_Ok)
  with ok_run_executes [OF run] show ?thesis by blast
qed

section \<open>A run from start to end\<close>

text \<open>\<open>calm P env m a\<close>: in \<open>env\<close>, after any history, \<open>m\<close> returns \<open>a\<close> and logs events of the kind \<open>P\<close>.\<close>

definition calm :: "('ev \<Rightarrow> bool) \<Rightarrow> 'env \<Rightarrow> ('env, 'ev, 'e, 'a) prog \<Rightarrow> 'a \<Rightarrow> bool" where
  "calm P env m a \<longleftrightarrow> (\<forall>tr. \<exists>es. m env tr = (Ok a, tr @ es) \<and> list_all P es)"

lemma calm_basic:
  "calm P env (ret a) a" "P ev \<Longrightarrow> calm P env (emit ev) ()"
  "(\<And>tr. q env tr = b) \<Longrightarrow> P (w b) \<Longrightarrow> calm P env (perform q w) b"
  "(\<And>tr. qe env tr = Inr c) \<Longrightarrow> P (we (Inr c)) \<Longrightarrow> calm P env (callE wrap qe we) c"
  by (auto simp: calm_def prog_defs)

lemma calmD:
  assumes "calm P env m a"
  obtains es where "m env tr = (Ok a, tr @ es)" "list_all P es"
  using assms unfolding calm_def by blast

lemma calm_bindE:
  assumes "calm P env m a" "calm P env (f a) b"
  shows "calm P env (bindE m f) b"
  unfolding calm_def
proof
  fix tr
  obtain es where es: "m env tr = (Ok a, tr @ es)" "list_all P es" by (rule calmD [OF assms(1)])
  obtain es' where "f a env (tr @ es) = (Ok b, (tr @ es) @ es')" "list_all P es'" by (rule calmD [OF assms(2)])
  with es show "\<exists>es. bindE m f env tr = (Ok b, tr @ es) \<and> list_all P es"
    by (intro exI [of _ "es @ es'"]) (simp add: bindE_def)
qed

lemma calm_seqE: "calm P env m a \<Longrightarrow> calm P env k b \<Longrightarrow> calm P env (seqE m k) b"
  unfolding seqE_def by (rule calm_bindE)

lemma calm_map_err:
  assumes "calm P env m a"
  shows "calm P env (map_err g m) a"
  unfolding calm_def
proof
  fix tr
  obtain es where "m env tr = (Ok a, tr @ es)" "list_all P es" by (rule calmD [OF assms])
  then show "\<exists>es. map_err g m env tr = (Ok a, tr @ es) \<and> list_all P es" by (simp add: map_err_def)
qed

lemma calm_attempt:
  assumes "calm P env m a"
  shows "calm P env (attempt m) (Inr a)"
  unfolding calm_def
proof
  fix tr
  obtain es where "m env tr = (Ok a, tr @ es)" "list_all P es" by (rule calmD [OF assms])
  then show "\<exists>es. attempt m env tr = (Ok (Inr a), tr @ es) \<and> list_all P es" by (simp add: attempt_def)
qed

lemma calm_expect:
  assumes "calm P env m a"
  shows "calm P env (expect msg m) a"
  unfolding calm_def
proof
  fix tr
  obtain es where "m env tr = (Ok a, tr @ es)" "list_all P es" by (rule calmD [OF assms])
  then show "\<exists>es. expect msg m env tr = (Ok a, tr @ es) \<and> list_all P es" by (simp add: expect_def)
qed

lemma calm_embed:
  assumes "\<And>tr. calm Q (sub env tr) m a" "\<And>ev. Q ev \<Longrightarrow> P (up ev)"
  shows "calm P env (embed sub up down m) a"
  unfolding calm_def
proof
  fix tr
  from assms(1) [of tr] obtain es where "m (sub env tr) (List.map_filter down tr) = (Ok a, List.map_filter down tr @ es)" "list_all Q es"
    unfolding calm_def by blast
  then show "\<exists>es. embed sub up down m env tr = (Ok a, tr @ es) \<and> list_all P es"
    using assms(2) by (auto simp: embed_def list_all_iff)
qed

definition demo_guest_host :: host_env where
  "demo_guest_host = (calm_host [])\<lparr>he_files := calm_files\<lparr>fe_lines := \<lambda>_ stream. if stream = ''qemu stdout'' then [Inr ''pty''] else [Inr ''ack'']\<rparr>\<rparr>"

lemma demo_guest_simps [simp]:
  "he_output demo_guest_host = (\<lambda>_ _. Inr \<lparr>out_status = Exited 0, out_stdout = [], out_stderr = []\<rparr>)"
  "he_spawn demo_guest_host = (\<lambda>_ _. Inr ())" "he_fs demo_guest_host = (\<lambda>_ _. Inr ())"
  "he_query demo_guest_host = (\<lambda>_ _ _. Inr [])" "he_sys demo_guest_host = (\<lambda>_ _ _. Inr ())"
  "fe_is_file (he_files demo_guest_host) = (\<lambda>_ _. True)"
  "fe_lines (he_files demo_guest_host) = (\<lambda>_ stream. if stream = ''qemu stdout'' then [Inr ''pty''] else [Inr ''ack''])"
  by (simp_all add: demo_guest_host_def calm_host_def calm_files_def calm_platform_def bytes_of_def)

lemma calm_calls:
  "calm (\<lambda>_. True) demo_guest_host (cmd_output w cmd) \<lparr>out_status = Exited 0, out_stdout = [], out_stderr = []\<rparr>"
  "calm (\<lambda>_. True) demo_guest_host (cmd_wait_output w cmd) \<lparr>out_status = Exited 0, out_stdout = [], out_stderr = []\<rparr>"
  "calm (\<lambda>_. True) demo_guest_host (cmd_spawn w cmd) ()"
  "calm (\<lambda>_. True) demo_guest_host (sys_call w n args) ()"
  "calm (\<lambda>_. True) demo_guest_host (fs_call w op) ()"
  "calm (\<lambda>_. True) demo_guest_host (query_call w n args) []"
  "calm (\<lambda>_. True) demo_guest_host (is_file path) True"
  "calm (\<lambda>_. True) demo_guest_host (child_lines ''qemu stdout'') [Inr ''pty'']"
  "calm (\<lambda>_. True) demo_guest_host (child_lines ''dnsmasq stderr'') [Inr ''ack'']"
  by (auto simp: host_calls is_file_def child_lines_def intro!: calm_basic)

lemma calm_exit: "calm P env (check_exit f (Exited 0)) ()"
  by (simp add: check_exit_def status_success_def calm_basic(1))

lemma calm_checked: "calm (\<lambda>_. True) demo_guest_host (run_checked st f cmd) ()"
  unfolding run_checked_def by (rule calm_bindE [OF calm_calls(1)]) (simp add: calm_exit)

lemma calm_nft: "calm (\<lambda>_. True) demo_guest_host (run_nft input) ()"
  unfolding run_nft_def Let_def
  by (intro calm_seqE [OF calm_calls(3)] calm_seqE [OF calm_expect [OF calm_calls(4)]] calm_bindE [OF calm_calls(2)])
     (simp add: calm_exit)

lemma calm_wireguard: "calm (\<lambda>_. True) demo_guest_host create_local_wireguard_peer ()"
  unfolding create_local_wireguard_peer_def run_ip_cmd_def tempfile_def write_tempfile_def
  by (intro calm_seqE [OF calm_checked] calm_bindE [OF calm_calls(6)] calm_seqE [OF calm_calls(5)] calm_checked)

lemma calm_dnsmasq: "calm (\<lambda>_. True) demo_guest_host start_dnsmasq ()"
  unfolding start_dnsmasq_def tempfile_def by (intro calm_bindE [OF calm_calls(6)] calm_calls(3))

lemma calm_network: "calm (\<lambda>_. True) demo_guest_host setup_test_network ()"
  unfolding setup_test_network_def enable_forwarding_def run_ip_cmd_def
  by (intro calm_seqE [OF calm_checked] calm_seqE [OF calm_nft] calm_seqE [OF calm_wireguard] calm_seqE [OF calm_dnsmasq] calm_checked)

definition demo_config :: config where
  "demo_config = config_default\<lparr>vms := [(''debian'', demo_vm\<lparr>artifacts_dir := Some ''/opt/testing''\<rparr>)]\<rparr>"

definition demo_instance :: "config \<Rightarrow> vm_instance" where
  "demo_instance cfg = QemuVm \<lparr>qi_pty = ''/dev/pts/1'', qi_ip = V4 172 29 1 2,
     qi_child = qemu_command cfg (demo_vm\<lparr>artifacts_dir := Some ''/opt/testing''\<rparr>) None None\<rparr>"

lemma calm_guest:
  assumes "vms cfg = vms demo_config"
  shows "calm (\<lambda>_. True) demo_guest_host (run_vm demo_vm_host cfg ''debian'') (demo_instance cfg)"
proof -
  have vm: "calm (\<lambda>_. True) demo_guest_host (vm_config_of cfg ''debian'') (demo_vm\<lparr>artifacts_dir := Some ''/opt/testing''\<rparr>)"
    by (simp add: vm_config_of_def of_result_def get_vm_config_def get_vm_def btree_get_def assms demo_config_def calm_basic(1))
  have "calm (\<lambda>_. True) demo_guest_host (find_pty (vh_qemu_pty demo_vm_host) ''qemu stdout'') ''/dev/pts/1''"
    unfolding find_pty_def by (rule calm_bindE [OF calm_calls(8)]) (simp add: of_result_def demo_vm_host_def calm_basic(1))
  then have pty: "calm (\<lambda>_. True) demo_guest_host (obtain_pty (vh_qemu_pty demo_vm_host) child) ''/dev/pts/1''" for child
    unfolding obtain_pty_def by (rule calm_bindE [OF calm_attempt]) (simp add: calm_basic(1))
  have ack: "calm (\<lambda>_. True) demo_guest_host (first_dhcp_ack (vh_dhcp demo_vm_host) (vh_parse_ip demo_vm_host)) (Some (V4 172 29 1 2))"
    unfolding first_dhcp_ack_def by (rule calm_bindE [OF calm_calls(9)]) (simp add: demo_vm_host_def calm_basic(1))
  have tail: "calm (\<lambda>_. True) demo_guest_host (qemu_tail (vh_qemu_pty demo_vm_host) (vh_dhcp demo_vm_host) (vh_parse_ip demo_vm_host) child)
      \<lparr>qi_pty = ''/dev/pts/1'', qi_ip = V4 172 29 1 2, qi_child = child\<rparr>" for child
    unfolding qemu_tail_def
    by (intro calm_seqE [OF calm_calls(3)] calm_seqE [OF calm_basic(2)] calm_bindE [OF pty] calm_bindE [OF ack])
       (simp_all add: calm_basic(1))
  have "calm (\<lambda>_. True) demo_guest_host (qemu_run (vh_qemu_pty demo_vm_host) (vh_dhcp demo_vm_host) (vh_parse_ip demo_vm_host)
      (vh_temp_dir demo_vm_host) cfg (demo_vm\<lparr>artifacts_dir := Some ''/opt/testing''\<rparr>))
      \<lparr>qi_pty = ''/dev/pts/1'', qi_ip = V4 172 29 1 2,
       qi_child = qemu_command cfg (demo_vm\<lparr>artifacts_dir := Some ''/opt/testing''\<rparr>) None None\<rparr>"
    unfolding qemu_run_tail some_if_def
    by (intro calm_seqE [OF calm_map_err [OF calm_network]]) (simp add: demo_vm_def tail)
  then show ?thesis
    unfolding run_vm_def
    by (intro calm_bindE [OF vm]) (simp add: demo_vm_def demo_instance_def, rule calm_bindE [OF calm_map_err], assumption, rule calm_basic(1))
qed

definition demo_args :: run_tests_args where
  "demo_args = \<lparr>rt_name = ''debian'', rt_display = False, rt_vnc = None, rt_account = ''1234'', rt_current_app = ''app.deb'',
     rt_previous_app = ''old.deb'', rt_test_filters = [], rt_verbose = False, rt_test_report = None\<rparr>"

definition demo_manager_env :: mgr_env where
  "demo_manager_env = demo_run_env\<lparr>me_host := \<lambda>_. demo_guest_host\<rparr>"

definition demo_main_env :: "config main_env" where
  "demo_main_env = \<lparr>mn_config = \<lambda>_. \<lparr>cf_read = \<lambda>_ _. Inr demo_config, cf_write = \<lambda>_ _ _. Inr ()\<rparr>,
     mn_mgr = \<lambda>_. demo_manager_env\<rparr>"

lemma test_config_cell_append:
  "test_config_cell (tr @ es) = (case test_config_cell tr of Some c \<Rightarrow> Some c | None \<Rightarrow> test_config_cell es)"
  by (induction tr rule: test_config_cell.induct) auto

lemma demo_run_any:
  assumes "test_config_cell tr = None"
  shows "fst (run id (run_opts_of demo_build demo_args) tc pty [] skip_wait (mb_inventory demo_build) demo_manager_env tr) = Ok ()"
  using assms
  by (simp add: run_eval run_def run_start_def record_verdict_def select_tests_def retained_def priority_key_def
      setup_call_def report_def init_test_config_def peek_def demo_build_def run_opts_of_def demo_args_def demo_manager_env_def
      test_config_cell_append)

text \<open>Events that leave the constants of the run alone.\<close>

definition no_init :: "'d main_ev \<Rightarrow> bool" where
  "no_init e \<longleftrightarrow> test_config_cell (List.map_filter the_mgr [e]) = None"

lemma no_init_history: "list_all no_init es \<Longrightarrow> test_config_cell (List.map_filter the_mgr es) = None"
proof (induction es)
  case (Cons e es)
  have "List.map_filter the_mgr (e # es) = List.map_filter the_mgr [e] @ List.map_filter the_mgr es"
    by (simp add: map_filter_def)
  with Cons show ?case by (simp add: no_init_def test_config_cell_append)
qed (simp add: map_filter_def)

lemma calm_on_host:
  assumes "calm (\<lambda>_. True) demo_guest_host m a"
  shows "calm no_init demo_main_env (on_host msg inject m) a" "calm no_init demo_main_env (managed (disk m)) a"
proof -
  have "calm (\<lambda>ev. \<exists>e. ev = Disk e) demo_manager_env (disk m) a"
    unfolding disk_def by (rule calm_embed [where Q = "\<lambda>_. True"]) (simp_all add: demo_manager_env_def assms)
  then show d: "calm no_init demo_main_env (managed (disk m)) a"
    unfolding managed_def
    by (intro calm_embed [where Q = "\<lambda>ev. \<exists>e. ev = Disk e"]) (auto simp: demo_main_env_def no_init_def the_mgr_def map_filter_def)
  then show "calm no_init demo_main_env (on_host msg inject m) a"
    unfolding on_host_def by (rule calm_map_err)
qed

lemma calm_manifest:
  "calm (\<lambda>_. True) demo_guest_host (get_app_manifest id (\<lambda>_. Some ''2023.2'') vm ''app.deb'' ''old.deb'')
     \<lparr>current_app_path = ''app.deb'', previous_app_path = ''old.deb'', ui_e2e_tests_path = ''2023.2''\<rparr>"
proof -
  have "calm (\<lambda>_. True) demo_guest_host (find_app id app e2e pt) app" for app e2e pt
    unfolding find_app_def by (rule calm_bindE [OF calm_calls(7)]) (simp add: calm_basic(1))
  then show ?thesis
    unfolding get_app_manifest_def Let_def
    by (intro calm_bindE) (auto intro: calm_basic(1))
qed

lemma calm_provision:
  assumes "vms cfg = vms demo_config"
  shows "calm (\<lambda>_. True) demo_guest_host (provision demo_vm_host cfg ''debian'' inst app) ''/opt/testing''"
  by (simp add: provision_def vm_config_of_def of_result_def get_vm_config_def get_vm_def btree_get_def assms demo_config_def
      provision_vm_def demo_vm_def calm_basic(1))

lemma demo_run_tests_on:
  assumes "vms cfg = vms demo_config" "list_all no_init tr"
  shows "fst (run_tests_on demo_build demo_args cfg (demo_vm\<lparr>artifacts_dir := Some ''/opt/testing''\<rparr>) host
     \<lparr>current_app_path = ''app.deb'', previous_app_path = ''old.deb'', ui_e2e_tests_path = ''2023.2''\<rparr> inst demo_main_env tr) =
     Ok (Inr (), inst)"
proof -
  have args: "rt_name demo_args = ''debian''" "rt_test_report demo_args = None" "rt_display demo_args = False"
      "rt_test_filters demo_args = []" "mb_vm demo_build = demo_vm_host" "mb_to_lowercase demo_build = id" "vh_macos demo_vm_host = False"
    by (simp_all add: demo_args_def demo_build_def demo_vm_host_def)
  have names: "path_file_name ''app.deb'' = Some ''app.deb''" "path_file_name ''old.deb'' = Some ''old.deb''"
      "path_file_name ''2023.2'' = Some ''2023.2''"
    by (simp_all add: path_file_name_def Let_def)
  obtain es where es: "on_host ''Failed to run provisioning for VM'' MainVm (provision demo_vm_host cfg ''debian'' inst
      \<lparr>current_app_path = ''app.deb'', previous_app_path = ''old.deb'', ui_e2e_tests_path = ''2023.2''\<rparr>) demo_main_env tr =
      (Ok ''/opt/testing'', tr @ es)" "list_all no_init es"
    by (rule calmD [OF calm_on_host(1) [OF calm_provision [OF assms(1)]]])
  have "test_config_cell (List.map_filter the_mgr (tr @ es)) = None"
    by (rule no_init_history) (simp add: assms(2) es(2))
  from demo_run_any [OF this] have "fst (managed (run id (run_opts_of demo_build demo_args) tc pty [] skip_wait (mb_inventory demo_build))
      demo_main_env (tr @ es)) = Ok ()" for tc pty skip_wait
    by (simp add: managed_def embed_def demo_main_env_def split: prod.splits) (metis fst_conv)
  then obtain tr' where "managed (run id (run_opts_of demo_build demo_args)
      \<lparr>account_number = rt_account demo_args, tc_artifacts_dir = ''/opt/testing'', current_app_filename = ''app.deb'',
       previous_app_filename = ''old.deb'', ui_e2e_tests_filename = ''2023.2'', tc_mullvad_host = host, host_bridge_name = BRIDGE_NAME\<rparr>
      (get_pty inst) [] (provisioner demo_vm \<noteq> Noop) (mb_inventory demo_build)) demo_main_env (tr @ es) = (Ok (), tr')"
    by (metis prod.collapse)
  then show ?thesis
    by (simp add: run_tests_on_def args names unwrap_name_def bridge_name_def Let_def)
       (simp add: bindE_def es attempt_def map_err_def ret_def)
qed

lemma calm_load:
  "calm no_init demo_main_env (map_err f (configured (config_file_load_or_default (mb_from_slice demo_build) ''config.json'')))
     \<lparr>cfile_path = ''config.json'', cfile_config = skip_runtime demo_config\<rparr>"
proof -
  have "calm (\<lambda>_. True) (mn_config demo_main_env tr) (config_load (mb_from_slice demo_build) ''config.json'') (skip_runtime demo_config)" for tr
    unfolding config_load_def
    by (rule calm_bindE [OF calm_basic(4) [where c = demo_config]]) (simp_all add: demo_main_env_def demo_build_def of_result_def calm_basic(1))
  then have "calm (\<lambda>_. True) (mn_config demo_main_env tr) (config_load_or_default (mb_from_slice demo_build) ''config.json'') (skip_runtime demo_config)" for tr
    unfolding config_load_or_default_def by (rule calm_bindE [OF calm_attempt]) (simp add: calm_basic(1))
  then have "calm (\<lambda>_. True) (mn_config demo_main_env tr) (config_file_load_or_default (mb_from_slice demo_build) ''config.json'')
      \<lparr>cfile_path = ''config.json'', cfile_config = skip_runtime demo_config\<rparr>" for tr
    unfolding config_file_load_or_default_def by (rule calm_bindE) (simp add: calm_basic(1))
  then show ?thesis
    unfolding configured_def
    by (intro calm_map_err calm_embed) (auto simp: no_init_def the_mgr_def map_filter_def)
qed

lemma owning_calm: "fst (m env tr) = Ok (a, inst') \<Longrightarrow> fst (owning inst m env tr) = Ok a"
  by (auto simp: owning_def Let_def split: prod.splits)

lemma calm_then:
  assumes "calm P env m a" "list_all P tr" "\<And>tr'. list_all P tr' \<Longrightarrow> fst (f a env tr') = Ok b"
  shows "fst (bindE m f env tr) = Ok b"
proof -
  obtain es where "m env tr = (Ok a, tr @ es)" "list_all P es" by (rule calmD [OF assms(1)])
  with assms(2) assms(3) [of "tr @ es"] show ?thesis by (simp add: bindE_def)
qed

lemma demo_run_tests:
  assumes "list_all no_init tr"
  shows "fst (run_tests_command demo_build (skip_runtime demo_config) demo_args demo_main_env tr) = Ok ()"
proof -
  let ?cfg = "(skip_runtime demo_config)\<lparr>runtime_opts := (runtime_opts (skip_runtime demo_config))\<lparr>ro_display := DisplayNone\<rparr>\<rparr>"
  let ?vm = "demo_vm\<lparr>artifacts_dir := Some ''/opt/testing''\<rparr>"
  have vms: "vms ?cfg = vms demo_config" by (simp add: skip_runtime_def)
  have args: "rt_name demo_args = ''debian''" "rt_current_app demo_args = ''app.deb''" "rt_previous_app demo_args = ''old.deb''"
      "mb_vm demo_build = demo_vm_host" "mb_sort_by_len demo_build = id" "mb_version_regex demo_build = (\<lambda>_. Some ''2023.2'')"
      "display_of demo_args = ret DisplayNone"
    by (simp_all add: demo_args_def demo_build_def display_of_def)
  have vm: "calm (\<lambda>_. True) demo_guest_host (vm_config_of ?cfg ''debian'') ?vm"
    by (simp add: vm_config_of_def of_result_def get_vm_config_def get_vm_def btree_get_def skip_runtime_def demo_config_def calm_basic(1))
  have last: "fst (bindE (owning inst (run_tests_on demo_build demo_args ?cfg ?vm host
      \<lparr>current_app_path = ''app.deb'', previous_app_path = ''old.deb'', ui_e2e_tests_path = ''2023.2''\<rparr> inst)) of_result demo_main_env tr') = Ok ()"
    (is "fst (bindE (owning inst ?on) of_result demo_main_env tr') = _") if "list_all no_init tr'" for inst host tr'
  proof -
    have "fst (owning inst ?on demo_main_env tr') = Ok (Inr ())"
      by (rule owning_calm) (rule demo_run_tests_on [OF vms that])
    then show ?thesis by (auto simp: bindE_def of_result_def ret_def split: prod.splits)
  qed
  show ?thesis
    unfolding run_tests_command_def args bindE_ret Let_def
    by (rule calm_then [OF calm_on_host(1) [OF vm] assms], rule calm_then [OF calm_on_host(1) [OF calm_manifest]], assumption,
        rule calm_then [OF calm_on_host(1) [OF calm_guest [OF vms]]], assumption, erule last)
qed

lemma demo_main_ok: "fst (main demo_build (RunTests demo_args) demo_main_env []) = Ok Returned"
proof -
  have linux: "mb_linux demo_build" "mb_euid demo_build = 0" by (simp_all add: demo_build_def)
  have relaunch: "calm (\<lambda>_. True) demo_guest_host (relaunch_with_rootlesskit 0 a v) None" for a v
    by (simp add: relaunch_with_rootlesskit_def calm_basic(1))
  have command: "fst (seqE (run_command demo_build \<lparr>cfile_path = ''config.json'', cfile_config = skip_runtime demo_config\<rparr>
      (RunTests demo_args)) (ret Returned) demo_main_env tr) = Ok Returned" if "list_all no_init tr" for tr
    using demo_run_tests [OF that] by (auto simp: run_command_def seqE_def bindE_def ret_def split: prod.splits)
  show ?thesis
    unfolding main_def linux(2)
    by (simp add: linux(1), rule calm_then [OF calm_on_host(2) [OF relaunch]], simp, simp, rule calm_then [OF calm_load], assumption, erule command)
qed

theorem successful_run_tests_is_green_witness:
  "\<exists>env tr2 res tr3. executes (run_opts_of demo_build demo_args) env [demo_entry ''test_a'' VersionNone False (ret ())] tr2 res tr3 \<and>
     map fst res = [demo_entry ''test_a'' VersionNone False (ret ())] \<and> list_all (\<lambda>(t, v). \<not> verdict_failed v) res"
proof -
  obtain tr' where ok: "main demo_build (RunTests demo_args) demo_main_env [] = (Ok Returned, tr')"
    using demo_main_ok by (metis prod.collapse)
  have sel: "select_tests (mb_to_lowercase demo_build) (rt_test_filters demo_args) (mb_inventory demo_build) =
      [demo_entry ''test_a'' VersionNone False (ret ())]"
    by (simp add: select_tests_def demo_build_def demo_args_def)
  show ?thesis
    using successful_run_tests_is_green [OF ok] unfolding sel by (elim exE conjE) (intro exI conjI)
qed

end
