(* ===== verification/Runner_Process.thy ===== *)
theory Runner_Process
  imports Runner_Main Forward
begin

text \<open>
  \<open>main\<close> of \<open>test-runner/src/main.rs\<close>: the process that opens the serial port, sets up the transports
  of \<open>Forward\<close>, starts the relay and the service of \<open>Runner_Main\<close>, and starts over whenever the
  service has stopped.

  The loop of the program has no exit.  \<open>runner_loop n\<close> is the process up to the end of its \<open>n\<close>-th
  session; the lemmas hold for every \<open>n\<close>.  The requests that arrive in a session come from the
  environment, in the order in which they are handled; \<open>tarpc\<close> handles each one in a task of its own,
  so that a panic ends that task only, and a poll that waits does not hold up the others.  Handlers are
  not interleaved with each other here.
\<close>

definition BAUD :: nat where "BAUD = 115200"

datatype process_ev =
    LoggerInstalled log_facade
  | ProcessLog level string
  | OpenSerial string nat "io_error + unit"
  | TransportsCreated transport_setup
  | SpawnRelay relay_state
  | Handling host_ev
  | Served rpc_request "(error, rpc_response) res"
  | LeftWaiting rpc_request
  | ServiceStopped

text \<open>\<open>pe_log\<close> is the log buffer at the time of a request.\<close>

record ('t, 'c) process_env =
  pe_args :: "string list"
  pe_facade :: log_facade
  pe_open :: "process_ev list \<Rightarrow> io_error + unit"
  pe_requests :: "process_ev list \<Rightarrow> rpc_request list"
  pe_server :: "'t server"
  pe_log_ops :: "'c log_ops"
  pe_log :: "process_ev list \<Rightarrow> 'c"
  pe_host :: "process_ev list \<Rightarrow> host_env"

type_synonym ('t, 'c, 'a) process = "(('t, 'c) process_env, process_ev, io_error, 'a) prog"

definition install_logger :: "('t, 'c, unit) process" where
  "install_logger = (\<lambda>env tr. case init_logger (pe_facade env) of
      (Inl _, st) \<Rightarrow> (Panic ''unwrap'', tr)
    | (Inr _, st) \<Rightarrow> (Ok (), tr @ [LoggerInstalled st]))"

definition path_arg :: "('t, 'c, string) process" where
  "path_arg = (\<lambda>env tr. case drop 1 (pe_args env) of
      path # _ \<Rightarrow> (Ok path, tr)
    | [] \<Rightarrow> (Panic ''serial/COM path must be provided'', tr))"

fun the_handling :: "process_ev \<Rightarrow> host_ev option" where
  "the_handling (Handling e) = Some e"
| "the_handling _ = None"

definition serve_request :: "rpc_request \<Rightarrow> ('t, 'c, unit) process" where
  "serve_request req = (\<lambda>env tr. let h = List.map_filter the_handling tr in
     case serve (pe_server env) (pe_log_ops env) req (pe_log env tr) (pe_host env tr) h of
       None \<Rightarrow> (Ok (), tr @ [LeftWaiting req])
     | Some (r, c, h') \<Rightarrow> (Ok (), tr @ map Handling (drop (length h) h') @ [Served req r]))"

definition execute_server :: "('t, 'c, unit) process" where
  "execute_server = (\<lambda>env tr. seqE (for_each serve_request (pe_requests env tr)) (emit ServiceStopped) env tr)"

definition runner_session :: "string \<Rightarrow> ('t, 'c, unit) process" where
  "runner_session path =
     seqE (emit (ProcessLog LInfo (''Connecting to '' @ path)))
    (seqE (expect ''unwrap'' (performE pe_open (OpenSerial path BAUD)))
    (seqE (emit (TransportsCreated create_server_transports))
    (seqE (emit (ProcessLog LInfo ''Running server''))
    (seqE (emit (SpawnRelay AwaitingManager))
    (seqE execute_server
     (emit (ProcessLog LError ''Restarting server since it stopped'')))))))"

fun runner_loop :: "nat \<Rightarrow> string \<Rightarrow> ('t, 'c, unit) process" where
  "runner_loop 0 path = ret ()"
| "runner_loop (Suc n) path = seqE (runner_session path) (runner_loop n path)"

definition runner_main :: "nat \<Rightarrow> ('t, 'c, unit) process" where
  "runner_main n = seqE install_logger (bindE path_arg (runner_loop n))"

section \<open>Sessions\<close>

text \<open>The requests that were taken up in a history.\<close>

fun taken_up_by :: "process_ev \<Rightarrow> rpc_request list" where
  "taken_up_by (Served req r) = [req]"
| "taken_up_by (LeftWaiting req) = [req]"
| "taken_up_by _ = []"

definition taken_up :: "process_ev list \<Rightarrow> rpc_request list" where
  "taken_up es = concat (map taken_up_by es)"

lemma taken_up_simps [simp]:
  "taken_up [] = []" "taken_up (e # es) = taken_up_by e @ taken_up es" "taken_up (es @ fs) = taken_up es @ taken_up fs"
  "taken_up (map Handling hs) = []"
  by (simp_all add: taken_up_def)

lemma for_each_serves:
  "\<exists>es. for_each serve_request reqs env tr = (Ok (), tr @ es) \<and> taken_up es = reqs"
proof (induction reqs arbitrary: tr)
  case (Cons req reqs)
  have "\<exists>es. serve_request req env tr = (Ok (), tr @ es) \<and> taken_up es = [req]"
    by (auto simp: serve_request_def Let_def split: option.splits)
  then obtain es where es: "serve_request req env tr = (Ok (), tr @ es)" "taken_up es = [req]" by blast
  with Cons [of "tr @ es"] show ?case by (auto simp: seqE_def bindE_def)
qed (simp add: ret_def)

text \<open>The events with which a session begins, when the port can be opened, and when it cannot.\<close>

definition session_start :: "string \<Rightarrow> process_ev list" where
  "session_start path =
    [ProcessLog LInfo (''Connecting to '' @ path), OpenSerial path 115200 (Inr ()),
     TransportsCreated \<lparr>ts_handshake_fwd = False, ts_queued_shakes = 1, ts_connected = True\<rparr>,
     ProcessLog LInfo ''Running server'', SpawnRelay AwaitingManager]"

definition port_lost :: "string \<Rightarrow> io_error \<Rightarrow> process_ev list" where
  "port_lost path e = [ProcessLog LInfo (''Connecting to '' @ path), OpenSerial path 115200 (Inl e)]"

text \<open>Every request that arrives in a session is taken up, in its order, whatever the handlers do.\<close>

definition session :: "('t, 'c) process_env \<Rightarrow> string \<Rightarrow> process_ev list \<Rightarrow> process_ev list \<Rightarrow> bool" where
  "session env path tr tr' \<longleftrightarrow> (\<exists>served. taken_up served = pe_requests env (tr @ session_start path) \<and>
     tr' = tr @ session_start path @ served @ [ServiceStopped, ProcessLog LError ''Restarting server since it stopped''])"

inductive sessions :: "('t, 'c) process_env \<Rightarrow> string \<Rightarrow> nat \<Rightarrow> process_ev list \<Rightarrow> process_ev list \<Rightarrow> bool"
  for env path where
  no_session: "sessions env path 0 tr tr"
| next_session: "session env path tr tr1 \<Longrightarrow> sessions env path k tr1 tr2 \<Longrightarrow> sessions env path (Suc k) tr tr2"

lemma runner_session_run:
  "(\<exists>tr'. runner_session path env tr = (Ok (), tr') \<and> session env path tr tr') \<or>
   (\<exists>e. runner_session path env tr = (Panic ''unwrap'', tr @ port_lost path e))"
proof (cases "pe_open env (tr @ [ProcessLog LInfo (''Connecting to '' @ path)])")
  case (Inl e)
  then show ?thesis by (auto simp: runner_session_def port_lost_def BAUD_def prog_defs)
next
  case (Inr u)
  obtain es where "for_each serve_request (pe_requests env (tr @ session_start path)) env (tr @ session_start path) =
      (Ok (), (tr @ session_start path) @ es)" "taken_up es = pe_requests env (tr @ session_start path)"
    using for_each_serves [of "pe_requests env (tr @ session_start path)" env "tr @ session_start path"] by blast
  with Inr have "runner_session path env tr =
      (Ok (), tr @ session_start path @ es @ [ServiceStopped, ProcessLog LError ''Restarting server since it stopped''])"
    by (simp add: runner_session_def session_start_def execute_server_def create_server_transports_def BAUD_def prog_defs)
  with \<open>taken_up es = _\<close> show ?thesis unfolding session_def by blast
qed

lemma runner_loop_run:
  "(\<exists>tr'. runner_loop n path env tr = (Ok (), tr') \<and> sessions env path n tr tr') \<or>
   (\<exists>k < n. \<exists>e tr'. runner_loop n path env tr = (Panic ''unwrap'', tr' @ port_lost path e) \<and> sessions env path k tr tr')"
proof (induction n arbitrary: tr)
  case 0
  show ?case by (simp add: ret_def no_session)
next
  case (Suc n)
  from runner_session_run [of path env tr] show ?case
  proof (elim disjE exE conjE)
    fix tr1
    assume one: "runner_session path env tr = (Ok (), tr1)" "session env path tr tr1"
    then have "runner_loop (Suc n) path env tr = runner_loop n path env tr1"
      by (simp add: seqE_def bindE_def)
    with Suc.IH [of tr1] one(2) show ?thesis by (metis Suc_less_eq next_session)
  next
    fix e
    assume "runner_session path env tr = (Panic ''unwrap'', tr @ port_lost path e)"
    then have "runner_loop (Suc n) path env tr = (Panic ''unwrap'', tr @ port_lost path e)"
      by (simp add: seqE_def bindE_def)
    with no_session [of env path tr] show ?thesis by blast
  qed
qed

text \<open>
  The runner never gives up: with a path on its command line, after any number \<open>n\<close> of sessions, in each
  of which it opened the port, queued a handshake and took up every request that came, it is ready for
  the next, unless opening the port failed, which is the only way for it to end; it never returns an
  error.
\<close>

lemma runner_restarts:
  assumes "pe_args env = prog # path # rest" "\<not> lf_logger_set (pe_facade env)"
  shows "\<exists>st. lf_max_level st = Some LInfo \<and>
    ((\<exists>tr. runner_main n env [] = (Ok (), tr) \<and> sessions env path n [LoggerInstalled st] tr) \<or>
     (\<exists>k < n. \<exists>e tr. runner_main n env [] = (Panic ''unwrap'', tr @ port_lost path e) \<and> sessions env path k [LoggerInstalled st] tr))"
proof -
  let ?st = "(pe_facade env)\<lparr>lf_logger_set := True, lf_max_level := Some LInfo\<rparr>"
  have main: "runner_main n env [] = runner_loop n path env [LoggerInstalled ?st]"
    using assms by (simp add: runner_main_def install_logger_def path_arg_def init_logger_def prog_defs)
  show ?thesis
    unfolding main using runner_loop_run [of n path env "[LoggerInstalled ?st]"]
    by (intro exI [of _ ?st]) simp
qed

text \<open>
  With these transports the runner greets first: a handshake is waiting to be sent, and sending it puts
  exactly the handshake frame on the wire.
\<close>

lemma server_greets:
  "\<exists>ep. consume ShakeQueued (endpoint_start create_server_transports) wire = Some (ep, wire) \<and>
     snd (endpoint_step (ts_handshake_fwd create_server_transports) (open_env enc dec) ShakeQueued ep []) = [Handshake]"
  by (simp add: endpoint_start_def create_server_transports_def endpoint_step_def open_env_def serial_send_def prog_defs)

end
