(* ===== verification/Test_Support.thy ===== *)
theory Test_Support
  imports Run_Tests Vm_Tart
begin

text \<open>
  What the test bodies share: the constants of the host's network (\<open>vm/network/mod.rs\<close> re-exports
  those of the platform), running the UI tests of the app (\<open>tests/ui.rs\<close>), and the vocabulary for
  what a passed test has shown: one \<open>stage\<close> for each thing that it established, with a rule of
  \<open>yields\<close> for the code that establishes it.
\<close>

section \<open>The network of the platform (vm/network/mod.rs)\<close>

text \<open>The two keys are byte arrays in the code, given there as the base-64 texts that are used here.\<close>

definition CUSTOM_TUN_REMOTE_PUBKEY :: string where
  "CUSTOM_TUN_REMOTE_PUBKEY = ''7svBwGBefP7KVmH/yes+pZCfO6uSOYeGieYYa1+kZ0E=''"
definition CUSTOM_TUN_LOCAL_PRIVKEY :: string where
  "CUSTOM_TUN_LOCAL_PRIVKEY = ''mPue6Xt0pdz4NRAhfQSp/SLKo7kV7DW+2zvBq0N9iUI=''"

definition v4_of :: "byte \<times> byte \<times> byte \<times> byte \<Rightarrow> ip_addr" where
  "v4_of = (\<lambda>(a, b, c, d). V4 a b c d)"

record platform_network =
  pn_tun_gateway :: ip_addr
  pn_tun_interface :: string
  pn_tun_local_privkey :: string
  pn_tun_local_addr :: ip_addr
  pn_tun_remote_pubkey :: string
  pn_tun_remote_real_addr :: ip_addr
  pn_tun_remote_real_port :: "16 word"
  pn_tun_remote_addr :: ip_addr
  pn_dummy_lan_ip :: ip_addr
  pn_non_tun_gateway :: ip_addr

definition linux_network :: platform_network where
  "linux_network = \<lparr>pn_tun_gateway = v4_of CUSTOM_TUN_GATEWAY, pn_tun_interface = CUSTOM_TUN_INTERFACE_NAME,
     pn_tun_local_privkey = CUSTOM_TUN_LOCAL_PRIVKEY, pn_tun_local_addr = v4_of CUSTOM_TUN_LOCAL_TUN_ADDR,
     pn_tun_remote_pubkey = CUSTOM_TUN_REMOTE_PUBKEY, pn_tun_remote_real_addr = v4_of CUSTOM_TUN_REMOTE_REAL_ADDR,
     pn_tun_remote_real_port = of_nat CUSTOM_TUN_REMOTE_REAL_PORT, pn_tun_remote_addr = v4_of CUSTOM_TUN_REMOTE_TUN_ADDR,
     pn_dummy_lan_ip = v4_of DUMMY_LAN_INTERFACE_IP, pn_non_tun_gateway = v4_of NON_TUN_GATEWAY\<rparr>"

text \<open>On macOS the peers and the port are the same, the addresses outside the tunnel and the name differ.\<close>

definition macos_network :: platform_network where
  "macos_network = linux_network\<lparr>pn_tun_interface := MACOS_TUN_INTERFACE_NAME,
     pn_tun_remote_real_addr := v4_of MACOS_REMOTE_REAL_ADDR,
     pn_dummy_lan_ip := v4_of MACOS_DUMMY_LAN_INTERFACE_IP, pn_non_tun_gateway := MACOS_NON_TUN_GATEWAY\<rparr>"

definition platform :: "test_kit \<Rightarrow> platform_network" where
  "platform kit = (if tk_macos kit then macos_network else linux_network)"

definition addr :: "ip_addr \<Rightarrow> 16 word \<Rightarrow> socket_addr" where
  "addr ip p = \<lparr>sock_ip = ip, sock_port = p\<rparr>"

section \<open>UI tests (tests/ui.rs)\<close>

text \<open>\<open>Debug\<close> of a slice of plain strings.\<close>

definition debug_strings :: "string list \<Rightarrow> string" where
  "debug_strings ss = ''['' @ join '', '' (map (\<lambda>s. CHR 0x22 # s @ [CHR 0x22]) ss) @ '']''"

definition utf8_or :: "string \<Rightarrow> bytes \<Rightarrow> string" where
  "utf8_or text b = (case from_utf8 b of Inl _ \<Rightarrow> text | Inr s \<Rightarrow> s)"

definition ui_command :: "os \<Rightarrow> test_config \<Rightarrow> string list \<Rightarrow> string \<times> string list" where
  "ui_command os config params =
    (let ui_runner_path = path_join (tc_artifacts_dir config) (ui_e2e_tests_filename config)
     in case os of
       Linux \<Rightarrow> (''/usr/bin/xvfb-run'', ui_runner_path # params)
     | _ \<Rightarrow> (ui_runner_path, params))"

definition run_test_env :: "string list \<Rightarrow> (string \<times> string) list \<Rightarrow> (test_error, exec_result) mgr" where
  "run_test_env params env =
     bindE (map_err Rpc (runner Client.get_os)) (\<lambda>os.
     bindE deref_test_config (\<lambda>config.
     seqE (log_msg LInfo (''Running UI tests: '' @ debug_strings params))
    (bindE (map_err Rpc (runner (Client.exec_env (fst (ui_command os config params)) (snd (ui_command os config params))
              (btree_collect env)))) (\<lambda>result.
     seqE (only_if (\<not> exec_success result)
             (log_msg LDebug (''UI test failed:'' @ [CHR 0x0A, CHR 0x0A] @ ''stdout:'' @ [CHR 0x0A, CHR 0x0A]
                @ utf8_or ''invalid utf8'' (exec_stdout result) @ [CHR 0x0A, CHR 0x0A]
                @ utf8_or ''invalid utf8'' (exec_stderr result) @ [CHR 0x0A])))
     (ret result)))))"

definition ui_run_test :: "string list \<Rightarrow> (test_error, exec_result) mgr" where
  "ui_run_test params = run_test_env params []"

section \<open>Helpers (tests/helpers.rs)\<close>

text \<open>\<open>geoip_lookup_with_retries\<close> with the host of \<open>TEST_CONFIG\<close>, and \<open>filter_relays(..).pop().unwrap()\<close>.\<close>

definition geoip_check :: "(test_error, am_i_mullvad) mgr" where
  "geoip_check = bindE deref_test_config (\<lambda>config. geoip_lookup_with_retries (tc_mullvad_host config))"

definition pop_relay :: "(relay \<Rightarrow> bool) \<Rightarrow> (test_error, relay) mgr" where
  "pop_relay criteria = bindE (filter_relays criteria) (\<lambda>relays.
     if relays = [] then panic ''unwrap'' else ret (last relays))"

definition active_relay :: "int \<Rightarrow> relay \<Rightarrow> bool" where
  "active_relay relay_type relay \<longleftrightarrow> relay_active relay \<and> endpoint_type relay = relay_type"

text \<open>\<open>PrivateKey::new_from_random\<close>.\<close>

definition random_key :: "('e, string) mgr" where
  "random_key = perform me_random_key RandomKey"

definition unreachable_wireguard_tunnel :: "test_kit \<Rightarrow> ('e, wg_connection) mgr" where
  "unreachable_wireguard_tunnel kit =
     bindE random_key (\<lambda>private_key. bindE random_key (\<lambda>peer_key.
     ret \<lparr>wg_private_key = private_key, wg_addresses = [V4 10 64 10 1], wg_public_key = tk_derive_key kit peer_key,
       wg_allowed_ips = [''0.0.0.0/0'', ''::0/0''], wg_endpoint = addr (V4 1 3 3 7) 1234, wg_ipv4_gateway = V4 10 64 10 1\<rparr>))"

definition only_location :: "location_constraint constraint option \<Rightarrow> relay_settings_update" where
  "only_location loc = NormalUpdate (no_update\<lparr>ru_location := loc\<rparr>)"

definition country :: "string \<Rightarrow> location_constraint constraint option" where
  "country cc = Some (Only (LocationC (Country cc)))"

section \<open>Stages\<close>

text \<open>Log records may appear anywhere in a test.\<close>

fun is_record :: "mgr_ev \<Rightarrow> bool" where
  "is_record (Logging (LogRecord l t)) = True"
| "is_record _ = False"

type_synonym test_stage = "(mgr_env, mgr_ev) stage"

abbreviation shown :: "test_stage list \<Rightarrow> test_stage" where
  "shown \<equiv> stages is_record"

text \<open>The daemon accepted a request.\<close>

definition did :: "mgmt_request \<Rightarrow> test_stage" where
  "did req env tr es \<longleftrightarrow> es = [Daemon req (Inr ())]"

text \<open>The tunnel state was polled and converted.\<close>

definition polled :: "(tunnel_state \<Rightarrow> bool) \<Rightarrow> test_stage" where
  "polled P env tr es \<longleftrightarrow> (\<exists>s. es = [StatePolled (Inr (Inr s))] \<and> P s)"

text \<open>The runner answered a request; its environment sees the requests made of it so far.\<close>

definition replied ::
  "(client_env \<Rightarrow> client_ev list \<Rightarrow> rpc_request \<Rightarrow> string + (error + 'a)) \<Rightarrow> deadline \<Rightarrow> rpc_request \<Rightarrow>
     'a \<Rightarrow> test_stage" where
  "replied answer dl req a env tr es \<longleftrightarrow> es = [Runner (Call dl req)] \<and>
     answer (me_runner env tr) (List.map_filter the_runner_ev tr) req = Inr (Inr a)"

definition replied_plain ::
  "(client_env \<Rightarrow> client_ev list \<Rightarrow> string + 'a) \<Rightarrow> deadline \<Rightarrow> rpc_request \<Rightarrow> 'a \<Rightarrow> test_stage" where
  "replied_plain answer dl req a env tr es \<longleftrightarrow> es = [Runner (Call dl req)] \<and>
     answer (me_runner env tr) (List.map_filter the_runner_ev tr) = Inr a"

text \<open>Probes outside the tunnel: nothing of them, or all of them, was seen on the bridge.\<close>

definition blocked_to :: "test_kit \<Rightarrow> socket_addr \<Rightarrow> test_stage" where
  "blocked_to kit dest env tr es \<longleftrightarrow>
     (\<exists>seen. probed kit (Some NonTunnel) dest seen es \<and> {Tcp, Udp, Icmp} \<inter> seen = {})"

definition reaches :: "test_kit \<Rightarrow> socket_addr \<Rightarrow> test_stage" where
  "reaches kit dest env tr es \<longleftrightarrow>
     (\<exists>seen. probed kit (Some NonTunnel) dest seen es \<and> {Tcp, Udp, Icmp} \<subseteq> seen)"

definition connected_stage :: test_stage where
  "connected_stage env tr es \<longleftrightarrow> connected_by es"

definition disconnected_stage :: test_stage where
  "disconnected_stage env tr es \<longleftrightarrow> seen_disconnected es"

text \<open>The connection check answered at last, after retries; the answer satisfies \<open>P\<close>.\<close>

definition checked_exit :: "(am_i_mullvad \<Rightarrow> bool) \<Rightarrow> test_stage" where
  "checked_exit P env tr es \<longleftrightarrow> (\<exists>host k answer. es = geoip_calls host k @ [geoip_call host] \<and> P answer \<and>
     replied ce_geoip DefaultDeadline (GeoipLookup host) answer env (tr @ geoip_calls host k) [geoip_call host])"

text \<open>The UI test with the given parameters was run on the guest and exited with success.\<close>

definition ui_request :: "os \<Rightarrow> test_config \<Rightarrow> string list \<Rightarrow> (string \<times> string) list \<Rightarrow> rpc_request" where
  "ui_request os config params vars = Exec (fst (ui_command os config params)) (snd (ui_command os config params))
     (btree_collect (btree_collect vars))"

definition ui_passed :: "string list \<Rightarrow> (string \<times> string) list \<Rightarrow> test_stage" where
  "ui_passed params vars env tr es \<longleftrightarrow> (\<exists>os config pre post result. es = pre @
       [Runner (Call (DeadlineIn INSTALL_TIMEOUT) (ui_request os config params vars))] @ post \<and> code result = Some 0 \<and>
     replied ce_exec (DeadlineIn INSTALL_TIMEOUT) (ui_request os config params vars) result env (tr @ pre)
       [Runner (Call (DeadlineIn INSTALL_TIMEOUT) (ui_request os config params vars))])"

section \<open>Rules for the parts of a test\<close>

lemma map_filter_runner [simp]: "List.map_filter the_runner_ev (map Runner es) = es"
  by (induction es) (simp_all add: map_filter_def)

lemma yields_rpc: "yields (runner (rpc answer dl req)) (replied answer dl req)"
  by (auto simp: yields_def runner_def embed_def rpc_def prog_defs replied_def split: sum.splits)

lemma yields_rpc_plain: "yields (runner (rpc_plain answer dl req)) (replied_plain answer dl req)"
  by (auto simp: yields_def runner_def embed_def rpc_plain_def prog_defs replied_plain_def split: sum.splits)

lemma yields_grpc: "yields (grpc wrap req) (\<lambda>_. did req)"
  by (auto simp: yields_def grpc_def callE_def prog_defs did_def split: sum.splits)

lemma yields_log: "yields (log_msg l t) (\<lambda>_ _ _. list_all is_record)"
  by (auto simp: yields_def log_msg_def emit_def)

lemma yields_connect: "yields connect_and_wait (\<lambda>_. connected_stage)"
  by (rule yields_spec [OF spec_connect_and_wait]) (simp add: connected_stage_def)

lemma yields_disconnect: "yields disconnect_and_wait (\<lambda>_. disconnected_stage)"
  by (rule yields_spec [OF spec_disconnect_and_wait]) (simp add: disconnected_stage_def)

lemma yields_get_tunnel_state: "yields get_tunnel_state (\<lambda>s. polled (\<lambda>s'. s' = s))"
  by (auto simp: yields_def get_tunnel_state_def prog_defs of_result_def polled_def split: sum.splits)

definition answered :: "string \<Rightarrow> am_i_mullvad \<Rightarrow> test_stage" where
  "answered host answer env tr es \<longleftrightarrow> (\<exists>k. es = geoip_calls host k @ [geoip_call host] \<and>
     replied ce_geoip DefaultDeadline (GeoipLookup host) answer env (tr @ geoip_calls host k) [geoip_call host])"

lemma answered_retry: "answered host answer env (tr @ [geoip_call host, Delay BEFORE_RETRY_DELAY]) es \<Longrightarrow>
    answered host answer env tr (geoip_call host # Delay BEFORE_RETRY_DELAY # es)"
  unfolding answered_def
  by (elim exE, rule_tac x = "Suc k" in exI) (simp add: geoip_calls_def geoip_call_def)

lemma yields_geoip_attempt:
  "yields (attempt (map_err GeoipError (runner (Client.geoip_lookup host)))) (\<lambda>r env tr es. es = [geoip_call host] \<and>
     (\<forall>answer. r = Inr answer \<longrightarrow> answered host answer env tr es))"
proof -
  have "yields (map_err GeoipError (runner (Client.geoip_lookup host)))
      (\<lambda>answer env tr es. es = [geoip_call host] \<and> answered host answer env tr es)"
    unfolding Client.geoip_lookup_def
    by (rule yields_map_err [OF yields_weaken [OF yields_rpc]])
       (auto simp: answered_def replied_def geoip_calls_def geoip_call_def intro: exI [of _ 0])
  moreover have "spec (map_err GeoipError (runner (Client.geoip_lookup host))) (\<lambda>_ es. es = [geoip_call host])"
    unfolding Client.geoip_lookup_def
    by (rule spec_map_err [OF spec_runner [OF spec_rpc [where Q = "\<lambda>_ es. es = [Call DefaultDeadline (GeoipLookup host)]"]]])
       (auto simp: geoip_call_def)
  ultimately show ?thesis
    by (rule yields_weaken [OF yields_attempt]) (auto split: sum.splits)
qed

lemma yields_geoip_loop: "yields (geoip_loop host left) (\<lambda>answer. answered host answer)"
proof (induction left)
  case 0
  show ?case
    by (subst geoip_loop.simps, rule yields_bind [OF yields_geoip_attempt, where Q = "\<lambda>r b env tr es. es = [] \<and> r = Inr b"])
       (auto simp: of_result_def yields_def prog_defs split: sum.splits)
next
  case (Suc left)
  have retry: "yields (seqE (emit (Delay BEFORE_RETRY_DELAY)) (geoip_loop host left))
     (\<lambda>answer env tr es. \<exists>es'. es = Delay BEFORE_RETRY_DELAY # es' \<and> answered host answer env (tr @ [Delay BEFORE_RETRY_DELAY]) es')"
    using Suc.IH by (auto simp: yields_def prog_defs) (metis append.assoc append_Cons append_Nil)
  show ?case
    by (subst geoip_loop.simps, rule yields_bind [OF yields_geoip_attempt, where Q = "\<lambda>r b env tr es. (es = [] \<and> r = Inr b) \<or>
        (\<exists>es'. es = Delay BEFORE_RETRY_DELAY # es' \<and> answered host b env (tr @ [Delay BEFORE_RETRY_DELAY]) es')"])
       (auto simp: of_result_def intro: answered_retry yields_weaken [OF retry] yields_rules split: sum.splits)
qed

lemma yields_geoip: "yields (geoip_lookup_with_retries host) (\<lambda>answer. answered host answer)"
  unfolding geoip_lookup_with_retries_def by (rule yields_geoip_loop)

lemma yields_ui:
  "yields (run_test_env params vars) (\<lambda>result env tr es. code result = Some 0 \<longrightarrow> ui_passed params vars env tr es)"
  unfolding yields_def
proof (intro allI impI)
  fix env tr result tr'
  assume "run_test_env params vars env tr = (Ok result, tr')"
  then obtain os config tr1 tr2 tr3 tr4 where st: "(map_err Rpc (runner Client.get_os)) env tr = (Ok os, tr1)"
      "(deref_test_config :: (test_error, _) mgr) env tr1 = (Ok config, tr2)"
      "(log_msg LInfo (''Running UI tests: '' @ debug_strings params) :: (test_error, _) mgr) env tr2 = (Ok (), tr3)"
      "(map_err Rpc (runner (Client.exec_env (fst (ui_command os config params)) (snd (ui_command os config params))
              (btree_collect vars)))) env tr3 = (Ok result, tr4)"
      "\<exists>post. tr' = tr4 @ post"
    unfolding run_test_env_def
    by (elim seqE_OkE bindE_OkE) (auto simp: only_if_def log_msg_def emit_def ret_def split: if_splits)
  obtain e1 where "tr1 = tr @ e1"
    using st(1) by (auto simp: map_err_def runner_def embed_def split: prod.splits res.splits)
  moreover have "tr2 = tr1"
    using st(2) by (auto simp: deref_test_config_def unwrap_opt_def prog_defs split: option.splits)
  moreover obtain e3 where "tr3 = tr2 @ e3"
    using st(3) by (auto simp: log_msg_def emit_def)
  moreover have "tr4 = tr3 @ [Runner (Call (DeadlineIn INSTALL_TIMEOUT) (ui_request os config params vars))] \<and>
      replied ce_exec (DeadlineIn INSTALL_TIMEOUT) (ui_request os config params vars) result env tr3
       [Runner (Call (DeadlineIn INSTALL_TIMEOUT) (ui_request os config params vars))]"
  proof -
    have "yields (map_err Rpc (runner (rpc ce_exec (DeadlineIn INSTALL_TIMEOUT) (ui_request os config params vars))))
        (replied ce_exec (DeadlineIn INSTALL_TIMEOUT) (ui_request os config params vars))"
      by (rule yields_map_err [OF yields_rpc])
    from yields_run [OF this] st(4) show ?thesis
      by (fastforce simp: ui_request_def Client.exec_env_def replied_def)
  qed
  moreover note st(5)
  ultimately show "\<exists>es. tr' = tr @ es \<and> (code result = Some 0 \<longrightarrow> ui_passed params vars env tr es)"
    unfolding ui_passed_def by (auto, metis append.assoc append_Cons append_Nil)
qed

lemma yields_geoip_check: "yields geoip_check (\<lambda>answer env tr es. \<exists>host. answered host answer env tr es)"
  unfolding geoip_check_def deref_test_config_def unwrap_opt_def
  by (auto simp: yields_def prog_defs split: option.splits dest!: yields_run [OF yields_geoip])

lemma yields_update: "yields (update_relay_settings u) (\<lambda>_. did (UpdateRelaySettings u))"
  unfolding update_relay_settings_def seqE_def
  by (rule yields_bind [OF yields_grpc, where Q = "\<lambda>_ _ _ _ es. es = []"]) (auto intro: yields_rules)

text \<open>
  The rules in the form in which they follow the text of a test.  \<open>shown_simps\<close> first turns a list of
  stages into the nested form and moves existential quantifiers to the stage that introduces them.
\<close>

abbreviation next_to :: "test_stage \<Rightarrow> test_stage \<Rightarrow> test_stage" where
  "next_to \<equiv> and_then is_record"

lemmas shown_simps = stages_Cons and_then_ex append.simps

lemmas shown_absorbs [yields_rules] = absorbs_stages absorbs_and_then absorbs_ex

lemma shown_end [yields_rules]: "yields (ret ()) (\<lambda>_. shown [])"
  by (rule yields_rules) (simp add: stages_Nil)

lemma shown_log [yields_rules]:
  "absorbs is_record R \<Longrightarrow> yields k (\<lambda>_. R) \<Longrightarrow> yields (seqE (log_msg l t) k) (\<lambda>_. R)"
  by (rule yields_quiet [OF yields_log])

lemma shown_grpc [yields_rules]:
  "yields k (\<lambda>_. R) \<Longrightarrow> yields (seqE (expect msg (grpc wrap req)) k) (\<lambda>_. next_to (did req) R)"
  by (rule yields_stage [OF yields_expect [OF yields_grpc]])

lemma shown_update [yields_rules]:
  "yields k (\<lambda>_. R) \<Longrightarrow>
   yields (seqE (expect msg (update_relay_settings u)) k) (\<lambda>_. next_to (did (UpdateRelaySettings u)) R)"
  by (rule yields_stage [OF yields_expect [OF yields_update]])

lemma shown_connect [yields_rules]:
  "yields k (\<lambda>_. R) \<Longrightarrow> yields (seqE connect_and_wait k) (\<lambda>_. next_to connected_stage R)"
  "yields k (\<lambda>_. R) \<Longrightarrow> yields (seqE (expect msg connect_and_wait) k) (\<lambda>_. next_to connected_stage R)"
  by (rule yields_stage [OF yields_connect], assumption, rule yields_stage [OF yields_expect [OF yields_connect]])

lemma shown_disconnect [yields_rules]:
  "yields k (\<lambda>_. R) \<Longrightarrow> yields (seqE disconnect_and_wait k) (\<lambda>_. next_to disconnected_stage R)"
  by (rule yields_stage [OF yields_disconnect])

lemma shown_probe_none [yields_rules]:
  "yields k (\<lambda>_. R) \<Longrightarrow>
   yields (bindE (send_guest_probes kit (Some NonTunnel) dest) (\<lambda>d. seqE (assertP msg (probe_none d)) k))
     (\<lambda>_. next_to (blocked_to kit dest) R)"
  by (rule yields_check [OF yields_spec [OF spec_send_guest_probes, where P = "\<lambda>d env tr es.
        probe_none d \<longrightarrow> blocked_to kit dest env tr es"]]) (auto simp: blocked_to_def)

lemma shown_probe_all [yields_rules]:
  "yields k (\<lambda>_. R) \<Longrightarrow>
   yields (bindE (send_guest_probes kit (Some NonTunnel) dest) (\<lambda>d. seqE (assertP msg (probe_all d)) k))
     (\<lambda>_. next_to (reaches kit dest) R)"
  by (rule yields_check [OF yields_spec [OF spec_send_guest_probes, where P = "\<lambda>d env tr es.
        probe_all d \<longrightarrow> reaches kit dest env tr es"]]) (auto simp: reaches_def)

lemma checked_exitI: "answered host g env tr es \<Longrightarrow> c g \<Longrightarrow> checked_exit c env tr es"
  unfolding answered_def checked_exit_def by blast

lemma shown_exit [yields_rules]:
  "yields k (\<lambda>_. R) \<Longrightarrow>
   yields (bindE (expect msg geoip_check) (\<lambda>g. seqE (assertP msg' (c g)) k)) (\<lambda>_. next_to (checked_exit c) R)"
  "yields k (\<lambda>_. R) \<Longrightarrow>
   yields (bindE geoip_check (\<lambda>g. seqE (assertP msg' (c g)) k)) (\<lambda>_. next_to (checked_exit c) R)"
  by (rule yields_check [OF yields_expect [OF yields_geoip_check]], assumption, blast intro: checked_exitI)
     (rule yields_check [OF yields_geoip_check], assumption, blast intro: checked_exitI)

lemma shown_exit2 [yields_rules]:
  "yields k (\<lambda>_. R) \<Longrightarrow>
   yields (bindE (expect msg geoip_check) (\<lambda>g. seqE (assertP msg1 (c g)) (seqE (assertP msg2 (d g)) k)))
     (\<lambda>_. next_to (checked_exit (\<lambda>g. c g \<and> d g)) R)"
  by (rule yields_bind [OF yields_expect [OF yields_geoip_check] yields_assertP [OF yields_assertP]])
     (assumption, auto intro!: and_thenI intro: checked_exitI)

lemma shown_state [yields_rules]:
  "yields k (\<lambda>_. R) \<Longrightarrow>
   yields (bindE get_tunnel_state (\<lambda>s. seqE (assertP msg (c s)) k)) (\<lambda>_. next_to (polled c) R)"
  by (rule yields_check [OF yields_get_tunnel_state]) (auto simp: polled_def)

lemma shown_ui [yields_rules]:
  "yields k (\<lambda>_. R) \<Longrightarrow>
   yields (bindE (expect msg (run_test_env params vars)) (\<lambda>r. seqE (assertP msg' (exec_success r)) k))
     (\<lambda>_. next_to (ui_passed params vars) R)"
  by (rule yields_check [OF yields_expect [OF yields_ui]]) (auto simp: exec_success_def)

text \<open>A relay was picked from the list of the daemon.\<close>

definition picked :: "(relay \<Rightarrow> bool) \<Rightarrow> relay \<Rightarrow> test_stage" where
  "picked criteria relay env tr es \<longleftrightarrow> es = [Daemon GetRelayLocations (Inr ())] \<and>
     (\<exists>relays. me_relays env tr = Inr relays \<and> relay \<in> set (flatten_relaylist relays) \<and> criteria relay)"

lemma yields_pop_relay: "yields (pop_relay criteria) (picked criteria)"
proof -
  have "last (filter criteria rs) \<in> set rs \<and> criteria (last (filter criteria rs))" if "filter criteria rs \<noteq> []" for rs
    using last_in_set [OF that] by simp
  then show ?thesis
    by (auto simp: yields_def pop_relay_def filter_relays_def grpc_get_def prog_defs picked_def split: sum.splits if_splits)
qed

lemma shown_pop_relay [yields_rules]:
  "(\<And>relay. yields (f relay) (\<lambda>_. R relay)) \<Longrightarrow>
   yields (bindE (pop_relay criteria) f) (\<lambda>_ env tr es. \<exists>relay. next_to (picked criteria relay) (R relay) env tr es)"
  by (rule yields_use [OF yields_pop_relay])

text \<open>A tunnel state was waited for.\<close>

definition waited :: "(tunnel_state \<Rightarrow> bool) \<Rightarrow> (tunnel_state \<Rightarrow> bool) \<Rightarrow> test_stage" where
  "waited accept P env tr es \<longleftrightarrow> (\<exists>s. waited_for accept s es \<and> P s)"

lemma yields_wait: "yields (wait_for_tunnel_state accept) (\<lambda>s. waited accept (\<lambda>s'. s' = s))"
  by (rule yields_spec [OF spec_wait_for_tunnel_state]) (auto simp: waited_def)

lemma shown_wait [yields_rules]:
  "yields k (\<lambda>_. R) \<Longrightarrow>
   yields (bindE (wait_for_tunnel_state accept) (\<lambda>s. seqE (assertP msg (c s)) k)) (\<lambda>_. next_to (waited accept c) R)"
  by (rule yields_check [OF yields_wait]) (auto simp: waited_def)

text \<open>A monitor on the bridge, and what it saw between its start and its end.\<close>

definition monitoring :: "string \<Rightarrow> monitor_options \<Rightarrow> test_stage" where
  "monitoring bridge opts env tr es \<longleftrightarrow> es = [MonitorStarted bridge opts]"

definition saw :: "test_kit \<Rightarrow> string \<Rightarrow> monitor_options \<Rightarrow> (parsed_packet list \<Rightarrow> bool) \<Rightarrow> test_stage" where
  "saw kit bridge opts P env tr es \<longleftrightarrow> (\<exists>evs. es = [MonitorSaw bridge evs] \<and> P (seen_packets kit opts evs))"

definition started :: "test_kit \<Rightarrow> (parsed_packet \<Rightarrow> bool) \<Rightarrow> monitor_options \<Rightarrow> string \<times> packet_monitor \<Rightarrow> bool" where
  "started kit f opts mon \<longleftrightarrow>
     (\<exists>cap. start_packet_monitor cap (tk_parsers kit) (tk_macos kit) (fst mon) f opts = Ok (snd mon))"

lemma shown_bridge_monitor:
  assumes "\<And>mon. started kit f opts mon \<Longrightarrow> yields (k mon) (\<lambda>_. R (fst mon))"
  shows "yields (bindE (bridge_monitor kit f opts) k) (\<lambda>_ env tr es. \<exists>bridge. next_to (monitoring bridge opts) (R bridge) env tr es)"
proof -
  have "yields (bridge_monitor kit f opts) (\<lambda>mon env tr es. started kit f opts mon \<and> monitoring (fst mon) opts env tr es)"
    by (rule yields_spec [OF spec_bridge_monitor]) (auto simp: monitors_def started_def monitoring_def)
  then have "yields (bindE (bridge_monitor kit f opts) k) (\<lambda>_ env tr es. \<exists>mon. next_to
      (\<lambda>env tr es. started kit f opts mon \<and> monitoring (fst mon) opts env tr es) (R (fst mon)) env tr es)"
    by (rule yields_use) (blast intro: assms)
  then show ?thesis by (rule yields_weaken) (auto simp: and_then_def)
qed

lemma shown_stop:
  assumes "\<And>evs res. into_result (snd mon) evs = Some (Ok res) \<Longrightarrow> c res \<Longrightarrow> P (seen_packets kit opts evs)"
    and "yields k (\<lambda>_. R)"
  shows "yields (bindE (stop_monitor mon) (\<lambda>r. bindE (unwrap_sum r) (\<lambda>res. seqE (assertP msg (c res)) k)))
     (\<lambda>_. next_to (saw kit (fst mon) opts P) R)"
proof -
  have "yields (bindE (stop_monitor mon) unwrap_sum) (\<lambda>res env tr es. c res \<longrightarrow> saw kit (fst mon) opts P env tr es)"
    using assms(1) by (auto simp: yields_def stop_monitor_def monitor_outcome_def unwrap_sum_def saw_def prog_defs
        split: option.splits res.splits sum.splits)
  from yields_check [OF this assms(2), where c = c and S = "saw kit (fst mon) opts P" and quiet = is_record]
  show ?thesis by (simp add: bindE_assoc)
qed

text \<open>Events of an attempt to connect, whatever comes of it.\<close>

fun connecting_event :: "mgr_ev \<Rightarrow> bool" where
  "connecting_event (Daemon req r) = (req \<in> {ConnectTunnel, EventsListen})"
| "connecting_event (StatePolled r) = True"
| "connecting_event (Listened l) = True"
| "connecting_event (Logging (LogRecord l t)) = True"
| "connecting_event _ = False"

definition tried_to_connect :: test_stage where
  "tried_to_connect env tr es \<longleftrightarrow> list_all connecting_event es"

lemma only_connect: "only connecting_event connect_and_wait"
  unfolding connect_and_wait_def wait_for_tunnel_state_def find_next_tunnel_state_def mgr_calls
  by (intro only_rules) simp_all

lemma shown_try_connect [yields_rules]:
  "yields k (\<lambda>_. R) \<Longrightarrow> yields (seqE (attempt connect_and_wait) k) (\<lambda>_. next_to tried_to_connect R)"
  by (rule yields_stage [OF yields_weaken [OF yields_only [OF only_attempt [OF only_connect]]]])
     (simp_all add: tried_to_connect_def)

text \<open>The connection is made or not, as the test expects.\<close>

lemma shown_connect_result [yields_rules]:
  assumes "yields k (\<lambda>_. R)"
  shows "yields (bindE (attempt connect_and_wait) (\<lambda>r. seqE (assertP msg ((\<not> isl r) = b)) k))
     (\<lambda>_. next_to (if b then connected_stage else tried_to_connect) R)"
proof (rule yields_check [OF yields_attempt [OF yields_connect only_connect [unfolded only_def]] assms])
  fix env tr r es
  assume "case r of Inl e \<Rightarrow> list_all connecting_event es | Inr a \<Rightarrow> connected_stage env tr es" "(\<not> isl r) = b"
  then show "(if b then connected_stage else tried_to_connect) env tr es"
    by (cases r) (auto simp: tried_to_connect_def)
qed

text \<open>What the results of a monitor say about the packets it saw.\<close>

lemma monitor_saw:
  assumes "started kit f opts mon" "into_result (snd mon) evs = Some (Ok res)"
  shows "packets res = filter f (seen_packets kit opts evs)"
    "discarded_packets res = 0 \<Longrightarrow> list_all f (seen_packets kit opts evs)"
  using assms unfolding started_def
  by (blast intro: bridge_monitor_result, blast intro: bridge_monitor_discards)

lemma shown_stop_rules [yields_rules]:
  assumes "started kit f opts mon" "yields k (\<lambda>_. R)"
  shows "yields (bindE (stop_monitor mon) (\<lambda>r. bindE (unwrap_sum r) (\<lambda>res.
       seqE (assertP msg (discarded_packets res = 0)) k))) (\<lambda>_. next_to (saw kit (fst mon) opts (list_all f)) R)"
    "yields (bindE (stop_monitor mon) (\<lambda>r. bindE (unwrap_sum r) (\<lambda>res.
       seqE (assertP msg (packets res \<noteq> [])) k))) (\<lambda>_. next_to (saw kit (fst mon) opts (list_ex f)) R)"
    "yields (bindE (stop_monitor mon) (\<lambda>r. bindE (unwrap_sum r) (\<lambda>res.
       seqE (assertP msg (packets res = [])) k))) (\<lambda>_. next_to (saw kit (fst mon) opts (list_all (\<lambda>p. \<not> f p))) R)"
  by (rule shown_stop, use monitor_saw [OF assms(1)] assms(2) in
      \<open>auto simp: filter_empty_conv list_ex_iff list_all_iff\<close>)+

declare shown_bridge_monitor [yields_rules]

text \<open>Loops: the stages of all passes.\<close>

lemma shown_for_each:
  "(\<And>x. x \<in> set xs \<Longrightarrow> yields (f x) (\<lambda>_. shown (Ps x))) \<Longrightarrow> yields (for_each f xs) (\<lambda>_. shown (concat (map Ps xs)))"
proof (induction xs)
  case Nil
  show ?case by (simp add: shown_end)
next
  case (Cons x xs)
  have "yields (seqE (f x) (for_each f xs)) (\<lambda>_. shown (Ps x @ concat (map Ps xs)))"
    unfolding seqE_def
    by (rule yields_bind [where P = "\<lambda>_. shown (Ps x)" and Q = "\<lambda>_ _. shown (concat (map Ps xs))"])
       (use Cons in \<open>auto intro: stages_append\<close>)
  then show ?case by simp
qed

section \<open>Programs of the client\<close>

text \<open>A stage of the client, as the manager performs it.\<close>

definition client_stage :: "(client_env, client_ev) stage \<Rightarrow> test_stage" where
  "client_stage P env tr es \<longleftrightarrow>
     (\<exists>cs. es = map Runner cs \<and> P (me_runner env tr) (List.map_filter the_runner_ev tr) cs)"

lemma yields_runner: "yields m P \<Longrightarrow> yields (runner m) (\<lambda>a. client_stage (P a))"
  unfolding yields_def client_stage_def runner_def embed_def by (fastforce split: prod.splits)

text \<open>The service was found in an accepted state in the end.\<close>

definition status_seen :: "(service_status \<Rightarrow> bool) \<Rightarrow> (client_env, client_ev) stage" where
  "status_seen accept env tr es \<longleftrightarrow> (\<exists>pre s. es = pre @ [Call DefaultDeadline MullvadDaemonGetStatus] \<and>
     ce_status env (tr @ pre) = Inr s \<and> accept s)"

lemma status_seen_later: "status_seen accept env (tr @ es) es' \<Longrightarrow> status_seen accept env tr (es @ es')"
  unfolding status_seen_def by (metis append.assoc)

lemma yields_get_status: "yields mullvad_daemon_get_status (\<lambda>s. status_seen (\<lambda>s'. s' = s))"
  by (auto simp: mullvad_daemon_get_status_def rpc_plain_def yields_def prog_defs status_seen_def split: sum.splits)

lemma yields_poll_state: "yields (poll_state n accept) (\<lambda>_. status_seen accept)"
proof (induction n)
  case (Suc n)
  show ?case unfolding poll_state.simps
  proof (rule yields_bind [OF yields_get_status])
    fix last_state
    show "yields (if accept last_state then ret last_state else seqE (emit (SleepSecs POLL_INTERVAL)) (poll_state n accept))
       (\<lambda>_ env tr es. accept last_state \<and> es = [] \<or> status_seen accept env tr es)"
      using Suc by (auto simp: yields_def prog_defs) (metis append.assoc append_Cons append_Nil status_seen_later)
  qed (auto simp: status_seen_later, auto simp: status_seen_def)
qed (simp add: yields_rules)

lemma yields_wait_for_state: "yields (mullvad_daemon_wait_for_state accept) (\<lambda>_. status_seen accept)"
  unfolding mullvad_daemon_wait_for_state_def by (rule yields_poll_state)

text \<open>Requests whose answer is used, and states that are only waited for.\<close>

lemma shown_rpc [yields_rules]:
  "(\<And>a. yields (f a) (\<lambda>_. R a)) \<Longrightarrow>
   yields (bindE (expect msg (runner (rpc answer dl req))) f) (\<lambda>_ env tr es. \<exists>a. next_to (replied answer dl req a) (R a) env tr es)"
  "(\<And>a. yields (f a) (\<lambda>_. R a)) \<Longrightarrow>
   yields (bindE (map_err g (runner (rpc answer dl req))) f) (\<lambda>_ env tr es. \<exists>a. next_to (replied answer dl req a) (R a) env tr es)"
  by (rule yields_use [OF yields_expect [OF yields_rpc]], assumption, rule yields_use [OF yields_map_err [OF yields_rpc]])

lemma shown_rpc_plain [yields_rules]:
  "(\<And>a. yields (f a) (\<lambda>_. R a)) \<Longrightarrow> yields (bindE (expect msg (runner (rpc_plain answer dl req))) f)
     (\<lambda>_ env tr es. \<exists>a. next_to (replied_plain answer dl req a) (R a) env tr es)"
  by (rule yields_use [OF yields_expect [OF yields_rpc_plain]])

lemma shown_running [yields_rules]:
  "yields k (\<lambda>_. R) \<Longrightarrow> yields (seqE (map_err g (runner (mullvad_daemon_wait_for_state accept))) k)
     (\<lambda>_. next_to (client_stage (status_seen accept)) R)"
  by (rule yields_stage [OF yields_map_err [OF yields_runner [OF yields_wait_for_state]]])

lemma shown_await [yields_rules]:
  "yields k (\<lambda>_. R) \<Longrightarrow> yields (seqE (wait_for_tunnel_state accept) k) (\<lambda>_. next_to (waited accept accept) R)"
  by (rule yields_stage [OF yields_weaken [OF yields_wait]]) (auto simp: waited_def dest: waited_for_accepted)

text \<open>A request to the runner that was carried out, after which the service was seen in an accepted state.\<close>

definition confirmed :: "deadline \<Rightarrow> rpc_request \<Rightarrow> (service_status \<Rightarrow> bool) \<Rightarrow> (client_env, client_ev) stage" where
  "confirmed dl req accept env tr es \<longleftrightarrow> (\<exists>es'. es = Call dl req # es' \<and> ce_unit env tr req = Inr (Inr ()) \<and>
     status_seen accept env (tr @ [Call dl req]) es')"

lemma yields_confirmed:
  "yields (seqE (rpc ce_unit dl req) (seqE (mullvad_daemon_wait_for_state accept) (ret ()))) (\<lambda>_. confirmed dl req accept)"
proof -
  have wait: "yields (seqE (mullvad_daemon_wait_for_state accept) (ret ())) (\<lambda>_. status_seen accept)"
    unfolding seqE_def
    by (rule yields_bind [OF yields_wait_for_state, where Q = "\<lambda>_ _ _ _ es. es = []"]) (auto intro: yields_rules)
  have "yields (rpc ce_unit dl req) (\<lambda>_ env tr es. es = [Call dl req] \<and> ce_unit env tr req = Inr (Inr ()))"
    by (auto simp: yields_def rpc_def prog_defs split: sum.splits)
  from yields_bind [OF this wait, where R = "\<lambda>_. confirmed dl req accept", folded seqE_def] show ?thesis
    by (auto simp: confirmed_def)
qed

lemma shown_call [yields_rules]:
  "yields k (\<lambda>_. R) \<Longrightarrow> yields (seqE (expect msg (runner (rpc answer dl req))) k) (\<lambda>_. next_to (replied answer dl req ()) R)"
  for answer :: "client_env \<Rightarrow> client_ev list \<Rightarrow> rpc_request \<Rightarrow> string + (error + unit)"
  by (rule yields_stage [OF yields_weaken [OF yields_expect [OF yields_rpc]]]) simp_all

lemma shown_call_err [yields_rules]:
  "yields k (\<lambda>_. R) \<Longrightarrow> yields (seqE (map_err g (runner (rpc answer dl req))) k) (\<lambda>_. next_to (replied answer dl req ()) R)"
  for answer :: "client_env \<Rightarrow> client_ev list \<Rightarrow> rpc_request \<Rightarrow> string + (error + unit)"
  by (rule yields_stage [OF yields_weaken [OF yields_map_err [OF yields_rpc]]]) simp_all

end
