(* ===== verification/Test_World.thy ===== *)
theory Test_World
  imports Test_Support
begin

text \<open>
  A world in which tests pass, for the examples: the service runs once the app is installed, the
  daemon connects and disconnects at once, and probes reach the bridge only when they go to the local
  network, which is shared.  The lemmas say how the programs that the tests share run in it.
\<close>

section \<open>The guest and the daemon\<close>

fun lan_shared :: "mgr_ev list \<Rightarrow> bool" where
  "lan_shared [] = False"
| "lan_shared (Daemon (SetAllowLan b) r # tr) = b"
| "lan_shared (_ # tr) = lan_shared tr"

fun tunnel_up :: "mgr_ev list \<Rightarrow> bool" where
  "tunnel_up [] = False"
| "tunnel_up (Daemon ConnectTunnel r # tr) = True"
| "tunnel_up (Daemon DisconnectTunnel r # tr) = False"
| "tunnel_up (_ # tr) = tunnel_up tr"

fun probe_dest :: "mgr_ev list \<Rightarrow> socket_addr" where
  "probe_dest [] = addr (V4 0 0 0 0) 0"
| "probe_dest (Spawned (SendProbes i b dest) # tr) = dest"
| "probe_dest (_ # tr) = probe_dest tr"

definition lan_frames :: "monitor_event list" where
  "lan_frames = map (\<lambda>(proto, p). Captured (eth_frame Ipv4_ethertype (ip4_packet (192, 168, 1, 2) (172, 29, 1, 200) proto p)))
     [(Tcp, tcp_segment 4000 1337 []), (Udp, udp_datagram 4000 1337 []), (Icmp, [])]"

fun is_install :: "client_ev \<Rightarrow> bool" where
  "is_install (Call dl (InstallApp p)) = True"
| "is_install _ = False"

definition tidy_client :: client_env where
  "tidy_client = demo_client_env\<lparr>ce_logs := \<lambda>_. Inr demo_logs, ce_os := \<lambda>_. Inr Linux,
     ce_status := \<lambda>tr. Inr (if list_ex is_install tr then Running else NotRunning),
     ce_ip := \<lambda>_ _. Inr (Inr (V4 192 168 1 2)),
     ce_geoip := \<lambda>_ _. Inr (Inr \<lparr>am_ip = V4 1 2 3 4, mullvad_exit_ip = True, mullvad_exit_ip_hostname = ''se-got-wg-001''\<rparr>)\<rparr>"

definition tidy_world :: mgr_env where
  "tidy_world = demo_mgr_env\<lparr>me_runner := \<lambda>_. tidy_client, me_lookup := \<lambda>_ _. Inr [V4 1 2 3 4],
     me_kind := \<lambda>_. Inr (Some KError),
     me_state := \<lambda>tr. Inr (Inr (if tunnel_up (rev tr) then Connected demo_endpoint else Disconnected)),
     me_packets := \<lambda>tr _. if lan_shared (rev tr) \<and> probe_dest (rev tr) = addr (V4 172 29 1 200) 1337 then lan_frames else []\<rparr>"

definition patient_kit :: "nat \<Rightarrow> test_kit" where
  "patient_kit n = \<lparr>tk_parsers = layout_parsers, tk_macos = False, tk_parse_ip = \<lambda>_. None, tk_parse_ipv4 = \<lambda>_. None,
     tk_derive_key = id, tk_patience = n, RelayType_Openvpn = 0, RelayType_Bridge = 1, RelayType_Wireguard = 2,
     BridgeState_On = 1, Ownership_Any = 0, Obfuscation_Udp2tcp = 2, QuantumResistant_On = 1, QuantumResistant_Off = 2,
     DnsState_Default = 0, DnsState_Custom = 1, DeviceState_Revoked = 2, Code_ResourceExhausted = 8\<rparr>"

definition tidy_kit :: test_kit where
  "tidy_kit = patient_kit 1"

definition tidy_config :: test_config where
  "tidy_config = \<lparr>account_number = ''1234'', tc_artifacts_dir = ''/opt/testing'',
     current_app_filename = ''new.deb'', previous_app_filename = ''old.deb'', ui_e2e_tests_filename = ''ui'',
     tc_mullvad_host = ''mullvad.net'', host_bridge_name = ''br-mullvadtest''\<rparr>"

lemma cell_append [simp]: "test_config_cell tr = Some c \<Longrightarrow> test_config_cell (tr @ es) = Some c"
  by (induction tr rule: test_config_cell.induct) auto

definition probe_events :: "socket_addr \<Rightarrow> bool \<Rightarrow> mgr_ev list" where
  "probe_events dest seen = [MonitorStarted ''br-mullvadtest'' probe_options,
     Runner (Call DefaultDeadline (GetInterfaceIp NonTunnel)),
     Spawned (SendProbes (Some NonTunnel) (addr (V4 192 168 1 2) 0) dest),
     MonitorSaw ''br-mullvadtest'' (if seen then lan_frames else []),
     Aborted (SendProbes (Some NonTunnel) (addr (V4 192 168 1 2) 0) dest)]"

lemma tidy_answers:
  "me_runner tidy_world tr = tidy_client" "me_unit tidy_world tr req = Inr ()"
  "me_state tidy_world tr = Inr (Inr (if tunnel_up (rev tr) then Connected demo_endpoint else Disconnected))"
  "me_packets tidy_world tr i =
     (if lan_shared (rev tr) \<and> probe_dest (rev tr) = addr (V4 172 29 1 200) 1337 then lan_frames else [])"
  "me_capture tidy_world tr = demo_capture"
  by (simp_all add: tidy_world_def demo_mgr_env_def)

lemma tidy_bridge_monitor:
  assumes "test_config_cell tr = Some tidy_config"
  shows "bridge_monitor tidy_kit f probe_options tidy_world tr =
     (Ok (''br-mullvadtest'', \<lambda>evs. monitor_loop (decode_packet layout_parsers False False) f (\<lambda>_ _. (True, ())) ()
        \<lparr>packets = [], discarded_packets = 0\<rparr> (filter (can_time_out probe_options) evs)),
      tr @ [MonitorStarted ''br-mullvadtest'' probe_options])"
  using assms
  by (simp add: bridge_monitor_def deref_test_config_def unwrap_opt_def start_monitor_def tidy_answers
      demo_capture_def start_packet_monitor_def start_packet_monitor_until_def start_packet_monitor_for_interface_def
      tidy_kit_def patient_kit_def tidy_config_def probe_options_def prog_defs)

lemma tidy_bind_addr:
  "probe_bind_addr (Some NonTunnel) tidy_world tr =
     (Ok (addr (V4 192 168 1 2) 0), tr @ [Runner (Call DefaultDeadline (GetInterfaceIp NonTunnel))])"
  by (simp add: probe_bind_addr_def Client.get_interface_ip_def rpc_def runner_def embed_def expect_def tidy_answers tidy_client_def
      addr_def prog_defs)

lemma tidy_wait:
  assumes "probe_dest (rev tr) = dest"
  shows "wait_monitor (i, \<lambda>evs. monitor_loop (decode_packet layout_parsers False False)
        (\<lambda>packet. sock_ip (destination packet) = sock_ip dest) (\<lambda>_ _. (True, ())) ()
        \<lparr>packets = [], discarded_packets = 0\<rparr> (filter (can_time_out probe_options) evs)) tidy_world tr =
    (let seen = lan_shared (rev tr) \<and> dest = addr (V4 172 29 1 200) 1337 in
     (Ok (Inr \<lparr>packets = (if seen then map (\<lambda>(pr, port). \<lparr>source = addr (V4 192 168 1 2) (if port = 0 then 0 else 4000),
          destination = addr (V4 172 29 1 200) port, protocol = pr\<rparr>) [(Tcp, 1337), (Udp, 1337), (Icmp, 0)] else []),
        discarded_packets = 0\<rparr>), tr @ [MonitorSaw i (if seen then lan_frames else [])]))"
  using assms
  by (simp add: wait_monitor_def monitor_outcome_def monitor_wait_def tidy_answers lan_frames_def prog_defs can_time_out_def
      addr_def Let_def layout_decodes summary_of_def probe_options_def)

lemma tidy_probes:
  assumes "test_config_cell tr = Some tidy_config"
  shows "send_guest_probes tidy_kit (Some NonTunnel) dest tidy_world tr =
    (let seen = lan_shared (rev tr) \<and> dest = addr (V4 172 29 1 200) 1337 in
     (Ok (if seen then \<lparr>pr_tcp = 1, pr_udp = 1, pr_icmp = 1\<rparr> else probe_default), tr @ probe_events dest seen))"
  using assms
  by (auto simp: send_guest_probes_def tidy_bridge_monitor tidy_bind_addr tidy_wait Let_def unwrap_sum_def prog_defs
      probe_events_def count_probe_def saturating_succ_def probe_default_def)

definition connect_events :: "mgr_ev list" where
  "connect_events = [Logging (LogRecord LInfo ''Connecting''), Daemon ConnectTunnel (Inr ()), Daemon EventsListen (Inr ()),
     StatePolled (Inr (Inr (Connected demo_endpoint))), Logging (LogRecord LInfo ''Connected'')]"

definition disconnect_events :: "mgr_ev list" where
  "disconnect_events = [Logging (LogRecord LInfo ''Disconnecting''), Daemon DisconnectTunnel (Inr ()), Daemon EventsListen (Inr ()),
     StatePolled (Inr (Inr Disconnected)), Logging (LogRecord LInfo ''Disconnected'')]"

lemma tidy_connect: "connect_and_wait tidy_world tr = (Ok (), tr @ connect_events)"
  by (simp add: connect_and_wait_def wait_for_tunnel_state_def try_from_state_def of_result_def mgr_calls tidy_answers
      connect_events_def prog_defs)

lemma tidy_disconnect: "disconnect_and_wait tidy_world tr = (Ok (), tr @ disconnect_events)"
  by (simp add: disconnect_and_wait_def wait_for_tunnel_state_def try_from_state_def of_result_def mgr_calls tidy_answers
      disconnect_events_def prog_defs)

lemma tidy_states:
  "lan_shared (rev connect_events @ tr) = lan_shared tr" "tunnel_up (rev connect_events @ tr)"
  "lan_shared (rev (probe_events dest seen) @ tr) = lan_shared tr" "tunnel_up (rev (probe_events dest seen) @ tr) = tunnel_up tr"
  "lan_shared (geoip_call host # tr) = lan_shared tr"
  by (simp_all add: connect_events_def probe_events_def geoip_call_def)

lemma tidy_geoip:
  assumes "test_config_cell tr = Some tidy_config"
  shows "expect m geoip_check tidy_world tr = (Ok \<lparr>am_ip = V4 1 2 3 4, mullvad_exit_ip = True,
     mullvad_exit_ip_hostname = ''se-got-wg-001''\<rparr>, tr @ [geoip_call ''mullvad.net''])"
  using assms
  by (simp add: geoip_check_def deref_test_config_def unwrap_opt_def geoip_lookup_with_retries_def geoip_loop.simps
      Client.geoip_lookup_def rpc_def runner_def embed_def tidy_answers tidy_client_def attempt_def map_err_def expect_def
      of_result_def tidy_config_def geoip_call_def prog_defs)

lemma tidy_platform: "pn_dummy_lan_ip (platform tidy_kit) = V4 172 29 1 200"
  by (simp add: platform_def tidy_kit_def patient_kit_def linux_network_def v4_of_def DUMMY_LAN_INTERFACE_IP_def)

lemma addr_eq: "addr a p = addr b q \<longleftrightarrow> a = b \<and> p = q"
  by (simp add: addr_def)

lemma tidy_state: "get_tunnel_state tidy_world tr =
    (let s = if tunnel_up (rev tr) then Connected demo_endpoint else Disconnected in (Ok s, tr @ [StatePolled (Inr (Inr s))]))"
  by (simp add: get_tunnel_state_def of_result_def expect_def tidy_answers prog_defs Let_def)

lemma tidy_grpc: "expect m (grpc w req) tidy_world tr = (Ok (), tr @ [Daemon req (Inr ())])"
  by (simp add: grpc_def expect_def tidy_answers prog_defs)

section \<open>The runner\<close>

abbreviation requests :: "mgr_ev list \<Rightarrow> client_ev list" where
  "requests \<equiv> List.map_filter the_runner_ev"

lemma tidy_client_calls:
  "rpc ce_unit dl req tidy_client tr = (Ok (), tr @ [Call dl req])"
  "Client.get_os tidy_client tr = (Ok Linux, tr @ [Call DefaultDeadline GetOs])"
  "Client.mullvad_daemon_get_status tidy_client tr =
     (Ok (if list_ex is_install tr then Running else NotRunning), tr @ [Call DefaultDeadline MullvadDaemonGetStatus])"
  by (simp_all add: rpc_def rpc_plain_def Client.get_os_def Client.mullvad_daemon_get_status_def tidy_client_def demo_client_env_def
      prog_defs)

lemma ready_wait:
  "list_ex is_install tr \<Longrightarrow> mullvad_daemon_wait_for_state (\<lambda>s. s = Running) tidy_client tr =
     (Ok Running, tr @ [Call DefaultDeadline MullvadDaemonGetStatus])"
proof -
  assume "list_ex is_install tr"
  then have "poll_state (Suc n) (\<lambda>s. s = Running) tidy_client tr = (Ok Running, tr @ [Call DefaultDeadline MullvadDaemonGetStatus])" for n
    by (simp add: bindE_def tidy_client_calls ret_def)
  then show ?thesis
    unfolding mullvad_daemon_wait_for_state_def MAX_ATTEMPTS_def by (metis numeral_eq_Suc)
qed

lemma ready_runner:
  "runner m tidy_world tr = (case m tidy_client (requests tr) of (r, tr') \<Rightarrow> (r, tr @ map Runner (drop (length (requests tr)) tr')))"
  by (simp add: runner_def embed_def tidy_world_def)

lemma requests_append: "requests (tr @ map Runner es) = requests tr @ es" "requests (tr @ [Runner e]) = requests tr @ [e]"
  by (simp_all add: map_filter_def) (induction es, auto)

lemma ready_deref: "test_config_cell tr = Some tidy_config \<Longrightarrow> deref_test_config tidy_world tr = (Ok tidy_config, tr)"
  by (simp add: deref_test_config_def unwrap_opt_def prog_defs)

lemma ready_answers:
  "me_unit tidy_world tr req = Inr ()" "me_api tidy_world tr areq = Inr []" "me_setup tidy_world tr w = Inr ()"
  "me_connect tidy_world tr = Inr ()" "me_settings tidy_world tr = Inr demo_settings"
  "me_events tidy_world tr = [StreamOk (Some OtherEvent), state_item Disconnecting, state_item Disconnected]"
  by (simp_all add: tidy_world_def demo_mgr_env_def)

end
