(* ===== verification/Tests_Leak.thy ===== *)
theory Tests_Leak
  imports Test_World
begin

text \<open>
  The tests of \<open>tests/settings.rs\<close> and \<open>tests/tunnel_state.rs\<close>, which look for leaks: traffic outside
  the tunnel in the disconnected, connecting, connected and error states, with local network sharing
  and with lockdown mode.
\<close>

section \<open>tests/settings.rs\<close>

definition test_lan :: "test_kit \<Rightarrow> (test_error, unit) mgr" where
  "test_lan kit = (let lan_destination = addr (pn_dummy_lan_ip (platform kit)) 1234 in
     seqE connect_and_wait
    (seqE (log_msg LInfo ''LAN sharing: disabled'')
    (seqE (expect ''failed to disable LAN sharing'' (grpc id (SetAllowLan False)))
    (seqE (log_msg LInfo ''Test whether outgoing LAN traffic is blocked'')
    (bindE (send_guest_probes kit (Some NonTunnel) lan_destination) (\<lambda>detected_probes.
     seqE (assertP ''observed unexpected outgoing LAN packets'' (probe_none detected_probes))
    (seqE (log_msg LInfo ''LAN sharing: enabled'')
    (seqE (expect ''failed to enable LAN sharing'' (grpc id (SetAllowLan True)))
    (seqE (log_msg LInfo ''Test whether outgoing LAN traffic is blocked'')
    (bindE (send_guest_probes kit (Some NonTunnel) lan_destination) (\<lambda>detected_probes.
     seqE (assertP ''did not observe all outgoing LAN packets'' (probe_all detected_probes))
    (seqE disconnect_and_wait
     (ret ())))))))))))))"

definition test_lockdown :: "test_kit \<Rightarrow> (test_error, unit) mgr" where
  "test_lockdown kit = (let lan_destination = addr (pn_dummy_lan_ip (platform kit)) 1337;
       inet_destination = addr (V4 1 1 1 1) 1337 in
     seqE (log_msg LInfo ''Verify tunnel state: disconnected'')
    (bindE get_tunnel_state (\<lambda>state. seqE (assertP ''state'' (state = Disconnected))
    (seqE (expect ''failed to enable lockdown mode'' (grpc id (SetBlockWhenDisconnected True)))
    (seqE (log_msg LInfo ''LAN sharing: disabled'')
    (seqE (expect ''failed to disable LAN sharing'' (grpc id (SetAllowLan False)))
    (bindE (send_guest_probes kit (Some NonTunnel) lan_destination) (\<lambda>detected_probes.
     seqE (assertP ''observed outgoing packets to LAN'' (probe_none detected_probes))
    (bindE (send_guest_probes kit (Some NonTunnel) inet_destination) (\<lambda>detected_probes.
     seqE (assertP ''observed outgoing packets to internet'' (probe_none detected_probes))
    (seqE (log_msg LInfo ''LAN sharing: enabled'')
    (seqE (expect ''failed to enable LAN sharing'' (grpc id (SetAllowLan True)))
    (bindE (send_guest_probes kit (Some NonTunnel) lan_destination) (\<lambda>detected_probes.
     seqE (assertP ''did not observe some outgoing packets'' (probe_all detected_probes))
    (bindE (send_guest_probes kit (Some NonTunnel) inet_destination) (\<lambda>detected_probes.
     seqE (assertP ''observed outgoing packets to internet'' (probe_none detected_probes))
    (seqE connect_and_wait
    (seqE (log_msg LInfo ''Test whether tunnel traffic works'')
    (bindE (expect ''unwrap'' geoip_check) (\<lambda>geoip_lookup.
     seqE (assertP ''Exit ip is not from Mullvad'' (mullvad_exit_ip geoip_lookup))
    (bindE (send_guest_probes kit (Some NonTunnel) inet_destination) (\<lambda>detected_probes.
     seqE (assertP ''observed outgoing packets to internet'' (probe_none detected_probes))
    (seqE (expect ''failed to disable lockdown mode'' (grpc id (SetBlockWhenDisconnected False)))
    (seqE disconnect_and_wait
     (ret ())))))))))))))))))))))))))"

section \<open>tests/tunnel_state.rs\<close>

definition test_disconnected_state :: "test_kit \<Rightarrow> (test_error, unit) mgr" where
  "test_disconnected_state kit = (let inet_destination = addr (V4 1 3 3 7) 1337 in
     seqE (log_msg LInfo ''Verify tunnel state: disconnected'')
    (bindE get_tunnel_state (\<lambda>state. seqE (assertP ''state'' (state = Disconnected))
    (seqE (log_msg LInfo ''Sending packets to 1.3.3.7:1337'')
    (bindE (send_guest_probes kit (Some NonTunnel) inet_destination) (\<lambda>detected_probes.
     seqE (assertP ''did not see (all) outgoing packets to destination'' (probe_all detected_probes))
    (seqE (log_msg LInfo ''UI: Test disconnected state'')
    (bindE (expect ''unwrap'' (ui_run_test [''disconnected.spec''])) (\<lambda>ui_result.
     seqE (assertP ''ui_result.success()'' (exec_success ui_result))
     (ret ()))))))))))"

text \<open>The four probes of the leak test in the connecting and the error state.\<close>

definition leak_test :: "test_kit \<Rightarrow> (test_error, unit) mgr \<Rightarrow> (test_error, unit) mgr" where
  "leak_test kit k = (let lan = pn_dummy_lan_ip (platform kit) in
     bindE (send_guest_probes kit (Some NonTunnel) (addr (V4 1 1 1 1) 1337)) (\<lambda>d.
     seqE (assertP ''observed unexpected outgoing packets (inet)'' (probe_none d))
    (bindE (send_guest_probes kit (Some NonTunnel) (addr lan 1337)) (\<lambda>d.
     seqE (assertP ''observed unexpected outgoing packets (lan)'' (probe_none d))
    (bindE (send_guest_probes kit (Some NonTunnel) (addr (V4 1 1 1 1) 53)) (\<lambda>d.
     seqE (assertP ''observed unexpected outgoing packets (DNS, inet)'' (probe_none d))
    (bindE (send_guest_probes kit (Some NonTunnel) (addr lan 53)) (\<lambda>d.
     seqE (assertP ''observed unexpected outgoing packets (DNS, lan)'' (probe_none d))
     k))))))))"

definition test_connecting_state :: "test_kit \<Rightarrow> (test_error, unit) mgr" where
  "test_connecting_state kit =
     seqE (log_msg LInfo ''Verify tunnel state: disconnected'')
    (bindE get_tunnel_state (\<lambda>state. seqE (assertP ''state'' (state = Disconnected))
    (bindE (unreachable_wireguard_tunnel kit) (\<lambda>config.
     seqE (expect ''failed to update relay settings'' (update_relay_settings (CustomEndpoint ''1.3.3.7'' config)))
    (seqE (expect ''failed to begin connecting'' (grpc id ConnectTunnel))
    (bindE (wait_for_tunnel_state (\<lambda>state. is_Connecting state \<or> is_TunnelStateError state)) (\<lambda>new_state.
     seqE (assertP ''failed to enter connecting state'' (is_Connecting new_state))
    (leak_test kit
    (bindE get_tunnel_state (\<lambda>state. seqE (assertP ''state'' (is_Connecting state))
    (seqE (log_msg LInfo ''Disconnecting'')
    (seqE disconnect_and_wait
    (seqE (expect ''failed to update relay settings'' (update_relay_settings (only_location (Some AnyC))))
     (ret ()))))))))))))))"

definition test_error_state :: "test_kit \<Rightarrow> (test_error, unit) mgr" where
  "test_error_state kit =
     seqE (log_msg LInfo ''Verify tunnel state: disconnected'')
    (bindE get_tunnel_state (\<lambda>state. seqE (assertP ''state'' (state = Disconnected))
    (seqE (log_msg LInfo ''Enter error state'')
    (seqE (expect ''failed to disable LAN sharing'' (grpc id (SetAllowLan False)))
    (seqE (expect ''failed to update relay settings'' (update_relay_settings (only_location (country ''xx''))))
    (seqE (attempt connect_and_wait)
    (bindE get_tunnel_state (\<lambda>state. seqE (assertP ''state'' (is_TunnelStateError state))
    (leak_test kit
    (seqE (log_msg LInfo ''Disconnecting'')
    (seqE disconnect_and_wait
    (seqE (expect ''failed to update relay settings'' (update_relay_settings (only_location (Some AnyC))))
     (ret ())))))))))))))"

text \<open>The pattern that the state has to match, and the comparison in its arm.\<close>

definition plain_wireguard_to :: "ip_addr \<Rightarrow> tunnel_state \<Rightarrow> bool" where
  "plain_wireguard_to ip state \<longleftrightarrow> (\<exists>te. state = Connected te \<and> is_ipv4 (sock_ip (te_address te)) \<and>
     te_protocol te = TransportUdp \<and> te_tunnel_type te = Wireguard \<and> \<not> te_quantum_resistant te \<and>
     te_proxy te = None \<and> te_obfuscation te = None \<and> te_entry_endpoint te = None \<and> sock_ip (te_address te) = ip)"

definition matches_relay :: "test_kit \<Rightarrow> relay \<Rightarrow> tunnel_state \<Rightarrow> ('e, unit) mgr" where
  "matches_relay kit relay state = (case state of
      Connected te \<Rightarrow>
        if is_ipv4 (sock_ip (te_address te)) \<and> te_protocol te = TransportUdp \<and> te_tunnel_type te = Wireguard \<and>
           \<not> te_quantum_resistant te \<and> te_proxy te = None \<and> te_obfuscation te = None \<and> te_entry_endpoint te = None
        then (case tk_parse_ipv4 kit (ipv4_addr_in relay) of
            None \<Rightarrow> panic ''unwrap''
          | Some ip \<Rightarrow> assertP ''assertion failed: `(left == right)`'' (sock_ip (te_address te) = ip))
        else panic ''unexpected tunnel state''
    | _ \<Rightarrow> panic ''unexpected tunnel state'')"

definition test_connected_state :: "test_kit \<Rightarrow> (test_error, unit) mgr" where
  "test_connected_state kit = (let inet_destination = addr (V4 1 1 1 1) 1337 in
     seqE (log_msg LInfo ''Select relay'')
    (bindE (pop_relay (active_relay (RelayType_Wireguard kit))) (\<lambda>relay.
     seqE (expect ''failed to update relay settings'' (update_relay_settings (only_location (into_constraint relay))))
    (seqE connect_and_wait
    (bindE get_tunnel_state (\<lambda>state.
     seqE (matches_relay kit relay state)
    (seqE (log_msg LInfo ''Test whether outgoing non-tunnel traffic is blocked'')
    (bindE (send_guest_probes kit (Some NonTunnel) inet_destination) (\<lambda>detected_probes.
     seqE (assertP ''observed unexpected outgoing packets'' (probe_none detected_probes))
    (seqE (log_msg LInfo ''Test whether tunnel traffic works'')
    (bindE (expect ''unwrap'' geoip_check) (\<lambda>geoip_lookup.
     seqE (assertP ''Exit ip is not from Mullvad'' (mullvad_exit_ip geoip_lookup))
    (seqE (assertP ''assertion failed: `(left == right)`'' (mullvad_exit_ip_hostname geoip_lookup = hostname relay))
    (seqE disconnect_and_wait
     (ret ())))))))))))))))"

section \<open>What the tests show\<close>

lemma shown_test_lockdown:
  "yields (test_lockdown kit) (\<lambda>_. let lan = addr (pn_dummy_lan_ip (platform kit)) 1337; inet = addr (V4 1 1 1 1) 1337 in
     shown [polled (\<lambda>s. s = Disconnected), did (SetBlockWhenDisconnected True),
       did (SetAllowLan False), blocked_to kit lan, blocked_to kit inet,
       did (SetAllowLan True), reaches kit lan, blocked_to kit inet,
       connected_stage, checked_exit mullvad_exit_ip, blocked_to kit inet,
       did (SetBlockWhenDisconnected False), disconnected_stage])"
  unfolding test_lockdown_def Let_def shown_simps by (intro yields_rules)

lemma shown_test_lan:
  "yields (test_lan kit) (\<lambda>_. let lan = addr (pn_dummy_lan_ip (platform kit)) 1234 in
     shown [connected_stage, did (SetAllowLan False), blocked_to kit lan, did (SetAllowLan True), reaches kit lan,
       disconnected_stage])"
  unfolding test_lan_def Let_def shown_simps by (intro yields_rules)

lemma shown_test_disconnected_state:
  "yields (test_disconnected_state kit) (\<lambda>_. shown [polled (\<lambda>s. s = Disconnected), reaches kit (addr (V4 1 3 3 7) 1337),
     ui_passed [''disconnected.spec''] []])"
  unfolding test_disconnected_state_def Let_def ui_run_test_def shown_simps by (intro yields_rules)

text \<open>Nothing of the leak test is seen.\<close>

definition no_leaks :: "test_kit \<Rightarrow> test_stage list" where
  "no_leaks kit = (let lan = pn_dummy_lan_ip (platform kit) in
     [blocked_to kit (addr (V4 1 1 1 1) 1337), blocked_to kit (addr lan 1337), blocked_to kit (addr (V4 1 1 1 1) 53),
      blocked_to kit (addr lan 53)])"

lemma shown_leak_test [yields_rules]:
  "yields k (\<lambda>_. R) \<Longrightarrow> yields (leak_test kit k) (\<lambda>_. foldr next_to (no_leaks kit) R)"
  unfolding leak_test_def no_leaks_def Let_def foldr.simps comp_def id_def by (intro yields_rules)

lemma shown_no_leaks: "shown (no_leaks kit @ Ps) = foldr next_to (no_leaks kit) (shown Ps)"
  by (simp add: no_leaks_def Let_def stages_Cons)

text \<open>A custom relay that does not answer, with fresh keys.\<close>

definition unreachable :: "wg_connection \<Rightarrow> test_stage" where
  "unreachable config env tr es \<longleftrightarrow> (\<exists>a b. es = [RandomKey a, RandomKey b]) \<and> wg_endpoint config = addr (V4 1 3 3 7) 1234"

lemma yields_unreachable: "yields (unreachable_wireguard_tunnel kit) unreachable"
  by (auto simp: yields_def unreachable_wireguard_tunnel_def random_key_def prog_defs unreachable_def)

lemma shown_unreachable [yields_rules]:
  "(\<And>config. yields (f config) (\<lambda>_. R config)) \<Longrightarrow>
   yields (bindE (unreachable_wireguard_tunnel kit) f) (\<lambda>_ env tr es. \<exists>config. next_to (unreachable config) (R config) env tr es)"
  by (rule yields_use [OF yields_unreachable])

lemma shown_test_connecting_state:
  "yields (test_connecting_state kit) (\<lambda>_ env tr es. \<exists>config.
     shown ([polled (\<lambda>s. s = Disconnected), unreachable config, did (UpdateRelaySettings (CustomEndpoint ''1.3.3.7'' config)),
        did ConnectTunnel, waited (\<lambda>s. is_Connecting s \<or> is_TunnelStateError s) is_Connecting] @ no_leaks kit @
       [polled is_Connecting, disconnected_stage, did (UpdateRelaySettings (only_location (Some AnyC)))]) env tr es)"
  unfolding test_connecting_state_def shown_simps shown_no_leaks by (intro yields_rules)

lemma shown_test_error_state:
  "yields (test_error_state kit) (\<lambda>_. shown ([polled (\<lambda>s. s = Disconnected), did (SetAllowLan False),
      did (UpdateRelaySettings (only_location (country ''xx''))), tried_to_connect, polled is_TunnelStateError]
      @ no_leaks kit @ [disconnected_stage, did (UpdateRelaySettings (only_location (Some AnyC)))]))"
  unfolding test_error_state_def shown_simps shown_no_leaks by (intro yields_rules)

lemma shown_matches_relay [yields_rules]:
  assumes "yields k (\<lambda>_. R)"
  shows "yields (bindE get_tunnel_state (\<lambda>state. seqE (matches_relay kit relay state) k))
     (\<lambda>_. next_to (polled (\<lambda>s. \<exists>ip. tk_parse_ipv4 kit (ipv4_addr_in relay) = Some ip \<and> plain_wireguard_to ip s)) R)"
proof -
  have match: "yields (matches_relay kit relay state) (\<lambda>_ env tr es. es = [] \<and>
      (\<exists>ip. tk_parse_ipv4 kit (ipv4_addr_in relay) = Some ip \<and> plain_wireguard_to ip state))" for state
    by (auto simp: yields_def matches_relay_def plain_wireguard_to_def assertP_def prog_defs
        split: tunnel_state.splits option.splits if_splits)
  have rest: "yields (seqE (matches_relay kit relay state) k) (\<lambda>_ env tr es.
      (\<exists>ip. tk_parse_ipv4 kit (ipv4_addr_in relay) = Some ip \<and> plain_wireguard_to ip state) \<and> R env tr es)" for state
    unfolding seqE_def by (rule yields_bind [OF match assms]) auto
  show ?thesis
    by (rule yields_bind [OF yields_get_tunnel_state rest], rule and_thenI) (auto simp: polled_def)
qed

lemma shown_test_connected_state:
  "yields (test_connected_state kit) (\<lambda>_ env tr es. \<exists>relay.
     shown [picked (active_relay (RelayType_Wireguard kit)) relay,
       did (UpdateRelaySettings (only_location (into_constraint relay))), connected_stage,
       polled (\<lambda>s. \<exists>ip. tk_parse_ipv4 kit (ipv4_addr_in relay) = Some ip \<and> plain_wireguard_to ip s),
       blocked_to kit (addr (V4 1 1 1 1) 1337),
       checked_exit (\<lambda>g. mullvad_exit_ip g \<and> mullvad_exit_ip_hostname g = hostname relay), disconnected_stage] env tr es)"
  unfolding test_connected_state_def Let_def shown_simps by (intro yields_rules)

section \<open>A passing run\<close>

lemma tidy_lockdown:
  assumes "test_config_cell tr = Some tidy_config" "\<not> tunnel_up (rev tr)"
  shows "\<exists>es. test_lockdown tidy_kit tidy_world tr = (Ok (), tr @ es)"
  using assms
  by (simp add: test_lockdown_def Let_def tidy_state tidy_grpc log_msg_def tidy_probes tidy_connect
      tidy_disconnect tidy_geoip tidy_states tidy_platform addr_eq seqE_def bindE_def emit_def ret_def assertP_def
      probe_none_def probe_any_def probe_all_def probe_default_def)

text \<open>
  C5. Lockdown mode: when the test returns \<open>Ok\<close>, then in this order and with nothing but log records in
  between: the daemon was disconnected; with lockdown mode on and sharing off, no probe to the local
  network or to the internet was seen on the bridge; with sharing on, all three kinds of probes to the
  local network were seen and none to the internet; once connected, traffic left through a Mullvad
  exit, and still no probe to the internet was seen outside the tunnel; then lockdown mode was turned
  off and the tunnel was disconnected.
\<close>

theorem lockdown_confines_traffic:
  assumes "test_lockdown kit env tr = (Ok (), tr')"
  shows "\<exists>es. tr' = tr @ es \<and> (let lan = addr (pn_dummy_lan_ip (platform kit)) 1337; inet = addr (V4 1 1 1 1) 1337 in
     shown [polled (\<lambda>s. s = Disconnected), did (SetBlockWhenDisconnected True),
       did (SetAllowLan False), blocked_to kit lan, blocked_to kit inet,
       did (SetAllowLan True), reaches kit lan, blocked_to kit inet,
       connected_stage, checked_exit mullvad_exit_ip, blocked_to kit inet,
       did (SetBlockWhenDisconnected False), disconnected_stage] env tr es)"
  using yields_run [OF shown_test_lockdown assms] unfolding Let_def .

theorem lockdown_confines_traffic_witness:
  "\<exists>es. snd (test_lockdown tidy_kit tidy_world [InitTestConfig tidy_config]) = [InitTestConfig tidy_config] @ es \<and>
     (let lan = addr (V4 172 29 1 200) 1337; inet = addr (V4 1 1 1 1) 1337 in
     shown [polled (\<lambda>s. s = Disconnected), did (SetBlockWhenDisconnected True),
       did (SetAllowLan False), blocked_to tidy_kit lan, blocked_to tidy_kit inet,
       did (SetAllowLan True), reaches tidy_kit lan, blocked_to tidy_kit inet,
       connected_stage, checked_exit mullvad_exit_ip, blocked_to tidy_kit inet,
       did (SetBlockWhenDisconnected False), disconnected_stage] tidy_world [InitTestConfig tidy_config] es)"
proof -
  obtain tr' where run: "test_lockdown tidy_kit tidy_world [InitTestConfig tidy_config] = (Ok (), tr')"
    using tidy_lockdown [of "[InitTestConfig tidy_config]"] by auto
  from lockdown_confines_traffic [OF run] show ?thesis unfolding run snd_conv tidy_platform .
qed

end
