(* ===== verification/Tests_Tunnel.thy ===== *)
theory Tests_Tunnel
  imports Test_Support
begin

text \<open>
  The tests of \<open>tests/tunnel.rs\<close>: OpenVPN and WireGuard tunnels, obfuscation, bridges and multihop,
  connecting after a reboot, and quantum-resistant tunnels.
\<close>

section \<open>Definitions\<close>

definition swedish :: relay_constraints_update where
  "swedish = no_update\<lparr>ru_location := country ''se''\<rparr>"

definition swedish_over :: "tunnel_type \<Rightarrow> relay_constraints_update" where
  "swedish_over t = swedish\<lparr>ru_tunnel_protocol := Some (Only t)\<rparr>"

text \<open>The check that the internet is reachable through the tunnel.\<close>

definition tunnel_works :: "(test_error, unit) mgr \<Rightarrow> (test_error, unit) mgr" where
  "tunnel_works k =
     seqE (log_msg LInfo ''Test whether tunnel traffic works'')
    (bindE (expect ''unwrap'' geoip_check) (\<lambda>geoip_lookup.
     seqE (assertP ''Exit ip is not from Mullvad'' (mullvad_exit_ip geoip_lookup)) k))"

definition OPENVPN_CONSTRAINTS :: "(string \<times> transport_port constraint) list" where
  "OPENVPN_CONSTRAINTS =
    [(''any'', AnyC),
     (''UDP'', Only \<lparr>tp_protocol = TransportUdp, tp_port = AnyC\<rparr>),
     (''TCP'', Only \<lparr>tp_protocol = TransportTcp, tp_port = AnyC\<rparr>)]"

definition openvpn_case :: "string \<times> transport_port constraint \<Rightarrow> (test_error, unit) mgr" where
  "openvpn_case = (\<lambda>(protocol, constraint).
     seqE (log_msg LInfo (''Connect to '' @ protocol @ '' OpenVPN endpoint''))
    (seqE (expect ''failed to update relay settings''
       (update_relay_settings (NormalUpdate ((swedish_over OpenVpn)\<lparr>ru_openvpn := Some constraint\<rparr>))))
    (seqE connect_and_wait
    (tunnel_works
    (seqE disconnect_and_wait
     (ret ()))))))"

definition test_openvpn_tunnel :: "(test_error, unit) mgr" where
  "test_openvpn_tunnel = for_each openvpn_case OPENVPN_CONSTRAINTS"

definition WIREGUARD_PORTS :: "(nat \<times> bool) list" where
  "WIREGUARD_PORTS = [(53, True), (51820, True), (1, False)]"

definition wireguard_case :: "nat \<times> bool \<Rightarrow> (test_error, unit) mgr" where
  "wireguard_case = (\<lambda>(port, should_succeed).
     seqE (log_msg LInfo (''Connect to WireGuard endpoint on port '' @ show_nat port))
    (seqE (expect ''failed to update relay settings''
       (update_relay_settings (NormalUpdate ((swedish_over Wireguard)\<lparr>
          ru_wireguard := Some (default_wireguard\<lparr>wc_port := Only port\<rparr>)\<rparr>))))
    (bindE (attempt connect_and_wait) (\<lambda>connection_result.
     seqE (assertP (''unexpected result for port '' @ show_nat port) ((\<not> isl connection_result) = should_succeed))
    (if should_succeed then tunnel_works (seqE disconnect_and_wait (ret ()))
     else seqE disconnect_and_wait (ret ()))))))"

definition test_wireguard_tunnel :: "(test_error, unit) mgr" where
  "test_wireguard_tunnel = for_each wireguard_case WIREGUARD_PORTS"

definition udp2tcp_settings :: "test_kit \<Rightarrow> obfuscation_settings" where
  "udp2tcp_settings kit = \<lparr>selected_obfuscation = Obfuscation_Udp2tcp kit, udp2tcp_port = Some 0\<rparr>"

definition test_udp2tcp_tunnel :: "test_kit \<Rightarrow> (test_error, unit) mgr" where
  "test_udp2tcp_tunnel kit =
     seqE (expect ''failed to enable udp2tcp'' (grpc id (SetObfuscationSettings (udp2tcp_settings kit))))
    (seqE (expect ''failed to update relay settings''
       (update_relay_settings (NormalUpdate ((swedish_over Wireguard)\<lparr>ru_wireguard := Some default_wireguard\<rparr>))))
    (seqE (log_msg LInfo ''Connect to WireGuard via tcp2udp endpoint'')
    (seqE connect_and_wait
    (bindE (expect ''failed to obtain inet interface IP'' (runner (Client.get_interface_ip NonTunnel))) (\<lambda>guest_ip.
     bindE (bridge_monitor kit (\<lambda>packet. sock_ip (source packet) \<noteq> guest_ip \<or> protocol packet = Tcp) monitor_default)
       (\<lambda>monitor.
     tunnel_works
    (bindE (stop_monitor monitor) (\<lambda>r. bindE (unwrap_sum r) (\<lambda>monitor_result.
     seqE (assertP ''assertion failed: `(left == right)`'' (discarded_packets monitor_result = 0))
    (seqE disconnect_and_wait
     (ret ())))))))))))"

text \<open>
  A filter that compares with an address that cannot be parsed panics in the task of the monitor on
  the first packet, which fails the test; here it lets no packet pass, which fails the test as well.
\<close>

definition to_relay :: "test_kit \<Rightarrow> relay \<Rightarrow> parsed_packet \<Rightarrow> bool" where
  "to_relay kit relay packet \<longleftrightarrow> tk_parse_ip kit (ipv4_addr_in relay) = Some (sock_ip (destination packet))"

definition test_bridge :: "test_kit \<Rightarrow> (test_error, unit) mgr" where
  "test_bridge kit =
     seqE (log_msg LInfo ''Select relay'')
    (bindE (pop_relay (active_relay (RelayType_Bridge kit))) (\<lambda>entry.
     bindE (pop_relay (active_relay (RelayType_Openvpn kit))) (\<lambda>exit.
     seqE (log_msg LInfo ''Updating bridge settings'')
    (seqE (expect ''failed to enable bridge mode'' (grpc id (SetBridgeState \<lparr>bs_state = BridgeState_On kit\<rparr>)))
    (seqE (expect ''failed to update bridge settings''
       (grpc id (SetBridgeSettings (BridgeNormal (into_locationconstraint entry) [] (Ownership_Any kit)))))
    (seqE (expect ''failed to update relay settings'' (update_relay_settings
       (NormalUpdate (no_update\<lparr>ru_location := into_constraint exit, ru_tunnel_protocol := Some (Only OpenVpn)\<rparr>))))
    (seqE (log_msg LInfo ''Connect to OpenVPN relay via bridge'')
    (bindE (bridge_monitor kit (to_relay kit entry) monitor_default) (\<lambda>monitor.
     seqE (expect ''connect_and_wait'' connect_and_wait)
    (seqE (log_msg LInfo ''Verifying entry server'')
    (bindE (stop_monitor monitor) (\<lambda>r. bindE (unwrap_sum r) (\<lambda>monitor_result.
     seqE (assertP ''detected no traffic to entry server'' (packets monitor_result \<noteq> []))
    (seqE (log_msg LInfo ''Verifying exit server'')
    (bindE geoip_check (\<lambda>geoip.
     seqE (assertP ''assertion failed: `(left == right)`'' (mullvad_exit_ip_hostname geoip = hostname exit))
    (seqE disconnect_and_wait
     (ret ()))))))))))))))))))"

definition multihop_constraints :: "relay \<Rightarrow> wireguard_constraints option" where
  "multihop_constraints entry = map_option (\<lambda>entry_location.
     default_wireguard\<lparr>wc_use_multihop := True, wc_entry_location := entry_location\<rparr>) (into_constraint entry)"

definition test_multihop :: "test_kit \<Rightarrow> (test_error, unit) mgr" where
  "test_multihop kit =
     seqE (log_msg LInfo ''Select relay'')
    (bindE (random_entry_and_exit (active_relay (RelayType_Wireguard kit))) (\<lambda>(entry, exit).
     seqE (expect ''failed to update relay settings'' (update_relay_settings
       (NormalUpdate (no_update\<lparr>ru_location := into_constraint exit, ru_wireguard := multihop_constraints entry\<rparr>))))
    (bindE (bridge_monitor kit (\<lambda>packet. to_relay kit entry packet \<and> protocol packet = Udp) monitor_default) (\<lambda>monitor.
     seqE connect_and_wait
    (seqE (log_msg LInfo ''Verifying entry server'')
    (bindE (stop_monitor monitor) (\<lambda>r. bindE (unwrap_sum r) (\<lambda>monitor_result.
     seqE (assertP ''no matching packets'' (packets monitor_result \<noteq> []))
    (seqE (log_msg LInfo ''Verifying exit server'')
    (bindE geoip_check (\<lambda>geoip.
     seqE (assertP ''assertion failed: `(left == right)`'' (mullvad_exit_ip_hostname geoip = hostname exit))
    (seqE disconnect_and_wait
     (ret ())))))))))))))"

text \<open>\<open>fault_text\<close> is the \<open>Display\<close> of a failure to set up the tunnel on a macOS host.\<close>

definition reboot :: "test_kit \<Rightarrow> (vm_fault \<Rightarrow> string) \<Rightarrow> (test_error, unit) mgr" where
  "reboot kit fault_text =
     seqE (map_err Rpc (runner Client.reboot))
    (seqE (only_if (tk_macos kit)
        (map_err (\<lambda>e. Other (''Failed to recreate custom wg tun: '' @ fault_text e)) (disk configure_tunnel)))
     (ret ()))"

definition autoconnect_test :: "test_kit \<Rightarrow> (vm_fault \<Rightarrow> string) \<Rightarrow> string \<Rightarrow> tunnel_type \<Rightarrow> (test_error, unit) mgr" where
  "autoconnect_test kit fault_text msg tunnel =
     seqE (log_msg LInfo msg)
    (seqE (expect ''failed to update relay settings'' (update_relay_settings (NormalUpdate (swedish_over tunnel))))
    (seqE (expect ''failed to enable auto-connect'' (grpc id (SetAutoConnect True)))
    (seqE (reboot kit fault_text)
    (seqE (map_err Rpc (runner (Client.mullvad_daemon_wait_for_state (\<lambda>state. state = Running))))
    (seqE (log_msg LInfo ''Waiting for daemon to connect'')
    (seqE (wait_for_tunnel_state is_Connected)
     (ret ())))))))"

definition test_wireguard_autoconnect :: "test_kit \<Rightarrow> (vm_fault \<Rightarrow> string) \<Rightarrow> (test_error, unit) mgr" where
  "test_wireguard_autoconnect kit fault_text =
     autoconnect_test kit fault_text ''Setting tunnel protocol to WireGuard'' Wireguard"

definition test_openvpn_autoconnect :: "test_kit \<Rightarrow> (vm_fault \<Rightarrow> string) \<Rightarrow> (test_error, unit) mgr" where
  "test_openvpn_autoconnect kit fault_text =
     autoconnect_test kit fault_text ''Setting tunnel protocol to OpenVPN'' OpenVpn"

definition check_tunnel_psk :: "bool \<Rightarrow> ('e, unit) mgr" where
  "check_tunnel_psk should_have_psk =
     bindE (expect ''failed to get OS'' (runner Client.get_os)) (\<lambda>os. case os of
       Linux \<Rightarrow>
         bindE (expect ''failed to get tun name'' (runner (Client.get_interface_name Tunnel))) (\<lambda>name.
         bindE (expect ''failed to run wg'' (runner (Client.exec ''wg'' [''show'', name]))) (\<lambda>out.
         bindE (expect ''non-utf8 output'' (of_result (from_utf8 (exec_stdout out)))) (\<lambda>parsed_output.
         assertP ''expected to NOT find preshared key'' (contains parsed_output ''preshared key: '' = should_have_psk))))
     | _ \<Rightarrow> log_msg LWarn (''Not checking if there is a PSK on '' @ os_display os))"

definition test_quantum_resistant_tunnel :: "test_kit \<Rightarrow> (test_error, unit) mgr" where
  "test_quantum_resistant_tunnel kit =
     seqE (expect ''Failed to disable PQ tunnels'' (grpc id (SetQuantumResistantTunnel (QuantumResistant_Off kit))))
    (seqE connect_and_wait
    (seqE (check_tunnel_psk False)
    (seqE (log_msg LInfo ''Setting tunnel protocol to WireGuard'')
    (seqE (expect ''Failed to update relay settings'' (update_relay_settings (NormalUpdate (swedish_over Wireguard))))
    (seqE (expect ''Failed to enable PQ tunnels'' (grpc id (SetQuantumResistantTunnel (QuantumResistant_On kit))))
    (seqE connect_and_wait
    (seqE (check_tunnel_psk True)
    (tunnel_works
     (ret ())))))))))"

definition test_quantum_resistant_multihop_udp2tcp_tunnel :: "test_kit \<Rightarrow> (test_error, unit) mgr" where
  "test_quantum_resistant_multihop_udp2tcp_tunnel kit =
     seqE (expect ''Failed to enable PQ tunnels'' (grpc id (SetQuantumResistantTunnel (QuantumResistant_On kit))))
    (seqE (expect ''Failed to enable obfuscation'' (grpc id (SetObfuscationSettings (udp2tcp_settings kit))))
    (seqE (expect ''Failed to update relay settings'' (update_relay_settings
       (NormalUpdate (swedish\<lparr>ru_wireguard := Some (default_wireguard\<lparr>wc_use_multihop := True,
          wc_entry_location := Only (LocationC (Country ''se''))\<rparr>)\<rparr>))))
    (seqE connect_and_wait
    (tunnel_works
     (ret ())))))"

section \<open>What the tests show\<close>

lemma shown_tunnel_works [yields_rules]:
  "yields k (\<lambda>_. R) \<Longrightarrow> yields (tunnel_works k) (\<lambda>_. next_to (checked_exit mullvad_exit_ip) R)"
  unfolding tunnel_works_def by (intro yields_rules)

text \<open>Each OpenVPN transport in turn gives a working tunnel.\<close>

definition openvpn_stages :: "string \<times> transport_port constraint \<Rightarrow> test_stage list" where
  "openvpn_stages c = [did (UpdateRelaySettings (NormalUpdate ((swedish_over OpenVpn)\<lparr>ru_openvpn := Some (snd c)\<rparr>))),
     connected_stage, checked_exit mullvad_exit_ip, disconnected_stage]"

lemma shown_openvpn_case: "yields (openvpn_case c) (\<lambda>_. shown (openvpn_stages c))"
  unfolding openvpn_case_def openvpn_stages_def case_prod_unfold shown_simps by (intro yields_rules)

lemma shown_test_openvpn_tunnel:
  "yields test_openvpn_tunnel (\<lambda>_. shown (concat (map openvpn_stages OPENVPN_CONSTRAINTS)))"
  unfolding test_openvpn_tunnel_def by (rule shown_for_each [OF shown_openvpn_case])

text \<open>The tunnel is up on the first two WireGuard ports, and does not come up on the last.\<close>

definition wireguard_stages :: "nat \<times> bool \<Rightarrow> test_stage list" where
  "wireguard_stages c = did (UpdateRelaySettings (NormalUpdate ((swedish_over Wireguard)\<lparr>
       ru_wireguard := Some (default_wireguard\<lparr>wc_port := Only (fst c)\<rparr>)\<rparr>))) #
     (if snd c then [connected_stage, checked_exit mullvad_exit_ip, disconnected_stage]
      else [tried_to_connect, disconnected_stage])"

lemma shown_wireguard_case: "yields (wireguard_case c) (\<lambda>_. shown (wireguard_stages c))"
proof (cases c)
  case (Pair port ok)
  have "yields (if ok then tunnel_works (seqE disconnect_and_wait (ret ())) else seqE disconnect_and_wait (ret ()))
      (\<lambda>_. shown (if ok then [checked_exit mullvad_exit_ip, disconnected_stage] else [disconnected_stage]))"
    by (cases ok) (simp_all only: if_True if_False shown_simps, (intro yields_rules)+)
  moreover have "wireguard_stages (port, ok) = [did (UpdateRelaySettings (NormalUpdate ((swedish_over Wireguard)\<lparr>
       ru_wireguard := Some (default_wireguard\<lparr>wc_port := Only port\<rparr>)\<rparr>))), if ok then connected_stage else tried_to_connect] @
      (if ok then [checked_exit mullvad_exit_ip, disconnected_stage] else [disconnected_stage])"
    by (simp add: wireguard_stages_def)
  ultimately show ?thesis
    unfolding Pair wireguard_case_def prod.case by (simp only: shown_simps) (intro yields_rules)
qed

lemma shown_test_wireguard_tunnel:
  "yields test_wireguard_tunnel (\<lambda>_. shown (concat (map wireguard_stages WIREGUARD_PORTS)))"
  unfolding test_wireguard_tunnel_def by (rule shown_for_each [OF shown_wireguard_case])

text \<open>With obfuscation, everything that the guest sends outside the tunnel while it is used is TCP.\<close>

lemma shown_test_udp2tcp_tunnel:
  "yields (test_udp2tcp_tunnel kit) (\<lambda>_ env tr es. \<exists>guest_ip bridge. shown
     [did (SetObfuscationSettings (udp2tcp_settings kit)),
      did (UpdateRelaySettings (NormalUpdate ((swedish_over Wireguard)\<lparr>ru_wireguard := Some default_wireguard\<rparr>))),
      connected_stage, replied ce_ip DefaultDeadline (GetInterfaceIp NonTunnel) guest_ip,
      monitoring bridge monitor_default, checked_exit mullvad_exit_ip,
      saw kit bridge monitor_default (list_all (\<lambda>packet. sock_ip (source packet) \<noteq> guest_ip \<or> protocol packet = Tcp)),
      disconnected_stage] env tr es)"
  unfolding test_udp2tcp_tunnel_def Client.get_interface_ip_def shown_simps by (intro yields_rules)

text \<open>Over a bridge, packets go to the entry and the traffic leaves at the exit.\<close>

lemma shown_test_bridge:
  "yields (test_bridge kit) (\<lambda>_ env tr es. \<exists>entry exit bridge. shown
     [picked (active_relay (RelayType_Bridge kit)) entry, picked (active_relay (RelayType_Openvpn kit)) exit,
      did (SetBridgeState \<lparr>bs_state = BridgeState_On kit\<rparr>),
      did (SetBridgeSettings (BridgeNormal (into_locationconstraint entry) [] (Ownership_Any kit))),
      did (UpdateRelaySettings
        (NormalUpdate (no_update\<lparr>ru_location := into_constraint exit, ru_tunnel_protocol := Some (Only OpenVpn)\<rparr>))),
      monitoring bridge monitor_default, connected_stage,
      saw kit bridge monitor_default (list_ex (to_relay kit entry)),
      checked_exit (\<lambda>g. mullvad_exit_ip_hostname g = hostname exit), disconnected_stage] env tr es)"
  unfolding test_bridge_def shown_simps by (intro yields_rules)

text \<open>The same for multihop, with the first two relays of the list as entry and exit.\<close>

definition picked_two :: "(relay \<Rightarrow> bool) \<Rightarrow> relay \<times> relay \<Rightarrow> test_stage" where
  "picked_two criteria p env tr es \<longleftrightarrow> es = [Daemon GetRelayLocations (Inr ())] \<and>
     (\<exists>relays rest. me_relays env tr = Inr relays \<and> filter criteria (flatten_relaylist relays) = fst p # snd p # rest)"

lemma shown_entry_and_exit [yields_rules]:
  assumes "\<And>p. yields (f p) (\<lambda>_. R p)"
  shows "yields (bindE (random_entry_and_exit criteria) f)
     (\<lambda>_ env tr es. \<exists>p. next_to (picked_two criteria p) (R p) env tr es)"
proof (rule yields_use [OF _ assms])
  show "yields (random_entry_and_exit criteria) (picked_two criteria)"
    by (auto simp: yields_def random_entry_and_exit_def filter_relays_def grpc_get_def prog_defs picked_two_def
        split: sum.splits list.splits)
qed

lemma shown_test_multihop:
  "yields (test_multihop kit) (\<lambda>_ env tr es. \<exists>p bridge. shown
     [picked_two (active_relay (RelayType_Wireguard kit)) p,
      did (UpdateRelaySettings (NormalUpdate
        (no_update\<lparr>ru_location := into_constraint (snd p), ru_wireguard := multihop_constraints (fst p)\<rparr>))),
      monitoring bridge monitor_default, connected_stage,
      saw kit bridge monitor_default (list_ex (\<lambda>packet. to_relay kit (fst p) packet \<and> protocol packet = Udp)),
      checked_exit (\<lambda>g. mullvad_exit_ip_hostname g = hostname (snd p)), disconnected_stage] env tr es)"
  unfolding test_multihop_def case_prod_unfold shown_simps by (intro yields_rules)

text \<open>After a reboot the daemon is running and connects by itself.\<close>

definition restarted :: "(client_env, client_ev) stage" where
  "restarted env tr es \<longleftrightarrow> es = [Call (DeadlineIn REBOOT_TIMEOUT) Reboot, ResetConnected, WaitServer, SleepSecs 5] \<and>
     ce_unit env tr Reboot = Inr (Inr ()) \<and>
     ce_next env (tr @ [Call (DeadlineIn REBOOT_TIMEOUT) Reboot, ResetConnected]) \<noteq> Elapsed"

fun is_disk :: "mgr_ev \<Rightarrow> bool" where
  "is_disk (Disk e) = True"
| "is_disk _ = False"

definition rebooted :: "test_kit \<Rightarrow> test_stage" where
  "rebooted kit env tr es \<longleftrightarrow> (\<exists>e1 e2. es = e1 @ e2 \<and> client_stage restarted env tr e1 \<and>
     (if tk_macos kit then list_all is_disk e2 else e2 = []))"

lemma yields_client_reboot: "yields Client.reboot (\<lambda>_. restarted)"
  by (auto simp: yields_def Client.reboot_def rpc_def prog_defs restarted_def split: sum.splits next_result.splits)

lemma yields_reboot: "yields (reboot kit fault_text) (\<lambda>_. rebooted kit)"
proof -
  let ?again = "map_err (\<lambda>e. Other (''Failed to recreate custom wg tun: '' @ fault_text e)) (disk configure_tunnel)"
  have "yields (disk m) (\<lambda>_ _ _. list_all is_disk)" for m :: "(vm_fault, unit) host"
    by (auto simp: yields_def disk_def embed_def list_all_iff split: prod.splits)
  then have "yields ?again (\<lambda>_ _ _. list_all is_disk)" by (rule yields_map_err)
  then have "yields (seqE (only_if (tk_macos kit) ?again) (ret ()))
      (\<lambda>_ env tr es. if tk_macos kit then list_all is_disk es else es = [])"
    by (auto simp: yields_def only_if_def seqE_def bindE_def ret_def split: prod.splits res.splits)
  moreover have "yields (map_err Rpc (runner Client.reboot)) (\<lambda>_. client_stage restarted)"
    by (rule yields_map_err [OF yields_runner [OF yields_client_reboot]])
  ultimately show ?thesis
    unfolding reboot_def seqE_def [of "map_err Rpc _"] by - (rule yields_bind, assumption+, unfold rebooted_def, blast)
qed

lemma shown_reboot [yields_rules]:
  "yields k (\<lambda>_. R) \<Longrightarrow> yields (seqE (reboot kit fault_text) k) (\<lambda>_. next_to (rebooted kit) R)"
  by (rule yields_stage [OF yields_reboot])

lemma shown_autoconnect_test:
  "yields (autoconnect_test kit fault_text msg tunnel) (\<lambda>_. shown [did (UpdateRelaySettings (NormalUpdate (swedish_over tunnel))),
     did (SetAutoConnect True), rebooted kit, client_stage (status_seen (\<lambda>s. s = Running)), waited is_Connected is_Connected])"
  unfolding autoconnect_test_def shown_simps by (intro yields_rules)

text \<open>A pre-shared key is in use exactly with quantum-resistant tunnels; this is checked on Linux only.\<close>

definition psk_in :: "exec_result \<Rightarrow> bool \<Rightarrow> test_stage" where
  "psk_in out present env tr es \<longleftrightarrow> es = [] \<and>
     (\<exists>parsed. from_utf8 (exec_stdout out) = Inr parsed \<and> contains parsed ''preshared key: '' = present)"

definition psk_shown :: "os \<Rightarrow> bool \<Rightarrow> test_stage" where
  "psk_shown os present = (if os = Linux
     then (\<lambda>env tr es. \<exists>name. next_to (replied ce_string DefaultDeadline (GetInterfaceName Tunnel) name) (\<lambda>env tr es. \<exists>out. next_to
       (replied ce_exec (DeadlineIn INSTALL_TIMEOUT) (Exec ''wg'' [''show'', name] (btree_collect [])) out)
       (psk_in out present) env tr es) env tr es)
     else (\<lambda>env tr. list_all is_record))"

definition psk_checked :: "bool \<Rightarrow> test_stage" where
  "psk_checked present env tr es \<longleftrightarrow>
     (\<exists>os. next_to (replied_plain ce_os DefaultDeadline GetOs os) (psk_shown os present) env tr es)"

lemma yields_check_psk: "yields (check_tunnel_psk present) (\<lambda>_. psk_checked present)"
proof -
  have parse: "yields (bindE (expect msg (of_result (from_utf8 (exec_stdout out)))) (\<lambda>parsed.
      assertP msg' (contains parsed ''preshared key: '' = present))) (\<lambda>_. psk_in out present)" for out msg msg'
    by (auto simp: yields_def psk_in_def of_result_def expect_def assertP_def prog_defs split: sum.splits if_splits)
  show ?thesis
    unfolding check_tunnel_psk_def psk_checked_def Client.get_os_def
  proof (intro shown_rpc_plain)
    fix os
    show "yields (case os of Linux \<Rightarrow>
         bindE (expect ''failed to get tun name'' (runner (Client.get_interface_name Tunnel))) (\<lambda>name.
         bindE (expect ''failed to run wg'' (runner (Client.exec ''wg'' [''show'', name]))) (\<lambda>out.
         bindE (expect ''non-utf8 output'' (of_result (from_utf8 (exec_stdout out)))) (\<lambda>parsed_output.
         assertP ''expected to NOT find preshared key'' (contains parsed_output ''preshared key: '' = present))))
     | _ \<Rightarrow> log_msg LWarn (''Not checking if there is a PSK on '' @ os_display os)) (\<lambda>_. psk_shown os present)"
      by (cases os) (simp_all only: os.case psk_shown_def simp_thms os.distinct if_True if_False Client.get_interface_name_def
          Client.exec_def Client.exec_env_def, intro shown_rpc parse, (rule yields_log)+)
  qed
qed

lemma shown_check_psk [yields_rules]:
  "yields k (\<lambda>_. R) \<Longrightarrow> yields (seqE (check_tunnel_psk present) k) (\<lambda>_. next_to (psk_checked present) R)"
  by (rule yields_stage [OF yields_check_psk])

lemma shown_test_quantum_resistant_tunnel:
  "yields (test_quantum_resistant_tunnel kit) (\<lambda>_. shown
     [did (SetQuantumResistantTunnel (QuantumResistant_Off kit)), connected_stage, psk_checked False,
      did (UpdateRelaySettings (NormalUpdate (swedish_over Wireguard))),
      did (SetQuantumResistantTunnel (QuantumResistant_On kit)), connected_stage, psk_checked True,
      checked_exit mullvad_exit_ip])"
  unfolding test_quantum_resistant_tunnel_def shown_simps by (intro yields_rules)

lemma shown_test_quantum_resistant_multihop_udp2tcp_tunnel:
  "yields (test_quantum_resistant_multihop_udp2tcp_tunnel kit) (\<lambda>_. shown
     [did (SetQuantumResistantTunnel (QuantumResistant_On kit)), did (SetObfuscationSettings (udp2tcp_settings kit)),
      did (UpdateRelaySettings (NormalUpdate (swedish\<lparr>ru_wireguard := Some (default_wireguard\<lparr>wc_use_multihop := True,
          wc_entry_location := Only (LocationC (Country ''se''))\<rparr>)\<rparr>))),
      connected_stage, checked_exit mullvad_exit_ip])"
  unfolding test_quantum_resistant_multihop_udp2tcp_tunnel_def shown_simps by (intro yields_rules)

end
