(* ===== verification/Tests_Account.thy ===== *)
theory Tests_Account
  imports Test_World
begin

text \<open>
  The tests of \<open>tests/account.rs\<close> (logging in and out, too many devices, a revoked device, rotation
  of the WireGuard key) and the two UI tests of \<open>tests/ui.rs\<close>.

  The account service is reached through the crate \<open>mullvad_api\<close>, which is part of the environment.
  Two loops retry for as long as the service answers that requests are throttled; \<open>tk_patience\<close> bounds
  the number of their passes, and the lemmas on them show that any bound that is large enough gives
  the first answer that is not throttled.
\<close>

section \<open>The account service\<close>

text \<open>Texts and constants of \<open>mullvad_api\<close>, and the \<open>Display\<close> of IPv6 addresses.\<close>

record account_kit =
  ak_display :: "api_error \<Rightarrow> string"
  ak_debug :: "api_error \<Rightarrow> string"
  MAX_DEVICES_REACHED :: string
  ak_show_v6 :: "16 word list \<Rightarrow> string"

definition THROTTLE_RETRY_DELAY :: nat where "THROTTLE_RETRY_DELAY = 120"
definition TOO_MANY_REQUESTS :: nat where "TOO_MANY_REQUESTS = 429"

definition sleep_secs :: "nat \<Rightarrow> ('e, unit) mgr" where
  "sleep_secs n = emit (Delay (n * 1000))"

text \<open>\<open>to_socket_addrs\<close> of the host of the API, with its port; the first address is used.\<close>

definition resolve_api :: "('e, string \<times> socket_addr) mgr" where
  "resolve_api =
     bindE deref_test_config (\<lambda>config.
     bindE (expect ''failed to resolve API host''
       (performE (\<lambda>env tr. me_lookup env tr (''api.'' @ tc_mullvad_host config @ '':443''))
          (LookedUp (''api.'' @ tc_mullvad_host config @ '':443'')))) (\<lambda>addrs.
     case addrs of [] \<Rightarrow> panic ''unwrap'' | a # _ \<Rightarrow> ret (''api.'' @ tc_mullvad_host config, addr a 443)))"

definition new_device_client :: "('e, unit) mgr" where
  "new_device_client =
     seqE resolve_api
     (expect ''failed to create api runtime''
       (performE (\<lambda>env tr. me_setup env tr ''api runtime'') (Setup ''api runtime'')))"

text \<open>A loop with \<open>n\<close> passes left.\<close>

fun login_loop :: "nat \<Rightarrow> (status, unit) mgr" where
  "login_loop 0 = panic ''still retrying''"
| "login_loop (Suc n) =
     bindE deref_test_config (\<lambda>config.
     bindE (attempt (grpc id (LoginAccount (account_number config)))) (\<lambda>result. case result of
       Inl error \<Rightarrow>
         if \<not> contains (st_message error) ''THROTTLED'' then fail error
         else seqE (log_msg LDebug (''Login failed due to throttling. Sleeping for '' @ show_nat THROTTLE_RETRY_DELAY @ '' seconds''))
             (seqE (sleep_secs THROTTLE_RETRY_DELAY)
              (login_loop n))
     | Inr _ \<Rightarrow> ret ()))"

definition login_with_retries :: "test_kit \<Rightarrow> (status, unit) mgr" where
  "login_with_retries kit = login_loop (tk_patience kit)"

fun throttled :: "api_error \<Rightarrow> bool" where
  "throttled (ApiError sc text) = (sc = TOO_MANY_REQUESTS)"
| "throttled _ = False"

fun retry_loop :: "nat \<Rightarrow> (api_error, 'a) mgr \<Rightarrow> (api_error, 'a) mgr" where
  "retry_loop 0 new_attempt = panic ''still retrying''"
| "retry_loop (Suc n) new_attempt =
     bindE (attempt new_attempt) (\<lambda>r. case r of
       Inr val \<Rightarrow> ret val
     | Inl error \<Rightarrow>
         if throttled error
         then seqE (log_msg LDebug (''Device list fetch failed due to throttling. Sleeping for '' @ show_nat THROTTLE_RETRY_DELAY
                     @ '' seconds''))
             (seqE (sleep_secs THROTTLE_RETRY_DELAY)
              (retry_loop n new_attempt))
         else fail error)"

definition retry_if_throttled :: "test_kit \<Rightarrow> (api_error, 'a) mgr \<Rightarrow> (api_error, 'a) mgr" where
  "retry_if_throttled kit new_attempt = retry_loop (tk_patience kit) new_attempt"

definition list_devices_with_retries :: "test_kit \<Rightarrow> (api_error, device list) mgr" where
  "list_devices_with_retries kit = retry_if_throttled kit
     (bindE deref_test_config (\<lambda>config. api_call (ListDevices (account_number config))))"

definition remove_device :: "string \<Rightarrow> (api_error, device list) mgr" where
  "remove_device dev = bindE deref_test_config (\<lambda>config. api_call (RemoveDevice (account_number config) dev))"

definition clear_devices :: "test_kit \<Rightarrow> account_kit \<Rightarrow> (api_error, unit) mgr" where
  "clear_devices kit ak =
     seqE (log_msg LInfo ''Removing all devices for account'')
    (bindE (list_devices_with_retries kit) (for_each (\<lambda>dev.
       bindE (attempt (remove_device (dev_id dev))) (\<lambda>r. case r of
         Inl error \<Rightarrow> log_msg LWarn (''Failed to remove device: '' @ ak_display ak error)
       | Inr _ \<Rightarrow> ret ()))))"

section \<open>tests/account.rs\<close>

definition test_login :: "test_kit \<Rightarrow> account_kit \<Rightarrow> (test_error, unit) mgr" where
  "test_login kit ak =
     seqE new_device_client
    (seqE (expect ''failed to clear devices'' (clear_devices kit ak))
    (seqE (log_msg LInfo ''Logging in/generating device'')
    (seqE (expect ''login failed'' (login_with_retries kit))
    (seqE ensure_updated_relay_list
     (ret ())))))"

definition test_logout :: "(test_error, unit) mgr" where
  "test_logout =
     seqE (log_msg LInfo ''Removing device'')
    (seqE (expect ''logout failed'' (grpc id LogoutAccount))
     (ret ()))"

definition DEVICE_ATTEMPTS :: nat where "DEVICE_ATTEMPTS = 15"

text \<open>The loop that uses up all devices: it ends early when the account has no room for more.\<close>

fun create_devices :: "test_kit \<Rightarrow> account_kit \<Rightarrow> nat \<Rightarrow> ('e, unit) mgr" where
  "create_devices kit ak 0 = ret ()"
| "create_devices kit ak (Suc n) =
     bindE random_key (\<lambda>key.
     bindE deref_test_config (\<lambda>config.
     bindE (attempt (api_call (CreateDevice (account_number config) (tk_derive_key kit key)))) (\<lambda>r. case r of
       Inr _ \<Rightarrow> create_devices kit ak n
     | Inl error \<Rightarrow>
         if (case error of ApiError _ text \<Rightarrow> text = MAX_DEVICES_REACHED ak | _ \<Rightarrow> False) then ret ()
         else seqE (log_msg LError (''Failed to generate device: '' @ ak_debug ak error @ ''. Retrying after ''
                     @ show_nat THROTTLE_RETRY_DELAY @ '' seconds''))
             (seqE (sleep_secs THROTTLE_RETRY_DELAY)
              (create_devices kit ak n)))))"

definition test_too_many_devices :: "test_kit \<Rightarrow> account_kit \<Rightarrow> (test_error, unit) mgr" where
  "test_too_many_devices kit ak =
     seqE (log_msg LInfo ''Using up all devices'')
    (seqE new_device_client
    (seqE (create_devices kit ak DEVICE_ATTEMPTS)
    (seqE (log_msg LInfo ''Log in with too many devices'')
    (bindE (attempt (login_with_retries kit)) (\<lambda>login_result.
     seqE (assertP ''login_result'' (case login_result of Inl st \<Rightarrow> st_code st = Code_ResourceExhausted kit | Inr _ \<Rightarrow> False))
    (bindE deref_test_config (\<lambda>config.
     bindE (expect ''unwrap'' (run_test_env [''too-many-devices.spec''] [(''ACCOUNT_NUMBER'', account_number config)])) (\<lambda>ui_result.
     seqE (assertP ''ui_result.success()'' (exec_success ui_result))
    (bindE (attempt (clear_devices kit ak)) (\<lambda>r. case r of
       Inl error \<Rightarrow> log_msg LError (''Failed to clear devices: '' @ ak_display ak error)
     | Inr _ \<Rightarrow> ret ()))))))))))"

text \<open>\<open>get_device\<close>, and the device of a state with its two \<open>unwrap\<close>s.\<close>

definition get_device :: "string \<Rightarrow> ('e, device_state) mgr" where
  "get_device msg = expect msg (callE id me_device DeviceRead)"

definition unwrap_device :: "device_state \<Rightarrow> ('e, device) mgr" where
  "unwrap_device state = bindE (unwrap_opt (ds_device state)) unwrap_opt"

definition PRE_UPDATE_SLEEP :: nat where "PRE_UPDATE_SLEEP = 12"

definition test_revoked_device :: "test_kit \<Rightarrow> account_kit \<Rightarrow> (test_error, unit) mgr" where
  "test_revoked_device kit ak =
     seqE (log_msg LInfo ''Logging in/generating device'')
    (seqE (expect ''login failed'' (login_with_retries kit))
    (bindE (get_device ''failed to get device data'') (\<lambda>state.
     bindE (unwrap_device state) (\<lambda>device.
     seqE connect_and_wait
    (seqE (log_msg LDebug ''Removing current device'')
    (seqE new_device_client
    (seqE (expect ''failed to revoke device'' (retry_if_throttled kit (remove_device (dev_id device))))
    (seqE (sleep_secs PRE_UPDATE_SLEEP)
    (seqE (expect ''failed to begin listening for state changes'' (grpc id EventsListen))
    (seqE (log_msg LDebug ''Update device state'')
    (seqE (attempt (grpc id UpdateDevice))
    (bindE (find_next_tunnel_state is_TunnelStateError) (\<lambda>new_state.
     seqE (assertP ''expected blocking error state'' (new_state = TunnelStateError True))
    (bindE (get_device ''failed to get device data'') (\<lambda>device_state.
     seqE (assertP ''expected device to be revoked'' (ds_state device_state = DeviceState_Revoked kit))
    (bindE (expect ''unwrap'' (ui_run_test [''device-revoked.spec''])) (\<lambda>ui_result.
     seqE (assertP ''ui_result.success()'' (exec_success ui_result))
     (ret ()))))))))))))))))))"

text \<open>
  The wait for the event that carries the new key; the items are those that arrive within the
  \<open>KEY_ROTATION_TIMEOUT\<close> of a hundred seconds.
\<close>

fun get_pub_key_event :: "stream_item list \<Rightarrow> ('e, string) mgr" where
  "get_pub_key_event [] = panic ''unwrap''"
| "get_pub_key_event (StreamOk (Some (DeviceEvent new_state)) # rest) =
     bindE (unwrap_opt new_state) (\<lambda>state. bindE (unwrap_device state) (\<lambda>device. ret (dev_pubkey device)))"
| "get_pub_key_event (StreamOk None # rest) = panic ''unwrap''"
| "get_pub_key_event (StreamOk (Some _) # rest) = get_pub_key_event rest"
| "get_pub_key_event (_ # rest) = panic ''unwrap''"

definition test_automatic_wireguard_rotation :: "(test_error, unit) mgr" where
  "test_automatic_wireguard_rotation =
     bindE (get_device ''Could not get device'') (\<lambda>state.
     bindE (unwrap_device state) (\<lambda>old_device.
     seqE (expect ''Could not stop system service'' (runner (Client.set_mullvad_daemon_service_state False)))
    (seqE (expect ''Could not change device.json to have an old created timestamp'' (runner Client.make_device_json_old))
    (seqE (expect ''Could not start system service'' (runner (Client.set_mullvad_daemon_service_state True)))
    (seqE new_client
    (seqE (expect ''unwrap'' (grpc id EventsListen))
    (bindE (bindE (perform me_events Listened) get_pub_key_event) (\<lambda>new_key.
     seqE (assertP ''assertion failed: `(left != right)`'' (dev_pubkey old_device \<noteq> new_key))
     (ret ())))))))))"

section \<open>tests/ui.rs\<close>

definition test_ui_tunnel_settings :: "test_kit \<Rightarrow> (test_error, unit) mgr" where
  "test_ui_tunnel_settings kit =
     seqE (log_msg LInfo ''Select relay'')
    (bindE (pop_relay (active_relay (RelayType_Wireguard kit))) (\<lambda>entry.
     seqE (expect ''failed to update relay settings'' (update_relay_settings (only_location (into_constraint entry))))
    (bindE deref_test_config (\<lambda>config.
     bindE (expect ''unwrap'' (run_test_env [''tunnel-state.spec'']
       [(''HOSTNAME'', hostname entry), (''IN_IP'', ipv4_addr_in entry),
        (''CONNECTION_CHECK_URL'', ''https://am.i.'' @ tc_mullvad_host config)])) (\<lambda>ui_result.
     seqE (assertP ''ui_result.success()'' (exec_success ui_result))
     (ret ()))))))"

definition test_ui_login :: "(test_error, unit) mgr" where
  "test_ui_login =
     bindE deref_test_config (\<lambda>config.
     bindE (expect ''unwrap'' (run_test_env [''login.spec''] [(''ACCOUNT_NUMBER'', account_number config)])) (\<lambda>ui_result.
     seqE (assertP ''ui_result.success()'' (exec_success ui_result))
     (ret ())))"

section \<open>Retrying\<close>

text \<open>
  The contract of the two loops: one attempt, and after a failure of the kind that is retried a pause
  that leaves fixed events.
\<close>

primrec retry_history ::
  "('env, 'ev, 'e, 'a) prog \<Rightarrow> 'ev list \<Rightarrow> 'env \<Rightarrow> 'ev list \<Rightarrow> nat \<Rightarrow> 'ev list" where
  "retry_history once pause env tr 0 = tr"
| "retry_history once pause env tr (Suc i) = retry_history once pause env (snd (once env tr) @ pause) i"

locale retries =
  fixes loop :: "nat \<Rightarrow> ('env, 'ev, 'e, 'a) prog"
    and once :: "('env, 'ev, 'e, 'a) prog"
    and again :: "'e \<Rightarrow> bool"
    and pause :: "'ev list"
  assumes pass: "loop (Suc n) env tr = (case once env tr of
      (Err e, tr') \<Rightarrow> if again e then loop n env (tr' @ pause) else (Err e, tr')
    | r \<Rightarrow> r)"
    and spent: "\<exists>m. loop 0 env tr = (Panic m, tr)"
begin

lemma outlasts:
  assumes "\<forall>i<k. \<exists>e. fst (once env (retry_history once pause env tr i)) = Err e \<and> again e"
    and "\<forall>e. fst (once env (retry_history once pause env tr k)) = Err e \<longrightarrow> \<not> again e" "k < n"
  shows "loop n env tr = once env (retry_history once pause env tr k)"
  using assms
proof (induction k arbitrary: n tr)
  case 0
  then show ?case by (cases n) (auto simp: pass split: prod.splits res.splits)
next
  case (Suc k)
  from Suc.prems(1) obtain e where e: "fst (once env tr) = Err e" "again e" by fastforce
  have "\<forall>i<k. \<exists>e. fst (once env (retry_history once pause env (snd (once env tr) @ pause) i)) = Err e \<and> again e"
  proof (intro allI impI)
    fix i assume "i < k"
    with Suc.prems(1) have "\<exists>e. fst (once env (retry_history once pause env tr (Suc i))) = Err e \<and> again e" by blast
    then show "\<exists>e. fst (once env (retry_history once pause env (snd (once env tr) @ pause) i)) = Err e \<and> again e" by simp
  qed
  moreover obtain m where "n = Suc m" "k < m" using Suc.prems(3) by (cases n) auto
  ultimately show ?case using Suc.IH [of "snd (once env tr) @ pause" m] Suc.prems(2) e
    by (auto simp: pass split: prod.splits)
qed

text \<open>Whatever is returned was the result of one attempt.\<close>

lemma returned:
  assumes "loop n env tr = (r, tr')" "\<And>s. r \<noteq> Panic s"
  shows "\<exists>k<n. once env (retry_history once pause env tr k) = (r, tr')"
  using assms
proof (induction n arbitrary: tr)
  case 0
  with spent [of env tr] show ?case by auto
next
  case (Suc n)
  show ?case
  proof (cases "\<exists>e. fst (once env tr) = Err e \<and> again e")
    case True
    then have "loop n env (snd (once env tr) @ pause) = (r, tr')"
      using Suc.prems(1) by (auto simp: pass split: prod.splits)
    from Suc.IH [OF this Suc.prems(2)] show ?thesis by (metis Suc_less_eq retry_history.simps(2))
  next
    case False
    then have "once env tr = (r, tr')" using Suc.prems(1) by (auto simp: pass split: prod.splits res.splits)
    then show ?thesis by (intro exI [of _ 0]) simp
  qed
qed

lemma yields_loop:
  assumes "yields once P" "\<And>env tr. \<exists>es. snd (once env tr) = tr @ es"
  shows "yields (loop n) (\<lambda>a env tr es. \<exists>pre es'. es = pre @ es' \<and> P a env (tr @ pre) es')"
  unfolding yields_def
proof (intro allI impI)
  fix env tr a tr'
  assume "loop n env tr = (Ok a, tr')"
  from returned [OF this] obtain k where k: "once env (retry_history once pause env tr k) = (Ok a, tr')" by auto
  have "\<exists>pre. retry_history once pause env tr k = tr @ pre"
  proof (induction k arbitrary: tr)
    case (Suc k)
    from assms(2) [of env tr] obtain es where "snd (once env tr) = tr @ es" by blast
    with Suc [of "tr @ es @ pause"] show ?case by auto
  qed simp
  with yields_run [OF assms(1) k] show "\<exists>es. tr' = tr @ es \<and> (\<exists>pre es'. es = pre @ es' \<and> P a env (tr @ pre) es')"
    by fastforce
qed

end

text \<open>The two loops of the code.\<close>

definition login_once :: "(status, unit) mgr" where
  "login_once = bindE deref_test_config (\<lambda>config. grpc id (LoginAccount (account_number config)))"

definition login_pause :: "mgr_ev list" where
  "login_pause = [Logging (LogRecord LDebug (''Login failed due to throttling. Sleeping for '' @ show_nat THROTTLE_RETRY_DELAY
     @ '' seconds'')), Delay (THROTTLE_RETRY_DELAY * 1000)]"

definition fetch_pause :: "mgr_ev list" where
  "fetch_pause = [Logging (LogRecord LDebug (''Device list fetch failed due to throttling. Sleeping for ''
     @ show_nat THROTTLE_RETRY_DELAY @ '' seconds'')), Delay (THROTTLE_RETRY_DELAY * 1000)]"

interpretation login_retries: retries login_loop login_once "\<lambda>e. contains (st_message e) ''THROTTLED''" login_pause
proof
  show "login_loop (Suc n) env tr = (case login_once env tr of
      (Err e, tr') \<Rightarrow> if contains (st_message e) ''THROTTLED'' then login_loop n env (tr' @ login_pause) else (Err e, tr')
    | r \<Rightarrow> r)" for n env tr
    by (simp add: login_once_def login_pause_def deref_test_config_def unwrap_opt_def grpc_def callE_def attempt_def sleep_secs_def
        log_msg_def prog_defs split: option.split sum.split)
  show "\<exists>m. login_loop 0 env tr = (Panic m, tr)" for env tr
    by (simp add: panic_def)
qed

interpretation fetch_retries: retries "\<lambda>n. retry_loop n new_attempt" new_attempt throttled fetch_pause
  for new_attempt :: "(api_error, 'a) mgr"
proof
  show "retry_loop (Suc n) new_attempt env tr = (case new_attempt env tr of
      (Err e, tr') \<Rightarrow> if throttled e then retry_loop n new_attempt env (tr' @ fetch_pause) else (Err e, tr')
    | r \<Rightarrow> r)" for n env tr
    by (simp add: fetch_pause_def attempt_def sleep_secs_def log_msg_def prog_defs split: prod.split res.split)
  show "\<exists>m. retry_loop 0 new_attempt env tr = (Panic m, tr)" for env tr
    by (simp add: panic_def)
qed

text \<open>
  C23. Throttling is outlasted: however often the daemon answers a login with a throttling error, the
  loop asks again after its pause, and as long as it has passes left it returns exactly what the first
  attempt that is not throttled returns (success, another error, or the panic of a missing
  configuration), with the history of the attempts before it.  The result does not depend on the bound
  on the number of passes.
\<close>

theorem login_outlasts_throttling:
  assumes "\<forall>i<k. \<exists>e. fst (login_once env (retry_history login_once login_pause env tr i)) = Err e \<and>
      contains (st_message e) ''THROTTLED''"
    and "\<forall>e. fst (login_once env (retry_history login_once login_pause env tr k)) = Err e \<longrightarrow>
      \<not> contains (st_message e) ''THROTTLED''"
    and "k < tk_patience kit"
  shows "login_with_retries kit env tr = login_once env (retry_history login_once login_pause env tr k)"
  unfolding login_with_retries_def using assms by (rule login_retries.outlasts)

definition throttling_status :: status where
  "throttling_status = \<lparr>st_display = ''throttled'', st_debug = ''throttled'', st_message = ''THROTTLED'', st_code = 8\<rparr>"

definition throttling_world :: mgr_env where
  "throttling_world = demo_mgr_env\<lparr>me_unit := \<lambda>tr req. if length tr < 4 then Inl throttling_status else Inr ()\<rparr>"

theorem login_outlasts_throttling_witness:
  "fst (login_with_retries (patient_kit 5) throttling_world [InitTestConfig demo_test_config]) = Ok () \<and>
   fst (login_with_retries (patient_kit 1) throttling_world [InitTestConfig demo_test_config]) = Panic ''still retrying''"
proof -
  let ?tr = "[InitTestConfig demo_test_config]"
  have first: "login_once throttling_world ?tr = (Err throttling_status, ?tr @ [Daemon (LoginAccount ''1234'') (Inl throttling_status)])"
    by (simp add: login_once_def deref_test_config_def unwrap_opt_def grpc_def prog_defs throttling_world_def demo_test_config_def)
  have second: "fst (login_once throttling_world (retry_history login_once login_pause throttling_world ?tr 1)) = Ok ()"
    by (simp add: first) (simp add: login_once_def deref_test_config_def unwrap_opt_def grpc_def prog_defs throttling_world_def
      demo_test_config_def login_pause_def)
  have throttled: "contains (st_message throttling_status) ''THROTTLED''"
    by (simp add: throttling_status_def contains_def windows_def)
  have "fst (login_loop (Suc 0) throttling_world ?tr) = Panic ''still retrying''"
    unfolding login_retries.pass first by (simp add: throttled panic_def)
  with first second throttled login_outlasts_throttling [of 1 throttling_world ?tr "patient_kit 5"] show ?thesis
    by (simp add: patient_kit_def login_with_retries_def del: login_loop.simps)
qed

text \<open>The same for requests to the account service.\<close>

lemma fetch_outlasts_throttling:
  assumes "\<forall>i<k. \<exists>e. fst (new_attempt env (retry_history new_attempt fetch_pause env tr i)) = Err e \<and> throttled e"
    and "\<forall>e. fst (new_attempt env (retry_history new_attempt fetch_pause env tr k)) = Err e \<longrightarrow> \<not> throttled e"
    and "k < tk_patience kit"
  shows "retry_if_throttled kit new_attempt env tr = new_attempt env (retry_history new_attempt fetch_pause env tr k)"
  unfolding retry_if_throttled_def using assms by (rule fetch_retries.outlasts)

section \<open>What the tests show\<close>

text \<open>The daemon logged in to the account, after any number of throttled attempts.\<close>

definition logged_in :: test_stage where
  "logged_in env tr es \<longleftrightarrow> (\<exists>pre account. es = pre @ [Daemon (LoginAccount account) (Inr ())] \<and>
     test_config_cell (tr @ pre) \<noteq> None \<and> account = account_number (the (test_config_cell (tr @ pre))))"

lemma login_once_appends: "\<exists>es. snd (login_once env tr) = tr @ es"
  by (simp add: login_once_def deref_test_config_def unwrap_opt_def grpc_def callE_def prog_defs split: option.split sum.split)

lemma yields_login: "yields (login_with_retries kit) (\<lambda>_. logged_in)"
proof -
  have "yields login_once (\<lambda>_ env tr es. \<exists>config. test_config_cell tr = Some config \<and>
      es = [Daemon (LoginAccount (account_number config)) (Inr ())])"
    by (auto simp: yields_def login_once_def deref_test_config_def unwrap_opt_def grpc_def callE_def prog_defs
        split: option.splits sum.splits)
  from login_retries.yields_loop [OF this login_once_appends] show ?thesis
    unfolding login_with_retries_def by (rule yields_weaken) (auto simp: logged_in_def)
qed

lemma shown_login [yields_rules]:
  "yields k (\<lambda>_. R) \<Longrightarrow> yields (seqE (expect msg (login_with_retries kit)) k) (\<lambda>_. next_to logged_in R)"
  by (rule yields_stage [OF yields_expect [OF yields_login]])

text \<open>The client of the account service was made.\<close>

definition api_ready :: test_stage where
  "api_ready env tr es \<longleftrightarrow> (\<exists>host ips. es = [LookedUp host (Inr ips), Setup ''api runtime'' (Inr ())] \<and> ips \<noteq> [])"

lemma shown_new_device_client [yields_rules]:
  assumes "yields k (\<lambda>_. R)"
  shows "yields (seqE new_device_client k) (\<lambda>_. next_to api_ready R)"
proof (rule yields_stage [OF _ assms])
  show "yields new_device_client (\<lambda>_. api_ready)"
    by (auto simp: yields_def new_device_client_def resolve_api_def deref_test_config_def unwrap_opt_def expect_def prog_defs
        api_ready_def split: option.splits sum.splits list.splits)
qed

text \<open>
  All devices of the account were listed, and the removal of each was asked for, in the order of the
  list; failures to remove are only logged.
\<close>

definition listed :: "device list \<Rightarrow> test_stage" where
  "listed devs env tr es \<longleftrightarrow> (\<exists>pre account. es = pre @ [Api (ListDevices account) (Inr ())] \<and>
     me_api env (tr @ pre) (ListDevices account) = Inr devs)"

definition removals :: "device list \<Rightarrow> test_stage" where
  "removals devs env tr es \<longleftrightarrow>
     list_all2 (\<lambda>d e. \<exists>account r. e = Api (RemoveDevice account (dev_id d)) r) devs (filter (\<lambda>e. \<not> is_record e) es)"

lemma yields_list_devices: "yields (list_devices_with_retries kit) listed"
proof -
  let ?once = "bindE deref_test_config (\<lambda>config. api_call (ListDevices (account_number config)))"
  have "yields ?once (\<lambda>devs env tr es. \<exists>account. es = [Api (ListDevices account) (Inr ())] \<and>
      me_api env tr (ListDevices account) = Inr devs)"
    by (auto simp: yields_def deref_test_config_def unwrap_opt_def api_call_def prog_defs split: option.splits sum.splits)
  moreover have "\<exists>es. snd (?once env tr) = tr @ es" for env tr
    by (simp add: deref_test_config_def unwrap_opt_def api_call_def prog_defs split: option.split sum.split)
  ultimately show ?thesis
    unfolding list_devices_with_retries_def retry_if_throttled_def
    by (rule yields_weaken [OF fetch_retries.yields_loop]) (auto simp: listed_def)
qed

lemma yields_remove_each:
  "yields (for_each (\<lambda>dev. bindE (attempt (remove_device (dev_id dev))) (\<lambda>r. case r of
       Inl error \<Rightarrow> log_msg LWarn (''Failed to remove device: '' @ ak_display ak error) | Inr _ \<Rightarrow> ret ())) devs)
     (\<lambda>_. removals devs)"
proof (induction devs)
  case (Cons d devs)
  have one: "yields (bindE (attempt (remove_device (dev_id d))) (\<lambda>r. case r of
       Inl error \<Rightarrow> log_msg LWarn (''Failed to remove device: '' @ ak_display ak error) | Inr _ \<Rightarrow> ret ()))
     (\<lambda>_. removals [d])"
    by (auto simp: yields_def remove_device_def deref_test_config_def unwrap_opt_def api_call_def attempt_def log_msg_def prog_defs
        removals_def split: option.splits sum.splits)
  show ?case
    by (simp only: for_each.simps seqE_def, rule yields_bind [OF one Cons.IH])
       (auto simp: removals_def list_all2_Cons1)
qed (simp add: yields_rules removals_def)

definition cleared :: test_stage where
  "cleared env tr es \<longleftrightarrow> (\<exists>devs. next_to (listed devs) (removals devs) env tr es)"

lemma yields_clear_devices: "yields (clear_devices kit ak) (\<lambda>_. cleared)"
  unfolding clear_devices_def cleared_def
  by (rule shown_log [OF absorbs_ex [OF absorbs_and_then] yields_use [OF yields_list_devices yields_remove_each]])

lemma shown_clear_devices [yields_rules]:
  "yields k (\<lambda>_. R) \<Longrightarrow> yields (seqE (expect msg (clear_devices kit ak)) k) (\<lambda>_. next_to cleared R)"
  by (rule yields_stage [OF yields_expect [OF yields_clear_devices]])

text \<open>The relay list was asked for; the wait for it ends with the event or with the stream.\<close>

definition relays_updated :: test_stage where
  "relays_updated env tr es \<longleftrightarrow> (\<exists>items logs. list_all is_record logs \<and>
     es = [Daemon EventsListen (Inr ()), Daemon UpdateRelayLocations (Inr ()), Listened items] @ logs)"

lemma shown_ensure_relays [yields_rules]:
  assumes "yields k (\<lambda>_. R)"
  shows "yields (seqE ensure_updated_relay_list k) (\<lambda>_. next_to relays_updated R)"
proof (rule yields_stage [OF _ assms])
  show "yields ensure_updated_relay_list (\<lambda>_. relays_updated)"
    by (auto simp: yields_def ensure_updated_relay_list_def grpc_def callE_def expect_def log_msg_def prog_defs relays_updated_def
        split: sum.splits if_splits)
qed

lemma shown_test_login: "yields (test_login kit ak) (\<lambda>_. shown [api_ready, cleared, logged_in, relays_updated])"
  unfolding test_login_def shown_simps by (intro yields_rules)

lemma shown_test_logout: "yields test_logout (\<lambda>_. shown [did LogoutAccount])"
  unfolding test_logout_def shown_simps by (intro yields_rules)

text \<open>The daemon told its device, or a state of it that was checked.\<close>

definition own_device :: "device \<Rightarrow> test_stage" where
  "own_device device env tr es \<longleftrightarrow> (\<exists>state. es = [DeviceRead (Inr state)] \<and> ds_device state = Some (Some device))"

definition device_is :: "(device_state \<Rightarrow> bool) \<Rightarrow> test_stage" where
  "device_is P env tr es \<longleftrightarrow> (\<exists>state. es = [DeviceRead (Inr state)] \<and> P state)"

lemma yields_get_device: "yields (get_device msg) (\<lambda>state _ _ es. es = [DeviceRead (Inr state)])"
  by (auto simp: yields_def get_device_def callE_def expect_def prog_defs split: sum.splits)

lemma shown_own_device [yields_rules]:
  assumes "\<And>device. yields (f device) (\<lambda>_. R device)"
  shows "yields (bindE (get_device msg) (\<lambda>state. bindE (unwrap_device state) f))
     (\<lambda>_ env tr es. \<exists>device. next_to (own_device device) (R device) env tr es)"
proof -
  have "yields (unwrap_device state) (\<lambda>device _ _ es. es = [] \<and> ds_device state = Some (Some device))" for state
    by (auto simp: yields_def unwrap_device_def unwrap_opt_def prog_defs split: option.splits)
  then have "yields (bindE (get_device msg) unwrap_device) (\<lambda>device. own_device device)"
    by (rule yields_bind [OF yields_get_device]) (auto simp: own_device_def)
  from yields_use [OF this assms, where quiet = is_record] show ?thesis by (simp add: bindE_assoc)
qed

lemma shown_device_is [yields_rules]:
  "yields k (\<lambda>_. R) \<Longrightarrow>
   yields (bindE (get_device msg) (\<lambda>state. seqE (assertP msg' (c state)) k)) (\<lambda>_. next_to (device_is c) R)"
  by (rule yields_check [OF yields_get_device]) (auto simp: device_is_def)

text \<open>A device was removed from the account, after any number of throttled attempts.\<close>

definition revoked :: "string \<Rightarrow> test_stage" where
  "revoked dev env tr es \<longleftrightarrow> (\<exists>pre account. es = pre @ [Api (RemoveDevice account dev) (Inr ())])"

lemma shown_revoke [yields_rules]:
  assumes "yields k (\<lambda>_. R)"
  shows "yields (seqE (expect msg (retry_if_throttled kit (remove_device dev))) k) (\<lambda>_. next_to (revoked dev) R)"
proof (rule yields_stage [OF yields_expect assms])
  have "yields (remove_device dev) (\<lambda>_ _ _ es. \<exists>account. es = [Api (RemoveDevice account dev) (Inr ())])"
    by (auto simp: yields_def remove_device_def deref_test_config_def unwrap_opt_def api_call_def prog_defs
        split: option.splits sum.splits)
  moreover have "\<exists>es. snd (remove_device dev env tr) = tr @ es" for env tr
    by (simp add: remove_device_def deref_test_config_def unwrap_opt_def api_call_def prog_defs split: option.split sum.split)
  ultimately show "yields (retry_if_throttled kit (remove_device dev)) (\<lambda>_. revoked dev)"
    unfolding retry_if_throttled_def
    by (rule yields_weaken [OF fetch_retries.yields_loop]) (auto simp: revoked_def)
qed

text \<open>A pause, a request whose result is ignored, and a state announced by an event.\<close>

definition slept :: "nat \<Rightarrow> test_stage" where
  "slept n env tr es \<longleftrightarrow> es = [Delay (n * 1000)]"

definition asked :: "mgmt_request \<Rightarrow> test_stage" where
  "asked req env tr es \<longleftrightarrow> (\<exists>r. es = [Daemon req r])"

definition announced :: "(tunnel_state \<Rightarrow> bool) \<Rightarrow> (tunnel_state \<Rightarrow> bool) \<Rightarrow> test_stage" where
  "announced accept P env tr es \<longleftrightarrow> (\<exists>items s. es = [Listened items] \<and> accepted_in accept items s \<and> P s)"

lemma shown_sleep [yields_rules]:
  "yields k (\<lambda>_. R) \<Longrightarrow> yields (seqE (sleep_secs n) k) (\<lambda>_. next_to (slept n) R)"
  by (rule yields_stage) (auto simp: yields_def sleep_secs_def emit_def slept_def)

lemma shown_asked [yields_rules]:
  "yields k (\<lambda>_. R) \<Longrightarrow> yields (seqE (attempt (grpc wrap req)) k) (\<lambda>_. next_to (asked req) R)"
  by (rule yields_stage) (auto simp: yields_def attempt_def grpc_def callE_def prog_defs asked_def split: sum.splits)

lemma shown_announced [yields_rules]:
  assumes "yields k (\<lambda>_. R)"
  shows "yields (bindE (find_next_tunnel_state accept) (\<lambda>s. seqE (assertP msg (c s)) k)) (\<lambda>_. next_to (announced accept c) R)"
proof -
  have inner: "yields (find_next_tunnel_state_inner accept items) (\<lambda>s _ _ es. es = [] \<and> accepted_in accept items s)" for items
    by (rule yields_spec [OF spec_find_next]) auto
  have listen: "yields (perform me_events Listened) (\<lambda>items _ _ es. es = [Listened items])"
    by (simp add: yields_def perform_def)
  have "yields (find_next_tunnel_state accept) (\<lambda>s _ _ es. \<exists>items. es = [Listened items] \<and> accepted_in accept items s)"
    unfolding find_next_tunnel_state_def by (rule yields_bind [OF listen inner]) auto
  then show ?thesis by (rule yields_check [OF _ assms]) (auto simp: announced_def)
qed

text \<open>
  The daemon notices that its device was revoked: it is connected, the device is removed behind its
  back, and after the update it announces a blocking error state, reports the device as revoked, and
  the UI shows it.
\<close>

lemma shown_test_revoked_device:
  "yields (test_revoked_device kit ak) (\<lambda>_ env tr es. \<exists>device. shown
     [logged_in, own_device device, connected_stage, api_ready, revoked (dev_id device), slept PRE_UPDATE_SLEEP,
      did EventsListen, asked UpdateDevice, announced is_TunnelStateError (\<lambda>s. s = TunnelStateError True),
      device_is (\<lambda>state. ds_state state = DeviceState_Revoked kit), ui_passed [''device-revoked.spec''] []] env tr es)"
  unfolding test_revoked_device_def ui_run_test_def shown_simps by (intro yields_rules)

text \<open>The service was switched and then seen in the new state.\<close>

definition switched :: "bool \<Rightarrow> (client_env, client_ev) stage" where
  "switched on = confirmed DefaultDeadline (SetMullvadDaemonServiceState on) (\<lambda>state. if on then state = Running else state = NotRunning)"

lemma yields_switch: "yields (Client.set_mullvad_daemon_service_state on) (\<lambda>_. switched on)"
  unfolding Client.set_mullvad_daemon_service_state_def switched_def by (rule yields_confirmed)

lemma shown_switch [yields_rules]:
  "yields k (\<lambda>_. R) \<Longrightarrow> yields (seqE (expect msg (runner (Client.set_mullvad_daemon_service_state on))) k)
     (\<lambda>_. next_to (client_stage (switched on)) R)"
  by (rule yields_stage [OF yields_expect [OF yields_runner [OF yields_switch]]])

definition reconnected :: test_stage where
  "reconnected env tr es \<longleftrightarrow> (\<exists>t. es = [Delay 500, Logging (LogRecord LDebug t), Connect (Inr ())])"

lemma shown_new_client [yields_rules]:
  assumes "yields k (\<lambda>_. R)"
  shows "yields (seqE new_client k) (\<lambda>_. next_to reconnected R)"
proof (rule yields_stage [OF _ assms])
  show "yields new_client (\<lambda>_. reconnected)"
    by (auto simp: yields_def new_client_def expect_def log_msg_def prog_defs reconnected_def split: sum.splits)
qed

text \<open>The first device event of the stream carries a key that satisfies \<open>P\<close>.\<close>

fun not_device :: "stream_item \<Rightarrow> bool" where
  "not_device (StreamOk (Some (DeviceEvent d))) = False"
| "not_device (StreamOk (Some e)) = True"
| "not_device _ = False"

definition key_in :: "stream_item list \<Rightarrow> string \<Rightarrow> bool" where
  "key_in items key \<longleftrightarrow> (\<exists>pre state device post. items = pre @ StreamOk (Some (DeviceEvent (Some state))) # post \<and>
     list_all not_device pre \<and> ds_device state = Some (Some device) \<and> key = dev_pubkey device)"

definition key_announced :: "(string \<Rightarrow> bool) \<Rightarrow> test_stage" where
  "key_announced P env tr es \<longleftrightarrow> (\<exists>items key. es = [Listened items] \<and> key_in items key \<and> P key)"

lemma key_in_skip: "not_device i \<Longrightarrow> key_in items key \<Longrightarrow> key_in (i # items) key"
  unfolding key_in_def by (metis append_Cons list.pred_inject(2))

lemma yields_pub_key_event: "yields (get_pub_key_event items) (\<lambda>key _ _ es. es = [] \<and> key_in items key)"
proof (induction items rule: get_pub_key_event.induct)
  case (2 new_state rest)
  show ?case
    by (auto simp: yields_def unwrap_opt_def unwrap_device_def prog_defs key_in_def split: option.splits intro!: exI [of _ "[]"])
qed (auto simp: yields_rules elim!: yields_weaken intro: key_in_skip)

lemma shown_key_event [yields_rules]:
  assumes "yields k (\<lambda>_. R)"
  shows "yields (bindE (bindE (perform me_events Listened) get_pub_key_event) (\<lambda>key. seqE (assertP msg (c key)) k))
     (\<lambda>_. next_to (key_announced c) R)"
proof (rule yields_check [OF _ assms])
  have "yields (perform me_events Listened) (\<lambda>items _ _ es. es = [Listened items])"
    by (simp add: yields_def perform_def)
  then show "yields (bindE (perform me_events Listened) get_pub_key_event)
      (\<lambda>key env tr es. key_announced (\<lambda>key'. key' = key) env tr es)"
    by (rule yields_bind [OF _ yields_pub_key_event]) (auto simp: key_announced_def)
qed (auto simp: key_announced_def)

text \<open>
  Key rotation: with the service stopped, the device file is made old; once it runs again, the first
  device event carries another key than the one the device had before.
\<close>

lemma shown_test_automatic_wireguard_rotation:
  "yields test_automatic_wireguard_rotation (\<lambda>_ env tr es. \<exists>old_device. shown
     [own_device old_device, client_stage (switched False), replied ce_unit DefaultDeadline MakeDeviceJsonOld (),
      client_stage (switched True), reconnected, did EventsListen,
      key_announced (\<lambda>new_key. dev_pubkey old_device \<noteq> new_key)] env tr es)"
  unfolding test_automatic_wireguard_rotation_def Client.make_device_json_old_def shown_simps by (intro yields_rules)

text \<open>The configuration that was in force.\<close>

definition configured :: "test_config \<Rightarrow> test_stage" where
  "configured config env tr es \<longleftrightarrow> es = [] \<and> test_config_cell tr = Some config"

lemma shown_configured [yields_rules]:
  "(\<And>config. yields (f config) (\<lambda>_. R config)) \<Longrightarrow>
   yields (bindE deref_test_config f) (\<lambda>_ env tr es. \<exists>config. next_to (configured config) (R config) env tr es)"
  by (rule yields_use) (auto simp: yields_def deref_test_config_def unwrap_opt_def prog_defs configured_def split: option.splits)

lemma shown_test_ui_login:
  "yields test_ui_login (\<lambda>_ env tr es. \<exists>config. shown
     [configured config, ui_passed [''login.spec''] [(''ACCOUNT_NUMBER'', account_number config)]] env tr es)"
  unfolding test_ui_login_def shown_simps by (intro yields_rules)

lemma shown_test_ui_tunnel_settings:
  "yields (test_ui_tunnel_settings kit) (\<lambda>_ env tr es. \<exists>entry config. shown
     [picked (active_relay (RelayType_Wireguard kit)) entry,
      did (UpdateRelaySettings (only_location (into_constraint entry))), configured config,
      ui_passed [''tunnel-state.spec''] [(''HOSTNAME'', hostname entry), (''IN_IP'', ipv4_addr_in entry),
        (''CONNECTION_CHECK_URL'', ''https://am.i.'' @ tc_mullvad_host config)]] env tr es)"
  unfolding test_ui_tunnel_settings_def shown_simps by (intro yields_rules)

text \<open>A login that was refused for good, and the attempts to use up and to free the devices.\<close>

definition refused :: "(status \<Rightarrow> bool) \<Rightarrow> test_stage" where
  "refused P env tr es \<longleftrightarrow> (\<exists>pre account st. es = pre @ [Daemon (LoginAccount account) (Inl st)] \<and> P st)"

fun account_event :: "mgr_ev \<Rightarrow> bool" where
  "account_event (Api req r) = True"
| "account_event (RandomKey key) = True"
| "account_event (Logging (LogRecord l t)) = True"
| "account_event (Delay n) = True"
| "account_event _ = False"

definition managed_devices :: test_stage where
  "managed_devices env tr es \<longleftrightarrow> list_all account_event es"

lemma only_create_devices: "only account_event (create_devices kit ak n)"
  by (induction n) (auto simp: random_key_def api_call_def deref_test_config_def sleep_secs_def mgr_calls
      intro!: only_rules split: sum.split)

lemma only_retry_loop: "only account_event m \<Longrightarrow> only account_event (retry_loop n m)"
  by (induction n) (auto simp: sleep_secs_def mgr_calls intro!: only_rules split: sum.split)

lemma only_clear_devices: "only account_event (clear_devices kit ak)"
  unfolding clear_devices_def list_devices_with_retries_def retry_if_throttled_def remove_device_def api_call_def
    deref_test_config_def mgr_calls
  by (auto intro!: only_rules only_retry_loop split: sum.split)

lemma shown_create_devices [yields_rules]:
  "yields k (\<lambda>_. R) \<Longrightarrow> yields (seqE (create_devices kit ak n) k) (\<lambda>_. next_to managed_devices R)"
  by (rule yields_stage [OF yields_weaken [OF yields_only [OF only_create_devices]]]) (simp_all add: managed_devices_def)

lemma yields_refused_login:
  "yields (attempt (login_with_retries kit)) (\<lambda>r env tr es. \<forall>st. r = Inl st \<longrightarrow> refused (\<lambda>st'. st' = st) env tr es)"
  unfolding yields_def
proof (intro allI impI)
  fix env tr r tr'
  assume run: "(attempt (login_with_retries kit) :: ('e, status + unit) mgr) env tr = (Ok r, tr')"
  have appends: "\<exists>es. retry_history login_once login_pause env tr k = tr @ es" for k tr
  proof (induction k arbitrary: tr)
    case (Suc k)
    from login_once_appends [of env tr] obtain es where "snd (login_once env tr) = tr @ es" by blast
    with Suc [of "tr @ es @ login_pause"] show ?case by auto
  qed simp
  show "\<exists>es. tr' = tr @ es \<and> (\<forall>st. r = Inl st \<longrightarrow> refused (\<lambda>st'. st' = st) env tr es)"
  proof (cases r)
    case (Inl st)
    with run have "login_loop (tk_patience kit) env tr = (Err st, tr')"
      by (auto simp: attempt_def login_with_retries_def split: prod.splits res.splits)
    from login_retries.returned [OF this] obtain k where
      "login_once env (retry_history login_once login_pause env tr k) = (Err st, tr')" by auto
    moreover obtain es where "retry_history login_once login_pause env tr k = tr @ es" using appends by blast
    ultimately show ?thesis using Inl
      by (auto simp: login_once_def deref_test_config_def unwrap_opt_def grpc_def callE_def prog_defs refused_def
          split: option.splits sum.splits)
  next
    case (Inr u)
    with run have "login_with_retries kit env tr = (Ok (), tr')"
      by (auto simp: attempt_def split: prod.splits res.splits)
    from yields_run [OF yields_login this] Inr show ?thesis by auto
  qed
qed

lemma shown_refused [yields_rules]:
  assumes "yields k (\<lambda>_. R)"
  shows "yields (bindE (attempt (login_with_retries kit)) (\<lambda>r.
       seqE (assertP msg (case r of Inl st \<Rightarrow> c st | Inr _ \<Rightarrow> False)) k)) (\<lambda>_. next_to (refused c) R)"
  by (rule yields_check [OF yields_refused_login assms]) (auto simp: refused_def split: sum.splits)

lemma shown_tidy [yields_rules]:
  "yields (bindE (attempt (clear_devices kit ak)) (\<lambda>r. case r of Inl error \<Rightarrow> log_msg LError (text error) | Inr _ \<Rightarrow> ret ()))
     (\<lambda>_. shown [managed_devices])"
proof -
  have "only account_event (bindE (attempt (clear_devices kit ak))
      (\<lambda>r. case r of Inl error \<Rightarrow> log_msg LError (text error) | Inr _ \<Rightarrow> ret ()))"
    unfolding log_msg_def by (intro only_rules only_clear_devices) simp_all
  from yields_only [OF this] show ?thesis
    by (rule yields_weaken) (use and_thenI [where R = "shown []" and ?e2.0 = "[]"] in
        \<open>fastforce simp: stages_Cons stages_Nil managed_devices_def\<close>)
qed

text \<open>Too many devices: the login is refused because the resource is exhausted, and the UI shows it.\<close>

lemma shown_test_too_many_devices:
  "yields (test_too_many_devices kit ak) (\<lambda>_ env tr es. \<exists>config. shown
     [api_ready, managed_devices, refused (\<lambda>st. st_code st = Code_ResourceExhausted kit), configured config,
      ui_passed [''too-many-devices.spec''] [(''ACCOUNT_NUMBER'', account_number config)], managed_devices] env tr es)"
  unfolding test_too_many_devices_def shown_simps by (intro yields_rules shown_tidy [unfolded shown_simps])

lemma ready_resolve:
  assumes "test_config_cell tr = Some tidy_config"
  shows "resolve_api tidy_world tr = (Ok (''api.mullvad.net'', addr (V4 1 2 3 4) 443),
     tr @ [LookedUp ''api.mullvad.net:443'' (Inr [V4 1 2 3 4])])"
  using assms
  by (simp add: resolve_api_def bindE_def ready_deref expect_def performE_def)
     (simp add: tidy_config_def tidy_world_def prog_defs)

end
