(* ===== verification/Tests_Install.thy ===== *)
theory Tests_Install
  imports Tests_Account
begin

text \<open>
  The tests of \<open>tests/install.rs\<close>: installing the previous version, upgrading it without leaks,
  uninstalling, and installing the version under test.
\<close>

section \<open>Definitions\<close>

text \<open>\<open>Display\<close> of addresses.\<close>

definition show_ip_addr :: "account_kit \<Rightarrow> ip_addr \<Rightarrow> string" where
  "show_ip_addr ak ip = (case ip of V4 a b c d \<Rightarrow> show_ip (a, b, c, d) | V6 segments \<Rightarrow> ak_show_v6 ak segments)"

definition show_socket_addr :: "account_kit \<Rightarrow> socket_addr \<Rightarrow> string" where
  "show_socket_addr ak a =
    (if is_ipv4 (sock_ip a) then show_ip_addr ak (sock_ip a) else ''['' @ show_ip_addr ak (sock_ip a) @ '']'')
      @ '':'' @ show_nat (unat (sock_port a))"

definition get_app_env :: "account_kit \<Rightarrow> ('e, (string \<times> string) list) mgr" where
  "get_app_env ak = bindE resolve_api (\<lambda>(api_host, api_addr).
     ret [(''MULLVAD_API_HOST'', api_host), (''MULLVAD_API_ADDR'', show_socket_addr ak api_addr)])"

definition cert_dest_dir :: "os \<Rightarrow> string" where
  "cert_dest_dir os = (case os of
      Windows \<Rightarrow> ''C:'' @ [CHR 0x5C] @ ''Program Files'' @ [CHR 0x5C] @ ''Mullvad VPN'' @ [CHR 0x5C] @ ''resources''
    | Linux \<Rightarrow> ''/opt/Mullvad VPN/resources''
    | Macos \<Rightarrow> ''/Applications/Mullvad VPN.app/Contents/Resources'')"

definition replace_openvpn_cert :: "(test_error, unit) mgr" where
  "replace_openvpn_cert =
     bindE (expect ''failed to get OS'' (runner Client.get_os)) (\<lambda>os.
     bindE deref_test_config (\<lambda>config.
     map_err Rpc (runner (Client.copy_file (path_join (tc_artifacts_dir config) ''openvpn.ca.crt'')
       (path_join (cert_dest_dir os) ''ca.crt'')))))"

text \<open>The comparison of the service state, with the error that is returned otherwise.\<close>

definition require_status :: "service_status \<Rightarrow> test_error \<Rightarrow> (test_error, unit) mgr" where
  "require_status wanted e = bindE (map_err Rpc (runner Client.mullvad_daemon_get_status)) (\<lambda>st.
     if st \<noteq> wanted then fail e else ret ())"

definition install_package :: "(test_config \<Rightarrow> string) \<Rightarrow> (test_error, unit) mgr" where
  "install_package filename =
     bindE deref_test_config (\<lambda>config.
     bindE (of_result (get_package_desc (tc_artifacts_dir config) (filename config))) (\<lambda>pkg.
     map_err Rpc (runner (Client.install_app pkg))))"

definition override_env :: "account_kit \<Rightarrow> (test_error, unit) mgr" where
  "override_env ak = bindE (get_app_env ak) (\<lambda>env. map_err Rpc (runner (Client.set_daemon_environment env)))"

definition test_install_previous_app :: "account_kit \<Rightarrow> (test_error, unit) mgr" where
  "test_install_previous_app ak =
     seqE (require_status NotRunning DaemonRunning)
    (seqE (log_msg LDebug ''Installing old app'')
    (seqE (install_package previous_app_filename)
    (seqE (require_status Running DaemonNotRunning)
    (seqE replace_openvpn_cert
    (seqE (override_env ak)
     (ret ()))))))"

definition test_install_new_app :: "account_kit \<Rightarrow> (test_error, unit) mgr" where
  "test_install_new_app ak =
     seqE (require_status NotRunning DaemonRunning)
    (seqE (log_msg LDebug ''Installing new app'')
    (seqE (install_package current_app_filename)
    (seqE (require_status Running DaemonNotRunning)
    (seqE (map_err Rpc (runner (Client.set_daemon_log_level Trace)))
    (seqE replace_openvpn_cert
    (seqE (override_env ak)
     (ret ())))))))"

definition test_uninstall_app :: "test_kit \<Rightarrow> account_kit \<Rightarrow> (test_error, unit) mgr" where
  "test_uninstall_app kit ak =
     seqE (require_status Running DaemonNotRunning)
    (bindE deref_test_config (\<lambda>config.
     seqE (expect ''login failed'' (grpc id (LoginAccount (account_number config))))
    (bindE (get_device ''failed to get device data'') (\<lambda>state.
     bindE (unwrap_device state) (\<lambda>uninstalled_device.
     seqE (log_msg LDebug ''Uninstalling app'')
    (bindE (get_app_env ak) (\<lambda>env.
     seqE (map_err Rpc (runner (Client.uninstall_app env)))
    (bindE (expect ''failed to obtain remaining Mullvad files'' (runner Client.find_mullvad_app_traces)) (\<lambda>app_traces.
     seqE (assertP ''found files after uninstall'' (app_traces = []))
    (seqE (require_status NotRunning DaemonRunning)
    (seqE new_device_client
    (bindE (expect ''failed to list devices'' (list_devices_with_retries kit)) (\<lambda>devices.
     seqE (assertP ''device id still exists after uninstall'' (\<not> list_ex (\<lambda>device. dev_id device = dev_id uninstalled_device) devices))
     (ret ()))))))))))))))"

text \<open>
  The wait for the blocking error state: every pass sleeps for a second, so that a pass after the
  forty-first cannot begin within the forty seconds of the time limit.
\<close>

definition not_blocking :: test_error where
  "not_blocking = DaemonError ''Failed to enter blocking error state''"

fun poll_error_state :: "nat \<Rightarrow> (test_error, unit) mgr" where
  "poll_error_state 0 = fail not_blocking"
| "poll_error_state (Suc n) =
     bindE (attempt (callE id me_kind KindPolled)) (\<lambda>r.
     bindE (perform me_elapsed Deadline) (\<lambda>elapsed.
     if elapsed then fail not_blocking
     else bindE (expect ''RPC error'' (of_result r)) (\<lambda>kind.
       if kind = Some KError then ret ()
       else seqE (sleep_secs 1)
           (bindE (perform me_elapsed Deadline) (\<lambda>elapsed.
            if elapsed then fail not_blocking else poll_error_state n)))))"

text \<open>A task that is aborted when its handle is dropped, also by an early return.\<close>

definition aborting :: "spawned \<Rightarrow> ('e, 'a) mgr \<Rightarrow> ('e, 'a) mgr" where
  "aborting task m = (\<lambda>env tr. case m env tr of (r, tr') \<Rightarrow> (r, tr' @ [Aborted task]))"

definition location_preserved :: "settings \<Rightarrow> bool" where
  "location_preserved s \<longleftrightarrow> (case s_relay_settings s of
      Some (NormalRelays normal) \<Rightarrow>
        (case rc_location normal of Only (LocationC location) \<Rightarrow> geo_country location = ''xx'' | _ \<Rightarrow> False)
    | _ \<Rightarrow> False)"

definition test_upgrade_app :: "test_kit \<Rightarrow> account_kit \<Rightarrow> (test_error, unit) mgr" where
  "test_upgrade_app kit ak = (let inet_destination = addr (V4 1 1 1 1) 1337; bind_addr = addr (V4 0 0 0 0) 0;
       pings = KeepSending bind_addr inet_destination in
     seqE (require_status Running DaemonNotRunning)
    (seqE new_device_client
    (seqE (expect ''failed to clear devices'' (clear_devices kit ak))
    (seqE (log_msg LDebug ''Entering blocking error state'')
    (seqE (grpc (daemon_error ''Failed to set relay settings: '') (OldUpdateRelaySettings ''xx'' [] []))
    (seqE (expect ''failed to begin connecting'' (grpc id ConnectTunnel))
    (seqE (poll_error_state (Suc WAIT_FOR_TUNNEL_STATE_TIMEOUT))
    (bindE (expect ''failed to obtain tunnel IP'' (runner (Client.get_interface_ip NonTunnel))) (\<lambda>guest_ip.
     seqE (log_msg LDebug (''Guest IP: '' @ show_ip_addr ak guest_ip))
    (bindE (get_possible_api_endpoints (tk_parse_ipv4 kit) (RelayType_Bridge kit)) (\<lambda>api_endpoints.
     seqE (log_msg LDebug ''Monitoring outgoing traffic'')
    (bindE (bridge_monitor kit (\<lambda>packet. sock_ip (source packet) = guest_ip \<and>
         sock_ip (destination packet) \<notin> set api_endpoints) monitor_default) (\<lambda>monitor.
     seqE (emit (Spawned pings))
    (seqE (aborting pings
       (seqE (log_msg LDebug ''Installing new app'')
       (seqE (install_package current_app_filename)
       (seqE (sleep_secs 3)
        (require_status Running DaemonNotRunning)))))
    (bindE (stop_monitor monitor) (\<lambda>r. bindE (unwrap_sum r) (\<lambda>monitor_result.
     seqE (assertP ''observed unexpected packets'' (packets monitor_result = []))
    (seqE new_client
    (seqE (log_msg LInfo ''Sanity checking settings'')
    (bindE (expect ''failed to obtain settings'' (grpc_get id me_settings GetSettings)) (\<lambda>settings.
     seqE (assertP ''relay location was not preserved after upgrade'' (location_preserved settings))
     (ret ()))))))))))))))))))))))"

section \<open>What the tests show\<close>

text \<open>The service was in the required state.\<close>

abbreviation in_state :: "service_status \<Rightarrow> test_stage" where
  "in_state wanted \<equiv> client_stage (status_seen (\<lambda>s. s = wanted))"

lemma yields_require_status: "yields (require_status wanted e) (\<lambda>_. in_state wanted)"
  unfolding require_status_def
  by (rule yields_bind [OF yields_map_err [OF yields_runner [OF yields_get_status]], where
        Q = "\<lambda>st _ _ _ es. es = [] \<and> st = wanted"]) (auto intro: yields_rules)

lemma shown_require_status [yields_rules]:
  "yields k (\<lambda>_. R) \<Longrightarrow> yields (seqE (require_status wanted e) k) (\<lambda>_. next_to (in_state wanted) R)"
  by (rule yields_stage [OF yields_require_status])

text \<open>The package of the configuration was installed.\<close>

definition installed :: "(test_config \<Rightarrow> string) \<Rightarrow> test_stage" where
  "installed filename env tr es \<longleftrightarrow> (\<exists>config. test_config_cell tr = Some config \<and>
     replied ce_unit (DeadlineIn INSTALL_TIMEOUT) (InstallApp \<lparr>pkg_path = path_join (tc_artifacts_dir config) (filename config)\<rparr>) ()
       env tr es)"

lemma shown_install [yields_rules]:
  assumes "yields k (\<lambda>_. R)"
  shows "yields (seqE (install_package filename) k) (\<lambda>_. next_to (installed filename) R)"
proof (rule yields_stage [OF _ assms])
  have "yields (deref_test_config :: (test_error, _) mgr) (\<lambda>config _ tr es. es = [] \<and> test_config_cell tr = Some config)"
    by (auto simp: yields_def deref_test_config_def unwrap_opt_def prog_defs split: option.splits)
  moreover have "yields (map_err Rpc (runner (Client.install_app pkg)))
      (\<lambda>_. replied ce_unit (DeadlineIn INSTALL_TIMEOUT) (InstallApp pkg) ())" for pkg
    unfolding Client.install_app_def by (rule yields_map_err [OF yields_weaken [OF yields_rpc]]) simp
  ultimately show "yields (install_package filename) (\<lambda>_. installed filename)"
    unfolding install_package_def get_package_desc_def of_result_def sum.case bindE_ret
    by (rule yields_bind) (auto simp: installed_def)
qed

text \<open>The certificate was copied to where the system keeps it.\<close>

definition cert_replaced :: test_stage where
  "cert_replaced env tr es \<longleftrightarrow> (\<exists>os config. shown [replied_plain ce_os DefaultDeadline GetOs os, configured config,
     replied ce_unit DefaultDeadline (CopyFile (path_join (tc_artifacts_dir config) ''openvpn.ca.crt'')
       (path_join (cert_dest_dir os) ''ca.crt'')) ()] env tr es)"

lemma replied_last: "yields (map_err g (runner (rpc answer dl req))) (\<lambda>_. shown [replied answer dl req ()])"
  for answer :: "client_env \<Rightarrow> client_ev list \<Rightarrow> rpc_request \<Rightarrow> string + (error + unit)"
  by (rule yields_weaken [OF yields_map_err [OF yields_rpc]])
     (use and_thenI [where R = "shown []" and ?e2.0 = "[]"] in \<open>fastforce simp: stages_Cons stages_Nil\<close>)

lemma shown_replace_cert [yields_rules]:
  assumes "yields k (\<lambda>_. R)"
  shows "yields (seqE replace_openvpn_cert k) (\<lambda>_. next_to cert_replaced R)"
proof (rule yields_stage [OF _ assms])
  show "yields replace_openvpn_cert (\<lambda>_. cert_replaced)"
    unfolding replace_openvpn_cert_def cert_replaced_def Client.get_os_def Client.copy_file_def shown_simps
    by (intro shown_rpc_plain shown_configured replied_last [unfolded shown_simps])
qed

text \<open>The address of the API was resolved and set in the environment of the service, which then ran.\<close>

definition api_env :: "account_kit \<Rightarrow> (string \<times> string) list \<Rightarrow> test_stage" where
  "api_env ak vars env tr es \<longleftrightarrow> (\<exists>config ip rest. test_config_cell tr = Some config \<and>
     es = [LookedUp (''api.'' @ tc_mullvad_host config @ '':443'') (Inr (ip # rest))] \<and>
     vars = [(''MULLVAD_API_HOST'', ''api.'' @ tc_mullvad_host config),
       (''MULLVAD_API_ADDR'', show_socket_addr ak (addr ip 443))])"

lemma yields_get_app_env: "yields (get_app_env ak) (api_env ak)"
  by (auto simp: yields_def get_app_env_def resolve_api_def deref_test_config_def unwrap_opt_def expect_def prog_defs api_env_def
      split: option.splits sum.splits list.splits)

definition env_overridden :: "account_kit \<Rightarrow> test_stage" where
  "env_overridden ak env tr es \<longleftrightarrow> (\<exists>vars. next_to (api_env ak vars)
     (client_stage (confirmed (DeadlineIn LOG_LEVEL_TIMEOUT) (SetDaemonEnvironment vars) (\<lambda>state. state = Running))) env tr es)"

lemma shown_override_env [yields_rules]:
  assumes "yields k (\<lambda>_. R)"
  shows "yields (seqE (override_env ak) k) (\<lambda>_. next_to (env_overridden ak) R)"
proof (rule yields_stage [OF _ assms])
  show "yields (override_env ak) (\<lambda>_. env_overridden ak)"
    unfolding override_env_def env_overridden_def Client.set_daemon_environment_def
    by (intro yields_use [OF yields_get_app_env] yields_map_err yields_runner yields_confirmed)
qed

lemma shown_log_level [yields_rules]:
  "yields k (\<lambda>_. R) \<Longrightarrow> yields (seqE (map_err g (runner (Client.set_daemon_log_level v))) k)
     (\<lambda>_. next_to (client_stage (confirmed (DeadlineIn LOG_LEVEL_TIMEOUT) (SetDaemonLogLevel v) (\<lambda>state. state = Running))) R)"
  unfolding Client.set_daemon_log_level_def
  by (intro yields_stage yields_map_err yields_runner yields_confirmed)

text \<open>A clean installation: no service before, a running one after, with the settings of the tests.\<close>

lemma shown_test_install_previous_app:
  "yields (test_install_previous_app ak) (\<lambda>_. shown [in_state NotRunning, installed previous_app_filename, in_state Running,
     cert_replaced, env_overridden ak])"
  unfolding test_install_previous_app_def shown_simps by (intro yields_rules)

lemma shown_test_install_new_app:
  "yields (test_install_new_app ak) (\<lambda>_. shown [in_state NotRunning, installed current_app_filename, in_state Running,
     client_stage (confirmed (DeadlineIn LOG_LEVEL_TIMEOUT) (SetDaemonLogLevel Trace) (\<lambda>state. state = Running)),
     cert_replaced, env_overridden ak])"
  unfolding test_install_new_app_def shown_simps by (intro yields_rules)

text \<open>
  Uninstalling: no traces of the app and no service are left, and the device that was logged in is not
  among the devices of the account.
\<close>

definition gone :: "device \<Rightarrow> test_stage" where
  "gone device env tr es \<longleftrightarrow> (\<exists>devices. listed devices env tr es \<and> dev_id device \<notin> dev_id ` set devices)"

lemma shown_gone [yields_rules]:
  assumes "yields k (\<lambda>_. R)"
  shows "yields (bindE (expect msg (list_devices_with_retries kit)) (\<lambda>devices.
      seqE (assertP msg' (\<not> list_ex (\<lambda>d. dev_id d = dev_id device) devices)) k)) (\<lambda>_. next_to (gone device) R)"
  by (rule yields_check [OF yields_expect [OF yields_list_devices] assms]) (force simp: gone_def list_ex_iff)

lemma shown_app_env [yields_rules]:
  "(\<And>vars. yields (f vars) (\<lambda>_. R vars)) \<Longrightarrow>
   yields (bindE (get_app_env ak) f) (\<lambda>_ env tr es. \<exists>vars. next_to (api_env ak vars) (R vars) env tr es)"
  by (rule yields_use [OF yields_get_app_env])

lemma shown_empty_answer [yields_rules]:
  "yields k (\<lambda>_. R) \<Longrightarrow> yields (bindE (expect msg (runner (rpc answer dl req))) (\<lambda>xs. seqE (assertP msg' (xs = [])) k))
     (\<lambda>_. next_to (replied answer dl req []) R)"
  by (rule yields_check [OF yields_expect [OF yields_rpc]]) auto

lemma shown_test_uninstall_app:
  "yields (test_uninstall_app kit ak) (\<lambda>_ env tr es. \<exists>config device vars. shown
     [in_state Running, configured config, did (LoginAccount (account_number config)), own_device device,
      api_env ak vars, replied ce_unit (DeadlineIn INSTALL_TIMEOUT) (UninstallApp vars) (),
      replied ce_traces DefaultDeadline FindMullvadAppTraces [], in_state NotRunning, api_ready, gone device] env tr es)"
  unfolding test_uninstall_app_def Client.uninstall_app_def Client.find_mullvad_app_traces_def shown_simps
  by (intro shown_empty_answer yields_rules)

text \<open>Upgrading.  The blocking error state was polled at last.\<close>

definition blocking :: test_stage where
  "blocking env tr es \<longleftrightarrow> (\<exists>pre. es = pre @ [KindPolled (Inr (Some KError)), Deadline False])"

lemma yields_poll_error_state: "yields (poll_error_state n) (\<lambda>_. blocking)"
proof (induction n)
  case (Suc n)
  show ?case
    unfolding yields_def
  proof (intro allI impI)
    fix env tr u tr'
    assume "poll_error_state (Suc n) env tr = (Ok u, tr')"
    then consider "tr' = tr @ [KindPolled (Inr (Some KError)), Deadline False]"
      | es where "poll_error_state n env (tr @ es) = (Ok u, tr')"
      by (auto simp: attempt_def callE_def expect_def of_result_def sleep_secs_def prog_defs split: sum.splits if_splits)
    then show "\<exists>es. tr' = tr @ es \<and> blocking env tr es"
    proof cases
      case 1
      then show ?thesis by (auto simp: blocking_def)
    next
      case (2 es)
      from yields_run [OF Suc this] obtain es' where "tr' = tr @ es @ es'" "blocking env (tr @ es) es'" by auto
      then show ?thesis by (auto simp: blocking_def)
    qed
  qed
qed (simp add: yields_rules)

lemma shown_poll_error [yields_rules]:
  "yields k (\<lambda>_. R) \<Longrightarrow> yields (seqE (poll_error_state n) k) (\<lambda>_. next_to blocking R)"
  by (rule yields_stage [OF yields_poll_error_state])

lemma shown_plain_grpc [yields_rules]:
  "yields k (\<lambda>_. R) \<Longrightarrow> yields (seqE (grpc wrap req) k) (\<lambda>_. next_to (did req) R)"
  by (rule yields_stage [OF yields_grpc])

text \<open>
  The addresses that may be contacted: the first address of each of three names of the API, as they were
  resolved, a fixed one, and the active bridges of the relay list.
\<close>

definition allowed :: "test_kit \<Rightarrow> ip_addr list \<Rightarrow> test_stage" where
  "allowed kit ips env tr es \<longleftrightarrow> (\<exists>dev devs stage stages prod prods relays bs.
     let looked_up = [LookedUp ''api.devmole.eu:0'' (Inr (dev # devs)), LookedUp ''api.stagemole.eu:0'' (Inr (stage # stages)),
           LookedUp ''api.mullvad.net:0'' (Inr (prod # prods))]
     in es = looked_up @ [Daemon GetRelayLocations (Inr ())] \<and> me_relays env (tr @ looked_up) = Inr relays \<and>
       parse_addrs (tk_parse_ipv4 kit) (bridges (RelayType_Bridge kit) relays) = Some bs \<and>
       ips = [dev, stage, prod, V4 45 83 223 196] @ bs)"

lemma lookup_first_Ok:
  assumes "lookup_first host env tr = (Ok ip, tr')"
  obtains ips where "tr' = tr @ [LookedUp (host @ '':0'') (Inr (ip # ips))]"
  using assms by (auto simp: lookup_first_def expect_def prog_defs split: sum.splits list.splits)

lemma yields_allowed: "yields (get_possible_api_endpoints (tk_parse_ipv4 kit) (RelayType_Bridge kit)) (allowed kit)"
  unfolding yields_def
proof (intro allI impI)
  fix ips env tr tr'
  assume "get_possible_api_endpoints (tk_parse_ipv4 kit) (RelayType_Bridge kit) env tr = (Ok ips, tr')"
  then show "\<exists>es. tr' = tr @ es \<and> allowed kit ips env tr es"
    unfolding get_possible_api_endpoints_def
    by (elim bindE_OkE lookup_first_Ok)
      (fastforce simp: allowed_def Let_def grpc_get_def callE_def prog_defs split: sum.splits option.splits)
qed

lemma shown_allowed [yields_rules]:
  "(\<And>ips. yields (f ips) (\<lambda>_. R ips)) \<Longrightarrow>
   yields (bindE (get_possible_api_endpoints (tk_parse_ipv4 kit) (RelayType_Bridge kit)) f)
     (\<lambda>_ env tr es. \<exists>ips. next_to (allowed kit ips) (R ips) env tr es)"
  by (rule yields_use [OF yields_allowed])

text \<open>The new version was installed while the guest kept sending to the internet.\<close>

definition upgraded :: "spawned \<Rightarrow> test_stage" where
  "upgraded pings env tr es \<longleftrightarrow> (\<exists>mid. es = mid @ [Aborted pings] \<and>
     shown [installed current_app_filename, slept 3, in_state Running] env tr mid)"

lemma yields_last_status: "yields (require_status wanted e) (\<lambda>_. shown [in_state wanted])"
  by (rule yields_weaken [OF yields_require_status])
     (use and_thenI [where R = "shown []" and ?e2.0 = "[]"] in \<open>fastforce simp: stages_Cons stages_Nil\<close>)

lemma shown_upgrade [yields_rules]:
  assumes "yields k (\<lambda>_. R)"
  shows "yields (seqE (aborting pings
       (seqE (log_msg LDebug t) (seqE (install_package current_app_filename) (seqE (sleep_secs 3)
        (require_status Running DaemonNotRunning))))) k) (\<lambda>_. next_to (upgraded pings) R)"
proof (rule yields_stage [OF _ assms])
  let ?m = "seqE (log_msg LDebug t) (seqE (install_package current_app_filename) (seqE (sleep_secs 3)
        (require_status Running DaemonNotRunning)))"
  have "yields ?m (\<lambda>_. shown [installed current_app_filename, slept 3, in_state Running])"
    unfolding shown_simps by (intro yields_rules yields_last_status [unfolded shown_simps])
  then show "yields (aborting pings ?m) (\<lambda>_. upgraded pings)"
    unfolding yields_def aborting_def upgraded_def by (fastforce split: prod.splits)
qed

definition spawning :: "spawned \<Rightarrow> test_stage" where
  "spawning t env tr es \<longleftrightarrow> es = [Spawned t]"

lemma shown_spawn [yields_rules]:
  "yields k (\<lambda>_. R) \<Longrightarrow> yields (seqE (emit (Spawned t)) k) (\<lambda>_. next_to (spawning t) R)"
  by (rule yields_stage) (auto simp: yields_def emit_def spawning_def)

text \<open>The settings that the new daemon reported still had normal relay settings with a location in the country.\<close>

definition location_kept :: test_stage where
  "location_kept env tr es \<longleftrightarrow> es = [Daemon GetSettings (Inr ())] \<and> (\<exists>s normal location.
     me_settings env tr = Inr s \<and> s_relay_settings s = Some (NormalRelays normal) \<and>
     rc_location normal = Only (LocationC location) \<and> geo_country location = ''xx'')"

lemma shown_location_kept [yields_rules]:
  "yields k (\<lambda>_. R) \<Longrightarrow> yields (bindE (expect msg (grpc_get id me_settings GetSettings)) (\<lambda>s.
      seqE (assertP msg' (location_preserved s)) k)) (\<lambda>_. next_to location_kept R)"
  by (rule yields_check [where P = "\<lambda>s env tr es. es = [Daemon GetSettings (Inr ())] \<and> me_settings env tr = Inr s"])
     (auto simp: yields_def grpc_get_def callE_def expect_def prog_defs location_kept_def location_preserved_def
        split: sum.splits option.splits relay_settings.splits constraint.splits location_constraint.splits)

lemma shown_test_upgrade_app:
  "yields (test_upgrade_app kit ak) (\<lambda>_ env tr es. \<exists>guest_ip ips bridge.
     let pings = KeepSending (addr (V4 0 0 0 0) 0) (addr (V4 1 1 1 1) 1337) in shown
     [in_state Running, api_ready, cleared, did (OldUpdateRelaySettings ''xx'' [] []), did ConnectTunnel, blocking,
      replied ce_ip DefaultDeadline (GetInterfaceIp NonTunnel) guest_ip, allowed kit ips, monitoring bridge monitor_default,
      spawning pings, upgraded pings,
      saw kit bridge monitor_default (list_all (\<lambda>packet. \<not> (sock_ip (source packet) = guest_ip \<and>
         sock_ip (destination packet) \<notin> set ips))),
      reconnected, location_kept] env tr es)"
  unfolding test_upgrade_app_def Let_def Client.get_interface_ip_def shown_simps by (intro yields_rules)

section \<open>A passing upgrade\<close>

definition demo_account :: account_kit where
  "demo_account = \<lparr>ak_display = \<lambda>_. [], ak_debug = \<lambda>_. [], MAX_DEVICES_REACHED = ''MAX_DEVICES_REACHED'',
     ak_show_v6 = \<lambda>_. []\<rparr>"

definition old_app_installed :: "mgr_ev list" where
  "old_app_installed = [InitTestConfig tidy_config,
     Runner (Call (DeadlineIn INSTALL_TIMEOUT) (InstallApp \<lparr>pkg_path = ''/opt/testing/old.deb''\<rparr>))]"

lemma ready_default_monitor:
  assumes "test_config_cell tr = Some tidy_config"
  shows "bridge_monitor tidy_kit f monitor_default tidy_world tr =
     (Ok (''br-mullvadtest'', \<lambda>evs. monitor_loop (decode_packet layout_parsers False False) f (\<lambda>_ _. (True, ())) ()
        \<lparr>packets = [], discarded_packets = 0\<rparr> (filter (can_time_out monitor_default) evs)),
      tr @ [MonitorStarted ''br-mullvadtest'' monitor_default])"
  using assms
  by (simp add: bridge_monitor_def deref_test_config_def unwrap_opt_def start_monitor_def tidy_answers
      demo_capture_def start_packet_monitor_def start_packet_monitor_until_def start_packet_monitor_for_interface_def
      tidy_kit_def patient_kit_def tidy_config_def monitor_default_def prog_defs)

lemma ready_default_stop:
  assumes "\<not> lan_shared (rev tr)"
  shows "stop_monitor (i, \<lambda>evs. monitor_loop (decode_packet layout_parsers False False) f (\<lambda>_ _. (True, ())) ()
        \<lparr>packets = [], discarded_packets = 0\<rparr> (filter (can_time_out monitor_default) evs)) tidy_world tr =
     (Ok (Inr \<lparr>packets = [], discarded_packets = 0\<rparr>), tr @ [MonitorSaw i []])"
  using assms
  by (simp add: stop_monitor_def monitor_outcome_def into_result_def monitor_wait_def tidy_answers prog_defs can_time_out_def)

lemma ready_status:
  "require_status wanted e tidy_world tr = (if (wanted = Running) = list_ex is_install (requests tr) \<and> wanted \<in> {Running, NotRunning}
     then (Ok (), tr @ [Runner (Call DefaultDeadline MullvadDaemonGetStatus)])
     else (Err e, tr @ [Runner (Call DefaultDeadline MullvadDaemonGetStatus)]))"
  by (cases wanted) (auto simp: require_status_def ready_runner tidy_client_calls map_err_def bindE_def ret_def fail_def)

lemma ready_package:
  assumes "test_config_cell tr = Some tidy_config"
  shows "install_package f tidy_world tr = (Ok (), tr @ [Runner (Call (DeadlineIn INSTALL_TIMEOUT)
     (InstallApp \<lparr>pkg_path = path_join (tc_artifacts_dir tidy_config) (f tidy_config)\<rparr>))])"
  using assms
  by (simp add: install_package_def bindE_def ready_deref of_result_def get_package_desc_def ret_def map_err_def ready_runner
      Client.install_app_def tidy_client_calls)

lemma ready_device_client:
  assumes "test_config_cell tr = Some tidy_config"
  shows "new_device_client tidy_world tr = (Ok (),
     tr @ [LookedUp ''api.mullvad.net:443'' (Inr [V4 1 2 3 4]), Setup ''api runtime'' (Inr ())])"
  using assms
  by (simp add: new_device_client_def seqE_def bindE_def ready_resolve expect_def performE_def ready_answers ret_def prog_defs)

lemma ready_clear:
  assumes "test_config_cell tr = Some tidy_config"
  shows "expect m (clear_devices tidy_kit ak) tidy_world tr = (Ok (),
     tr @ [Logging (LogRecord LInfo ''Removing all devices for account''), Api (ListDevices ''1234'') (Inr ())])"
proof -
  have "test_config_cell (tr @ es) = Some tidy_config" for es using assms by simp
  then show ?thesis
    by (simp add: clear_devices_def list_devices_with_retries_def retry_if_throttled_def tidy_kit_def patient_kit_def
        api_call_def performE_def expect_def log_msg_def ready_deref ready_answers prog_defs)
       (simp add: tidy_config_def)
qed

lemma ready_old_daemon:
  "me_kind tidy_world tr = Inr (Some KError)" "me_elapsed tidy_world tr = False" "me_lookup tidy_world tr host = Inr [V4 1 2 3 4]"
  "me_relays tidy_world tr = Inr \<lparr>countries = []\<rparr>" "me_settings tidy_world tr = Inr demo_settings"
  by (simp_all add: tidy_world_def demo_mgr_env_def)

lemma ready_blocking:
  "poll_error_state (Suc n) tidy_world tr = (Ok (), tr @ [KindPolled (Inr (Some KError)), Deadline False])"
  by (simp add: callE_def of_result_def expect_def ready_old_daemon prog_defs)

lemma ready_endpoints:
  "get_possible_api_endpoints parse b tidy_world tr = (Ok [V4 1 2 3 4, V4 1 2 3 4, V4 1 2 3 4, V4 45 83 223 196],
     tr @ map (\<lambda>host. LookedUp host (Inr [V4 1 2 3 4])) [''api.devmole.eu:0'', ''api.stagemole.eu:0'', ''api.mullvad.net:0'']
       @ [Daemon GetRelayLocations (Inr ())])"
  by (simp add: get_possible_api_endpoints_def lookup_first_def grpc_get_def callE_def performE_def expect_def bridges_def ready_old_daemon
      prog_defs)

lemma ready_ip:
  "expect m (runner (Client.get_interface_ip NonTunnel)) tidy_world tr =
     (Ok (V4 192 168 1 2), tr @ [Runner (Call DefaultDeadline (GetInterfaceIp NonTunnel))])"
  by (simp add: Client.get_interface_ip_def rpc_def runner_def embed_def expect_def tidy_answers tidy_client_def prog_defs)

lemma ready_new_client:
  "new_client tidy_world tr = (Ok (), tr @ [Delay 500, Logging (LogRecord LDebug ''Mullvad daemon: connecting''), Connect (Inr ())])"
  by (simp add: new_client_def log_msg_def expect_def performE_def ready_answers prog_defs)

lemma ready_settings:
  "expect m (grpc_get id me_settings GetSettings) tidy_world tr = (Ok demo_settings, tr @ [Daemon GetSettings (Inr ())])"
  by (simp add: grpc_get_def callE_def expect_def ready_old_daemon prog_defs)

lemma demo_location: "location_preserved demo_settings"
  by (simp add: location_preserved_def demo_settings_def)

lemma ready_request: "grpc w req tidy_world tr = (Ok (), tr @ [Daemon req (Inr ())])"
  by (simp add: grpc_def tidy_answers prog_defs)

lemmas ready_upgrade = ready_status ready_device_client ready_clear ready_request tidy_grpc ready_blocking ready_ip ready_endpoints
  ready_default_monitor ready_package ready_default_stop ready_new_client ready_settings

lemma tidy_upgrade:
  "\<exists>es. test_upgrade_app tidy_kit demo_account tidy_world old_app_installed = (Ok (), old_app_installed @ es)"
proof -
  have cell: "test_config_cell (old_app_installed @ es) = Some tidy_config" for es
    by (simp add: old_app_installed_def)
  have present: "list_ex is_install (requests (old_app_installed @ es))" for es
    by (simp add: old_app_installed_def map_filter_simps)
  have unshared: "\<not> lan_shared (rev old_app_installed)" by (simp add: old_app_installed_def)
  note start = cell [of "[]", unfolded append_Nil2] present [of "[]", unfolded append_Nil2] unshared
  show ?thesis
    by (simp add: test_upgrade_app_def Let_def ready_upgrade start cell present seqE_def bindE_def emit_def log_msg_def
        aborting_def sleep_secs_def assertP_def unwrap_sum_def demo_location ret_def del: poll_error_state.simps)
qed

text \<open>
  C8. Upgrading: when the test returns \<open>Ok\<close>, then in this order and with nothing but log records in between:
  the service was running; the devices of the account were removed; the old daemon was given a location
  without relays and was told to connect, and a state poll showed the error state; while the guest kept
  sending TCP, UDP and ICMP packets to a public address, the new package was installed, and after three
  seconds the service was running; among everything that the monitor on the bridge saw in that time, no
  packet came from the guest and went to an address other than those to which the three names of the API
  were resolved, a fixed one of the API, and the active bridges; and a new client got settings that still
  had the location, of all that was set before.
\<close>

theorem upgrade_does_not_leak:
  assumes "test_upgrade_app kit ak env tr = (Ok (), tr')"
  shows "\<exists>es. tr' = tr @ es \<and> (\<exists>guest_ip ips bridge. let pings = KeepSending (addr (V4 0 0 0 0) 0) (addr (V4 1 1 1 1) 1337) in
     shown [in_state Running, api_ready, cleared, did (OldUpdateRelaySettings ''xx'' [] []), did ConnectTunnel, blocking,
       replied ce_ip DefaultDeadline (GetInterfaceIp NonTunnel) guest_ip, allowed kit ips, monitoring bridge monitor_default,
       spawning pings, upgraded pings,
       saw kit bridge monitor_default (list_all (\<lambda>packet.
         sock_ip (source packet) = guest_ip \<longrightarrow> sock_ip (destination packet) \<in> set ips)),
       reconnected, location_kept] env tr es)"
proof -
  have leak: "(\<lambda>p. \<not> (sock_ip (source p) = g \<and> sock_ip (destination p) \<notin> A)) =
      (\<lambda>p. sock_ip (source p) = g \<longrightarrow> sock_ip (destination p) \<in> A)" for g A by auto
  from yields_run [OF shown_test_upgrade_app assms] show ?thesis unfolding leak .
qed

theorem upgrade_does_not_leak_witness:
  "\<exists>es. snd (test_upgrade_app tidy_kit demo_account tidy_world old_app_installed) = old_app_installed @ es \<and>
     (\<exists>guest_ip ips bridge. let pings = KeepSending (addr (V4 0 0 0 0) 0) (addr (V4 1 1 1 1) 1337) in
     shown [in_state Running, api_ready, cleared, did (OldUpdateRelaySettings ''xx'' [] []), did ConnectTunnel, blocking,
       replied ce_ip DefaultDeadline (GetInterfaceIp NonTunnel) guest_ip, allowed tidy_kit ips, monitoring bridge monitor_default,
       spawning pings, upgraded pings,
       saw tidy_kit bridge monitor_default (list_all (\<lambda>packet.
         sock_ip (source packet) = guest_ip \<longrightarrow> sock_ip (destination packet) \<in> set ips)),
       reconnected, location_kept] tidy_world old_app_installed es)"
proof -
  obtain tr' where run: "test_upgrade_app tidy_kit demo_account tidy_world old_app_installed = (Ok (), tr')"
    using tidy_upgrade by auto
  from upgrade_does_not_leak [OF run] show ?thesis unfolding run snd_conv .
qed

end
