(* ===== verification/Tests_Dns.thy ===== *)
theory Tests_Dns
  imports Tests_Install
begin

unbundle bit_operations_syntax

text \<open>
  The tests of \<open>tests/dns.rs\<close>: leaks of DNS queries with the default and with custom resolvers, which
  resolver the system uses, and the resolvers of the content blockers.
\<close>

section \<open>Counting DNS packets\<close>

record dns_packets_found =
  tcp_count :: "64 word"
  udp_count :: "64 word"
  min_tcp_count :: "64 word"
  min_udp_count :: "64 word"

definition dns_packets_found_new :: "64 word \<Rightarrow> 64 word \<Rightarrow> dns_packets_found" where
  "dns_packets_found_new min_udp min_tcp =
     \<lparr>tcp_count = 0, udp_count = 0, min_tcp_count = min_tcp, min_udp_count = min_udp\<rparr>"

definition below_minimum :: "dns_packets_found \<Rightarrow> bool" where
  "below_minimum self \<longleftrightarrow> udp_count self < min_udp_count self \<or> tcp_count self < min_tcp_count self"

definition handle_packet :: "dns_packets_found \<Rightarrow> parsed_packet \<Rightarrow> bool \<times> dns_packets_found" where
  "handle_packet self pkt =
    (if sock_port (destination pkt) \<noteq> 53 \<and> sock_port (source pkt) \<noteq> 53 then (True, self)
     else if protocol pkt = Udp then
       (let self' = self\<lparr>udp_count := udp_count self + 1\<rparr> in (below_minimum self', self'))
     else if protocol pkt = Tcp then
       (let self' = self\<lparr>tcp_count := tcp_count self + 1\<rparr> in (below_minimum self', self'))
     else (True, self))"

section \<open>Monitors\<close>

definition MONITOR_TIMEOUT :: nat where "MONITOR_TIMEOUT = 5000"

definition dns_packet :: "parsed_packet \<Rightarrow> bool" where
  "dns_packet packet \<longleftrightarrow> sock_port (destination packet) = 53"

text \<open>The two sets of options; the second monitor is stopped explicitly.\<close>

definition awaited_options :: monitor_options where
  "awaited_options = monitor_default\<lparr>mo_direction := Some ''In'', mo_timeout := Some MONITOR_TIMEOUT\<rparr>"

definition stopped_options :: monitor_options where
  "stopped_options = monitor_default\<lparr>mo_direction := Some ''In''\<rparr>"

definition tunnel_monitor_until ::
  "test_kit \<Rightarrow> (parsed_packet \<Rightarrow> bool) \<Rightarrow> ('s \<Rightarrow> parsed_packet \<Rightarrow> bool \<times> 's) \<Rightarrow> 's \<Rightarrow> monitor_options \<Rightarrow>
     ('e, string \<times> packet_monitor) mgr" where
  "tunnel_monitor_until kit filter_fn k s opts =
     start_monitor (pn_tun_interface (platform kit)) opts (\<lambda>cap.
       start_tunnel_packet_monitor_until cap (tk_parsers kit) (tk_macos kit) (pn_tun_interface (platform kit)) filter_fn k s opts)"

definition bridge_monitor_until ::
  "test_kit \<Rightarrow> (parsed_packet \<Rightarrow> bool) \<Rightarrow> ('s \<Rightarrow> parsed_packet \<Rightarrow> bool \<times> 's) \<Rightarrow> 's \<Rightarrow> monitor_options \<Rightarrow>
     ('e, string \<times> packet_monitor) mgr" where
  "bridge_monitor_until kit filter_fn k s opts = bindE deref_test_config (\<lambda>config.
     start_monitor (host_bridge_name config) opts (\<lambda>cap.
       start_packet_monitor_until cap (tk_parsers kit) (tk_macos kit) (host_bridge_name config) filter_fn k s opts))"

section \<open>Leaks\<close>

text \<open>The WireGuard relay on the host.\<close>

definition local_wg_relay :: "account_kit \<Rightarrow> test_kit \<Rightarrow> relay_settings_update" where
  "local_wg_relay ak kit = (let net = platform kit;
       peer_addr = addr (pn_tun_remote_real_addr net) (pn_tun_remote_real_port net) in
     CustomEndpoint (show_ip_addr ak (sock_ip peer_addr))
       \<lparr>wg_private_key = pn_tun_local_privkey net, wg_addresses = [pn_tun_local_addr net],
        wg_public_key = pn_tun_remote_pubkey net, wg_allowed_ips = [''0.0.0.0/0''], wg_endpoint = peer_addr,
        wg_ipv4_gateway = pn_tun_gateway net\<rparr>)"

definition connect_local_wg_relay :: "account_kit \<Rightarrow> test_kit \<Rightarrow> (test_error, unit) mgr" where
  "connect_local_wg_relay ak kit =
     seqE (expect ''failed to update relay settings'' (update_relay_settings (local_wg_relay ak kit)))
    (seqE connect_and_wait
     (ret ()))"

text \<open>Two tasks, one for each protocol, that are left to themselves.\<close>

definition spoof_packets :: "interface option \<Rightarrow> socket_addr \<Rightarrow> socket_addr \<Rightarrow> ('e, unit) mgr" where
  "spoof_packets iface bind_addr dest = emit (Spawned (SpoofPackets iface bind_addr dest))"

text \<open>The addresses of the guest outside and inside the tunnel, which are logged.\<close>

definition guest_addresses :: "account_kit \<Rightarrow> (ip_addr \<Rightarrow> ip_addr \<Rightarrow> ('e, 'a) mgr) \<Rightarrow> ('e, 'a) mgr" where
  "guest_addresses ak k =
     bindE (expect ''failed to obtain guest IP'' (runner (Client.get_interface_ip NonTunnel))) (\<lambda>guest_ip.
     bindE (expect ''failed to obtain tunnel IP'' (runner (Client.get_interface_ip Tunnel))) (\<lambda>tunnel_ip.
     seqE (log_msg LDebug (''Tunnel (guest) IP: '' @ show_ip_addr ak tunnel_ip))
    (seqE (log_msg LDebug (''Non-tunnel (guest) IP: '' @ show_ip_addr ak guest_ip))
     (k guest_ip tunnel_ip))))"

definition spoofed :: "ip_addr \<Rightarrow> ip_addr \<Rightarrow> socket_addr \<Rightarrow> (interface option \<times> socket_addr \<times> socket_addr) list" where
  "spoofed guest_ip tunnel_ip whitelisted =
     concat (map (\<lambda>dest. [(Some Tunnel, addr tunnel_ip 0, dest), (Some NonTunnel, addr guest_ip 0, dest)])
       [whitelisted, addr (V4 10 64 100 100) 53, addr (V4 1 1 1 1) 53])"

text \<open>What the awaited monitor must have seen.\<close>

definition expect_queries :: "socket_addr \<Rightarrow> monitor_result \<Rightarrow> ('e, unit) mgr" where
  "expect_queries whitelisted result =
     seqE (assertP ''expected at least 2 packets to allowed destination only'' (2 \<le> length (packets result)))
     (for_each (\<lambda>pkt. assertP ''unexpected packet on port 53'' (destination pkt = whitelisted)) (packets result))"

text \<open>The two branches: the queries are expected inside, or outside of the tunnel.\<close>

definition leak_test_in_tunnel :: "test_kit \<Rightarrow> socket_addr \<Rightarrow> ip_addr \<Rightarrow> ip_addr \<Rightarrow> (test_error, unit) mgr" where
  "leak_test_in_tunnel kit whitelisted guest_ip tunnel_ip =
     bindE (tunnel_monitor_until kit dns_packet handle_packet (dns_packets_found_new 1 1) awaited_options) (\<lambda>tunnel_monitor.
     bindE (bridge_monitor_until kit dns_packet (\<lambda>s _. (False, s)) () stopped_options) (\<lambda>non_tunnel_monitor.
     seqE (for_each (\<lambda>(i, b, d). spoof_packets i b d) (spoofed guest_ip tunnel_ip whitelisted))
    (bindE (wait_monitor tunnel_monitor) (\<lambda>r. bindE (unwrap_sum r) (\<lambda>tunnel_result.
     seqE (expect_queries whitelisted tunnel_result)
    (bindE (stop_monitor non_tunnel_monitor) (\<lambda>r. bindE (unwrap_sum r) (\<lambda>non_tunnel_result.
     seqE (assertP ''expected no non-tunnel packets on port 53'' (packets non_tunnel_result = []))
     (ret ())))))))))"

definition leak_test_outside :: "test_kit \<Rightarrow> socket_addr \<Rightarrow> ip_addr \<Rightarrow> ip_addr \<Rightarrow> (test_error, unit) mgr" where
  "leak_test_outside kit whitelisted guest_ip tunnel_ip =
     bindE (tunnel_monitor_until kit dns_packet (\<lambda>s _. (False, s)) () stopped_options) (\<lambda>tunnel_monitor.
     bindE (bridge_monitor_until kit dns_packet handle_packet (dns_packets_found_new 1 1) awaited_options) (\<lambda>non_tunnel_monitor.
     seqE (for_each (\<lambda>(i, b, d). spoof_packets i b d) (spoofed guest_ip tunnel_ip whitelisted))
    (bindE (wait_monitor non_tunnel_monitor) (\<lambda>r. bindE (unwrap_sum r) (\<lambda>non_tunnel_result.
     bindE (stop_monitor tunnel_monitor) (\<lambda>r. bindE (unwrap_sum r) (\<lambda>tunnel_result.
     seqE (assertP ''expected no tunnel packets on port 53'' (packets tunnel_result = []))
    (seqE (expect_queries whitelisted non_tunnel_result)
     (ret ())))))))))"

definition leak_test_dns :: "account_kit \<Rightarrow> test_kit \<Rightarrow> interface \<Rightarrow> ip_addr \<Rightarrow> (test_error, unit) mgr" where
  "leak_test_dns ak kit iface whitelisted_dest =
     seqE (expect ''failed to connect to custom wg relay'' (connect_local_wg_relay ak kit))
     (guest_addresses ak (\<lambda>guest_ip tunnel_ip.
       if iface = Tunnel then leak_test_in_tunnel kit (addr whitelisted_dest 53) guest_ip tunnel_ip
       else leak_test_outside kit (addr whitelisted_dest 53) guest_ip tunnel_ip))"

definition test_dns_leak_default :: "account_kit \<Rightarrow> test_kit \<Rightarrow> (test_error, unit) mgr" where
  "test_dns_leak_default ak kit = leak_test_dns ak kit Tunnel (pn_tun_remote_addr (platform kit))"

text \<open>\<open>DefaultDnsOptions::default()\<close>, and the request for a custom resolver.\<close>

definition no_blockers :: default_dns_options where
  "no_blockers = \<lparr>block_ads = False, block_trackers = False, block_malware = False, block_adult_content = False,
     block_gambling = False\<rparr>"

definition custom_resolver :: "account_kit \<Rightarrow> test_kit \<Rightarrow> ip_addr \<Rightarrow> dns_options" where
  "custom_resolver ak kit ip = \<lparr>default_options = Some no_blockers, custom_options = Some [show_ip_addr ak ip],
     dns_state = DnsState_Custom kit\<rparr>"

definition set_custom_resolver :: "account_kit \<Rightarrow> test_kit \<Rightarrow> ip_addr \<Rightarrow> (test_error, unit) mgr \<Rightarrow> (test_error, unit) mgr" where
  "set_custom_resolver ak kit ip k =
     seqE (log_msg LDebug (''Setting custom DNS resolver to '' @ show_ip_addr ak ip))
    (seqE (expect ''failed to configure DNS server'' (grpc id (SetDnsOptions (custom_resolver ak kit ip))))
     k)"

definition test_dns_leak_custom_public_ip :: "account_kit \<Rightarrow> test_kit \<Rightarrow> (test_error, unit) mgr" where
  "test_dns_leak_custom_public_ip ak kit =
     set_custom_resolver ak kit (V4 1 3 3 7) (leak_test_dns ak kit Tunnel (V4 1 3 3 7))"

definition test_dns_leak_custom_private_ip :: "account_kit \<Rightarrow> test_kit \<Rightarrow> (test_error, unit) mgr" where
  "test_dns_leak_custom_private_ip ak kit =
     set_custom_resolver ak kit (V4 10 64 10 1) (leak_test_dns ak kit NonTunnel (V4 10 64 10 1))"

section \<open>The resolver of the system\<close>

text \<open>The spawned task resolves two names that were not used before, with a pause after each.\<close>

definition run_dns_config_test ::
  "account_kit \<Rightarrow> test_kit \<Rightarrow> (test_error, string \<times> packet_monitor) mgr \<Rightarrow> ip_addr \<Rightarrow> (test_error, unit) mgr" where
  "run_dns_config_test ak kit create_monitor expected_dns_resolver =
     bindE (expect ''unwrap'' (callE id me_kind KindPolled)) (\<lambda>kind.
     seqE (only_if (kind \<noteq> Some KConnected)
        (expect ''failed to connect to custom wg relay'' (connect_local_wg_relay ak kit)))
    (guest_addresses ak (\<lambda>guest_ip tunnel_ip.
     bindE create_monitor (\<lambda>monitor.
     seqE (emit (Spawned (ResolveNames 2)))
    (bindE (wait_monitor monitor) (\<lambda>r. bindE (unwrap_sum r) (\<lambda>result.
     seqE (case packets result of
         [] \<Rightarrow> panic ''index out of bounds''
       | pkt # _ \<Rightarrow> assertP ''expected tunnel packet to expected destination'' (destination pkt = addr expected_dns_resolver 53))
    (seqE (emit (Aborted (ResolveNames 2)))
     (ret ())))))))))"

definition run_dns_config_tunnel_test :: "account_kit \<Rightarrow> test_kit \<Rightarrow> ip_addr \<Rightarrow> (test_error, unit) mgr" where
  "run_dns_config_tunnel_test ak kit = run_dns_config_test ak kit
     (tunnel_monitor_until kit dns_packet (\<lambda>s packet. (sock_port (destination packet) \<noteq> 53, s)) () awaited_options)"

definition run_dns_config_non_tunnel_test :: "account_kit \<Rightarrow> test_kit \<Rightarrow> ip_addr \<Rightarrow> (test_error, unit) mgr" where
  "run_dns_config_non_tunnel_test ak kit = run_dns_config_test ak kit
     (bridge_monitor_until kit dns_packet (\<lambda>s packet. (sock_port (destination packet) \<noteq> 53, s)) () awaited_options)"

definition test_dns_config_default :: "account_kit \<Rightarrow> test_kit \<Rightarrow> (test_error, unit) mgr" where
  "test_dns_config_default ak kit = run_dns_config_tunnel_test ak kit (pn_tun_remote_addr (platform kit))"

definition test_dns_config_custom_private :: "account_kit \<Rightarrow> test_kit \<Rightarrow> (test_error, unit) mgr" where
  "test_dns_config_custom_private ak kit = set_custom_resolver ak kit (pn_non_tun_gateway (platform kit))
     (run_dns_config_non_tunnel_test ak kit (pn_non_tun_gateway (platform kit)))"

definition test_dns_config_custom_public :: "account_kit \<Rightarrow> test_kit \<Rightarrow> (test_error, unit) mgr" where
  "test_dns_config_custom_public ak kit = set_custom_resolver ak kit (V4 1 3 3 7)
     (run_dns_config_tunnel_test ak kit (V4 1 3 3 7))"

section \<open>Content blockers\<close>

definition content_blockers :: "(string \<times> byte \<times> default_dns_options) list" where
  "content_blockers =
    [(''adblocking'', push_bit 0 1, no_blockers\<lparr>block_ads := True\<rparr>),
     (''tracker'', push_bit 1 1, no_blockers\<lparr>block_trackers := True\<rparr>),
     (''malware'', push_bit 2 1, no_blockers\<lparr>block_malware := True\<rparr>),
     (''adult'', push_bit 3 1, no_blockers\<lparr>block_adult_content := True\<rparr>),
     (''gambling'', push_bit 4 1, no_blockers\<lparr>block_gambling := True\<rparr>)]"

definition or_options :: "default_dns_options \<Rightarrow> default_dns_options \<Rightarrow> default_dns_options" where
  "or_options a b = \<lparr>block_ads = (block_ads a \<or> block_ads b), block_trackers = (block_trackers a \<or> block_trackers b),
     block_malware = (block_malware a \<or> block_malware b),
     block_adult_content = (block_adult_content a \<or> block_adult_content b),
     block_gambling = (block_gambling a \<or> block_gambling b)\<rparr>"

fun combine_step ::
  "string \<times> byte \<times> default_dns_options \<Rightarrow> string \<times> byte \<times> default_dns_options \<Rightarrow> string \<times> byte \<times> default_dns_options" where
  "combine_step (combination_name, last_byte, options) (name, bits, opts) =
    ((if combination_name \<noteq> [] then combination_name @ '' + '' else []) @ name, last_byte OR bits, or_options options opts)"

definition combine_cases :: "(string \<times> byte \<times> default_dns_options) list \<Rightarrow> string \<times> ip_addr \<times> default_dns_options" where
  "combine_cases v = (case foldl combine_step ([], 0, no_blockers) v of
     (combination_name, last_byte, options) \<Rightarrow> (combination_name, V4 100 64 0 (0 OR last_byte), options))"

definition blocker_options :: "test_kit \<Rightarrow> default_dns_options \<Rightarrow> dns_options" where
  "blocker_options kit opts = \<lparr>default_options = Some opts, custom_options = Some [], dns_state = DnsState_Default kit\<rparr>"

definition content_blocker_case ::
  "account_kit \<Rightarrow> test_kit \<Rightarrow> (string \<times> byte \<times> default_dns_options) list \<Rightarrow> (test_error, unit) mgr" where
  "content_blocker_case ak kit v =
    (if v = [] then ret ()
     else case combine_cases v of (test_name, test_ip, test_opts) \<Rightarrow>
       seqE (log_msg LDebug (''Testing content blocker: '' @ test_name @ '', '' @ show_ip_addr ak test_ip))
      (seqE (expect ''failed to configure DNS server'' (grpc id (SetDnsOptions (blocker_options kit test_opts))))
       (run_dns_config_tunnel_test ak kit test_ip)))"

text \<open>\<open>powerset\<close> is that of the crate \<open>itertools\<close>.\<close>

definition test_content_blockers ::
  "((string \<times> byte \<times> default_dns_options) list \<Rightarrow> (string \<times> byte \<times> default_dns_options) list list) \<Rightarrow>
     account_kit \<Rightarrow> test_kit \<Rightarrow> (test_error, unit) mgr" where
  "test_content_blockers powerset ak kit = for_each (content_blocker_case ak kit) (powerset content_blockers)"

section \<open>What the tests show\<close>

text \<open>A stateful monitor returns the matching packets up to the one after which it should not continue.\<close>

fun until_stop :: "('s \<Rightarrow> 'a \<Rightarrow> bool \<times> 's) \<Rightarrow> 's \<Rightarrow> 'a list \<Rightarrow> 'a list" where
  "until_stop k s [] = []"
| "until_stop k s (x # xs) = x # (if fst (k s x) then until_stop k (snd (k s x)) xs else [])"

lemma monitor_loop_until:
  "monitor_loop dec filter_fn k s r evs = Some (Ok r') \<Longrightarrow>
     packets r' = packets r @ until_stop k s (filter filter_fn (decoded dec evs))"
proof (induction evs arbitrary: r s)
  case (Cons ev evs)
  then show ?case
    by (cases ev) (auto simp: Let_def split: res.splits option.splits if_splits prod.splits)
qed simp

definition started_until ::
  "test_kit \<Rightarrow> (parsed_packet \<Rightarrow> bool) \<Rightarrow> ('s \<Rightarrow> parsed_packet \<Rightarrow> bool \<times> 's) \<Rightarrow> 's \<Rightarrow> monitor_options \<Rightarrow>
     string \<times> packet_monitor \<Rightarrow> bool" where
  "started_until kit f k s opts mon \<longleftrightarrow>
     (\<exists>cap. start_packet_monitor_for_interface cap (tk_parsers kit) (tk_macos kit) (fst mon) f k s opts = Ok (snd mon))"

lemma until_result:
  assumes "started_until kit f k s opts mon"
    and "mo_timeout opts \<noteq> None \<and> monitor_wait (snd mon) (evs @ [TimedOut]) = Some (Ok r) \<or>
         into_result (snd mon) evs = Some (Ok r)"
  shows "packets r = until_stop k s (filter f (seen_packets kit opts evs))"
proof -
  obtain cap where start: "start_packet_monitor_for_interface cap (tk_parsers kit) (tk_macos kit) (fst mon) f k s opts = Ok (snd mon)"
    using assms(1) by (auto simp: started_until_def)
  obtain x where x: "x = TimedOut \<or> x = StopRequested" "can_time_out opts x" "monitor_wait (snd mon) (evs @ [x]) = Some (Ok r)"
    using assms(2) by (auto simp: into_result_def can_time_out_def)
  then have "monitor_loop (decode_packet (tk_parsers kit) (tk_macos kit) (mo_no_frame opts)) f k s
      \<lparr>packets = [], discarded_packets = 0\<rparr> (filter (can_time_out opts) evs @ [x]) = Some (Ok r)"
    by (simp add: monitor_wait_Ok started_monitor [OF start])
  from monitor_loop_until [OF this] x(1) show ?thesis by (auto simp: seen_packets_def decoded_ending)
qed

lemma shown_tunnel_monitor_until:
  assumes "\<And>mon. started_until kit f k s (opts\<lparr>mo_no_frame := True\<rparr>) mon \<Longrightarrow> fst mon = pn_tun_interface (platform kit) \<Longrightarrow>
     yields (g mon) (\<lambda>_. R)"
  shows "yields (bindE (tunnel_monitor_until kit f k s opts) g) (\<lambda>_. next_to (monitoring (pn_tun_interface (platform kit)) opts) R)"
proof -
  let ?tun = "pn_tun_interface (platform kit)"
  have "yields (tunnel_monitor_until kit f k s opts) (\<lambda>mon env tr es.
      (started_until kit f k s (opts\<lparr>mo_no_frame := True\<rparr>) mon \<and> fst mon = ?tun) \<and> monitoring ?tun opts env tr es)"
    unfolding tunnel_monitor_until_def
    by (rule yields_spec [OF spec_start_monitor [where Q = "\<lambda>r es. \<forall>mon. r = Ok mon \<longrightarrow>
          (started_until kit f k s (opts\<lparr>mo_no_frame := True\<rparr>) mon \<and> fst mon = ?tun) \<and> es = [MonitorStarted ?tun opts]"]])
       (auto simp: started_until_def start_tunnel_packet_monitor_until_def monitoring_def)
  then show ?thesis by (rule yields_bind [where Q = "\<lambda>_ _. R"]) (use assms in \<open>auto intro: and_thenI\<close>)
qed

lemma shown_bridge_monitor_until:
  assumes "\<And>mon. started_until kit f k s opts mon \<Longrightarrow> yields (g mon) (\<lambda>_. R (fst mon))"
  shows "yields (bindE (bridge_monitor_until kit f k s opts) g)
     (\<lambda>_ env tr es. \<exists>bridge. next_to (monitoring bridge opts) (R bridge) env tr es)"
proof -
  have "yields (bridge_monitor_until kit f k s opts) (\<lambda>mon env tr es.
      started_until kit f k s opts mon \<and> monitoring (fst mon) opts env tr es)"
    unfolding bridge_monitor_until_def
    by (rule yields_spec [OF spec_deref_test_config [OF spec_start_monitor, where Q = "\<lambda>r es. \<forall>mon. r = Ok mon \<longrightarrow>
          started_until kit f k s opts mon \<and> es = [MonitorStarted (fst mon) opts]"]])
       (auto simp: started_until_def start_packet_monitor_until_def monitoring_def)
  then show ?thesis
    by (rule yields_bind [where Q = "\<lambda>mon _. R (fst mon)"]) (use assms in \<open>auto intro: and_thenI\<close>)
qed

text \<open>A condition on a result that is checked in the end.\<close>

lemma yields_check_later:
  assumes "yields m P" "\<And>a. yields (f a) (\<lambda>_ env tr es. c a \<and> R env tr es)"
    and "\<And>env tr a es. P a env tr es \<Longrightarrow> c a \<Longrightarrow> S env tr es"
  shows "yields (bindE m f) (\<lambda>_. next_to S R)"
  by (rule yields_bind [OF assms(1,2)]) (auto intro: and_thenI assms(3))

definition only_to :: "socket_addr \<Rightarrow> parsed_packet list \<Rightarrow> bool" where
  "only_to w ps \<longleftrightarrow> 2 \<le> length ps \<and> list_all (\<lambda>pkt. destination pkt = w) ps"

lemma shown_expect_queries:
  assumes "yields c (\<lambda>_. R)"
  shows "yields (seqE (expect_queries w res) c) (\<lambda>_ env tr es. only_to w (packets res) \<and> R env tr es)"
proof -
  have "yields (for_each (\<lambda>pkt. assertP m (destination pkt = w)) ps)
      (\<lambda>_ _ _ es. es = [] \<and> list_all (\<lambda>pkt. destination pkt = w) ps)" for m ps
    by (induction ps) (auto simp: yields_def assertP_def prog_defs split: if_splits)
  then have "yields (expect_queries w res) (\<lambda>_ _ _ es. es = [] \<and> only_to w (packets res))"
    unfolding expect_queries_def only_to_def
    by (rule yields_weaken [OF yields_assertP]) auto
  then show ?thesis unfolding seqE_def by (rule yields_bind [OF _ assms]) auto
qed

lemma yields_awaited:
  assumes "started_until kit f k s opts mon" "mo_timeout opts \<noteq> None"
  shows "yields (bindE (wait_monitor mon) unwrap_sum) (\<lambda>res env tr es. \<exists>evs. es = [MonitorSaw (fst mon) evs] \<and>
     packets res = until_stop k s (filter f (seen_packets kit opts evs)))"
  using until_result [OF assms(1)] assms(2)
  by (auto simp: yields_def wait_monitor_def monitor_outcome_def unwrap_sum_def prog_defs split: option.splits res.splits)

text \<open>
  The awaited monitor has found enough queries, all to the allowed resolver, when it stops; the other
  one has seen no query at all.
\<close>

definition queried :: "socket_addr \<Rightarrow> parsed_packet list \<Rightarrow> bool" where
  "queried w ps \<longleftrightarrow> only_to w (until_stop handle_packet (dns_packets_found_new 1 1) (filter dns_packet ps))"

lemma shown_stop_unseen:
  assumes "started_until kit f (\<lambda>s _. (False, s)) () opts mon" "yields c (\<lambda>_. R)"
  shows "yields (bindE (stop_monitor mon) (\<lambda>r. bindE (unwrap_sum r) (\<lambda>res. seqE (assertP msg (packets res = [])) c)))
     (\<lambda>_. next_to (saw kit (fst mon) opts (list_all (\<lambda>p. \<not> f p))) R)"
proof (rule shown_stop [OF _ assms(2)])
  fix evs res
  assume "into_result (snd mon) evs = Some (Ok res)" "packets res = []"
  with until_result [OF assms(1), of evs res] have "filter f (seen_packets kit opts evs) = []"
    by (cases "filter f (seen_packets kit opts evs)") auto
  then show "list_all (\<lambda>p. \<not> f p) (seen_packets kit opts evs)" by (simp add: filter_empty_conv list_all_iff)
qed

definition spoofing :: "ip_addr \<Rightarrow> ip_addr \<Rightarrow> socket_addr \<Rightarrow> test_stage" where
  "spoofing guest_ip tunnel_ip w env tr es \<longleftrightarrow>
     es = map (\<lambda>(i, b, d). Spawned (SpoofPackets i b d)) (spoofed guest_ip tunnel_ip w)"

lemma shown_spoofing:
  assumes "yields c (\<lambda>_. R)"
  shows "yields (seqE (for_each (\<lambda>(i, b, d). spoof_packets i b d) (spoofed guest_ip tunnel_ip w)) c)
     (\<lambda>_. next_to (spoofing guest_ip tunnel_ip w) R)"
proof (rule yields_stage [OF _ assms])
  have "yields (for_each (\<lambda>(i, b, d). spoof_packets i b d) xs) (\<lambda>_ _ _ es. es = map (\<lambda>(i, b, d). Spawned (SpoofPackets i b d)) xs)"
    for xs by (induction xs) (simp add: yields_rules, fastforce simp: yields_def spoof_packets_def prog_defs split: prod.splits)
  then show "yields (for_each (\<lambda>(i, b, d). spoof_packets i b d) (spoofed guest_ip tunnel_ip w)) (\<lambda>_. spoofing guest_ip tunnel_ip w)"
    by (rule yields_weaken) (simp add: spoofing_def)
qed

abbreviation in_tunnel :: "monitor_options \<Rightarrow> monitor_options" where
  "in_tunnel opts \<equiv> opts\<lparr>mo_no_frame := True\<rparr>"

lemma timed_options: "mo_timeout awaited_options \<noteq> None" "mo_timeout (in_tunnel awaited_options) \<noteq> None"
  by (simp_all add: awaited_options_def)

lemma shown_leak_test_in_tunnel:
  "yields (leak_test_in_tunnel kit w guest_ip tunnel_ip) (\<lambda>_ env tr es. \<exists>bridge. let tun = pn_tun_interface (platform kit) in shown
     [monitoring tun awaited_options, monitoring bridge stopped_options, spoofing guest_ip tunnel_ip w,
      saw kit tun (in_tunnel awaited_options) (queried w),
      saw kit bridge stopped_options (list_all (\<lambda>p. \<not> dns_packet p))] env tr es)"
  unfolding leak_test_in_tunnel_def Let_def shown_simps
proof (intro shown_tunnel_monitor_until shown_bridge_monitor_until shown_spoofing, goal_cases)
  case (1 tun bridge)
  let ?rest = "bindE (stop_monitor bridge) (\<lambda>r. bindE (unwrap_sum r) (\<lambda>res.
      seqE (assertP ''expected no non-tunnel packets on port 53'' (packets res = [])) (ret ())))"
  have "yields (bindE (bindE (wait_monitor tun) unwrap_sum) (\<lambda>res. seqE (expect_queries w res) ?rest))
      (\<lambda>_. next_to (saw kit (fst tun) (in_tunnel awaited_options) (queried w))
        (next_to (saw kit (fst bridge) stopped_options (list_all (\<lambda>p. \<not> dns_packet p))) (shown [])))"
    by (rule yields_check_later [OF yields_awaited [OF 1(1) timed_options(2)]
          shown_expect_queries [OF shown_stop_unseen [OF 1(3) shown_end]]])
       (auto simp: saw_def queried_def)
  then show ?case using 1(2) by (simp add: bindE_assoc)
qed

lemma shown_leak_test_outside:
  "yields (leak_test_outside kit w guest_ip tunnel_ip) (\<lambda>_ env tr es. \<exists>bridge. let tun = pn_tun_interface (platform kit) in shown
     [monitoring tun stopped_options, monitoring bridge awaited_options, spoofing guest_ip tunnel_ip w,
      saw kit bridge awaited_options (queried w),
      saw kit tun (in_tunnel stopped_options) (list_all (\<lambda>p. \<not> dns_packet p))] env tr es)"
  unfolding leak_test_outside_def Let_def shown_simps
proof (intro shown_tunnel_monitor_until shown_bridge_monitor_until shown_spoofing, goal_cases)
  case (1 tun bridge)
  let ?rest = "\<lambda>res. bindE (stop_monitor tun) (\<lambda>r. bindE (unwrap_sum r) (\<lambda>res'.
      seqE (assertP ''expected no tunnel packets on port 53'' (packets res' = [])) (seqE (expect_queries w res) (ret ()))))"
  have rest: "yields (?rest res) (\<lambda>_ env tr es. only_to w (packets res) \<and>
      next_to (saw kit (fst tun) (in_tunnel stopped_options) (list_all (\<lambda>p. \<not> dns_packet p))) (shown []) env tr es)" for res
    by (rule yields_weaken [OF shown_stop_unseen [OF 1(1), where R = "\<lambda>env tr es. only_to w (packets res) \<and> shown [] env tr es"]])
       (rule shown_expect_queries [OF shown_end], auto simp: and_then_def)
  have "yields (bindE (bindE (wait_monitor bridge) unwrap_sum) ?rest)
      (\<lambda>_. next_to (saw kit (fst bridge) awaited_options (queried w))
        (next_to (saw kit (fst tun) (in_tunnel stopped_options) (list_all (\<lambda>p. \<not> dns_packet p))) (shown [])))"
    by (rule yields_check_later [OF yields_awaited [OF 1(3) timed_options(1)] rest]) (auto simp: saw_def queried_def)
  then show ?case using 1(2) by (simp add: bindE_assoc)
qed

text \<open>The tunnel to the relay on the host is up, and the addresses of the guest are known.\<close>

definition local_relay :: "account_kit \<Rightarrow> test_kit \<Rightarrow> test_stage" where
  "local_relay ak kit = shown [did (UpdateRelaySettings (local_wg_relay ak kit)), connected_stage]"

lemma yields_local_relay: "yields (expect msg (connect_local_wg_relay ak kit)) (\<lambda>_. local_relay ak kit)"
  unfolding connect_local_wg_relay_def local_relay_def shown_simps by (rule yields_expect) (intro yields_rules)

abbreviation guest_has :: "interface \<Rightarrow> ip_addr \<Rightarrow> test_stage" where
  "guest_has iface ip \<equiv> replied ce_ip DefaultDeadline (GetInterfaceIp iface) ip"

lemma shown_guest_addresses [yields_rules]:
  assumes "\<And>guest_ip tunnel_ip. yields (k guest_ip tunnel_ip) (\<lambda>_. R guest_ip tunnel_ip)"
    "\<And>guest_ip tunnel_ip. absorbs is_record (R guest_ip tunnel_ip)"
  shows "yields (guest_addresses ak k) (\<lambda>_ env tr es. \<exists>guest_ip. next_to (guest_has NonTunnel guest_ip)
     (\<lambda>env tr es. \<exists>tunnel_ip. next_to (guest_has Tunnel tunnel_ip) (R guest_ip tunnel_ip) env tr es) env tr es)"
  unfolding guest_addresses_def Client.get_interface_ip_def by (intro yields_rules assms)

text \<open>DNS queries are confined to one interface and one resolver.\<close>

definition dns_confined :: "test_kit \<Rightarrow> interface \<Rightarrow> socket_addr \<Rightarrow> ip_addr \<Rightarrow> ip_addr \<Rightarrow> test_stage" where
  "dns_confined kit iface w guest_ip tunnel_ip = (let tun = pn_tun_interface (platform kit) in
     if iface = Tunnel then (\<lambda>env tr es. \<exists>bridge. shown
       [monitoring tun awaited_options, monitoring bridge stopped_options, spoofing guest_ip tunnel_ip w,
        saw kit tun (in_tunnel awaited_options) (queried w),
        saw kit bridge stopped_options (list_all (\<lambda>p. \<not> dns_packet p))] env tr es)
     else (\<lambda>env tr es. \<exists>bridge. shown
       [monitoring tun stopped_options, monitoring bridge awaited_options, spoofing guest_ip tunnel_ip w,
        saw kit bridge awaited_options (queried w),
        saw kit tun (in_tunnel stopped_options) (list_all (\<lambda>p. \<not> dns_packet p))] env tr es))"

lemma absorbs_confined: "absorbs is_record (dns_confined kit iface w guest_ip tunnel_ip)"
  unfolding dns_confined_def Let_def by (auto intro!: absorbs_ex absorbs_stages)

definition leak_free :: "account_kit \<Rightarrow> test_kit \<Rightarrow> interface \<Rightarrow> ip_addr \<Rightarrow> test_stage" where
  "leak_free ak kit iface ip = next_to (local_relay ak kit) (\<lambda>env tr es. \<exists>guest_ip. next_to (guest_has NonTunnel guest_ip)
     (\<lambda>env tr es. \<exists>tunnel_ip. next_to (guest_has Tunnel tunnel_ip) (dns_confined kit iface (addr ip 53) guest_ip tunnel_ip)
       env tr es) env tr es)"

lemma shown_leak_test_dns: "yields (leak_test_dns ak kit iface ip) (\<lambda>_. leak_free ak kit iface ip)"
proof -
  have "yields (if iface = Tunnel then leak_test_in_tunnel kit w guest_ip tunnel_ip else leak_test_outside kit w guest_ip tunnel_ip)
      (\<lambda>_. dns_confined kit iface w guest_ip tunnel_ip)" for w guest_ip tunnel_ip
    using shown_leak_test_in_tunnel [of kit w guest_ip tunnel_ip] shown_leak_test_outside [of kit w guest_ip tunnel_ip]
    by (simp add: dns_confined_def Let_def)
  then show ?thesis
    unfolding leak_test_dns_def leak_free_def
    by (intro yields_stage [OF yields_local_relay] shown_guest_addresses absorbs_confined)
qed

lemma shown_custom_resolver:
  "yields k (\<lambda>_. R) \<Longrightarrow>
   yields (set_custom_resolver ak kit ip k) (\<lambda>_. next_to (did (SetDnsOptions (custom_resolver ak kit ip))) R)"
  unfolding set_custom_resolver_def by (intro yields_rules)

lemma shown_test_dns_leaks:
  "yields (test_dns_leak_default ak kit) (\<lambda>_. leak_free ak kit Tunnel (pn_tun_remote_addr (platform kit)))"
  "yields (test_dns_leak_custom_public_ip ak kit) (\<lambda>_. next_to (did (SetDnsOptions (custom_resolver ak kit (V4 1 3 3 7))))
     (leak_free ak kit Tunnel (V4 1 3 3 7)))"
  "yields (test_dns_leak_custom_private_ip ak kit) (\<lambda>_. next_to (did (SetDnsOptions (custom_resolver ak kit (V4 10 64 10 1))))
     (leak_free ak kit NonTunnel (V4 10 64 10 1)))"
  unfolding test_dns_leak_default_def test_dns_leak_custom_public_ip_def test_dns_leak_custom_private_ip_def
  by (rule shown_leak_test_dns, (rule shown_custom_resolver [OF shown_leak_test_dns])+)

text \<open>The first query that is seen goes to the expected resolver.\<close>

definition first_query_to :: "socket_addr \<Rightarrow> parsed_packet list \<Rightarrow> bool" where
  "first_query_to w ps \<longleftrightarrow> (\<exists>p rest. filter dns_packet ps = p # rest \<and> destination p = w)"

definition aborted :: "spawned \<Rightarrow> test_stage" where
  "aborted t env tr es \<longleftrightarrow> es = [Aborted t]"

lemma until_stop_head: "until_stop k s xs = p # rest \<Longrightarrow> \<exists>rest'. xs = p # rest'"
  by (cases xs) auto

lemma shown_first_query:
  assumes "started_until kit dns_packet k s opts mon" "mo_timeout opts \<noteq> None"
  shows "yields (seqE (emit (Spawned t)) (bindE (wait_monitor mon) (\<lambda>r. bindE (unwrap_sum r) (\<lambda>result.
      seqE (case packets result of [] \<Rightarrow> panic m | pkt # _ \<Rightarrow> assertP m' (destination pkt = w))
     (seqE (emit (Aborted t)) (ret ()))))))
     (\<lambda>_. shown [spawning t, saw kit (fst mon) opts (first_query_to w), aborted t])"
proof -
  let ?look = "\<lambda>result. seqE (case packets result of [] \<Rightarrow> panic m | pkt # _ \<Rightarrow> assertP m' (destination pkt = w))
     (seqE (emit (Aborted t)) (ret ()))"
  have look: "yields (?look result) (\<lambda>_ env tr es.
      (\<exists>p rest. packets result = p # rest \<and> destination p = w) \<and> next_to (aborted t) (shown []) env tr es)" for result
    using and_thenI [of "aborted t" _ _ "[Aborted t]" "shown []" "[]" is_record]
    by (auto simp: yields_def assertP_def prog_defs aborted_def stages_Nil split: list.splits if_splits)
  have saw: "saw kit (fst mon) opts (first_query_to w) env tr es"
    if "\<exists>evs. es = [MonitorSaw (fst mon) evs] \<and> packets res = until_stop k s (filter dns_packet (seen_packets kit opts evs))"
      "\<exists>p rest. packets res = p # rest \<and> destination p = w" for res env tr es
    using that unfolding saw_def first_query_to_def by (metis until_stop_head)
  have "yields (bindE (bindE (wait_monitor mon) unwrap_sum) ?look)
      (\<lambda>_. next_to (saw kit (fst mon) opts (first_query_to w)) (next_to (aborted t) (shown [])))"
    by (rule yields_check_later [OF yields_awaited [OF assms] look saw])
  then show ?thesis unfolding shown_simps bindE_assoc by (rule shown_spawn)
qed

text \<open>A tunnel is up already, or the one to the relay on the host is.\<close>

definition relay_ready :: "account_kit \<Rightarrow> test_kit \<Rightarrow> test_stage" where
  "relay_ready ak kit env tr es \<longleftrightarrow> (\<exists>kind es'. es = KindPolled (Inr kind) # es' \<and>
     (if kind = Some KConnected then es' = [] else local_relay ak kit env (tr @ [KindPolled (Inr kind)]) es'))"

lemma shown_relay_ready:
  assumes "yields k (\<lambda>_. R)"
  shows "yields (bindE (expect m (callE id me_kind KindPolled)) (\<lambda>kind. seqE (only_if (kind \<noteq> Some KConnected)
      (expect m' (connect_local_wg_relay ak kit))) k)) (\<lambda>_. next_to (relay_ready ak kit) R)"
proof -
  have poll: "yields (expect m (callE id me_kind KindPolled)) (\<lambda>kind _ _ es. es = [KindPolled (Inr kind)])"
    by (auto simp: yields_def callE_def expect_def prog_defs split: sum.splits)
  have "yields (only_if (kind \<noteq> Some KConnected) (expect m' (connect_local_wg_relay ak kit)))
      (\<lambda>_ env tr es. if kind = Some KConnected then es = [] else local_relay ak kit env tr es)" for kind
    using yields_local_relay [of m' ak kit] by (auto simp: only_if_def yields_def ret_def)
  then have "yields (bindE (expect m (callE id me_kind KindPolled)) (\<lambda>kind. only_if (kind \<noteq> Some KConnected)
      (expect m' (connect_local_wg_relay ak kit)))) (\<lambda>_. relay_ready ak kit)"
    by (rule yields_bind [OF poll]) (auto simp: relay_ready_def)
  from yields_stage [OF this assms] show ?thesis by (simp add: bindE_assoc seqE_def)
qed

text \<open>The resolver that is in use, seen inside or outside of the tunnel.\<close>

definition query_seen :: "test_kit \<Rightarrow> string \<Rightarrow> monitor_options \<Rightarrow> ip_addr \<Rightarrow> test_stage" where
  "query_seen kit iface opts ip = shown [monitoring iface awaited_options, spawning (ResolveNames 2),
     saw kit iface opts (first_query_to (addr ip 53)), aborted (ResolveNames 2)]"

definition resolver_used :: "account_kit \<Rightarrow> test_kit \<Rightarrow> interface \<Rightarrow> ip_addr \<Rightarrow> test_stage" where
  "resolver_used ak kit iface ip = next_to (relay_ready ak kit) (\<lambda>env tr es. \<exists>guest_ip. next_to (guest_has NonTunnel guest_ip)
     (\<lambda>env tr es. \<exists>tunnel_ip. next_to (guest_has Tunnel tunnel_ip)
       (if iface = Tunnel then query_seen kit (pn_tun_interface (platform kit)) (in_tunnel awaited_options) ip
        else (\<lambda>env tr es. \<exists>bridge. query_seen kit bridge awaited_options ip env tr es)) env tr es) env tr es)"

lemma yields_config_test:
  assumes "\<And>t. yields (bindE create (\<lambda>monitor. seqE (emit (Spawned t)) (bindE (wait_monitor monitor) (\<lambda>r.
      bindE (unwrap_sum r) (\<lambda>result. seqE (case packets result of [] \<Rightarrow> panic ''index out of bounds''
        | pkt # _ \<Rightarrow> assertP ''expected tunnel packet to expected destination'' (destination pkt = addr ip 53))
     (seqE (emit (Aborted t)) (ret ()))))))) (\<lambda>_. R t)" "\<And>t. absorbs is_record (R t)"
  shows "yields (run_dns_config_test ak kit create ip) (\<lambda>_. next_to (relay_ready ak kit) (\<lambda>env tr es. \<exists>guest_ip.
     next_to (guest_has NonTunnel guest_ip) (\<lambda>env tr es. \<exists>tunnel_ip. next_to (guest_has Tunnel tunnel_ip)
       (R (ResolveNames 2)) env tr es) env tr es))"
  unfolding run_dns_config_test_def
  by (intro shown_relay_ready shown_guest_addresses assms)

lemma shown_config_tunnel: "yields (run_dns_config_tunnel_test ak kit ip) (\<lambda>_. resolver_used ak kit Tunnel ip)"
  unfolding run_dns_config_tunnel_test_def resolver_used_def if_P [OF refl]
proof (rule yields_config_test [where R = "\<lambda>t. shown [monitoring (pn_tun_interface (platform kit)) awaited_options, spawning t,
     saw kit (pn_tun_interface (platform kit)) (in_tunnel awaited_options) (first_query_to (addr ip 53)), aborted t]" for t,
     folded query_seen_def], goal_cases)
  case (1 t)
  then show ?case
    unfolding stages_Cons [of is_record "monitoring _ _"]
    by (rule shown_tunnel_monitor_until) (metis shown_first_query timed_options(2))
next
  case (2 t)
  show ?case by (rule absorbs_stages)
qed

lemma shown_config_non_tunnel: "yields (run_dns_config_non_tunnel_test ak kit ip) (\<lambda>_. resolver_used ak kit NonTunnel ip)"
proof -
  have "yields (run_dns_config_non_tunnel_test ak kit ip) (\<lambda>_. next_to (relay_ready ak kit) (\<lambda>env tr es. \<exists>guest_ip.
     next_to (guest_has NonTunnel guest_ip) (\<lambda>env tr es. \<exists>tunnel_ip. next_to (guest_has Tunnel tunnel_ip)
       (\<lambda>env tr es. \<exists>bridge. shown [monitoring bridge awaited_options, spawning (ResolveNames 2),
          saw kit bridge awaited_options (first_query_to (addr ip 53)), aborted (ResolveNames 2)] env tr es)
       env tr es) env tr es))"
    unfolding run_dns_config_non_tunnel_test_def
  proof (rule yields_config_test [where R = "\<lambda>t env tr es. \<exists>bridge. shown [monitoring bridge awaited_options, spawning t,
       saw kit bridge awaited_options (first_query_to (addr ip 53)), aborted t] env tr es"], goal_cases)
    case (1 t)
    show ?case
      unfolding stages_Cons [of is_record "monitoring _ _"]
      by (rule shown_bridge_monitor_until) (rule shown_first_query [OF _ timed_options(1)])
  next
    case (2 t)
    show ?case by (intro absorbs_ex absorbs_stages)
  qed
  then show ?thesis by (simp add: resolver_used_def query_seen_def)
qed

lemma shown_test_dns_config:
  "yields (test_dns_config_default ak kit) (\<lambda>_. resolver_used ak kit Tunnel (pn_tun_remote_addr (platform kit)))"
  "yields (test_dns_config_custom_private ak kit) (\<lambda>_.
     next_to (did (SetDnsOptions (custom_resolver ak kit (pn_non_tun_gateway (platform kit)))))
       (resolver_used ak kit NonTunnel (pn_non_tun_gateway (platform kit))))"
  "yields (test_dns_config_custom_public ak kit) (\<lambda>_.
     next_to (did (SetDnsOptions (custom_resolver ak kit (V4 1 3 3 7)))) (resolver_used ak kit Tunnel (V4 1 3 3 7)))"
  unfolding test_dns_config_default_def test_dns_config_custom_private_def test_dns_config_custom_public_def
  by (rule shown_config_tunnel, rule shown_custom_resolver [OF shown_config_non_tunnel],
      rule shown_custom_resolver [OF shown_config_tunnel])

text \<open>The stages of one combination of content blockers.\<close>

definition blocker_stages :: "account_kit \<Rightarrow> test_kit \<Rightarrow> (string \<times> byte \<times> default_dns_options) list \<Rightarrow> test_stage list" where
  "blocker_stages ak kit v = (if v = [] then [] else case combine_cases v of (name, ip, opts) \<Rightarrow>
     [did (SetDnsOptions (blocker_options kit opts)), resolver_used ak kit Tunnel ip])"

lemma shown_blocker_case: "yields (content_blocker_case ak kit v) (\<lambda>_. shown (blocker_stages ak kit v))"
proof (cases "v = []")
  case True
  then show ?thesis by (simp add: content_blocker_case_def blocker_stages_def shown_end)
next
  case False
  have last: "yields (run_dns_config_tunnel_test ak kit ip) (\<lambda>_. shown [resolver_used ak kit Tunnel ip])" for ip
    by (rule yields_weaken [OF shown_config_tunnel])
       (use and_thenI [where R = "shown []" and ?e2.0 = "[]"] in \<open>fastforce simp: stages_Cons stages_Nil\<close>)
  show ?thesis
    unfolding content_blocker_case_def blocker_stages_def if_not_P [OF False] case_prod_unfold stages_Cons [of is_record "did _"]
    by (intro yields_rules last)
qed

text \<open>
  Every combination of content blockers is tested: the resolvers are 100.64.0.1 to 100.64.0.31, each
  with the options that are the bits of its last byte.
\<close>

definition options_of :: "nat \<Rightarrow> default_dns_options" where
  "options_of n = \<lparr>block_ads = odd n, block_trackers = odd (n div 2), block_malware = odd (n div 4),
     block_adult_content = odd (n div 8), block_gambling = odd (n div 16)\<rparr>"

lemma combinations:
  "map (snd \<circ> combine_cases) (filter (\<lambda>v. v \<noteq> []) (subseqs content_blockers)) =
   map (\<lambda>n. (V4 100 64 0 (of_nat n), options_of n)) [31, 15, 23, 7, 27, 11, 19, 3, 29, 13, 21, 5, 25, 9, 17, 1,
     30, 14, 22, 6, 26, 10, 18, 2, 28, 12, 20, 4, 24, 8, 16]"
  by (simp add: content_blockers_def combine_cases_def or_options_def no_blockers_def options_of_def)

lemma combination_exists:
  assumes "n \<in> {1..31}"
  shows "\<exists>v\<in>set (subseqs content_blockers). v \<noteq> [] \<and> snd (combine_cases v) = (V4 100 64 0 (of_nat n), options_of n)"
proof -
  have "{1..31} = set [31, 15, 23, 7, 27, 11, 19, 3, 29, 13, 21, 5, 25, 9, 17, 1, 30, 14, 22, 6, 26, 10, 18, 2, 28, 12, 20,
      4, 24, 8, 16 :: nat]"
    by (simp add: atLeastAtMost_insertL [symmetric]) auto
  with assms have "(V4 100 64 0 (of_nat n), options_of n) \<in>
      set (map (snd \<circ> combine_cases) (filter (\<lambda>v. v \<noteq> []) (subseqs content_blockers)))"
    unfolding combinations set_map by (metis (mono_tags) imageI)
  then show ?thesis by (auto simp only: set_map set_filter image_iff mem_Collect_eq o_apply)
qed

text \<open>A world in which the daemon is connected and the system sends its queries to the resolver of the options that were set.\<close>

definition options_byte :: "default_dns_options \<Rightarrow> byte" where
  "options_byte opts = of_bool (block_ads opts) OR push_bit 1 (of_bool (block_trackers opts)) OR
     push_bit 2 (of_bool (block_malware opts)) OR push_bit 3 (of_bool (block_adult_content opts)) OR
     push_bit 4 (of_bool (block_gambling opts))"

fun resolver_byte :: "mgr_ev list \<Rightarrow> byte" where
  "resolver_byte [] = 0"
| "resolver_byte (Daemon (SetDnsOptions opts) r # tr) = options_byte (the (default_options opts))"
| "resolver_byte (_ # tr) = resolver_byte tr"

definition dns_world :: mgr_env where
  "dns_world = tidy_world\<lparr>me_kind := \<lambda>_. Inr (Some KConnected), me_capture := \<lambda>_. demo_capture\<lparr>from_device := \<lambda>_. True\<rparr>,
     me_packets := \<lambda>tr _. [Captured (ip4_packet (192, 168, 15, 2) (100, 64, 0, resolver_byte (rev tr)) Udp (udp_datagram 4000 53 []))]\<rparr>"

lemma dns_world_simps:
  "me_kind dns_world tr = Inr (Some KConnected)" "me_capture dns_world tr = demo_capture\<lparr>from_device := \<lambda>_. True\<rparr>"
  "me_packets dns_world tr i =
     [Captured (ip4_packet (192, 168, 15, 2) (100, 64, 0, resolver_byte (rev tr)) Udp (udp_datagram 4000 53 []))]"
  "me_unit dns_world tr req = Inr ()" "me_runner dns_world tr = tidy_client"
  by (simp_all add: dns_world_def tidy_world_def demo_mgr_env_def)

lemma combined_resolver:
  "list_all (\<lambda>v. fst (snd (combine_cases v)) = V4 100 64 0 (options_byte (snd (snd (combine_cases v)))))
     (subseqs content_blockers)"
  by (simp add: content_blockers_def combine_cases_def or_options_def no_blockers_def options_byte_def)

lemma dns_guest_ip:
  "expect m (runner (Client.get_interface_ip iface)) dns_world tr =
     (Ok (V4 192 168 1 2), tr @ [Runner (Call DefaultDeadline (GetInterfaceIp iface))])"
  by (simp add: Client.get_interface_ip_def rpc_def runner_def embed_def expect_def dns_world_simps tidy_client_def prog_defs)

lemma dns_request: "expect m (grpc w req) dns_world tr = (Ok (), tr @ [Daemon req (Inr ())])"
  by (simp add: grpc_def expect_def dns_world_simps prog_defs)

lemma dns_kind: "expect m (callE id me_kind KindPolled) dns_world tr = (Ok (Some KConnected), tr @ [KindPolled (Inr (Some KConnected))])"
  by (simp add: callE_def expect_def dns_world_simps prog_defs)

lemma dns_monitor:
  "tunnel_monitor_until tidy_kit f k s awaited_options dns_world tr =
    (Ok (''wg-relay0'', \<lambda>evs. monitor_loop (decode_packet layout_parsers False True) f k s
        \<lparr>packets = [], discarded_packets = 0\<rparr> (filter (can_time_out (in_tunnel awaited_options)) evs)),
      tr @ [MonitorStarted ''wg-relay0'' awaited_options])"
  by (simp add: tunnel_monitor_until_def start_monitor_def start_tunnel_packet_monitor_until_def
      start_packet_monitor_for_interface_def dns_world_simps demo_capture_def tidy_kit_def patient_kit_def platform_def
      linux_network_def CUSTOM_TUN_INTERFACE_NAME_def awaited_options_def monitor_default_def)

lemma dns_wait:
  "wait_monitor (i, \<lambda>evs. monitor_loop (decode_packet layout_parsers False True) dns_packet
      (\<lambda>s packet. (sock_port (destination packet) \<noteq> 53, ())) () \<lparr>packets = [], discarded_packets = 0\<rparr>
      (filter (can_time_out (in_tunnel awaited_options)) evs)) dns_world tr =
    (Ok (Inr \<lparr>packets = [\<lparr>source = addr (V4 192 168 15 2) 4000, destination = addr (V4 100 64 0 (resolver_byte (rev tr))) 53,
        protocol = Udp\<rparr>], discarded_packets = 0\<rparr>), tr @ [MonitorSaw i (me_packets dns_world tr i)])"
  by (simp add: wait_monitor_def monitor_outcome_def monitor_wait_def dns_world_simps prog_defs can_time_out_def
      addr_def layout_decodes summary_of_def dns_packet_def)

lemma dns_case:
  assumes "v \<in> set (subseqs content_blockers)"
  shows "\<exists>es. content_blocker_case demo_account tidy_kit v dns_world tr = (Ok (), tr @ es)"
proof (cases "combine_cases v")
  case (fields name ip opts)
  with bspec [OF combined_resolver [unfolded list_all_iff] assms] have ip: "ip = V4 100 64 0 (options_byte opts)" by simp
  show ?thesis
    by (simp add: content_blocker_case_def fields ip run_dns_config_tunnel_test_def run_dns_config_test_def dns_request dns_kind
        log_msg_def guest_addresses_def dns_guest_ip dns_monitor dns_wait only_if_def unwrap_sum_def assertP_def seqE_def
        bindE_def ret_def emit_def blocker_options_def)
qed

lemma dns_cases:
  "set vs \<subseteq> set (subseqs content_blockers) \<Longrightarrow>
     \<exists>es. for_each (content_blocker_case demo_account tidy_kit) vs dns_world tr = (Ok (), tr @ es)"
proof (induction vs arbitrary: tr)
  case (Cons v vs)
  obtain es where v: "content_blocker_case demo_account tidy_kit v dns_world tr = (Ok (), tr @ es)"
    using dns_case Cons.prems by fastforce
  from Cons.IH [of "tr @ es"] Cons.prems show ?case by (auto simp: seqE_def bindE_def v)
qed (simp add: ret_def)

text \<open>
  C16. Content blockers: when the test returns \<open>Ok\<close> and the library's power set has exactly the
  sub-sequences, then for each of the thirty-one combinations, which are numbered by their bits, the
  options of that combination were set, and after that the first DNS query in the tunnel went to the
  resolver 100.64.0.n of that combination.
\<close>

theorem blockers_are_all_tested:
  assumes "set (powerset content_blockers) = set (subseqs content_blockers)"
    and "test_content_blockers powerset ak kit env tr = (Ok (), tr')" "n \<in> {1..31}"
  shows "\<exists>before es after. tr' = tr @ before @ es @ after \<and>
     shown [did (SetDnsOptions (blocker_options kit (options_of n))), resolver_used ak kit Tunnel (V4 100 64 0 (of_nat n))]
       env (tr @ before) es"
proof -
  obtain v where v: "v \<in> set (powerset content_blockers)" "v \<noteq> []"
      "snd (combine_cases v) = (V4 100 64 0 (of_nat n), options_of n)"
    using combination_exists [OF assms(3)] assms(1) by auto
  have "shown (blocker_stages ak kit v) = shown [did (SetDnsOptions (blocker_options kit (options_of n))),
      resolver_used ak kit Tunnel (V4 100 64 0 (of_nat n))]"
    using v(2,3) by (cases "combine_cases v") (simp add: blocker_stages_def)
  with for_each_mem [OF assms(2) [unfolded test_content_blockers_def] v(1), of "\<lambda>v. shown (blocker_stages ak kit v)"]
    shown_blocker_case show ?thesis by simp
qed

theorem blockers_are_all_tested_witness:
  "\<exists>before es after. snd (test_content_blockers subseqs demo_account tidy_kit dns_world []) = before @ es @ after \<and>
     shown [did (SetDnsOptions (blocker_options tidy_kit (options_of 21))), resolver_used demo_account tidy_kit Tunnel (V4 100 64 0 21)]
       dns_world before es"
proof -
  obtain tr' where run: "test_content_blockers subseqs demo_account tidy_kit dns_world [] = (Ok (), tr')"
    using dns_cases [OF order_refl, of "[]"] by (auto simp: test_content_blockers_def)
  from blockers_are_all_tested [OF refl run, of 21] show ?thesis by (simp add: run)
qed

section \<open>Queries after the awaited ones\<close>

text \<open>
  The monitor on the examined interface stops once it has seen a UDP and a TCP packet, so that the leak
  tests accept whatever is sent to port 53 after these two.
\<close>

lemma late_leak_passes:
  assumes "dns_packet udp" "protocol udp = Udp" "destination udp = w" "dns_packet tcp" "protocol tcp = Tcp" "destination tcp = w"
  shows "queried w ([udp, tcp] @ later)"
  using assms
  by (simp add: queried_def only_to_def handle_packet_def dns_packet_def below_minimum_def dns_packets_found_new_def
      Udp_def Tcp_def Let_def)

end
