(* ===== verification/Test_History.thy ===== *)
theory Test_History
  imports Tests_Leak Tests_Tunnel Tests_Dns
begin

text \<open>
  The tests only add events to the history: none of them changes what has happened before.  This is
  what lets the evidence of one test be found in the history of the whole run.
\<close>

named_theorems grow_rules

section \<open>Calls\<close>

abbreviation grows :: "('env, 'ev, 'e, 'a) prog \<Rightarrow> bool" where
  "grows \<equiv> only (\<lambda>_. True)"

lemma grows_client [grow_rules]:
  "grows (rpc answer dl req)" "grows (rpc_plain answer' dl req)" "grows mullvad_daemon_get_status"
  unfolding Client.mullvad_daemon_get_status_def rpc_def rpc_plain_def by (intro only_rules; simp)+

lemma grows_poll_state: "grows (poll_state n accept)"
  by (induction n) (auto intro!: only_rules grow_rules)

lemma grows_calls [grow_rules]:
  "grows (mullvad_daemon_wait_for_state accept)" "grows (Client.exec_env p args env)" "grows (Client.exec p args)"
  "grows Client.get_os" "grows (Client.get_interface_ip i)" "grows (Client.get_interface_name i)" "grows (Client.install_app pkg)"
  "grows (Client.uninstall_app vars)" "grows Client.find_mullvad_app_traces" "grows (Client.copy_file src dest)"
  "grows (Client.geoip_lookup host)" "grows Client.make_device_json_old"
  unfolding Client.mullvad_daemon_wait_for_state_def Client.exec_def Client.exec_env_def Client.get_os_def Client.get_interface_ip_def
    Client.get_interface_name_def Client.install_app_def Client.uninstall_app_def Client.find_mullvad_app_traces_def
    Client.copy_file_def Client.geoip_lookup_def Client.make_device_json_old_def
  by (intro grow_rules grows_poll_state)+

lemma grows_calls2 [grow_rules]:
  "grows (Client.set_daemon_log_level v)" "grows (Client.set_daemon_environment vars)"
  "grows (Client.set_mullvad_daemon_service_state on)" "grows Client.reboot"
  unfolding Client.set_daemon_log_level_def Client.set_daemon_environment_def Client.set_mullvad_daemon_service_state_def
    Client.reboot_def
  by (intro only_rules grow_rules TrueI)+ (auto intro!: only_rules split: next_result.split)

lemma grows_runner [grow_rules]: "grows m \<Longrightarrow> grows (runner m)"
  unfolding runner_def by (rule only_embed) simp_all

lemma grows_mgr [grow_rules]:
  "grows (grpc wrap req)" "grows (grpc_get wrap q req)" "grows (log_msg l t)" "grows deref_test_config" "grows (unwrap_sum r)"
  "grows (api_call areq)" "grows (assertP msg b)" "grows (sleep_secs n)" "grows random_key"
  unfolding mgr_calls deref_test_config_def unwrap_sum_def api_call_def assertP_def sleep_secs_def random_key_def
  by (intro only_rules TrueI)+

lemma grows_monitors [grow_rules]:
  "grows (start_monitor i opts start)" "grows (wait_monitor mon)" "grows (stop_monitor mon)" "grows (bridge_monitor kit f opts)"
  "grows (tunnel_monitor_until kit f k s opts)" "grows (bridge_monitor_until kit f k s opts)"
proof -
  show start: "grows (start_monitor i opts start)" for i opts start
    by (auto simp: only_def intro: spec_start_monitor)
  show "grows (wait_monitor mon)" "grows (stop_monitor mon)"
    by (auto simp: only_def intro: spec_wait_monitor spec_stop_monitor)
  show "grows (bridge_monitor kit f opts)" "grows (tunnel_monitor_until kit f k s opts)" "grows (bridge_monitor_until kit f k s opts)"
    unfolding bridge_monitor_def tunnel_monitor_until_def bridge_monitor_until_def
    by (intro only_rules grow_rules start)+
qed

section \<open>Helpers\<close>

lemma grows_states [grow_rules]:
  "grows (find_next_tunnel_state accept)" "grows (wait_for_tunnel_state accept)" "grows connect_and_wait" "grows disconnect_and_wait"
  "grows get_tunnel_state" "grows (update_relay_settings u)" "grows ensure_updated_relay_list" "grows (filter_relays c)"
  "grows (random_entry_and_exit c)" "grows (lookup_first h)" "grows (get_possible_api_endpoints parse b)" "grows new_client"
  unfolding find_next_tunnel_state_def wait_for_tunnel_state_def connect_and_wait_def disconnect_and_wait_def get_tunnel_state_def
    update_relay_settings_def ensure_updated_relay_list_def filter_relays_def random_entry_and_exit_def lookup_first_def
    get_possible_api_endpoints_def new_client_def
  by (intro only_rules grow_rules TrueI)+

lemma grows_geoip_loop: "grows (geoip_loop host left)"
proof (induction left)
  case 0
  show ?case by (subst geoip_loop.simps) (auto intro!: only_rules grow_rules)
next
  case (Suc left)
  then show ?case by (subst geoip_loop.simps) (auto intro!: only_rules grow_rules)
qed

lemma grows_probes [grow_rules]:
  "grows (probe_bind_addr iface)" "grows (send_guest_probes kit iface dest)" "grows geoip_check"
  "grows (pop_relay c)" "grows (unreachable_wireguard_tunnel kit)" "grows (run_test_env params vars)" "grows (ui_run_test params)"
  unfolding probe_bind_addr_def send_guest_probes_def geoip_check_def geoip_lookup_with_retries_def pop_relay_def
    unreachable_wireguard_tunnel_def ui_run_test_def run_test_env_def only_if_def
  by (intro only_rules grow_rules grows_geoip_loop TrueI)+

section \<open>Tests\<close>

lemma grows_leak_test: "grows k \<Longrightarrow> grows (leak_test kit k)"
  unfolding leak_test_def Let_def by (intro only_rules grow_rules)

lemma grows_matches [grow_rules]: "grows (matches_relay kit relay state)"
  unfolding matches_relay_def by (auto intro!: only_rules grow_rules split: tunnel_state.split option.split)

lemma grows_leak_tests [grow_rules]:
  "grows (test_lan kit)" "grows (test_lockdown kit)" "grows (test_disconnected_state kit)" "grows (test_connecting_state kit)"
  "grows (test_error_state kit)" "grows (test_connected_state kit)"
  unfolding test_lan_def test_lockdown_def test_disconnected_state_def test_connecting_state_def test_error_state_def
    test_connected_state_def Let_def
  by (intro only_rules grow_rules grows_leak_test TrueI)+

lemma grows_tunnel_works: "grows k \<Longrightarrow> grows (tunnel_works k)"
  unfolding tunnel_works_def by (intro only_rules grow_rules)

lemma grows_psk [grow_rules]: "grows (check_tunnel_psk b)"
  unfolding check_tunnel_psk_def by (auto intro!: only_rules grow_rules split: os.split)

lemma grows_disk [grow_rules]: "grows m \<Longrightarrow> grows (disk m)"
  unfolding disk_def by (rule only_embed) simp_all

lemma grows_reboot [grow_rules]: "grows (Tests_Tunnel.reboot kit fault_text)"
  unfolding Tests_Tunnel.reboot_def only_if_def by (intro only_rules grow_rules only_weaken [OF quiet_tunnel] TrueI)

lemma grows_tunnel_tests [grow_rules]:
  "grows test_openvpn_tunnel" "grows test_wireguard_tunnel" "grows (test_udp2tcp_tunnel kit)" "grows (test_bridge kit)"
  "grows (test_multihop kit)" "grows (test_wireguard_autoconnect kit fault_text)" "grows (test_openvpn_autoconnect kit fault_text)"
  "grows (test_quantum_resistant_tunnel kit)" "grows (test_quantum_resistant_multihop_udp2tcp_tunnel kit)"
  unfolding test_openvpn_tunnel_def openvpn_case_def test_wireguard_tunnel_def wireguard_case_def test_udp2tcp_tunnel_def
    test_bridge_def test_multihop_def test_wireguard_autoconnect_def test_openvpn_autoconnect_def autoconnect_test_def
    test_quantum_resistant_tunnel_def test_quantum_resistant_multihop_udp2tcp_tunnel_def case_prod_unfold
  by (intro only_rules grow_rules grows_tunnel_works TrueI)+

lemma grows_login_loop: "grows (login_loop n)"
  by (induction n) (auto intro!: only_rules grow_rules split: sum.split)

lemma grows_retry_loop: "grows m \<Longrightarrow> grows (retry_loop n m)"
  by (induction n) (auto intro!: only_rules grow_rules split: sum.split)

lemma grows_pub_key_event [grow_rules]: "grows (get_pub_key_event items)"
  by (induction items rule: get_pub_key_event.induct) (auto simp: unwrap_device_def intro!: only_rules)

lemma grows_account [grow_rules]:
  "grows resolve_api" "grows new_device_client" "grows (login_with_retries kit)" "grows (remove_device d)"
  "grows (list_devices_with_retries kit)" "grows (clear_devices kit ak)" "grows (get_device msg)" "grows (unwrap_device st)"
  "grows (create_devices kit ak n)"
  unfolding resolve_api_def new_device_client_def login_with_retries_def remove_device_def list_devices_with_retries_def
    retry_if_throttled_def clear_devices_def get_device_def unwrap_device_def
  by (intro only_rules grow_rules grows_login_loop grows_retry_loop only_weaken [OF only_create_devices] TrueI)+

lemma grows_account_tests [grow_rules]:
  "grows (test_login kit ak)" "grows test_logout" "grows (test_too_many_devices kit ak)" "grows (test_revoked_device kit ak)"
  "grows test_automatic_wireguard_rotation" "grows (test_ui_tunnel_settings kit)" "grows test_ui_login"
  unfolding test_login_def test_logout_def test_too_many_devices_def test_revoked_device_def retry_if_throttled_def
    test_automatic_wireguard_rotation_def test_ui_tunnel_settings_def test_ui_login_def
  by (intro only_rules grow_rules grows_retry_loop TrueI)+

lemma grows_poll_error: "grows (poll_error_state n)"
  by (induction n) (auto intro!: only_rules grow_rules)

lemma grows_aborting:
  assumes "grows m"
  shows "grows (aborting t m)"
  unfolding only_def spec_def
proof (intro allI)
  fix env tr
  obtain r tr' where m: "m env tr = (r, tr')" by fastforce
  with assms obtain es where "tr' = tr @ es" by (auto elim: only_run)
  with m show "\<exists>es. snd (aborting t m env tr) = tr @ es \<and> list_all (\<lambda>_. True) es"
    by (simp add: aborting_def list_all_iff)
qed

lemma grows_install [grow_rules]:
  "grows (get_app_env ak)" "grows replace_openvpn_cert" "grows (require_status st e)" "grows (install_package f)" "grows (override_env ak)"
  unfolding get_app_env_def replace_openvpn_cert_def require_status_def install_package_def override_env_def case_prod_unfold
  by (intro only_rules grow_rules TrueI)+

lemma grows_install_tests [grow_rules]:
  "grows (test_install_previous_app ak)" "grows (test_install_new_app ak)" "grows (test_uninstall_app kit ak)"
  "grows (test_upgrade_app kit ak)"
  unfolding test_install_previous_app_def test_install_new_app_def test_uninstall_app_def test_upgrade_app_def Let_def
  by (intro only_rules grow_rules grows_poll_error grows_aborting TrueI)+

lemma grows_dns [grow_rules]:
  "grows (connect_local_wg_relay ak kit)" "grows (spoof_packets i b d)" "grows (expect_queries w res)"
  unfolding connect_local_wg_relay_def spoof_packets_def expect_queries_def by (intro only_rules grow_rules TrueI)+

lemma grows_guest_addresses: "(\<And>a b. grows (k a b)) \<Longrightarrow> grows (guest_addresses ak k)"
  unfolding guest_addresses_def by (intro only_rules grow_rules)

lemma grows_custom_resolver: "grows k \<Longrightarrow> grows (set_custom_resolver ak kit ip k)"
  unfolding set_custom_resolver_def by (intro only_rules grow_rules)

lemma grows_leak_test_dns [grow_rules]: "grows (leak_test_dns ak kit iface ip)"
  unfolding leak_test_dns_def leak_test_in_tunnel_def leak_test_outside_def case_prod_unfold
  by (intro only_rules grow_rules grows_guest_addresses TrueI)

lemma grows_config_test: "grows create \<Longrightarrow> grows (run_dns_config_test ak kit create ip)"
  unfolding run_dns_config_test_def only_if_def by (intro only_rules grow_rules grows_guest_addresses TrueI)

lemma grows_config_tests [grow_rules]:
  "grows (run_dns_config_tunnel_test ak kit ip)" "grows (run_dns_config_non_tunnel_test ak kit ip)"
  unfolding run_dns_config_tunnel_test_def run_dns_config_non_tunnel_test_def by (intro grows_config_test grow_rules)+

lemma grows_dns_tests [grow_rules]:
  "grows (test_dns_leak_default ak kit)" "grows (test_dns_leak_custom_public_ip ak kit)" "grows (test_dns_leak_custom_private_ip ak kit)"
  "grows (test_dns_config_default ak kit)" "grows (test_dns_config_custom_private ak kit)"
  "grows (test_dns_config_custom_public ak kit)" "grows (test_content_blockers powerset ak kit)"
  unfolding test_dns_leak_default_def test_dns_leak_custom_public_ip_def test_dns_leak_custom_private_ip_def
    test_dns_config_default_def test_dns_config_custom_private_def test_dns_config_custom_public_def test_content_blockers_def
    content_blocker_case_def case_prod_unfold
  by (intro only_rules grow_rules grows_custom_resolver)+

end
