(* ===== verification/Test_Macro.thy ===== *)
theory Test_Macro
  imports Run_Tests
begin

text \<open>
  \<open>test-manager/test_macro/src/lib.rs\<close>: the attribute macro \<open>test_function\<close>, which turns an annotated
  function into an entry of the test inventory.  The syntax trees are those of the crate \<open>syn\<close>, as far
  as the macro looks at them; a panic of the macro is a compile error, \<open>Inl\<close> here.
\<close>

section \<open>Syntax\<close>

datatype lit = LitInt int | LitBool bool | LitOther

text \<open>A path is the list of its segments; \<open>is_ident\<close> asks for a single segment.\<close>

datatype nested_meta = NameValue "string list" lit | OtherMeta

datatype ty = TypePath "string list" | OtherType

datatype fn_arg = Typed ty | Receiver

definition is_ident :: "string list \<Rightarrow> string \<Rightarrow> bool" where
  "is_ident path name \<longleftrightarrow> path = [name]"

section \<open>Parameters of the macro\<close>

record macro_parameters =
  mp_priority :: "int option"
  mp_cleanup :: bool
  mp_always_run :: bool
  mp_must_succeed :: bool

definition macro_defaults :: macro_parameters where
  "macro_defaults = \<lparr>mp_priority = None, mp_cleanup = True, mp_always_run = False, mp_must_succeed = False\<rparr>"

fun apply_attribute :: "nested_meta \<Rightarrow> macro_parameters \<Rightarrow> string + macro_parameters" where
  "apply_attribute OtherMeta p = Inr p"
| "apply_attribute (NameValue path l) p =
    (if is_ident path ''priority'' then
       (case l of LitInt i \<Rightarrow> Inr (p\<lparr>mp_priority := Some i\<rparr>)
        | _ \<Rightarrow> Inl '''priority' should have an integer value'')
     else if is_ident path ''always_run'' then
       (case l of LitBool b \<Rightarrow> Inr (p\<lparr>mp_always_run := b\<rparr>)
        | _ \<Rightarrow> Inl '''always_run' should have a bool value'')
     else if is_ident path ''must_succeed'' then
       (case l of LitBool b \<Rightarrow> Inr (p\<lparr>mp_must_succeed := b\<rparr>)
        | _ \<Rightarrow> Inl '''must_succeed' should have a bool value'')
     else if is_ident path ''cleanup'' then
       (case l of LitBool b \<Rightarrow> Inr (p\<lparr>mp_cleanup := b\<rparr>)
        | _ \<Rightarrow> Inl '''cleanup' should have a bool value'')
     else Inr p)"

fun macro_loop :: "nested_meta list \<Rightarrow> macro_parameters \<Rightarrow> string + macro_parameters" where
  "macro_loop [] p = Inr p"
| "macro_loop (a # attributes) p = (case apply_attribute a p of
      Inl msg \<Rightarrow> Inl msg
    | Inr p' \<Rightarrow> macro_loop attributes p')"

definition get_test_macro_parameters :: "nested_meta list \<Rightarrow> string + macro_parameters" where
  "get_test_macro_parameters attributes = macro_loop attributes macro_defaults"

section \<open>Parameters of the function\<close>

datatype mullvad_client = ClientNone | ClientNew ty | ClientOld ty

primrec client_version :: "mullvad_client \<Rightarrow> mullvad_client_version" where
  "client_version ClientNone = VersionNone"
| "client_version (ClientNew t) = VersionNew"
| "client_version (ClientOld t) = VersionPrevious"

definition get_test_function_parameters :: "fn_arg list \<Rightarrow> string + mullvad_client" where
  "get_test_function_parameters inputs =
    (if length inputs > 2 then
       (case inputs ! 2 of
          Typed (TypePath (segment # segments)) \<Rightarrow>
            if segment \<in> {''mullvad_management_interface'', ''ManagementServiceClient''}
            then Inr (ClientNew (TypePath (segment # segments)))
            else if segment = ''old_mullvad_management_interface''
            then Inr (ClientOld (TypePath (segment # segments)))
            else Inl ''cannot infer mullvad client type''
        | Typed (TypePath []) \<Rightarrow> Inl ''index out of bounds''
        | Typed OtherType \<Rightarrow> Inl ''unexpected 'mullvad_client' type''
        | Receiver \<Rightarrow> Inl ''unexpected 'mullvad_client' arg'')
     else Inr ClientNone)"

section \<open>The generated entry\<close>

text \<open>
  What is in the box that the wrapper gets: \<open>as_type\<close> boxes the client of the declared version.
  \<open>resolve\<close> is the type that a type expression denotes.
\<close>

datatype boxed = BoxedNew | BoxedOld | BoxedUnit | BoxedOther

primrec boxed_client :: "mullvad_client_version \<Rightarrow> boxed" where
  "boxed_client VersionNew = BoxedNew"
| "boxed_client VersionPrevious = BoxedOld"
| "boxed_client VersionNone = BoxedUnit"

definition wrapper ::
  "(ty \<Rightarrow> boxed) \<Rightarrow> mullvad_client \<Rightarrow> (test_error, unit) mgr \<Rightarrow> boxed \<Rightarrow> (test_error, unit) mgr" where
  "wrapper resolve client body mullvad_client = (case client of
      ClientNone \<Rightarrow> body
    | ClientNew t \<Rightarrow> if mullvad_client = resolve t then body else panic ''invalid mullvad client''
    | ClientOld t \<Rightarrow> if mullvad_client = resolve t then body else panic ''invalid mullvad client'')"

definition create_test ::
  "(ty \<Rightarrow> boxed) \<Rightarrow> string \<Rightarrow> mullvad_client \<Rightarrow> macro_parameters \<Rightarrow> (test_error, unit) mgr \<Rightarrow> test_entry" where
  "create_test resolve func_name client p body =
    \<lparr>tm_name = func_name, tm_command = func_name, tm_client_version = client_version client,
     tm_priority = mp_priority p, tm_always_run = mp_always_run p, tm_must_succeed = mp_must_succeed p,
     tm_cleanup = mp_cleanup p,
     tm_func = wrapper resolve client body (boxed_client (client_version client))\<rparr>"

definition test_function ::
  "(ty \<Rightarrow> boxed) \<Rightarrow> nested_meta list \<Rightarrow> string \<Rightarrow> fn_arg list \<Rightarrow> (test_error, unit) mgr \<Rightarrow> string + test_entry" where
  "test_function resolve attributes func_name inputs body =
    (case get_test_macro_parameters attributes of
       Inl msg \<Rightarrow> Inl msg
     | Inr p \<Rightarrow> (case get_test_function_parameters inputs of
           Inl msg \<Rightarrow> Inl msg
         | Inr client \<Rightarrow> Inr (create_test resolve func_name client p body)))"

section \<open>Lemmas\<close>

text \<open>A reference reading of the attributes: the last value given for a name, or the default.\<close>

definition last_value :: "string \<Rightarrow> nested_meta list \<Rightarrow> lit option" where
  "last_value name attributes = fold (\<lambda>a v. case a of
      NameValue path l \<Rightarrow> if is_ident path name then Some l else v
    | OtherMeta \<Rightarrow> v) attributes None"

definition as_int :: "lit option \<Rightarrow> int option" where
  "as_int v = (case v of Some (LitInt i) \<Rightarrow> Some i | _ \<Rightarrow> None)"

definition as_bool :: "bool \<Rightarrow> lit option \<Rightarrow> bool" where
  "as_bool d v = (case v of Some (LitBool b) \<Rightarrow> b | _ \<Rightarrow> d)"

fun ill_typed :: "nested_meta \<Rightarrow> bool" where
  "ill_typed OtherMeta = False"
| "ill_typed (NameValue path l) =
    (is_ident path ''priority'' \<and> \<not> (\<exists>i. l = LitInt i) \<or>
     (is_ident path ''always_run'' \<or> is_ident path ''must_succeed'' \<or> is_ident path ''cleanup'') \<and>
       \<not> (\<exists>b. l = LitBool b))"

definition quoted :: "string \<Rightarrow> string" where
  "quoted s = CHR 0x27 # s @ [CHR 0x27]"

fun type_error :: "nested_meta \<Rightarrow> string" where
  "type_error OtherMeta = []"
| "type_error (NameValue path l) = quoted (concat path) @
     (if is_ident path ''priority'' then '' should have an integer value'' else '' should have a bool value'')"

lemma apply_attribute_cases:
  "(case apply_attribute a p of Inl msg \<Rightarrow> ill_typed a \<and> msg = type_error a | Inr p' \<Rightarrow> \<not> ill_typed a)"
  by (cases a) (auto simp: is_ident_def quoted_def split: lit.splits)

definition reading :: "nested_meta list \<Rightarrow> macro_parameters" where
  "reading attributes = \<lparr>mp_priority = as_int (last_value ''priority'' attributes),
     mp_cleanup = as_bool True (last_value ''cleanup'' attributes),
     mp_always_run = as_bool False (last_value ''always_run'' attributes),
     mp_must_succeed = as_bool False (last_value ''must_succeed'' attributes)\<rparr>"

lemma last_value_snoc:
  "last_value name (as @ [a]) = (case a of
      NameValue path l \<Rightarrow> if is_ident path name then Some l else last_value name as
    | OtherMeta \<Rightarrow> last_value name as)"
  by (cases a) (simp_all add: last_value_def)

lemma apply_reading:
  "apply_attribute a (reading as) = Inr p \<Longrightarrow> p = reading (as @ [a])"
  by (cases a) (auto simp: reading_def last_value_snoc as_int_def as_bool_def is_ident_def
      split: if_splits lit.splits)

lemma macro_loop_append:
  "macro_loop (as @ bs) p = (case macro_loop as p of Inl m \<Rightarrow> Inl m | Inr p' \<Rightarrow> macro_loop bs p')"
  by (induction as p rule: macro_loop.induct) (auto split: sum.splits)

lemma find_snoc: "find P (xs @ [x]) = (case find P xs of Some y \<Rightarrow> Some y | None \<Rightarrow> if P x then Some x else None)"
  by (induction xs) auto

lemma parameters_are_read:
  "get_test_macro_parameters attributes = (case find ill_typed attributes of
      Some a \<Rightarrow> Inl (type_error a)
    | None \<Rightarrow> Inr (reading attributes))"
  unfolding get_test_macro_parameters_def
proof (induction attributes rule: rev_induct)
  case Nil
  show ?case by (simp add: macro_defaults_def reading_def last_value_def as_int_def as_bool_def)
next
  case (snoc a as)
  have step: "macro_loop (as @ [a]) macro_defaults = (case macro_loop as macro_defaults of
      Inl m \<Rightarrow> Inl m | Inr p \<Rightarrow> apply_attribute a p)"
    by (simp add: macro_loop_append split: sum.splits)
  show ?case
    unfolding step snoc.IH find_snoc
    using apply_attribute_cases [of a "reading as"] apply_reading [of a as]
    by (auto split: option.splits sum.splits)
qed

text \<open>
  C29. Attributes: the macro rejects the function exactly when one of its four attributes has a value
  of the wrong type, with the message for the first such one; otherwise each parameter has the last
  value given for it, or its documented default (no priority, clean-up on, the others off), whatever
  other attributes there are.
\<close>

theorem macro_reads_attributes:
  "get_test_macro_parameters attributes = (case find ill_typed attributes of
      Some a \<Rightarrow> Inl (type_error a)
    | None \<Rightarrow> Inr (reading attributes))"
  by (rule parameters_are_read)

section \<open>The client a test gets\<close>

text \<open>
  The three type expressions that the tests use for a daemon client, in the scope of their modules:
  the client of the current management interface by its path or, imported, by its name, and that of
  the old one by its path.
\<close>

definition names_clients :: "(ty \<Rightarrow> boxed) \<Rightarrow> bool" where
  "names_clients resolve \<longleftrightarrow>
     resolve (TypePath [''mullvad_management_interface'', ''ManagementServiceClient'']) = BoxedNew \<and>
     resolve (TypePath [''ManagementServiceClient'']) = BoxedNew \<and>
     resolve (TypePath [''old_mullvad_management_interface'', ''ManagementServiceClient'']) = BoxedOld"

definition demo_resolve :: "ty \<Rightarrow> boxed" where
  "demo_resolve t =
    (if t = TypePath [''old_mullvad_management_interface'', ''ManagementServiceClient''] then BoxedOld
     else if t = TypePath [''mullvad_management_interface'', ''ManagementServiceClient''] \<or>
       t = TypePath [''ManagementServiceClient''] then BoxedNew
     else BoxedOther)"

lemma demo_resolve_names: "names_clients demo_resolve"
  by (simp add: names_clients_def demo_resolve_def)

text \<open>
  The macro looks at the first segment of the path only.  Any other type of one of the crates is taken
  for its client, and then the downcast of the client panics when the test is run.
\<close>

lemma foreign_type_panics:
  assumes "resolve (TypePath (''mullvad_management_interface'' # segments)) = BoxedOther"
  shows "\<exists>entry. test_function resolve [] name
      [a, b, Typed (TypePath (''mullvad_management_interface'' # segments))] body = Inr entry \<and>
    tm_func entry = panic ''invalid mullvad client''"
  using assms
  by (simp add: test_function_def get_test_macro_parameters_def get_test_function_parameters_def create_test_def wrapper_def)

text \<open>
  The signature in the documentation: a function with the two parameters that the crate's
  documentation shows, the runner's client and the daemon's, is registered as one that needs no
  daemon client at all.
\<close>

lemma documented_signature_gets_no_client:
  "get_test_function_parameters [Typed (TypePath [''ServiceClient'']),
     Typed (TypePath [''mullvad_management_interface'', ''ManagementServiceClient''])] = Inr ClientNone"
  by (simp add: get_test_function_parameters_def)

end
