(* ===== verification/Test_Suite.thy ===== *)
theory Test_Suite
  imports Test_History Test_Macro
begin

text \<open>
  The tests of \<open>tests/*.rs\<close> as the inventory has them: each function with its attributes, expanded by
  the macro \<open>test_function\<close>, and what follows for the runs of \<open>run_tests.rs\<close>: the order in which they
  are run, what has passed before an ordinary test is run, and what a run without failures has shown.
\<close>

section \<open>The inventory\<close>

text \<open>What the tests get from outside the repository.\<close>

record suite_kit =
  sk_kit :: test_kit
  sk_account :: account_kit
  sk_fault_text :: "vm_fault \<Rightarrow> string"
  sk_powerset :: "(string \<times> byte \<times> default_dns_options) list \<Rightarrow> (string \<times> byte \<times> default_dns_options) list list"

text \<open>An annotated function; the types of its arguments are what the macro sees of them.\<close>

record annotated =
  an_attributes :: "nested_meta list"
  an_name :: string
  an_inputs :: "fn_arg list"
  an_body :: "(test_error, unit) mgr"

definition no_client_args :: "fn_arg list" where
  "no_client_args = [Typed (TypePath [''TestContext'']), Typed (TypePath [''ServiceClient''])]"

definition client_args :: "fn_arg list" where
  "client_args = no_client_args @ [Typed (TypePath [''ManagementServiceClient''])]"

definition with_priority :: "int \<Rightarrow> nested_meta" where
  "with_priority p = NameValue [''priority''] (LitInt p)"

definition flag :: "string \<Rightarrow> bool \<Rightarrow> nested_meta" where
  "flag name b = NameValue [name] (LitBool b)"

definition plain :: "string \<Rightarrow> (test_error, unit) mgr \<Rightarrow> annotated" where
  "plain name body = \<lparr>an_attributes = [], an_name = name, an_inputs = client_args, an_body = body\<rparr>"

definition account_tests :: "suite_kit \<Rightarrow> annotated list" where
  "account_tests sk =
    [\<lparr>an_attributes = [flag ''always_run'' True, flag ''must_succeed'' True, with_priority (-100)], an_name = ''test_login'',
      an_inputs = client_args, an_body = test_login (sk_kit sk) (sk_account sk)\<rparr>,
     \<lparr>an_attributes = [with_priority 100], an_name = ''test_logout'', an_inputs = client_args, an_body = test_logout\<rparr>,
     \<lparr>an_attributes = [with_priority (-151)], an_name = ''test_too_many_devices'', an_inputs = client_args,
      an_body = test_too_many_devices (sk_kit sk) (sk_account sk)\<rparr>,
     \<lparr>an_attributes = [with_priority (-150)], an_name = ''test_revoked_device'', an_inputs = client_args,
      an_body = test_revoked_device (sk_kit sk) (sk_account sk)\<rparr>,
     plain ''test_automatic_wireguard_rotation'' test_automatic_wireguard_rotation]"

definition dns_tests :: "suite_kit \<Rightarrow> annotated list" where
  "dns_tests sk =
    [plain ''test_dns_leak_default'' (test_dns_leak_default (sk_account sk) (sk_kit sk)),
     plain ''test_dns_leak_custom_public_ip'' (test_dns_leak_custom_public_ip (sk_account sk) (sk_kit sk)),
     plain ''test_dns_leak_custom_private_ip'' (test_dns_leak_custom_private_ip (sk_account sk) (sk_kit sk)),
     plain ''test_dns_config_default'' (test_dns_config_default (sk_account sk) (sk_kit sk)),
     plain ''test_dns_config_custom_private'' (test_dns_config_custom_private (sk_account sk) (sk_kit sk)),
     plain ''test_dns_config_custom_public'' (test_dns_config_custom_public (sk_account sk) (sk_kit sk)),
     plain ''test_content_blockers'' (test_content_blockers (sk_powerset sk) (sk_account sk) (sk_kit sk))]"

definition install_tests :: "suite_kit \<Rightarrow> annotated list" where
  "install_tests sk =
    [\<lparr>an_attributes = [with_priority (-200)], an_name = ''test_install_previous_app'', an_inputs = no_client_args,
      an_body = test_install_previous_app (sk_account sk)\<rparr>,
     \<lparr>an_attributes = [with_priority (-190)], an_name = ''test_upgrade_app'',
      an_inputs = no_client_args @ [Typed (TypePath [''old_mullvad_management_interface'', ''ManagementServiceClient''])],
      an_body = test_upgrade_app (sk_kit sk) (sk_account sk)\<rparr>,
     \<lparr>an_attributes = [with_priority (-170), flag ''cleanup'' False], an_name = ''test_uninstall_app'',
      an_inputs = no_client_args @ [Typed (TypePath [''mullvad_management_interface'', ''ManagementServiceClient''])],
      an_body = test_uninstall_app (sk_kit sk) (sk_account sk)\<rparr>,
     \<lparr>an_attributes = [flag ''always_run'' True, flag ''must_succeed'' True, with_priority (-160)],
      an_name = ''test_install_new_app'', an_inputs = no_client_args, an_body = test_install_new_app (sk_account sk)\<rparr>]"

definition settings_tests :: "suite_kit \<Rightarrow> annotated list" where
  "settings_tests sk = [plain ''test_lan'' (test_lan (sk_kit sk)), plain ''test_lockdown'' (test_lockdown (sk_kit sk))]"

definition tunnel_tests :: "suite_kit \<Rightarrow> annotated list" where
  "tunnel_tests sk =
    [plain ''test_openvpn_tunnel'' test_openvpn_tunnel,
     plain ''test_wireguard_tunnel'' test_wireguard_tunnel,
     plain ''test_udp2tcp_tunnel'' (test_udp2tcp_tunnel (sk_kit sk)),
     plain ''test_bridge'' (test_bridge (sk_kit sk)),
     plain ''test_multihop'' (test_multihop (sk_kit sk)),
     plain ''test_wireguard_autoconnect'' (test_wireguard_autoconnect (sk_kit sk) (sk_fault_text sk)),
     plain ''test_openvpn_autoconnect'' (test_openvpn_autoconnect (sk_kit sk) (sk_fault_text sk)),
     plain ''test_quantum_resistant_tunnel'' (test_quantum_resistant_tunnel (sk_kit sk)),
     plain ''test_quantum_resistant_multihop_udp2tcp_tunnel'' (test_quantum_resistant_multihop_udp2tcp_tunnel (sk_kit sk))]"

definition tunnel_state_tests :: "suite_kit \<Rightarrow> annotated list" where
  "tunnel_state_tests sk =
    [plain ''test_disconnected_state'' (test_disconnected_state (sk_kit sk)),
     plain ''test_connecting_state'' (test_connecting_state (sk_kit sk)),
     plain ''test_error_state'' (test_error_state (sk_kit sk)),
     plain ''test_connected_state'' (test_connected_state (sk_kit sk))]"

definition ui_tests :: "suite_kit \<Rightarrow> annotated list" where
  "ui_tests sk =
    [plain ''test_ui_tunnel_settings'' (test_ui_tunnel_settings (sk_kit sk)),
     \<lparr>an_attributes = [with_priority 500], an_name = ''test_ui_login'', an_inputs = no_client_args, an_body = test_ui_login\<rparr>]"

definition all_tests :: "suite_kit \<Rightarrow> annotated list" where
  "all_tests sk = account_tests sk @ dns_tests sk @ install_tests sk @ settings_tests sk @ tunnel_tests sk @
     tunnel_state_tests sk @ ui_tests sk"

definition expand :: "(ty \<Rightarrow> boxed) \<Rightarrow> annotated \<Rightarrow> string + test_entry" where
  "expand resolve f = test_function resolve (an_attributes f) (an_name f) (an_inputs f) (an_body f)"

text \<open>The entries that the macro generates; the crate \<open>inventory\<close> collects them in some order.\<close>

definition suite :: "(ty \<Rightarrow> boxed) \<Rightarrow> suite_kit \<Rightarrow> test_entry list" where
  "suite resolve sk = concat (map (\<lambda>f. case expand resolve f of Inl _ \<Rightarrow> [] | Inr entry \<Rightarrow> [entry]) (all_tests sk))"

section \<open>The entries\<close>

lemmas annotated_defs = account_tests_def dns_tests_def install_tests_def settings_tests_def tunnel_tests_def
  tunnel_state_tests_def ui_tests_def plain_def

text \<open>The entry that a well-formed annotated function has.\<close>

definition entry_of :: "annotated \<Rightarrow> test_entry" where
  "entry_of f = \<lparr>tm_name = an_name f, tm_command = an_name f,
     tm_client_version = (if length (an_inputs f) \<le> 2 then VersionNone
       else if an_inputs f ! 2 = Typed (TypePath [''old_mullvad_management_interface'', ''ManagementServiceClient''])
         then VersionPrevious else VersionNew),
     tm_priority = as_int (last_value ''priority'' (an_attributes f)),
     tm_always_run = as_bool False (last_value ''always_run'' (an_attributes f)),
     tm_must_succeed = as_bool False (last_value ''must_succeed'' (an_attributes f)),
     tm_cleanup = as_bool True (last_value ''cleanup'' (an_attributes f)), tm_func = an_body f\<rparr>"

definition well_formed :: "annotated \<Rightarrow> bool" where
  "well_formed f \<longleftrightarrow> \<not> list_ex ill_typed (an_attributes f) \<and> an_inputs f \<in>
     {no_client_args, client_args, no_client_args @ [Typed (TypePath [''old_mullvad_management_interface'', ''ManagementServiceClient''])],
      no_client_args @ [Typed (TypePath [''mullvad_management_interface'', ''ManagementServiceClient''])]}"

lemma all_well_formed: "list_all well_formed (all_tests sk)"
  by (auto simp: all_tests_def annotated_defs well_formed_def with_priority_def flag_def is_ident_def)

lemma expand_well_formed:
  assumes "names_clients resolve" "well_formed f"
  shows "expand resolve f = Inr (entry_of f)"
proof -
  have "find ill_typed (an_attributes f) = None"
    using assms(2) by (auto simp: well_formed_def find_None_iff list_ex_iff)
  then have "get_test_macro_parameters (an_attributes f) = Inr (reading (an_attributes f))"
    by (simp add: parameters_are_read)
  then show ?thesis
    using assms by (auto simp: expand_def test_function_def well_formed_def create_test_def entry_of_def reading_def
        get_test_function_parameters_def no_client_args_def client_args_def wrapper_def names_clients_def)
qed

lemma suite_entries:
  assumes "names_clients resolve"
  shows "suite resolve sk = map entry_of (all_tests sk)"
proof -
  have expanded: "concat (map (\<lambda>f. case expand resolve f of Inl _ \<Rightarrow> [] | Inr entry \<Rightarrow> [entry]) fs) = map entry_of fs"
    if "list_all well_formed fs" for fs
    using that by (induction fs) (simp_all add: expand_well_formed [OF assms])
  show ?thesis unfolding suite_def by (rule expanded [OF all_well_formed])
qed

text \<open>
  C28. The suite: every test function is accepted by the macro and registered once, under its own name,
  and an entry gets the client its function takes, so that running the entry is running the function:
  the downcast never panics.  That client is the old daemon's for the upgrade test, none for the two
  installing tests and the login through the GUI, and the current daemon's for all others; the clean-up
  is disabled for the uninstalling test only, and exactly installing the new version and logging in are
  always run and have to succeed.
\<close>

theorem suite_is_registered:
  assumes "names_clients resolve"
  shows "distinct (map tm_name (suite resolve sk)) \<and>
    list_all2 (\<lambda>f t. tm_name t = an_name f \<and> tm_func t = an_body f \<and>
      tm_client_version t = (if an_name f = ''test_upgrade_app'' then VersionPrevious
        else if an_name f \<in> {''test_install_previous_app'', ''test_install_new_app'', ''test_ui_login''} then VersionNone
        else VersionNew) \<and>
      tm_cleanup t = (an_name f \<noteq> ''test_uninstall_app'') \<and>
      tm_always_run t = (an_name f \<in> {''test_install_new_app'', ''test_login''}) \<and>
      tm_must_succeed t = (an_name f \<in> {''test_install_new_app'', ''test_login''}))
     (all_tests sk) (suite resolve sk)"
  unfolding suite_entries [OF assms] list.map_comp comp_def list_all2_map2
  by (simp add: all_tests_def annotated_defs entry_of_def no_client_args_def client_args_def with_priority_def flag_def
      last_value_def is_ident_def as_bool_def)

text \<open>The two tests that everything else rests on.\<close>

definition install_entry :: "suite_kit \<Rightarrow> test_entry" where
  "install_entry sk = entry_of (install_tests sk ! 3)"

definition login_entry :: "suite_kit \<Rightarrow> test_entry" where
  "login_entry sk = entry_of (hd (account_tests sk))"

lemma entry_fields:
  "tm_name (install_entry sk) = ''test_install_new_app''" "tm_func (install_entry sk) = test_install_new_app (sk_account sk)"
  "tm_always_run (install_entry sk)" "tm_must_succeed (install_entry sk)" "priority_key (install_entry sk) = -160"
  "tm_name (login_entry sk) = ''test_login''" "tm_func (login_entry sk) = test_login (sk_kit sk) (sk_account sk)"
  "tm_always_run (login_entry sk)" "tm_must_succeed (login_entry sk)" "priority_key (login_entry sk) = -100"
  by (simp_all add: install_entry_def login_entry_def install_tests_def account_tests_def entry_of_def with_priority_def flag_def
      last_value_def is_ident_def as_int_def as_bool_def priority_key_def)

lemma entries_in_suite:
  assumes "names_clients resolve"
  shows "install_entry sk \<in> set (suite resolve sk)" "login_entry sk \<in> set (suite resolve sk)"
  by (simp_all add: suite_entries [OF assms] all_tests_def install_entry_def login_entry_def install_tests_def account_tests_def)

section \<open>The order of the tests\<close>

lemma selected_iff:
  "t \<in> set (select_tests lc filters tests) \<longleftrightarrow> t \<in> set tests \<and> (filters = [] \<or> retained lc filters t)"
  by (auto simp: select_tests_def Let_def)

lemma selected_sorted: "sorted (map priority_key (select_tests lc filters tests))"
  by (simp add: select_tests_def Let_def sorted_filter)

lemma always_selected: "t \<in> set tests \<Longrightarrow> tm_always_run t \<Longrightarrow> t \<in> set (select_tests lc filters tests)"
  by (simp add: selected_iff retained_def)

text \<open>Before a test is run, the \<open>must_succeed\<close> tests before it have passed.\<close>

lemma executes_before:
  "executes opts env ts tr (pre @ (t, v) # post) tr' \<Longrightarrow> (u, w) \<in> set pre \<Longrightarrow> tm_must_succeed u \<Longrightarrow> \<not> verdict_failed w"
proof (induction ts tr "pre @ (t, v) # post" tr' arbitrary: pre rule: executes.induct)
  case (exec_stop t' tr out tr' ts)
  then show ?case by (cases pre) auto
next
  case (exec_next t' tr out tr' ts res tr'')
  then show ?case by (cases pre) auto
qed simp

lemma executes_is_prefix: "executes opts env ts tr res tr' \<Longrightarrow> \<exists>rest. ts = map fst res @ rest"
  by (induction rule: executes.induct) auto

lemma earlier_key:
  assumes "sorted (map key (xs @ t # ys))" "u \<in> set (xs @ t # ys)" "key u < key t"
  shows "u \<in> set xs"
  using assms by (auto simp: sorted_append)

lemma passed_before:
  assumes "executes opts env (select_tests lc filters tests) tr (pre @ (t, v) # post) tr'"
    and "u \<in> set tests" "tm_always_run u" "tm_must_succeed u" "priority_key u < priority_key t"
  obtains a w b where "pre = a @ (u, w) # b" "\<not> verdict_failed w"
proof -
  let ?ts = "select_tests lc filters tests"
  obtain rest where "?ts = map fst pre @ t # map fst post @ rest"
    using executes_is_prefix [OF assms(1)] by auto
  moreover have "u \<in> set ?ts" using assms(2,3) by (rule always_selected)
  ultimately have "u \<in> set (map fst pre)"
    using earlier_key [of priority_key "map fst pre" t "map fst post @ rest" u] selected_sorted [of lc filters tests] assms(5) by simp
  then obtain w where w: "(u, w) \<in> set pre" by auto
  with executes_before [OF assms(1) w assms(4)] show thesis by (metis split_list that)
qed

text \<open>
  C9. What ordinary tests rest on: whatever order the inventory has and whatever tests are asked for
  by name, before any test without a negative priority is run, the version under test was installed
  and, after that, the account was logged in, by tests that ran in this order and passed.
\<close>

theorem app_and_login_come_first:
  assumes "names_clients resolve" "set tests = set (suite resolve sk)"
    and "executes opts env (select_tests lc filters tests) tr (pre @ (t, v) # post) tr'" "0 \<le> priority_key t"
  shows "\<exists>a w b w' c. pre = a @ (install_entry sk, w) # b @ (login_entry sk, w') # c \<and>
    \<not> verdict_failed w \<and> \<not> verdict_failed w'"
proof -
  note in_suite = entries_in_suite [OF assms(1), of sk, folded assms(2)]
  obtain p w' c where login: "pre = p @ (login_entry sk, w') # c" "\<not> verdict_failed w'"
    using assms(4) by (auto intro: passed_before [OF assms(3) in_suite(2) entry_fields(8,9)] simp: entry_fields)
  have "executes opts env (select_tests lc filters tests) tr (p @ (login_entry sk, w') # c @ (t, v) # post) tr'"
    using assms(3) by (simp add: login(1))
  from passed_before [OF this in_suite(1) entry_fields(3,4)] obtain a w b where
    "p = a @ (install_entry sk, w) # b" "\<not> verdict_failed w" by (auto simp: entry_fields)
  with login show ?thesis
    by (intro exI [of _ a] exI [of _ w] exI [of _ b] exI [of _ w'] exI [of _ c]) simp
qed

section \<open>What a green run has shown\<close>

lemma suite_grows: "names_clients resolve \<Longrightarrow> t \<in> set (suite resolve sk) \<Longrightarrow> grows (tm_func t)"
  by (auto simp: suite_entries all_tests_def annotated_defs entry_of_def intro: grow_rules)

lemma grows_parts:
  "grows (prepare opts t)" "grows (clean_up opts t out)" "grows (conclude opts t out)" "grows Client.try_poll_output"
  "grows Client.get_mullvad_app_logs"
  unfolding prepare_def only_if_def init_default_settings_def set_default_settings_def Client.try_poll_output_def
    Client.get_mullvad_app_logs_def
  by (intro only_rules grow_rules only_weaken [OF only_as_type] only_weaken [OF only_clean_up] only_weaken [OF only_conclude] TrueI)+

lemma run_one_grows: "grows (tm_func t) \<Longrightarrow> grows (run_one opts t)"
  unfolding run_one_def by (intro only_rules grows_parts only_run_test TrueI)

text \<open>A stage somewhere inside the events.\<close>

definition inside :: "test_stage \<Rightarrow> test_stage" where
  "inside P env tr es \<longleftrightarrow> (\<exists>pre mid post. es = pre @ mid @ post \<and> P env (tr @ pre) mid)"

lemma insideI: "P env tr es \<Longrightarrow> inside P env tr es"
  unfolding inside_def by (intro exI [of _ "[]"] exI [of _ es]) simp

lemma inside_append: "inside P env (tr @ es) mid \<Longrightarrow> inside P env tr (es @ mid @ post)"
  unfolding inside_def by (metis append.assoc)

lemmas inside_before = inside_append [where post = "[]", simplified]
lemmas inside_after = inside_append [where es = "[]", simplified]

text \<open>What the body of a passed test has shown is in the history of its pass of the loop.\<close>

lemma yields_caught:
  assumes "yields f (\<lambda>_. P)" "grows f"
  shows "yields (catch_unwind f) (\<lambda>v env tr es. \<not> verdict_failed v \<longrightarrow> inside P env tr es)"
  unfolding yields_def
proof (intro allI impI)
  fix env tr v tr'
  assume run: "(catch_unwind f :: ('e, test_verdict) mgr) env tr = (Ok v, tr')"
  obtain r where f: "f env tr = (r, tr')" using run by (auto simp: catch_unwind_def split: prod.splits res.splits)
  then obtain es where es: "tr' = tr @ es" using assms(2) by (auto elim: only_run)
  have "P env tr es" if "\<not> verdict_failed v"
  proof -
    have "r = Ok ()" using that run f by (auto simp: catch_unwind_def verdict_failed_def split: res.splits)
    with yields_run [OF assms(1)] f es show ?thesis by fastforce
  qed
  with es show "\<exists>es. tr' = tr @ es \<and> (\<not> verdict_failed v \<longrightarrow> inside P env tr es)" by (auto intro: insideI)
qed

lemma yields_then:
  assumes "yields m (\<lambda>a env tr es. c a \<longrightarrow> inside P env tr es)" "\<And>a. grows (f a)"
    and "\<And>a. yields (f a) (\<lambda>b env tr es. d b \<longrightarrow> c a)"
  shows "yields (bindE m f) (\<lambda>b env tr es. d b \<longrightarrow> inside P env tr es)"
  by (rule yields_bind [OF assms(1,3)]) (use inside_after in blast)

lemma yields_after:
  assumes "grows m" "\<And>a. yields (f a) (\<lambda>b env tr es. d b \<longrightarrow> inside P env tr es)"
  shows "yields (bindE m f) (\<lambda>b env tr es. d b \<longrightarrow> inside P env tr es)"
  by (rule yields_bind [OF yields_only [OF assms(1)] assms(2)]) (use inside_before in blast)

lemma yields_result: "grows f \<Longrightarrow> (\<And>env tr b tr'. f env tr = (Ok b, tr') \<Longrightarrow> Q b) \<Longrightarrow> yields f (\<lambda>b _ _ _. Q b)"
  unfolding yields_def by (meson only_run)

lemma run_test_evidence:
  assumes "yields f (\<lambda>_. P)" "grows f"
  shows "yields (run_test dbg f name) (\<lambda>out env tr es. \<not> verdict_failed (to_result out) \<longrightarrow> inside P env tr es)"
  unfolding run_test_def seqE_def
proof (rule yields_after [OF _ yields_then [OF yields_caught [OF assms] _ yields_result]], goal_cases)
  case (4 x a env tr b tr')
  then show ?case by (elim bindE_OkE) (auto simp: ret_def)
qed (intro only_rules grow_rules grows_parts)+

lemma run_one_evidence:
  assumes "yields (tm_func t) (\<lambda>_. P)" "grows (tm_func t)"
  shows "yields (run_one opts t) (\<lambda>out env tr es. \<not> verdict_failed (to_result out) \<longrightarrow> inside P env tr es)"
  unfolding run_one_def seqE_def
proof (rule yields_after [OF _ yields_then [OF yields_map_err [OF run_test_evidence [OF assms]] _ yields_result]], goal_cases)
  case (4 x a env tr b tr')
  then show ?case by (elim bindE_OkE) (auto simp: ret_def)
qed (intro only_rules grows_parts)+

lemma executes_evidence:
  assumes "executes opts env ts tr res tr'" "\<forall>t \<in> set ts. grows (tm_func t)"
  shows "\<exists>es. tr' = tr @ es \<and> (\<forall>t v P. (t, v) \<in> set res \<longrightarrow> \<not> verdict_failed v \<longrightarrow> yields (tm_func t) (\<lambda>_. P) \<longrightarrow> inside P env tr es)"
  using assms
proof (induction rule: executes.induct)
  case (exec_done tr)
  then show ?case by simp
next
  case (exec_stop t tr out tr' ts)
  then obtain es where "tr' = tr @ es" using run_one_grows [of t opts] by (auto elim: only_run)
  then show ?case using exec_stop by auto
next
  case (exec_next t tr out tr' ts res tr'')
  then have g: "grows (tm_func t)" by simp
  from exec_next.IH exec_next.prems obtain es2 where es2: "tr'' = tr' @ es2"
    "\<And>t v P. (t, v) \<in> set res \<Longrightarrow> \<not> verdict_failed v \<Longrightarrow> yields (tm_func t) (\<lambda>_. P) \<Longrightarrow> inside P env tr' es2" by auto
  obtain es1 where es1: "tr' = tr @ es1" using run_one_grows [OF g] exec_next.hyps(1) by (auto elim: only_run)
  have "inside P env tr (es1 @ es2)" if "(u, v) \<in> set ((t, to_result out) # res)" "\<not> verdict_failed v" "yields (tm_func u) (\<lambda>_. P)"
    for u v P
  proof (cases "(u, v) = (t, to_result out)")
    case True
    with yields_run [OF run_one_evidence [OF _ g] exec_next.hyps(1), of P] that es1 have "inside P env tr es1" by auto
    then show ?thesis by (rule inside_after)
  next
    case False
    with that es2(2) [of u v P] es1 show ?thesis by (auto intro: inside_before)
  qed
  with es1 es2(1) show ?case by (intro exI [of _ "es1 @ es2"]) auto
qed

lemma run_loop_evidence:
  assumes "\<forall>t \<in> set ts. grows (tm_func t)" "t \<in> set ts" "yields (tm_func t) (\<lambda>_. P)"
  shows "yields (run_loop opts ts run_start) (\<lambda>st env tr es. final_result st = Inr () \<longrightarrow> inside P env tr es)"
  unfolding yields_def
proof (intro allI impI)
  fix env tr st tr'
  assume "run_loop opts ts run_start env tr = (Ok st, tr')"
  from run_loop_executes [OF this] obtain res where res: "executes opts env ts tr res tr'" "st = tally res run_start" by blast
  from executes_evidence [OF res(1) assms(1)] obtain es where es: "tr' = tr @ es"
    "\<And>t v P. (t, v) \<in> set res \<Longrightarrow> \<not> verdict_failed v \<Longrightarrow> yields (tm_func t) (\<lambda>_. P) \<Longrightarrow> inside P env tr es" by auto
  have "inside P env tr es" if "final_result st = Inr ()"
  proof -
    have "names verdict_failed res = []" using that by (simp add: res(2) tally_fields)
    from executes_all_pass [OF res(1) this] assms(2) obtain v where "(t, v) \<in> set res" "\<not> verdict_failed v"
      by (fastforce simp: list_all_iff)
    with es(2) assms(3) show ?thesis by blast
  qed
  with es(1) show "\<exists>es. tr' = tr @ es \<and> (final_result st = Inr () \<longrightarrow> inside P env tr es)" by blast
qed

lemma grows_run_parts:
  "grows (setup_call what)" "grows (report st)" "grows (init_test_config config)"
  unfolding setup_call_def report_def init_test_config_def by (intro only_rules grow_rules TrueI)+

lemma run_evidence:
  assumes "\<forall>t \<in> set (select_tests lc filters tests). grows (tm_func t)" "t \<in> set (select_tests lc filters tests)"
    and "yields (tm_func t) (\<lambda>_. P)"
  shows "yields (run lc opts config pty filters skip tests) (\<lambda>_ env tr es. inside P env tr es)"
proof -
  have loop: "yields (bindE (run_loop opts (select_tests lc filters tests) run_start) (\<lambda>st. bindE (report st) (\<lambda>_.
      bindE (perform me_elapsed Deadline) (\<lambda>_. of_result (final_result st))))) (\<lambda>_ env tr es. True \<longrightarrow> inside P env tr es)"
  proof (rule yields_then [OF run_loop_evidence [OF assms] _ yields_result], goal_cases)
    case (3 a env tr b tr')
    then show ?case by (elim bindE_OkE) (auto simp: of_result_def prog_defs split: sum.splits)
  qed (intro only_rules grows_run_parts TrueI)+
  have "yields (run lc opts config pty filters skip tests) (\<lambda>_ env tr es. True \<longrightarrow> inside P env tr es)"
    unfolding run_def seqE_def only_if_def
    by (rule yields_after, (intro only_rules grow_rules grows_run_parts TrueI)[1])+ (rule loop)
  then show ?thesis by simp
qed

section \<open>Witnesses\<close>

definition demo_suite_kit :: suite_kit where
  "demo_suite_kit = \<lparr>sk_kit = tidy_kit,
     sk_account = demo_account,
     sk_fault_text = \<lambda>_. [], sk_powerset = subseqs\<rparr>"

theorem suite_is_registered_witness:
  "distinct (map tm_name (suite demo_resolve demo_suite_kit)) \<and>
   list_all2 (\<lambda>f t. tm_name t = an_name f \<and> tm_func t = an_body f) (all_tests demo_suite_kit) (suite demo_resolve demo_suite_kit)"
  using suite_is_registered [OF demo_resolve_names, of demo_suite_kit] by (auto elim: list_all2_mono)

definition lockdown_entry :: "suite_kit \<Rightarrow> test_entry" where
  "lockdown_entry sk = entry_of (settings_tests sk ! 1)"

lemma lockdown_fields:
  "tm_name (lockdown_entry sk) = ''test_lockdown''" "tm_func (lockdown_entry sk) = test_lockdown (sk_kit sk)"
  "priority_key (lockdown_entry sk) = 0"
  by (simp_all add: lockdown_entry_def settings_tests_def plain_def entry_of_def last_value_def as_int_def priority_key_def)

lemma demo_selection:
  "select_tests id [''test_lockdown''] (suite demo_resolve sk) = [install_entry sk, login_entry sk, lockdown_entry sk]"
proof -
  have "filter (retained id [''test_lockdown'']) (suite demo_resolve sk) = [login_entry sk, install_entry sk, lockdown_entry sk]"
    unfolding suite_entries [OF demo_resolve_names]
    by (simp add: all_tests_def annotated_defs entry_of_def retained_def install_entry_def login_entry_def lockdown_entry_def
        as_bool_def last_value_def flag_def with_priority_def is_ident_def contains_def windows_def)
  then show ?thesis
    by (simp add: select_tests_def Let_def filter_sort entry_fields lockdown_fields)
qed

lemma ready_log_level:
  assumes "list_ex is_install (requests tr)"
  shows "map_err Rpc (runner (Client.set_daemon_log_level v)) tidy_world tr = (Ok (), tr @ map Runner
     [Call (DeadlineIn LOG_LEVEL_TIMEOUT) (SetDaemonLogLevel v), Call DefaultDeadline MullvadDaemonGetStatus])"
  using assms
  by (simp add: map_err_def ready_runner Client.set_daemon_log_level_def seqE_def bindE_def tidy_client_calls ready_wait ret_def)

lemma ready_override:
  assumes "list_ex is_install (requests tr)" "test_config_cell tr = Some tidy_config"
  shows "\<exists>es. override_env ak tidy_world tr = (Ok (), tr @ es)"
  using assms
  by (simp add: override_env_def get_app_env_def bindE_def ready_resolve ret_def map_err_def ready_runner
      Client.set_daemon_environment_def seqE_def tidy_client_calls ready_wait map_filter_def)

lemma ready_cert:
  assumes "test_config_cell tr = Some tidy_config"
  shows "\<exists>es. replace_openvpn_cert tidy_world tr = (Ok (), tr @ es)"
  using assms
  by (simp add: replace_openvpn_cert_def bindE_def expect_def ready_runner tidy_client_calls ready_deref map_err_def
      Client.copy_file_def requests_append)

lemma ready_install_new_app:
  assumes "\<not> list_ex is_install (requests tr)" "test_config_cell tr = Some tidy_config"
  shows "\<exists>es. test_install_new_app ak tidy_world tr = (Ok (), tr @ es) \<and> list_ex is_install (requests (tr @ es))"
proof -
  let ?status = "Runner (Call DefaultDeadline MullvadDaemonGetStatus)"
  let ?log = "Logging (LogRecord LDebug ''Installing new app'')"
  let ?pkg = "Runner (Call (DeadlineIn INSTALL_TIMEOUT)
     (InstallApp \<lparr>pkg_path = path_join (tc_artifacts_dir tidy_config) (current_app_filename tidy_config)\<rparr>))"
  let ?tr = "tr @ [?status, ?log, ?pkg, ?status] @ map Runner
     [Call (DeadlineIn LOG_LEVEL_TIMEOUT) (SetDaemonLogLevel Trace), Call DefaultDeadline MullvadDaemonGetStatus]"
  have inst: "list_ex is_install (requests (tr @ ?status # ?log # ?pkg # es))" for es
    by (simp add: map_filter_def)
  obtain es1 where cert: "replace_openvpn_cert tidy_world ?tr = (Ok (), ?tr @ es1)"
    using ready_cert [of ?tr] assms(2) by auto
  obtain es2 where env: "override_env ak tidy_world (?tr @ es1) = (Ok (), (?tr @ es1) @ es2)"
    using ready_override [of "?tr @ es1" ak] assms(2) inst by auto
  show ?thesis
    by (rule exI [of _ "drop (length tr) ((?tr @ es1) @ es2)"])
       (use assms cert env inst in \<open>simp add: test_install_new_app_def seqE_def bindE_def ready_status log_msg_def emit_def
          ready_package ready_log_level ret_def\<close>)
qed

lemma ready_login:
  assumes "test_config_cell tr = Some tidy_config" "tk_patience kit = 1"
  shows "\<exists>es. test_login kit ak tidy_world tr = (Ok (), tr @ es)"
  using assms
  by (simp add: test_login_def new_device_client_def clear_devices_def list_devices_with_retries_def retry_if_throttled_def
      login_with_retries_def ensure_updated_relay_list_def seqE_def bindE_def ready_resolve ready_deref expect_def attempt_def
      api_call_def grpc_def log_msg_def prog_defs ready_answers state_item_def)

text \<open>One pass of the loop over the tests.\<close>

definition settled :: "mgr_ev list \<Rightarrow> bool" where
  "settled tr \<longleftrightarrow> test_config_cell tr = Some tidy_config \<and> default_settings tr = Some demo_settings"

lemma settled_append: "settled tr \<Longrightarrow> settled (tr @ es)"
  by (simp add: settled_def default_settings_append)

lemma ready_prepare:
  assumes "settled tr" "tm_client_version t \<noteq> VersionPrevious"
  shows "\<exists>es. prepare demo_opts t tidy_world tr = (Ok (), tr @ es) \<and> requests (tr @ es) = requests tr \<and>
     tunnel_up (rev (tr @ es)) = tunnel_up (rev tr)"
  using assms
  by (cases "tm_client_version t")
     (auto simp: prepare_def as_type_def new_client_def init_default_settings_def only_if_def log_msg_def prog_defs
       ready_answers settled_def default_settings_append demo_opts_def map_filter_def)

text \<open>A test that passes.\<close>

definition passed_output :: "string \<Rightarrow> test_output" where
  "passed_output name = \<lparr>error_messages = [], to_test_name = name, to_result = Inr (Inr ()), to_log_output = demo_logs\<rparr>"

lemma passed_verdict [simp]: "to_result (passed_output name) = Inr (Inr ())" "\<not> verdict_failed (Inr (Inr ()))"
  by (simp_all add: passed_output_def verdict_failed_def)

lemma ready_run_test:
  assumes "f tidy_world (tr @ [Runner (Call DefaultDeadline TryPollOutput)]) = (Ok (), tr1)"
  shows "run_test dbg f name tidy_world tr = (Ok (passed_output name), tr1 @ [Runner (Call DefaultDeadline GetMullvadAppLogs)])"
proof -
  have "(attempt (runner Client.try_poll_output) :: (test_error, _) mgr) tidy_world tr = (Ok (Inl (Tarpc [])), tr @ [Runner (Call DefaultDeadline TryPollOutput)])"
    by (simp add: attempt_def ready_runner Client.try_poll_output_def rpc_def tidy_client_def demo_client_env_def prog_defs)
  moreover have "map_err Rpc (runner Client.get_mullvad_app_logs) tidy_world tr1 =
      (Ok demo_logs, tr1 @ [Runner (Call DefaultDeadline GetMullvadAppLogs)])"
    by (simp add: map_err_def ready_runner Client.get_mullvad_app_logs_def rpc_plain_def tidy_client_def demo_client_env_def prog_defs)
  ultimately show ?thesis
    using assms by (simp add: run_test_def seqE_def bindE_def catch_unwind_def ret_def verdict_failed_def passed_output_def)
qed

lemma ready_clean_up:
  assumes "settled tr"
  shows "\<exists>es. clean_up demo_opts t (passed_output name) tidy_world tr = (Ok (), tr @ es) \<and>
     (tm_client_version t = VersionNew \<and> tm_cleanup t \<longrightarrow> \<not> tunnel_up (rev (tr @ es)))"
  using assms
  by (auto simp: clean_up_def needs_cleanup_def only_if_def new_client_def cleanup_after_test_def reset_relay_settings_def
      tidy_disconnect update_relay_settings_def restore_settings_def grpc_context_def unwrap_opt_def mgr_calls prog_defs
      ready_answers settled_def demo_settings_def default_settings_append disconnect_events_def)

lemma ready_conclude:
  "\<exists>es. conclude demo_opts t (passed_output name) tidy_world tr = (Ok (), tr @ es) \<and>
     tunnel_up (rev (tr @ es)) = tunnel_up (rev tr)"
  by (simp add: conclude_def only_if_def demo_opts_def print_output_def passed_output_def maybe_log_test_result_def disk_def embed_def
      prog_defs the_disk_ev_def)

lemma ready_run_one:
  assumes "settled tr" "tm_client_version t \<noteq> VersionPrevious"
    and body: "\<And>tr1. settled tr1 \<Longrightarrow> requests tr1 = requests tr @ [Call DefaultDeadline TryPollOutput] \<Longrightarrow>
      tunnel_up (rev tr1) = tunnel_up (rev tr) \<Longrightarrow> \<exists>es. tm_func t tidy_world tr1 = (Ok (), tr1 @ es)"
  shows "\<exists>es. run_one demo_opts t tidy_world tr = (Ok (passed_output (tm_name t)), tr @ es) \<and> settled (tr @ es) \<and>
     (tm_client_version t = VersionNew \<and> tm_cleanup t \<longrightarrow> \<not> tunnel_up (rev (tr @ es)))"
proof -
  obtain e1 where p: "prepare demo_opts t tidy_world tr = (Ok (), tr @ e1)" "requests (tr @ e1) = requests tr"
      "tunnel_up (rev (tr @ e1)) = tunnel_up (rev tr)"
    using ready_prepare [OF assms(1,2)] by blast
  let ?tr1 = "(tr @ e1) @ [Runner (Call DefaultDeadline TryPollOutput)]"
  have "requests ?tr1 = requests tr @ [Call DefaultDeadline TryPollOutput]" using p(2) by (simp only: requests_append)
  then obtain e2 where "tm_func t tidy_world ?tr1 = (Ok (), ?tr1 @ e2)"
    using body [of ?tr1] settled_append [OF assms(1)] p(3) by auto
  from ready_run_test [of "tm_func t" "tr @ e1", OF this] obtain tr2 where run: "run_test (ro_debug_rpc demo_opts) (tm_func t) (tm_name t) tidy_world (tr @ e1) =
      (Ok (passed_output (tm_name t)), tr @ tr2)" by (metis append.assoc)
  obtain e3 where c: "clean_up demo_opts t (passed_output (tm_name t)) tidy_world (tr @ tr2) = (Ok (), (tr @ tr2) @ e3)"
      "tm_client_version t = VersionNew \<and> tm_cleanup t \<longrightarrow> \<not> tunnel_up (rev ((tr @ tr2) @ e3))"
    using ready_clean_up [OF settled_append [OF assms(1)]] by blast
  obtain e4 where d: "conclude demo_opts t (passed_output (tm_name t)) tidy_world ((tr @ tr2) @ e3) = (Ok (), ((tr @ tr2) @ e3) @ e4)"
      "tunnel_up (rev (((tr @ tr2) @ e3) @ e4)) = tunnel_up (rev ((tr @ tr2) @ e3))"
    using ready_conclude by blast
  show ?thesis
    by (rule exI [of _ "tr2 @ e3 @ e4"], use c d settled_append [OF assms(1)] in
        \<open>simp add: run_one_def seqE_def bindE_def p(1) map_err_def run ret_def\<close>)
qed

definition demo_tests :: "test_entry list" where
  "demo_tests = [install_entry demo_suite_kit, login_entry demo_suite_kit, lockdown_entry demo_suite_kit]"

definition demo_start :: "mgr_ev list" where
  "demo_start = [SetDefaultSettings demo_settings, InitTestConfig tidy_config]"

lemma versions:
  "tm_client_version (install_entry sk) = VersionNone" "tm_client_version (login_entry sk) = VersionNew" "tm_cleanup (login_entry sk)"
  "tm_client_version (lockdown_entry sk) = VersionNew"
  by (simp_all add: install_entry_def login_entry_def lockdown_entry_def install_tests_def account_tests_def settings_tests_def
      plain_def entry_of_def no_client_args_def client_args_def last_value_def flag_def with_priority_def is_ident_def as_bool_def)

lemma ready_bodies:
  "settled tr \<Longrightarrow> \<not> list_ex is_install (requests tr) \<Longrightarrow> \<exists>es. tm_func (install_entry demo_suite_kit) tidy_world tr = (Ok (), tr @ es)"
  "settled tr \<Longrightarrow> \<exists>es. tm_func (login_entry demo_suite_kit) tidy_world tr = (Ok (), tr @ es)"
  "settled tr \<Longrightarrow> \<not> tunnel_up (rev tr) \<Longrightarrow> \<exists>es. tm_func (lockdown_entry demo_suite_kit) tidy_world tr = (Ok (), tr @ es)"
  using ready_install_new_app [of tr] ready_login [of tr "sk_kit demo_suite_kit"] tidy_lockdown [of tr]
  by (auto simp: settled_def entry_fields lockdown_fields demo_suite_kit_def tidy_kit_def patient_kit_def)

text \<open>The three tests that a run for \<open>test_lockdown\<close> selects all pass.\<close>

lemma demo_passes:
  assumes "settled tr" "\<not> list_ex is_install (requests tr)"
  obtains tr1 tr2 tr3 where
    "run_one demo_opts (install_entry demo_suite_kit) tidy_world tr = (Ok (passed_output ''test_install_new_app''), tr1)"
    "run_one demo_opts (login_entry demo_suite_kit) tidy_world tr1 = (Ok (passed_output ''test_login''), tr2)"
    "run_one demo_opts (lockdown_entry demo_suite_kit) tidy_world tr2 = (Ok (passed_output ''test_lockdown''), tr3)"
proof -
  obtain e1 where r1: "run_one demo_opts (install_entry demo_suite_kit) tidy_world tr =
      (Ok (passed_output ''test_install_new_app''), tr @ e1)"
    using ready_run_one [OF assms(1), of "install_entry demo_suite_kit"] ready_bodies(1) assms(2)
    by (auto simp: versions entry_fields)
  note s1 = settled_append [OF assms(1), of e1]
  obtain e2 where r2: "run_one demo_opts (login_entry demo_suite_kit) tidy_world (tr @ e1) =
      (Ok (passed_output ''test_login''), (tr @ e1) @ e2)" "\<not> tunnel_up (rev ((tr @ e1) @ e2))"
    using ready_run_one [OF s1, of "login_entry demo_suite_kit"] ready_bodies(2) by (auto simp: versions entry_fields)
  note s2 = settled_append [OF s1, of e2]
  obtain e3 where r3: "run_one demo_opts (lockdown_entry demo_suite_kit) tidy_world ((tr @ e1) @ e2) =
      (Ok (passed_output ''test_lockdown''), ((tr @ e1) @ e2) @ e3)"
    using ready_run_one [OF s2, of "lockdown_entry demo_suite_kit"] ready_bodies(3) r2(2) by (auto simp: versions lockdown_fields)
  show thesis by (rule that [OF r1 r2(1) r3])
qed

lemma demo_start_settled: "settled demo_start" "\<not> list_ex is_install (requests demo_start)"
  by (simp_all add: demo_start_def settled_def map_filter_def)

lemma demo_executes:
  "\<exists>tr. executes demo_opts tidy_world demo_tests demo_start (map (\<lambda>t. (t, Inr (Inr ()))) demo_tests) tr"
proof (rule demo_passes [OF demo_start_settled])
  fix tr1 tr2 tr3
  assume r: "run_one demo_opts (install_entry demo_suite_kit) tidy_world demo_start = (Ok (passed_output ''test_install_new_app''), tr1)"
    "run_one demo_opts (login_entry demo_suite_kit) tidy_world tr1 = (Ok (passed_output ''test_login''), tr2)"
    "run_one demo_opts (lockdown_entry demo_suite_kit) tidy_world tr2 = (Ok (passed_output ''test_lockdown''), tr3)"
  have "executes demo_opts tidy_world [] tr3 [] tr3" by (rule exec_done)
  from exec_next [OF r(1) _ exec_next [OF r(2) _ exec_next [OF r(3) _ this]]] show ?thesis by (auto simp: demo_tests_def)
qed

theorem app_and_login_come_first_witness:
  "\<exists>a w b w' c. map (\<lambda>t. (t, Inr (Inr ()))) [install_entry demo_suite_kit, login_entry demo_suite_kit] =
     a @ (install_entry demo_suite_kit, w) # b @ (login_entry demo_suite_kit, w') # c \<and> \<not> verdict_failed w \<and> \<not> verdict_failed w'"
proof -
  obtain tr where run: "executes demo_opts tidy_world (select_tests id [''test_lockdown''] (suite demo_resolve demo_suite_kit)) demo_start
      (map (\<lambda>t. (t, Inr (Inr ()))) [install_entry demo_suite_kit, login_entry demo_suite_kit] @
       (lockdown_entry demo_suite_kit, Inr (Inr ())) # []) tr"
    using demo_executes by (auto simp: demo_selection demo_tests_def)
  show ?thesis
    by (rule app_and_login_come_first [OF demo_resolve_names refl run]) (simp add: lockdown_fields)
qed

lemma demo_run_loop:
  assumes "settled tr" "\<not> list_ex is_install (requests tr)"
  shows "\<exists>st tr'. run_loop demo_opts demo_tests run_start tidy_world tr = (Ok st, tr') \<and> final_result st = Inr ()"
  by (rule demo_passes [OF assms])
     (simp add: demo_tests_def bindE_def Let_def ret_def record_verdict_def run_start_def)

lemma demo_green:
  "\<exists>tr'. run id demo_opts tidy_config ''/dev/pts/1'' [''test_lockdown''] True (suite demo_resolve demo_suite_kit) tidy_world
     [SetDefaultSettings demo_settings] = (Ok (), tr')"
proof -
  let ?tr = "[SetDefaultSettings demo_settings, Logging (LogRecord LTrace ''Setting test constants''), InitTestConfig tidy_config,
     Logging (LogRecord LInfo (''Connecting to '' @ ''/dev/pts/1'')), Setup ''SerialStream::open'' (Inr ()),
     Setup ''create_client_transports'' (Inr ()), Logging (LogRecord LInfo ''Running client'')]"
  have "settled ?tr" "\<not> list_ex is_install (requests ?tr)" by (simp_all add: settled_def map_filter_def)
  from demo_run_loop [OF this] obtain st tr' where
    loop: "run_loop demo_opts demo_tests run_start tidy_world ?tr = (Ok st, tr')" and ok: "final_result st = Inr ()" by blast
  have report: "\<exists>es. (report st :: (anyhow, unit) mgr) tidy_world tr' = (Ok (), es)"
  proof -
    have "for_each (log_msg LInfo :: string \<Rightarrow> (anyhow, unit) mgr) xs tidy_world tr = (Ok (), tr @ map (\<lambda>t. Logging (LogRecord LInfo t)) xs)" for xs tr
      by (induction xs arbitrary: tr) (simp_all add: log_msg_def prog_defs)
    then show ?thesis by (simp add: report_def seqE_def bindE_def log_msg_def emit_def)
  qed
  then show ?thesis
    using loop ok by (auto simp: run_def seqE_def bindE_def log_msg_def emit_def init_test_config_def peek_def expect_def setup_call_def
        callE_def performE_def map_err_def only_if_def demo_selection demo_tests_def ready_answers perform_def of_result_def ret_def prog_defs)
qed

end
