(* ===== verification/Test_Evidence.thy ===== *)
theory Test_Evidence
  imports Test_Suite
begin

text \<open>
  What each test of the suite has done and seen when it passes, test by test, and that all of it is in
  the history of a run without failures.  The stages are explained in \<open>Test_Support\<close> and in the theories
  of the tests; between the stages of a test there are only log records.
\<close>

section \<open>The evidence of the tests\<close>

definition account_evidence :: "suite_kit \<Rightarrow> (string \<times> test_stage) list" where
  "account_evidence sk = (let kit = sk_kit sk in
    [(''test_login'', shown [api_ready, cleared, logged_in, relays_updated]),
     (''test_logout'', shown [did LogoutAccount]),
     (''test_too_many_devices'', \<lambda>env tr es. \<exists>config. shown
        [api_ready, managed_devices, refused (\<lambda>st. st_code st = Code_ResourceExhausted kit), configured config,
         ui_passed [''too-many-devices.spec''] [(''ACCOUNT_NUMBER'', account_number config)], managed_devices] env tr es),
     (''test_revoked_device'', \<lambda>env tr es. \<exists>device. shown
        [logged_in, own_device device, connected_stage, api_ready, revoked (dev_id device), slept PRE_UPDATE_SLEEP,
         did EventsListen, asked UpdateDevice, announced is_TunnelStateError (\<lambda>s. s = TunnelStateError True),
         device_is (\<lambda>state. ds_state state = DeviceState_Revoked kit), ui_passed [''device-revoked.spec''] []] env tr es),
     (''test_automatic_wireguard_rotation'', \<lambda>env tr es. \<exists>old_device. shown
        [own_device old_device, client_stage (switched False), replied ce_unit DefaultDeadline MakeDeviceJsonOld (),
         client_stage (switched True), reconnected, did EventsListen,
         key_announced (\<lambda>new_key. dev_pubkey old_device \<noteq> new_key)] env tr es)])"

definition dns_evidence :: "suite_kit \<Rightarrow> (string \<times> test_stage) list" where
  "dns_evidence sk = (let kit = sk_kit sk; ak = sk_account sk;
       custom = (\<lambda>ip. next_to (did (SetDnsOptions (custom_resolver ak kit ip)))) in
    [(''test_dns_leak_default'', leak_free ak kit Tunnel (pn_tun_remote_addr (platform kit))),
     (''test_dns_leak_custom_public_ip'', custom (V4 1 3 3 7) (leak_free ak kit Tunnel (V4 1 3 3 7))),
     (''test_dns_leak_custom_private_ip'', custom (V4 10 64 10 1) (leak_free ak kit NonTunnel (V4 10 64 10 1))),
     (''test_dns_config_default'', resolver_used ak kit Tunnel (pn_tun_remote_addr (platform kit))),
     (''test_dns_config_custom_private'', custom (pn_non_tun_gateway (platform kit))
        (resolver_used ak kit NonTunnel (pn_non_tun_gateway (platform kit)))),
     (''test_dns_config_custom_public'', custom (V4 1 3 3 7) (resolver_used ak kit Tunnel (V4 1 3 3 7))),
     (''test_content_blockers'', shown (concat (map (blocker_stages ak kit) (sk_powerset sk content_blockers))))])"

definition install_evidence :: "suite_kit \<Rightarrow> (string \<times> test_stage) list" where
  "install_evidence sk = (let kit = sk_kit sk; ak = sk_account sk; pings = KeepSending (addr (V4 0 0 0 0) 0) (addr (V4 1 1 1 1) 1337) in
    [(''test_install_previous_app'', shown [in_state NotRunning, installed previous_app_filename, in_state Running,
        cert_replaced, env_overridden ak]),
     (''test_upgrade_app'', \<lambda>env tr es. \<exists>guest_ip ips bridge. shown
        [in_state Running, api_ready, cleared, did (OldUpdateRelaySettings ''xx'' [] []), did ConnectTunnel, blocking,
         replied ce_ip DefaultDeadline (GetInterfaceIp NonTunnel) guest_ip, allowed kit ips, monitoring bridge monitor_default,
         spawning pings, upgraded pings,
         saw kit bridge monitor_default (list_all (\<lambda>packet. \<not> (sock_ip (source packet) = guest_ip \<and>
            sock_ip (destination packet) \<notin> set ips))),
         reconnected, location_kept] env tr es),
     (''test_uninstall_app'', \<lambda>env tr es. \<exists>config device vars. shown
        [in_state Running, configured config, did (LoginAccount (account_number config)), own_device device,
         api_env ak vars, replied ce_unit (DeadlineIn INSTALL_TIMEOUT) (UninstallApp vars) (),
         replied ce_traces DefaultDeadline FindMullvadAppTraces [], in_state NotRunning, api_ready, gone device] env tr es),
     (''test_install_new_app'', shown [in_state NotRunning, installed current_app_filename, in_state Running,
        client_stage (confirmed (DeadlineIn LOG_LEVEL_TIMEOUT) (SetDaemonLogLevel Trace) (\<lambda>state. state = Running)),
        cert_replaced, env_overridden ak])])"

definition settings_evidence :: "suite_kit \<Rightarrow> (string \<times> test_stage) list" where
  "settings_evidence sk = (let kit = sk_kit sk; lan = addr (pn_dummy_lan_ip (platform kit)); inet = addr (V4 1 1 1 1) 1337 in
    [(''test_lan'', shown [connected_stage, did (SetAllowLan False), blocked_to kit (lan 1234), did (SetAllowLan True),
        reaches kit (lan 1234), disconnected_stage]),
     (''test_lockdown'', shown [polled (\<lambda>s. s = Disconnected), did (SetBlockWhenDisconnected True),
        did (SetAllowLan False), blocked_to kit (lan 1337), blocked_to kit inet,
        did (SetAllowLan True), reaches kit (lan 1337), blocked_to kit inet,
        connected_stage, checked_exit mullvad_exit_ip, blocked_to kit inet,
        did (SetBlockWhenDisconnected False), disconnected_stage])])"

definition autoconnect_evidence :: "test_kit \<Rightarrow> tunnel_type \<Rightarrow> test_stage" where
  "autoconnect_evidence kit tunnel = shown [did (UpdateRelaySettings (NormalUpdate (swedish_over tunnel))),
     did (SetAutoConnect True), rebooted kit, client_stage (status_seen (\<lambda>s. s = Running)), waited is_Connected is_Connected]"

definition tunnel_evidence :: "suite_kit \<Rightarrow> (string \<times> test_stage) list" where
  "tunnel_evidence sk = (let kit = sk_kit sk in
    [(''test_openvpn_tunnel'', shown (concat (map openvpn_stages OPENVPN_CONSTRAINTS))),
     (''test_wireguard_tunnel'', shown (concat (map wireguard_stages WIREGUARD_PORTS))),
     (''test_udp2tcp_tunnel'', \<lambda>env tr es. \<exists>guest_ip bridge. shown
        [did (SetObfuscationSettings (udp2tcp_settings kit)),
         did (UpdateRelaySettings (NormalUpdate ((swedish_over Wireguard)\<lparr>ru_wireguard := Some default_wireguard\<rparr>))),
         connected_stage, replied ce_ip DefaultDeadline (GetInterfaceIp NonTunnel) guest_ip,
         monitoring bridge monitor_default, checked_exit mullvad_exit_ip,
         saw kit bridge monitor_default (list_all (\<lambda>packet. sock_ip (source packet) \<noteq> guest_ip \<or> protocol packet = Tcp)),
         disconnected_stage] env tr es),
     (''test_bridge'', \<lambda>env tr es. \<exists>entry exit bridge. shown
        [picked (active_relay (RelayType_Bridge kit)) entry, picked (active_relay (RelayType_Openvpn kit)) exit,
         did (SetBridgeState \<lparr>bs_state = BridgeState_On kit\<rparr>),
         did (SetBridgeSettings (BridgeNormal (into_locationconstraint entry) [] (Ownership_Any kit))),
         did (UpdateRelaySettings
           (NormalUpdate (no_update\<lparr>ru_location := into_constraint exit, ru_tunnel_protocol := Some (Only OpenVpn)\<rparr>))),
         monitoring bridge monitor_default, connected_stage,
         saw kit bridge monitor_default (list_ex (to_relay kit entry)),
         checked_exit (\<lambda>g. mullvad_exit_ip_hostname g = hostname exit), disconnected_stage] env tr es),
     (''test_multihop'', \<lambda>env tr es. \<exists>p bridge. shown
        [picked_two (active_relay (RelayType_Wireguard kit)) p,
         did (UpdateRelaySettings (NormalUpdate
           (no_update\<lparr>ru_location := into_constraint (snd p), ru_wireguard := multihop_constraints (fst p)\<rparr>))),
         monitoring bridge monitor_default, connected_stage,
         saw kit bridge monitor_default (list_ex (\<lambda>packet. to_relay kit (fst p) packet \<and> protocol packet = Udp)),
         checked_exit (\<lambda>g. mullvad_exit_ip_hostname g = hostname (snd p)), disconnected_stage] env tr es),
     (''test_wireguard_autoconnect'', autoconnect_evidence kit Wireguard),
     (''test_openvpn_autoconnect'', autoconnect_evidence kit OpenVpn),
     (''test_quantum_resistant_tunnel'', shown
        [did (SetQuantumResistantTunnel (QuantumResistant_Off kit)), connected_stage, psk_checked False,
         did (UpdateRelaySettings (NormalUpdate (swedish_over Wireguard))),
         did (SetQuantumResistantTunnel (QuantumResistant_On kit)), connected_stage, psk_checked True,
         checked_exit mullvad_exit_ip]),
     (''test_quantum_resistant_multihop_udp2tcp_tunnel'', shown
        [did (SetQuantumResistantTunnel (QuantumResistant_On kit)), did (SetObfuscationSettings (udp2tcp_settings kit)),
         did (UpdateRelaySettings (NormalUpdate (swedish\<lparr>ru_wireguard := Some (default_wireguard\<lparr>wc_use_multihop := True,
             wc_entry_location := Only (LocationC (Country ''se''))\<rparr>)\<rparr>))),
         connected_stage, checked_exit mullvad_exit_ip])])"

definition tunnel_state_evidence :: "suite_kit \<Rightarrow> (string \<times> test_stage) list" where
  "tunnel_state_evidence sk = (let kit = sk_kit sk in
    [(''test_disconnected_state'', shown [polled (\<lambda>s. s = Disconnected), reaches kit (addr (V4 1 3 3 7) 1337),
        ui_passed [''disconnected.spec''] []]),
     (''test_connecting_state'', \<lambda>env tr es. \<exists>config.
        shown ([polled (\<lambda>s. s = Disconnected), unreachable config, did (UpdateRelaySettings (CustomEndpoint ''1.3.3.7'' config)),
           did ConnectTunnel, waited (\<lambda>s. is_Connecting s \<or> is_TunnelStateError s) is_Connecting] @ no_leaks kit @
          [polled is_Connecting, disconnected_stage, did (UpdateRelaySettings (only_location (Some AnyC)))]) env tr es),
     (''test_error_state'', shown ([polled (\<lambda>s. s = Disconnected), did (SetAllowLan False),
        did (UpdateRelaySettings (only_location (country ''xx''))), tried_to_connect, polled is_TunnelStateError]
        @ no_leaks kit @ [disconnected_stage, did (UpdateRelaySettings (only_location (Some AnyC)))])),
     (''test_connected_state'', \<lambda>env tr es. \<exists>relay.
        shown [picked (active_relay (RelayType_Wireguard kit)) relay,
          did (UpdateRelaySettings (only_location (into_constraint relay))), connected_stage,
          polled (\<lambda>s. \<exists>ip. tk_parse_ipv4 kit (ipv4_addr_in relay) = Some ip \<and> plain_wireguard_to ip s),
          blocked_to kit (addr (V4 1 1 1 1) 1337),
          checked_exit (\<lambda>g. mullvad_exit_ip g \<and> mullvad_exit_ip_hostname g = hostname relay), disconnected_stage] env tr es)])"

definition ui_evidence :: "suite_kit \<Rightarrow> (string \<times> test_stage) list" where
  "ui_evidence sk = (let kit = sk_kit sk in
    [(''test_ui_tunnel_settings'', \<lambda>env tr es. \<exists>entry config. shown
        [picked (active_relay (RelayType_Wireguard kit)) entry,
         did (UpdateRelaySettings (only_location (into_constraint entry))), configured config,
         ui_passed [''tunnel-state.spec''] [(''HOSTNAME'', hostname entry), (''IN_IP'', ipv4_addr_in entry),
           (''CONNECTION_CHECK_URL'', ''https://am.i.'' @ tc_mullvad_host config)]] env tr es),
     (''test_ui_login'', \<lambda>env tr es. \<exists>config. shown
        [configured config, ui_passed [''login.spec''] [(''ACCOUNT_NUMBER'', account_number config)]] env tr es)])"

definition all_evidence :: "suite_kit \<Rightarrow> (string \<times> test_stage) list" where
  "all_evidence sk = account_evidence sk @ dns_evidence sk @ install_evidence sk @ settings_evidence sk @ tunnel_evidence sk @
     tunnel_state_evidence sk @ ui_evidence sk"

section \<open>The tests yield their evidence\<close>

abbreviation yields_evidence :: "annotated list \<Rightarrow> (string \<times> test_stage) list \<Rightarrow> bool" where
  "yields_evidence \<equiv> list_all2 (\<lambda>f (name, P). an_name f = name \<and> yields (an_body f) (\<lambda>_. P))"

lemma shown_test_content_blockers:
  "yields (test_content_blockers powerset ak kit) (\<lambda>_. shown (concat (map (blocker_stages ak kit) (powerset content_blockers))))"
  unfolding test_content_blockers_def by (rule shown_for_each [OF shown_blocker_case])

lemma shown_test_autoconnect:
  "yields (test_wireguard_autoconnect kit fault_text) (\<lambda>_. autoconnect_evidence kit Wireguard)"
  "yields (test_openvpn_autoconnect kit fault_text) (\<lambda>_. autoconnect_evidence kit OpenVpn)"
  unfolding test_wireguard_autoconnect_def test_openvpn_autoconnect_def autoconnect_evidence_def
  by (rule shown_autoconnect_test)+

lemma evidence_Cons:
  "yields_evidence (f # fs) (p # ps) \<longleftrightarrow> an_name f = fst p \<and> yields (an_body f) (\<lambda>_. snd p) \<and> yields_evidence fs ps"
  by (simp add: case_prod_unfold)

lemmas evidence_simps = plain_def Let_def evidence_Cons fst_conv snd_conv annotated.simps

lemma yields_account: "yields_evidence (account_tests sk) (account_evidence sk)"
  unfolding account_tests_def account_evidence_def evidence_simps
  by (intro conjI refl list.rel_intros shown_test_login shown_test_logout shown_test_too_many_devices shown_test_revoked_device
      shown_test_automatic_wireguard_rotation)

lemma yields_dns: "yields_evidence (dns_tests sk) (dns_evidence sk)"
  unfolding dns_tests_def dns_evidence_def evidence_simps
  by (intro conjI refl list.rel_intros shown_test_dns_leaks shown_test_dns_config shown_test_content_blockers)

lemma yields_install: "yields_evidence (install_tests sk) (install_evidence sk)"
  unfolding install_tests_def install_evidence_def evidence_simps
  by (intro conjI refl list.rel_intros shown_test_install_previous_app shown_test_upgrade_app [unfolded Let_def]
      shown_test_uninstall_app shown_test_install_new_app)

lemma yields_settings: "yields_evidence (settings_tests sk) (settings_evidence sk)"
  unfolding settings_tests_def settings_evidence_def evidence_simps
  by (intro conjI refl list.rel_intros shown_test_lan [unfolded Let_def] shown_test_lockdown [unfolded Let_def])

lemma yields_tunnel: "yields_evidence (tunnel_tests sk) (tunnel_evidence sk)"
  unfolding tunnel_tests_def tunnel_evidence_def evidence_simps
  by (intro conjI refl list.rel_intros shown_test_openvpn_tunnel shown_test_wireguard_tunnel shown_test_udp2tcp_tunnel
      shown_test_bridge shown_test_multihop shown_test_autoconnect shown_test_quantum_resistant_tunnel
      shown_test_quantum_resistant_multihop_udp2tcp_tunnel)

lemma yields_tunnel_state: "yields_evidence (tunnel_state_tests sk) (tunnel_state_evidence sk)"
  unfolding tunnel_state_tests_def tunnel_state_evidence_def evidence_simps
  by (intro conjI refl list.rel_intros shown_test_disconnected_state shown_test_connecting_state shown_test_error_state
      shown_test_connected_state)

lemma yields_ui_tests: "yields_evidence (ui_tests sk) (ui_evidence sk)"
  unfolding ui_tests_def ui_evidence_def evidence_simps
  by (intro conjI refl list.rel_intros shown_test_ui_tunnel_settings shown_test_ui_login)

lemma yields_all: "yields_evidence (all_tests sk) (all_evidence sk)"
  unfolding all_tests_def all_evidence_def
  by (intro list_all2_appendI yields_account yields_dns yields_install yields_settings yields_tunnel yields_tunnel_state yields_ui_tests)

text \<open>The names of the tests are distinct, so a name determines a test.\<close>

lemma distinct_names: "distinct (map an_name (all_tests sk))"
  by (simp add: all_tests_def annotated_defs)

lemma evidence_of_test:
  assumes "f \<in> set (all_tests sk)" "(an_name f, P) \<in> set (all_evidence sk)"
  shows "yields (an_body f) (\<lambda>_. P)"
proof -
  obtain i where i: "i < length (all_evidence sk)" "all_evidence sk ! i = (an_name f, P)"
    using assms(2) by (meson in_set_conv_nth)
  have same: "length (all_tests sk) = length (all_evidence sk)" using yields_all by (rule list_all2_lengthD)
  with list_all2_nthD2 [OF yields_all i(1)] i have at: "an_name (all_tests sk ! i) = an_name f"
    "yields (an_body (all_tests sk ! i)) (\<lambda>_. P)" by auto
  obtain j where j: "j < length (all_tests sk)" "all_tests sk ! j = f" using assms(1) by (meson in_set_conv_nth)
  with at(1) i(1) same distinct_names [of sk] have "i = j" by (simp add: distinct_conv_nth) metis
  with at(2) j(2) show ?thesis by simp
qed

text \<open>
  C4. Evidence: when a run of the suite returns \<open>Ok\<close>, then for every test that was selected, what the
  list \<open>all_evidence\<close> has under its name happened in the run: the calls the test makes and what was
  answered and seen, in the order of the stages.
\<close>

theorem green_run_has_evidence:
  assumes "names_clients resolve" "set tests = set (suite resolve sk)"
    and "run lc opts config pty filters skip tests env tr = (Ok (), tr')"
    and "t \<in> set (select_tests lc filters tests)" "(tm_name t, P) \<in> set (all_evidence sk)"
  shows "\<exists>pre es post. tr' = tr @ pre @ es @ post \<and> P env (tr @ pre) es"
proof -
  obtain f where f: "f \<in> set (all_tests sk)" "t = entry_of f"
    using assms(2,4) by (auto simp: selected_iff suite_entries [OF assms(1)])
  with assms(5) have shows_P: "yields (tm_func t) (\<lambda>_. P)" using evidence_of_test by (simp add: entry_of_def)
  have "\<forall>t \<in> set (select_tests lc filters tests). grows (tm_func t)"
    using suite_grows [OF assms(1)] assms(2) by (auto simp: selected_iff)
  from yields_run [OF run_evidence [OF this assms(4) shows_P] assms(3)] show ?thesis by (auto simp: inside_def)
qed

theorem green_run_has_evidence_witness:
  "\<exists>pre es post. snd (run id demo_opts tidy_config ''/dev/pts/1'' [''test_lockdown''] True (suite demo_resolve demo_suite_kit)
     tidy_world [SetDefaultSettings demo_settings]) = [SetDefaultSettings demo_settings] @ pre @ es @ post \<and>
     shown [api_ready, cleared, logged_in, relays_updated] tidy_world ([SetDefaultSettings demo_settings] @ pre) es"
proof -
  obtain tr' where run: "run id demo_opts tidy_config ''/dev/pts/1'' [''test_lockdown''] True (suite demo_resolve demo_suite_kit)
      tidy_world [SetDefaultSettings demo_settings] = (Ok (), tr')" using demo_green by blast
  have chosen: "login_entry demo_suite_kit \<in> set (select_tests id [''test_lockdown''] (suite demo_resolve demo_suite_kit))"
    by (simp add: demo_selection)
  have listed: "(tm_name (login_entry demo_suite_kit), shown [api_ready, cleared, logged_in, relays_updated])
      \<in> set (all_evidence demo_suite_kit)"
    by (simp add: entry_fields all_evidence_def account_evidence_def Let_def)
  from green_run_has_evidence [OF demo_resolve_names refl run chosen listed] run show ?thesis by simp
qed

end
