(* ===== verification/Spec2Isabelle.thy ===== *)
theory Spec2Isabelle
  imports Link Forward Connection App_Packages Daemon_Proxy Network_Monitor Manager_Main Runner_Process Test_Evidence
begin

text \<open>
  A verification development for \<open>mullvadvpn-app-tests\<close>, the end-to-end test framework of the Mullvad
  VPN app.  Paths below are relative to \<open>src/\<close>.

  \<^bold>\<open>The program.\<close>  A \<^emph>\<open>test manager\<close> on the host (crate \<open>test-manager\<close>) starts a virtual machine
  with the app's operating system on a private network, copies a \<^emph>\<open>test runner\<close> (crate \<open>test-runner\<close>)
  into it, and talks to the runner over a serial line.  The crate \<open>test-rpc\<close> has the transport and the
  RPC interface.  On the line two channels are multiplexed: requests of the manager to the runner
  (\<open>tarpc\<close>), and the bytes of a gRPC connection, which the runner relays to the management socket of the
  Mullvad daemon.  Through the two channels the tests (\<open>test-manager/src/tests\<close>) install the app, set
  up tunnels, make the guest send packets and watch the bridge on the host for leaks.  The attribute
  macro in \<open>test-manager/test_macro\<close> registers the tests; \<open>run_tests.rs\<close> selects and runs them.

  \<^bold>\<open>How programs are modelled.\<close>  \<open>Prelude\<close> has one type of effectful programs: a program takes an
  environment and the history of events so far and returns \<open>Ok\<close>, \<open>Err\<close> (the error of a \<open>Result\<close>) or
  \<open>Panic\<close>, with the longer history.  Every call that leaves the modelled code is an event; what it
  returns is asked of the environment, which sees the history, so that theorems about all environments
  are theorems about all behaviours of the operating system, the daemon, the network and the peer.  On
  top of it are three small logics: \<open>spec\<close> (what any outcome and its events satisfy), \<open>only\<close> (which
  events a program can add), and \<open>yields\<close> with \<open>stages\<close> (what a run that returns \<open>Ok\<close> has done and
  seen, in order).  Machine integers are words of their width, byte strings lists of \<open>8 word\<close>, and
  \<open>String\<close>s lists of their UTF-8 bytes.  Concurrent tasks are step relations (\<open>Link\<close>, \<open>Forward\<close>,
  \<open>Daemon_Proxy\<close>) or spawned tasks recorded in the history (\<open>Daemon_World\<close>).

  \<^bold>\<open>The theories and the sources.\<close>
  \<^item> Transport.  \<open>Codec\<close>: \<open>MultiplexCodec\<close> and \<open>Frame\<close> of \<open>test-rpc/src/transport.rs\<close>; \<open>Link\<close>: the codec
    behind a serial line that splits and delays bytes; \<open>Forward\<close>: \<open>forward_messages\<close> and two connected
    ends; \<open>Connection\<close>: \<open>ConnectionHandle\<close>.  The codecs of the two ends start as their transports say,
    below.
  \<^item> RPC.  \<open>Rpc_Types\<close>: the shared types of \<open>test-rpc/src/*.rs\<close>; \<open>BTree\<close>: \<open>BTreeMap\<close> as it is used;
    \<open>Client\<close>: \<open>test-rpc/src/client.rs\<close>.
  \<^item> Runner.  \<open>Host\<close>: the operating system (processes, files, sockets); \<open>Runner_Sys\<close>, \<open>Runner_Package\<close>,
    \<open>Runner_App\<close>, \<open>Runner_Logging\<close>, \<open>Runner_Net\<close>: the files of the same names in \<open>test-runner/src\<close>;
    \<open>Runner_Main\<close>: the RPC service and the relay to the daemon's socket; \<open>Runner_Process\<close>: \<open>main\<close>.
  \<^item> Manager.  \<open>Summary\<close>, \<open>Config\<close>, \<open>App_Packages\<close> (\<open>package.rs\<close>), \<open>Network_Monitor\<close>, \<open>Manager_Log\<close>
    (\<open>logging.rs\<close>), \<open>Daemon_Proxy\<close> (\<open>mullvad_daemon.rs\<close>), \<open>Run_Tests\<close> and \<open>Manager_Main\<close> (\<open>main.rs\<close>,
    \<open>container.rs\<close>).
  \<^item> Virtual machines.  \<open>Vm_Network\<close> (\<open>vm/network/linux.rs\<close>, \<open>vm/util.rs\<close>, \<open>vm/logging.rs\<close>), \<open>Vm_Qemu\<close>,
    \<open>Vm_Tart\<close> (\<open>vm/tart.rs\<close>, \<open>vm/network/macos.rs\<close>), \<open>Vm_Provision\<close> (\<open>vm/mod.rs\<close>, \<open>vm/provision.rs\<close>,
    \<open>vm/ssh.rs\<close>, \<open>vm/update.rs\<close>).
  \<^item> Tests.  \<open>Daemon_World\<close>: the management interface and everything else a test can call;
    \<open>Daemon_Client\<close>: \<open>tests/mod.rs\<close>, \<open>tests/helpers.rs\<close>, \<open>tests/config.rs\<close>; \<open>Test_Support\<close>: the network
    constants of the platform and the helpers that only tests use; \<open>Tests_Leak\<close> (\<open>settings.rs\<close>,
    \<open>tunnel_state.rs\<close>), \<open>Tests_Tunnel\<close>, \<open>Tests_Account\<close> (\<open>account.rs\<close>, \<open>ui.rs\<close>), \<open>Tests_Install\<close>,
    \<open>Tests_Dns\<close>: every test, call by call; \<open>Test_Macro\<close>: the macro; \<open>Test_Suite\<close>: all tests with their
    attributes, expanded by the macro; \<open>Test_History\<close> and \<open>Test_Evidence\<close>: what runs of the suite show.
    \<open>Test_World\<close> has a concrete world for examples.

  \<^bold>\<open>What is proved.\<close>
  \<^item> Transport: frames survive any splitting of the bytes and any noise the codec is made for; an
    unsynchronised decoder finds the first handshake; two connected forwarders carry requests, responses
    and daemon data in order without loss, duplication or mixing, and exchange finitely many handshakes.
    The proxy of the manager and the relay of the runner together carry the gRPC byte stream unchanged.
  \<^item> Runner: handlers panic for two reasons and no other, and answer every other request; the service is
    started and stopped by \<open>systemctl\<close> and reported as changed only after its status said so; on Linux and
    macOS packets leave only from a socket bound to the requested interface and address; the relay to the
    daemon passes on every chunk of a connection and nothing else; log records are delivered in order and
    once; the process greets and serves session after session and takes up every request (\<open>runner_restarts\<close>).
  \<^item> Monitor and probes: well-formed packets, on the bridge and on a tunnel, are decoded to what was sent; a monitor returns exactly the
    matching packets; counters saturate; probes report exactly the protocols seen.
  \<^item> Run: tests are selected by name and priority, run in order, tallied, and stop early exactly after
    a failed \<open>must_succeed\<close> test; after a test the settings are the recorded ones again, but for the relay
    settings, which are set to constants; held-back logs are shown exactly for failed tests; \<open>Ok\<close> means that every selected test passed.  Every test
    is registered with the client it takes.  The app is installed and the account is logged in before any
    ordinary test.
  \<^item> Tests: for every test, what must have been done and seen when it passes (the lemmas \<open>shown_test_\<dots>\<close>),
    and that all of it is in the history of a green run.  Lockdown, the upgrade and the content blockers
    are stated on their own.
  \<^item> Virtual machines: guests are started and provisioned exactly as configured, images are left alone
    unless changes are to be kept, clones are deleted on every path, and without root the manager only
    relaunches itself.
  \<^item> Files: summaries, configurations and packet formats round-trip.
  \<^item> Errors: several lemmas show where the code does less than it seems to, among them a lost handshake
    after a single caret, a log level that cannot be lowered, a verdict hidden by a failing clean-up,
    and DNS queries that a leak test no longer examines.

  \<^bold>\<open>Interfaces.\<close>  Contracts between components, and of libraries the code relies on, are locales:
  \<open>length_delimited\<close>, \<open>handshake_channel\<close>, \<open>frame_stream\<close>, \<open>log_channel\<close>, \<open>ordered_map\<close>, \<open>config_format\<close>,
  \<open>packet_formats\<close>, \<open>management_settings\<close> and \<open>retries\<close>.  Each is interpreted in its theory, on the definitions of the model or,
  for a library that is not in the repository, on a concrete implementation of its documented
  behaviour, so that the hypotheses of the theorems can be met.  \<open>packet_formats\<close> holds for packets whose
  lengths fit the 16-bit fields of their headers; \<open>frame_stream\<close> has the budget after which a task of the
  runtime has to yield; \<open>management_settings\<close> says what the daemon's settings are after a request.

  \<^bold>\<open>Parameters.\<close>  Not in the repository, and therefore arguments: \<open>serde_json\<close>, the regular expression
  for versions and the unstable sort (\<open>App_Packages\<close>), \<open>pnet\<close> and \<open>pcap\<close>, the parser of addresses and
  the key derivation, the numbers of the enumerations of the management interface (\<open>test_kit\<close>),
  \<open>mullvad_api\<close> (\<open>account_kit\<close>), \<open>powerset\<close> of \<open>itertools\<close>, the certificate parser, \<open>syn\<close> as far as the
  macro looks at its trees, and \<open>tarpc\<close>.

  \<^bold>\<open>Bounds.\<close>  Loops of the code with a bound have it in the model (ten polls of a service state, five
  look-ups, fifteen devices, sixty seconds for an address).  The wait for the blocking error state is
  bounded by its time limit of forty seconds with one second per pass, hence forty-one passes.  The two
  loops that retry while the service throttles have no bound in the code; \<open>tk_patience\<close> bounds them in
  the model, and \<open>login_outlasts_throttling\<close> shows that any bound above the number of throttled answers
  gives the result of the code.  The runner's endless loop takes the number of sessions to look at, and
  its lemma is for every number.  \<open>drain\<close> and \<open>clear_last_session\<close> loop for as long as there is something
  to take and are partial functions into \<open>option\<close>; that they return is proved as such
  (\<open>runner_log_is_delivered\<close>, \<open>stale_frames_are_dropped\<close>).

  \<^bold>\<open>Not modelled.\<close>  \<open>test-manager/build.rs\<close>, the shell scripts and the build files; the parsing of
  command lines by \<open>clap\<close>; colours and time stamps of output; configuring the TLS client; killing child
  processes when their handles are dropped; cancelled tasks other than those a test aborts itself; the
  generated RPC and gRPC stubs.  These are generated, belong to libraries, or only arrange output.
\<close>

section \<open>Both ends of the line\<close>

text \<open>
  The codec of a forwarding task (\<open>MultiplexCodec::new\<close> in \<open>forward_messages\<close>) starts in the connected
  state that its transports were created with.  The runner's end therefore reads every frame from the
  start, and the manager's end discards what comes before the runner's first handshake.
\<close>

definition forward_codec :: "'c \<Rightarrow> transport_setup \<Rightarrow> 'c multiplex_codec" where
  "forward_codec fresh ts = multiplex_codec_new fresh (ts_connected ts)"

lemma runner_reads_from_the_start:
  assumes "length_delimited enc dec pending fresh" "list_all item_ok items" "encode_items enc items [] = Inr line"
    and "link_reach dec (link_start (forward_codec fresh create_server_transports) line) s"
  shows "\<not> failed s \<and> prefix (delivered s) (frames_of items) \<and> (drained dec s \<longrightarrow> delivered s = frames_of items)"
  using connected_line [OF assms(1-3)] assms(4) by (simp add: forward_codec_def create_server_transports_def)

lemma manager_waits_for_greeting:
  assumes "length_delimited enc dec pending fresh" "list_all item_ok items"
    and "encode_items enc (Fr Handshake # items) g = Inr line" "clean_prefix g"
    and "link_reach dec (link_start (forward_codec fresh create_client_transports) line) s"
  shows "\<not> failed s \<and> prefix (delivered s) (Handshake # frames_of items) \<and>
     (drained dec s \<longrightarrow> delivered s = Handshake # frames_of items)"
  using unconnected_line [OF assms(1-4)] assms(5) by (simp add: forward_codec_def create_client_transports_def)

end
